(* ===== verification/Smesh_Prelude.thy ===== *)
theory Smesh_Prelude
  imports Main
    "HOL-Library.Char_ord" "HOL-Library.List_Lexorder" "HOL-Library.Product_Lexorder"
    "HOL-Library.Option_ord" "HOL-Library.Word"
begin

unbundle bit_operations_syntax

text \<open>
  The prelude of the library: what the component theories share.

  \<^item> Rust's \<open>Result<T, E>\<close> is the sum \<open>'e + 'a\<close> with \<open>Inl\<close> the error; the \<open>?\<close> operator
    is \<open>and_then\<close>, a guard with an early return is \<open>ensure\<close>, a loop whose body may return
    early is \<open>try_for\<close>, and \<open>collect::<Result<Vec<_>, _>>()\<close> is \<open>collect_res\<close>.
  \<^item> Rust's \<open>String\<close> is a UTF-8 byte sequence: the HOL type \<open>string\<close>, a list of 8-bit
    characters, is that byte sequence. \<open>length\<close> is \<open>str::len\<close>, the lexicographic order of
    HOL-Library is \<open>str::cmp\<close>, and \<open>utf8_chars\<close> gives the Unicode scalar values that
    \<open>str::chars\<close> iterates over.
  \<^item> \<open>usize\<close> and \<open>u64\<close> arithmetic that saturates or is checked is written out over \<open>nat\<close>
    with the bound \<open>usize_max\<close>; bytes are \<open>8 word\<close>.
  \<^item> The collections \<open>result_simps\<close> and \<open>text_simps\<close> carry the shared rewrite rules.
\<close>

named_theorems result_simps "rewrite rules for fallible code"
named_theorems text_simps "definitions that evaluate predicates on text"

type_synonym byte = "8 word"

section \<open>Results\<close>

definition and_then :: "'e + 'a \<Rightarrow> ('a \<Rightarrow> 'e + 'b) \<Rightarrow> 'e + 'b" where
  "and_then m f = (case m of Inl e \<Rightarrow> Inl e | Inr x \<Rightarrow> f x)"

definition ensure :: "bool \<Rightarrow> 'e \<Rightarrow> 'e + unit" where
  "ensure ok e = (if ok then Inr () else Inl e)"

definition ok_or :: "'a option \<Rightarrow> 'e \<Rightarrow> 'e + 'a" where
  "ok_or x e = (case x of None \<Rightarrow> Inl e | Some y \<Rightarrow> Inr y)"

definition map_err :: "('e \<Rightarrow> 'f) \<Rightarrow> 'e + 'a \<Rightarrow> 'f + 'a" where
  "map_err f m = (case m of Inl e \<Rightarrow> Inl (f e) | Inr x \<Rightarrow> Inr x)"

definition is_ok :: "'e + 'a \<Rightarrow> bool" where
  "is_ok m = (case m of Inl _ \<Rightarrow> False | Inr _ \<Rightarrow> True)"

fun try_for :: "('s \<Rightarrow> 'a \<Rightarrow> 'e + 's) \<Rightarrow> 's \<Rightarrow> 'a list \<Rightarrow> 'e + 's" where
  "try_for f s [] = Inr s"
| "try_for f s (x # xs) = and_then (f s x) (\<lambda>s'. try_for f s' xs)"

fun collect_res :: "('a \<Rightarrow> 'e + 'b) \<Rightarrow> 'a list \<Rightarrow> 'e + 'b list" where
  "collect_res f [] = Inr []"
| "collect_res f (x # xs) =
     and_then (f x) (\<lambda>y. and_then (collect_res f xs) (\<lambda>ys. Inr (y # ys)))"

fun find_map :: "('a \<Rightarrow> 'b option) \<Rightarrow> 'a list \<Rightarrow> 'b option" where
  "find_map f [] = None"
| "find_map f (x # xs) = (case f x of None \<Rightarrow> find_map f xs | Some y \<Rightarrow> Some y)"

lemma and_then_simps [simp]:
  "and_then (Inl e) f = Inl e"
  "and_then (Inr x) f = f x"
  by (simp_all add: and_then_def)

lemma and_then_Inr_iff [result_simps]:
  "and_then m f = Inr y \<longleftrightarrow> (\<exists>x. m = Inr x \<and> f x = Inr y)"
  by (cases m) simp_all

lemma Inr_eq_and_then_iff [result_simps]:
  "Inr y = and_then m f \<longleftrightarrow> (\<exists>x. m = Inr x \<and> Inr y = f x)"
  by (cases m) simp_all

lemma and_then_Inl_iff [result_simps]:
  "and_then m f = Inl e \<longleftrightarrow> m = Inl e \<or> (\<exists>x. m = Inr x \<and> f x = Inl e)"
  by (cases m) auto

lemma ensure_Inr_iff [result_simps]: "ensure b e = Inr u \<longleftrightarrow> b"
  by (simp add: ensure_def)

lemma ensure_Inl_iff [result_simps]: "ensure b e = Inl e' \<longleftrightarrow> \<not> b \<and> e = e'"
  by (simp add: ensure_def)

lemma ok_or_Inr_iff [result_simps]: "ok_or x e = Inr y \<longleftrightarrow> x = Some y"
  by (cases x) (simp_all add: ok_or_def)

lemma ok_or_Inl_iff [result_simps]: "ok_or x e = Inl e' \<longleftrightarrow> x = None \<and> e = e'"
  by (cases x) (simp_all add: ok_or_def)

lemma map_err_Inr_iff [result_simps]: "map_err f m = Inr x \<longleftrightarrow> m = Inr x"
  by (cases m) (simp_all add: map_err_def)

lemma map_err_Inl_iff [result_simps]: "map_err f m = Inl e \<longleftrightarrow> (\<exists>e'. m = Inl e' \<and> e = f e')"
  by (cases m) (auto simp: map_err_def)

lemma is_ok_iff [result_simps]: "is_ok m \<longleftrightarrow> (\<exists>x. m = Inr x)"
  by (cases m) (simp_all add: is_ok_def)

lemma is_ok_simps [simp]: "is_ok (Inr x)" "\<not> is_ok (Inl e)"
  by (simp_all add: is_ok_def)

text \<open>An invariant of the loop state that every successful step keeps holds at the end.\<close>

lemma try_for_invariant:
  assumes "try_for f s xs = Inr t" and "P s"
    and "\<And>u x v. x \<in> set xs \<Longrightarrow> P u \<Longrightarrow> f u x = Inr v \<Longrightarrow> P v"
  shows "P t"
  using assms
proof (induction xs arbitrary: s)
  case Nil
  then show ?case by simp
next
  case (Cons x xs)
  from Cons.prems(1) obtain s' where s': "f s x = Inr s'" and rest: "try_for f s' xs = Inr t"
    by (auto simp: result_simps)
  from Cons.prems(2,3) s' have "P s'" by auto
  with rest Cons.prems(3) show ?case
    by (intro Cons.IH) auto
qed

text \<open>Every element of a loop that succeeds is accepted by some step.\<close>

lemma try_for_each:
  "try_for f s xs = Inr t \<Longrightarrow> x \<in> set xs \<Longrightarrow> \<exists>u v. f u x = Inr v"
  by (induction xs arbitrary: s) (auto simp: result_simps)

text \<open>A loop that refuses a key it has already seen only accepts distinct keys.\<close>

lemma try_for_distinct:
  assumes "try_for f s xs = Inr t"
    and "\<And>u x v. f u x = Inr v \<Longrightarrow> key x \<notin> K u \<and> K v = insert (key x) (K u)"
  shows "distinct (map key xs) \<and> key ` set xs \<inter> K s = {} \<and> K t = K s \<union> key ` set xs"
  using assms(1)
proof (induction xs arbitrary: s)
  case (Cons x xs)
  from Cons.prems obtain u where u: "f s x = Inr u" and rest: "try_for f u xs = Inr t"
    by (auto simp: result_simps)
  from assms(2) [OF u] Cons.IH [OF rest] show ?case by auto
qed simp

lemma try_for_append:
  "try_for f s (xs @ ys) = and_then (try_for f s xs) (\<lambda>s'. try_for f s' ys)"
  by (induction xs arbitrary: s) (auto simp: and_then_def split: sum.splits)

lemma collect_res_Inr_iff [result_simps]:
  "collect_res f xs = Inr ys \<longleftrightarrow> list_all2 (\<lambda>x y. f x = Inr y) xs ys"
  by (induction xs arbitrary: ys) (auto simp: result_simps list_all2_Cons1)

lemma collect_res_Inl: "collect_res f xs = Inl e \<Longrightarrow> \<exists>x \<in> set xs. f x = Inl e"
  by (induction xs) (auto simp: result_simps)

lemma find_map_SomeD: "find_map f xs = Some y \<Longrightarrow> \<exists>x \<in> set xs. f x = Some y"
  by (induction xs) (auto split: option.splits)

lemma find_map_None_iff: "find_map f xs = None \<longleftrightarrow> (\<forall>x \<in> set xs. f x = None)"
  by (induction xs) (auto split: option.splits)

section \<open>Bounded arithmetic\<close>

definition usize_max :: nat where
  "usize_max = 18446744073709551615"

definition i32_max :: int where
  "i32_max = 2147483647"

definition sat_add :: "nat \<Rightarrow> nat \<Rightarrow> nat" where
  "sat_add a b = min (a + b) usize_max"

definition sat_sub :: "nat \<Rightarrow> nat \<Rightarrow> nat" where
  "sat_sub a b = a - b"

definition checked_add :: "nat \<Rightarrow> nat \<Rightarrow> nat option" where
  "checked_add a b = (if a + b \<le> usize_max then Some (a + b) else None)"

definition checked_mul :: "nat \<Rightarrow> nat \<Rightarrow> nat option" where
  "checked_mul a b = (if a * b \<le> usize_max then Some (a * b) else None)"

definition i32_of_usize :: "nat \<Rightarrow> int" where
  "i32_of_usize n = (if int n \<le> i32_max then int n else i32_max)"

definition usize_of_i32 :: "int \<Rightarrow> nat option" where
  "usize_of_i32 i = (if 0 \<le> i then Some (nat i) else None)"

lemma checked_add_Some_iff [result_simps]:
  "checked_add a b = Some c \<longleftrightarrow> a + b \<le> usize_max \<and> c = a + b"
  by (auto simp: checked_add_def)

lemma checked_add_None_iff [result_simps]: "checked_add a b = None \<longleftrightarrow> usize_max < a + b"
  by (auto simp: checked_add_def)

lemma checked_mul_Some_iff [result_simps]:
  "checked_mul a b = Some c \<longleftrightarrow> a * b \<le> usize_max \<and> c = a * b"
  by (auto simp: checked_mul_def)

lemma sat_add_le [simp]: "sat_add a b \<le> usize_max"
  by (simp add: sat_add_def)

lemma sat_add_exact: "sat_add a b < usize_max \<Longrightarrow> sat_add a b = a + b"
  by (simp add: sat_add_def)

lemma sat_add_ge: "a \<le> usize_max \<Longrightarrow> a \<le> sat_add a b"
  by (simp add: sat_add_def)

section \<open>Text\<close>

text \<open>The Unicode scalar values of a UTF-8 byte sequence (\<open>str::chars\<close>).\<close>

definition cont_byte :: "string \<Rightarrow> nat \<Rightarrow> nat" where
  "cont_byte bs i = (if i < length bs then of_char (bs ! i) mod 64 else 0)"

fun utf8_chars :: "string \<Rightarrow> nat list" where
  "utf8_chars [] = []"
| "utf8_chars (b # bs) =
     (let n = of_char b :: nat in
      if n < 128 then n # utf8_chars bs
      else if n < 224 then (n mod 32 * 64 + cont_byte bs 0) # utf8_chars (drop 1 bs)
      else if n < 240 then
        (n mod 16 * 4096 + cont_byte bs 0 * 64 + cont_byte bs 1) # utf8_chars (drop 2 bs)
      else (n mod 8 * 262144 + cont_byte bs 0 * 4096 + cont_byte bs 1 * 64 + cont_byte bs 2)
             # utf8_chars (drop 3 bs))"

text \<open>\<open>char::is_control\<close> (general category Cc) and \<open>char::is_whitespace\<close> (White_Space).\<close>

definition is_control :: "nat \<Rightarrow> bool" where
  "is_control c \<longleftrightarrow> c < 32 \<or> (127 \<le> c \<and> c \<le> 159)"

definition is_whitespace :: "nat \<Rightarrow> bool" where
  "is_whitespace c \<longleftrightarrow>
     (9 \<le> c \<and> c \<le> 13) \<or> c = 32 \<or> c = 133 \<or> c = 160 \<or> c = 5760 \<or>
     (8192 \<le> c \<and> c \<le> 8202) \<or> c = 8232 \<or> c = 8233 \<or> c = 8239 \<or> c = 8287 \<or> c = 12288"

text \<open>\<open>str::trim\<close>, on the scalar values.\<close>

definition trim_chars :: "nat list \<Rightarrow> nat list" where
  "trim_chars cs = rev (dropWhile is_whitespace (rev (dropWhile is_whitespace cs)))"

definition is_blank :: "string \<Rightarrow> bool" where
  "is_blank s \<longleftrightarrow> trim_chars (utf8_chars s) = []"

definition has_control :: "string \<Rightarrow> bool" where
  "has_control s \<longleftrightarrow> list_ex is_control (utf8_chars s)"

definition is_ascii :: "string \<Rightarrow> bool" where
  "is_ascii s \<longleftrightarrow> list_all (\<lambda>c. of_char c < (128::nat)) s"

definition in_range :: "char \<Rightarrow> char \<Rightarrow> char \<Rightarrow> bool" where
  "in_range lo hi c \<longleftrightarrow> (of_char lo :: nat) \<le> of_char c \<and> (of_char c :: nat) \<le> of_char hi"

definition is_ascii_digit :: "char \<Rightarrow> bool" where
  "is_ascii_digit c \<longleftrightarrow> in_range (CHR ''0'') (CHR ''9'') c"

definition is_ascii_lowercase :: "char \<Rightarrow> bool" where
  "is_ascii_lowercase c \<longleftrightarrow> in_range (CHR ''a'') (CHR ''z'') c"

definition is_ascii_alphanumeric :: "char \<Rightarrow> bool" where
  "is_ascii_alphanumeric c \<longleftrightarrow>
     is_ascii_digit c \<or> is_ascii_lowercase c \<or> in_range (CHR ''A'') (CHR ''Z'') c"

definition is_ascii_graphic :: "char \<Rightarrow> bool" where
  "is_ascii_graphic c \<longleftrightarrow> in_range (CHR ''!'') (CHR ''~'') c"

fun strip_prefix :: "string \<Rightarrow> string \<Rightarrow> string option" where
  "strip_prefix [] s = Some s"
| "strip_prefix (p # ps) [] = None"
| "strip_prefix (p # ps) (c # cs) = (if p = c then strip_prefix ps cs else None)"

declare cont_byte_def [text_simps] is_control_def [text_simps] is_whitespace_def [text_simps]
  trim_chars_def [text_simps] is_blank_def [text_simps] has_control_def [text_simps]
  is_ascii_def [text_simps] in_range_def [text_simps] is_ascii_digit_def [text_simps]
  is_ascii_lowercase_def [text_simps] is_ascii_alphanumeric_def [text_simps]
  is_ascii_graphic_def [text_simps]

lemma strip_prefix_Some_iff: "strip_prefix p s = Some r \<longleftrightarrow> s = p @ r"
  by (induction p s rule: strip_prefix.induct) auto

lemma strip_prefix_append [simp]: "strip_prefix p (p @ r) = Some r"
  by (simp add: strip_prefix_Some_iff)

lemma trim_chars_Nil_iff: "trim_chars cs = [] \<longleftrightarrow> list_all is_whitespace cs"
proof
  assume "trim_chars cs = []"
  then have "\<forall>c \<in> set (dropWhile is_whitespace cs). is_whitespace c"
    by (auto simp: trim_chars_def dropWhile_eq_Nil_conv)
  then show "list_all is_whitespace cs"
    by (metis dropWhile_eq_Cons_conv dropWhile_eq_Nil_conv list.set_intros(1) list_all_iff
        neq_Nil_conv)
next
  assume "list_all is_whitespace cs"
  then show "trim_chars cs = []"
    by (auto simp: trim_chars_def list_all_iff dest: set_dropWhileD)
qed

section \<open>Hexadecimal text\<close>

text \<open>The \<open>{:x}\<close> formatting of a byte array.\<close>

definition hex_digit :: "byte \<Rightarrow> char" where
  "hex_digit n = char_of (if n < 10 then 48 + unat n else 87 + unat n)"

definition hex_byte :: "byte \<Rightarrow> string" where
  "hex_byte b = [hex_digit (drop_bit 4 b), hex_digit (take_bit 4 b)]"

definition hex_bytes :: "byte list \<Rightarrow> string" where
  "hex_bytes bs = concat (map hex_byte bs)"

definition byte_of_char :: "char \<Rightarrow> byte" where
  "byte_of_char c = word_of_nat (of_char c)"

lemma byte_of_char_inj [simp]: "byte_of_char c = byte_of_char d \<longleftrightarrow> c = d"
proof
  assume "byte_of_char c = byte_of_char d"
  then have "unat (byte_of_char c) = unat (byte_of_char d)" by simp
  then have "(of_char c :: nat) = of_char d"
    by (simp add: byte_of_char_def unat_of_nat)
  then show "c = d" by simp
qed simp

text \<open>Fields joined by a separator that the first field does not contain can be told apart.\<close>

lemma separated_eq_iff:
  "c \<notin> set a \<Longrightarrow> c \<notin> set b \<Longrightarrow> a @ c # x = b @ c # y \<longleftrightarrow> a = b \<and> x = y"
proof (induction a arbitrary: b)
  case Nil
  then show ?case by (cases b) auto
next
  case (Cons d a)
  then show ?case by (cases b) auto
qed

lemma length_hex_bytes [simp]: "length (hex_bytes bs) = 2 * length bs"
  by (induction bs) (simp_all add: hex_bytes_def hex_byte_def)

lemma hex_bytes_Nil [simp]: "hex_bytes [] = []"
  by (simp add: hex_bytes_def)

lemma hex_bytes_Cons [simp]: "hex_bytes (b # bs) = hex_byte b @ hex_bytes bs"
  by (simp add: hex_bytes_def)

text \<open>\<open>hex_nibble\<close>-style decoding; only lower case digits are accepted.\<close>

definition hex_nibble :: "char \<Rightarrow> byte option" where
  "hex_nibble c =
     (if in_range (CHR ''0'') (CHR ''9'') c then Some (byte_of_char c - 48)
      else if in_range (CHR ''a'') (CHR ''f'') c then Some (byte_of_char c - 97 + 10)
      else None)"

fun hex_decode :: "string \<Rightarrow> byte list option" where
  "hex_decode (h # l # rest) =
     (case (hex_nibble h, hex_nibble l) of
        (Some a, Some b) \<Rightarrow> map_option ((#) (push_bit 4 a OR b)) (hex_decode rest)
      | _ \<Rightarrow> None)"
| "hex_decode _ = Some []"

definition is_hex_digit :: "char \<Rightarrow> bool" where
  "is_hex_digit c \<longleftrightarrow> is_ascii_digit c \<or> in_range (CHR ''a'') (CHR ''f'') c"

text \<open>Big-endian bytes of a 64-bit integer and the decimal text of a natural number.\<close>

definition be64 :: "nat \<Rightarrow> byte list" where
  "be64 n = map (\<lambda>i. word_of_nat (n div 256 ^ (7 - i))) [0..<8]"

fun show_nat :: "nat \<Rightarrow> string" where
  "show_nat n = (if n < 10 then [char_of (48 + n)] else show_nat (n div 10) @ [char_of (48 + n mod 10)])"

declare show_nat.simps [simp del]

lemma length_be64 [simp]: "length (be64 n) = 8"
  by (simp add: be64_def)

lemma byte_cases_16:
  fixes n :: byte
  assumes "n < 16"
  shows "n \<in> {0, 1, 2, 3, 4, 5, 6, 7, 8, 9, 10, 11, 12, 13, 14, 15}"
proof -
  have "unat n < 16" using assms by (simp add: word_less_nat_alt)
  then have "unat n \<in> {0, 1, 2, 3, 4, 5, 6, 7, 8, 9, 10, 11, 12, 13, 14, 15}"
    by (simp only: insert_iff empty_iff) presburger
  then have "word_of_nat (unat n) \<in> (word_of_nat :: nat \<Rightarrow> byte) `
      {0, 1, 2, 3, 4, 5, 6, 7, 8, 9, 10, 11, 12, 13, 14, 15}"
    by (rule imageI)
  then show ?thesis by simp
qed

lemma hex_nibble_digit:
  assumes "n < 16"
  shows "hex_nibble (hex_digit n) = Some n" and "is_hex_digit (hex_digit n)"
  using byte_cases_16 [OF assms]
  by (auto simp: hex_digit_def hex_nibble_def is_hex_digit_def byte_of_char_def text_simps)

lemma nibble_bounds: "drop_bit 4 b < (16 :: byte)" "take_bit 4 b < (16 :: byte)"
proof -
  have "unat b < 256" using unsigned_less [of b] by simp
  then show "drop_bit 4 b < 16"
    by (simp add: word_less_nat_alt drop_bit_eq_div unat_div)
  show "take_bit 4 b < 16"
    by (simp add: word_less_nat_alt take_bit_eq_mod unat_mod)
qed

lemma nibbles_join: "push_bit 4 (drop_bit 4 b) OR take_bit 4 b = (b :: byte)"
  by (rule bit_eqI) (auto simp: bit_simps)

lemma hex_decode_hex_bytes [simp]: "hex_decode (hex_bytes bs) = Some bs"
  by (induction bs) (simp_all add: hex_byte_def hex_nibble_digit nibble_bounds nibbles_join)

lemma hex_bytes_digits: "list_all is_hex_digit (hex_bytes bs)"
  by (induction bs) (simp_all add: hex_byte_def hex_nibble_digit nibble_bounds)

lemma hex_bytes_inj [simp]: "hex_bytes xs = hex_bytes ys \<longleftrightarrow> xs = ys"
  by (metis hex_decode_hex_bytes option.inject)

section \<open>Ordered maps\<close>

text \<open>
  A \<open>BTreeMap\<close> is its association list in key order; \<open>insert_new\<close> is the idiom that refuses a key
  already present (\<open>insert(..).is_some()\<close> with an early return).
\<close>

definition btree_insert :: "'k::linorder \<Rightarrow> 'v \<Rightarrow> ('k \<times> 'v) list \<Rightarrow> ('k \<times> 'v) list" where
  "btree_insert k v m = insort_key fst (k, v) (filter (\<lambda>p. fst p \<noteq> k) m)"

definition insert_new :: "'k::linorder \<Rightarrow> 'v \<Rightarrow> 'e \<Rightarrow> ('k \<times> 'v) list \<Rightarrow> 'e + ('k \<times> 'v) list" where
  "insert_new k v e m = (if map_of m k = None then Inr (btree_insert k v m) else Inl e)"

lemma map_of_insort_key: "k \<notin> fst ` set m \<Longrightarrow> map_of (insort_key fst (k, v) m) = (map_of m)(k \<mapsto> v)"
  by (induction m) (auto simp: fun_upd_twist)

lemma map_of_btree_insert [simp]: "map_of (btree_insert k v m) = (map_of m)(k \<mapsto> v)"
proof -
  have "map_of (filter (\<lambda>p. fst p \<noteq> k) m) = (map_of m)(k := None)"
    by (induction m) (auto simp: fun_eq_iff)
  then show ?thesis
    unfolding btree_insert_def by (subst map_of_insort_key) auto
qed

lemma insert_new_Inr_iff [result_simps]:
  "insert_new k v e m = Inr m' \<longleftrightarrow> map_of m k = None \<and> m' = btree_insert k v m"
  by (auto simp: insert_new_def)

lemma length_btree_insert: "map_of m k = None \<Longrightarrow> length (btree_insert k v m) = Suc (length m)"
proof -
  assume "map_of m k = None"
  then have "filter (\<lambda>p. fst p \<noteq> k) m = m"
    by (auto simp: filter_id_conv map_of_eq_None_iff)
  then show ?thesis by (simp add: btree_insert_def)
qed

text \<open>A loop that fills a map with new keys only: which keys it holds, and which values.\<close>

lemma try_for_insert_new:
  assumes "try_for (\<lambda>m x. and_then (val x) (\<lambda>v. insert_new (key x) v e m)) m0 xs = Inr m"
  shows "distinct (map key xs) \<and> (\<forall>x \<in> set xs. map_of m0 (key x) = None \<and> (\<exists>v. val x = Inr v)) \<and>
    (\<forall>k v. map_of m k = Some v \<longleftrightarrow> map_of m0 k = Some v \<or> (\<exists>x \<in> set xs. key x = k \<and> val x = Inr v)) \<and>
    length m = length m0 + length xs"
  using assms
proof (induction xs arbitrary: m0)
  case (Cons y ys)
  then obtain w where w: "val y = Inr w" "map_of m0 (key y) = None"
    and rest: "try_for (\<lambda>m x. and_then (val x) (\<lambda>v. insert_new (key x) v e m)) (btree_insert (key y) w m0) ys = Inr m"
    by (auto simp: result_simps)
  from Cons.IH [OF rest] have
    d: "distinct (map key ys)" and n: "\<And>x. x \<in> set ys \<Longrightarrow> key x \<noteq> key y \<and> map_of m0 (key x) = None \<and> (\<exists>v. val x = Inr v)"
    and l: "length m = Suc (length m0) + length ys"
    and m: "\<And>k v. map_of m k = Some v \<longleftrightarrow>
      ((map_of m0)(key y \<mapsto> w)) k = Some v \<or> (\<exists>x \<in> set ys. key x = k \<and> val x = Inr v)"
    by (auto simp: length_btree_insert w(2) split: if_splits)
  have "map_of m k = Some v \<longleftrightarrow> map_of m0 k = Some v \<or> (\<exists>x \<in> set (y # ys). key x = k \<and> val x = Inr v)" for k v
    unfolding m using w by auto
  moreover have "key y \<notin> key ` set ys"
    using n by force
  ultimately show ?case using d n l w by auto
qed simp

end
