(* ===== verification/A2A_Types.thy ===== *)
theory A2A_Types
  imports Smesh_Prelude
begin

text \<open>
  The protocol types of the vendored SDK (\<^verbatim>\<open>vendor/a2a-lf/src/types.rs\<close>,
  \<^verbatim>\<open>event.rs\<close>, \<^verbatim>\<open>errors.rs\<close>) and the lifecycle matrix of
  \<^verbatim>\<open>src/task_state.rs\<close>.

  A \<open>HashMap<String, Value>\<close> and a JSON object are the list of their entries in key order, so
  equality of the lists is equality of the maps. A timestamp is an \<open>int\<close>, an \<open>i32\<close> an \<open>int\<close>.
\<close>

section \<open>JSON values and messages\<close>

datatype json =
    JNull | JBool bool | JNumber string | JString string
  | JArray "json list" | JObject "(string \<times> json) list"

text \<open>\<open>Value::get(key)\<close> on any value and \<open>Value::as_str\<close>.\<close>

fun json_get :: "string \<Rightarrow> json \<Rightarrow> json option" where
  "json_get k (JObject kvs) = map_of kvs k"
| "json_get k _ = None"

fun json_as_str :: "json \<Rightarrow> string option" where
  "json_as_str (JString s) = Some s"
| "json_as_str _ = None"

datatype role = RoleUnspecified | User | Agent

datatype part_content = Text string | Raw "byte list" | Url string | Data json

record part =
  part_content :: part_content
  filename :: "string option"
  part_media_type :: "string option"
  part_metadata :: "(string \<times> json) list option"

definition part_text :: "string \<Rightarrow> part" where
  "part_text t = \<lparr>part_content = Text t, filename = None, part_media_type = None,
                  part_metadata = None\<rparr>"

definition part_raw :: "byte list \<Rightarrow> part" where
  "part_raw b = \<lparr>part_content = Raw b, filename = None, part_media_type = None,
                 part_metadata = None\<rparr>"

definition with_media_type :: "part \<Rightarrow> string \<Rightarrow> part" where
  "with_media_type p m = p\<lparr>part_media_type := Some m\<rparr>"

record message =
  message_id :: string
  msg_context_id :: "string option"
  msg_task_id :: "string option"
  msg_role :: role
  msg_parts :: "part list"
  msg_metadata :: "(string \<times> json) list option"
  msg_extensions :: "string list option"
  reference_task_ids :: "string list option"

section \<open>Tasks\<close>

datatype task_state =
    Unspecified | Submitted | Working | Completed | Failed | Canceled
  | InputRequired | Rejected | AuthRequired

fun is_terminal :: "task_state \<Rightarrow> bool" where
  "is_terminal Completed = True"
| "is_terminal Failed = True"
| "is_terminal Canceled = True"
| "is_terminal Rejected = True"
| "is_terminal _ = False"

fun serialize_task_state :: "task_state \<Rightarrow> string" where
  "serialize_task_state Unspecified = ''TASK_STATE_UNSPECIFIED''"
| "serialize_task_state Submitted = ''TASK_STATE_SUBMITTED''"
| "serialize_task_state Working = ''TASK_STATE_WORKING''"
| "serialize_task_state Completed = ''TASK_STATE_COMPLETED''"
| "serialize_task_state Failed = ''TASK_STATE_FAILED''"
| "serialize_task_state Canceled = ''TASK_STATE_CANCELED''"
| "serialize_task_state InputRequired = ''TASK_STATE_INPUT_REQUIRED''"
| "serialize_task_state Rejected = ''TASK_STATE_REJECTED''"
| "serialize_task_state AuthRequired = ''TASK_STATE_AUTH_REQUIRED''"

definition deserialize_task_state :: "string \<Rightarrow> task_state option" where
  "deserialize_task_state s =
     (if s = ''TASK_STATE_SUBMITTED'' then Some Submitted
      else if s = ''TASK_STATE_WORKING'' then Some Working
      else if s = ''TASK_STATE_COMPLETED'' then Some Completed
      else if s = ''TASK_STATE_FAILED'' then Some Failed
      else if s = ''TASK_STATE_CANCELED'' then Some Canceled
      else if s = ''TASK_STATE_INPUT_REQUIRED'' then Some InputRequired
      else if s = ''TASK_STATE_REJECTED'' then Some Rejected
      else if s = ''TASK_STATE_AUTH_REQUIRED'' then Some AuthRequired
      else if s = ''TASK_STATE_UNSPECIFIED'' \<or> s = [] then Some Unspecified
      else None)"

record task_status =
  state :: task_state
  status_message :: "message option"
  timestamp :: "int option"

record artifact =
  artifact_id :: string
  artifact_name :: "string option"
  description :: "string option"
  artifact_parts :: "part list"
  artifact_metadata :: "(string \<times> json) list option"
  artifact_extensions :: "string list option"

record task =
  task_id :: string
  context_id :: string
  status :: task_status
  artifacts :: "artifact list option"
  history :: "message list option"
  metadata :: "(string \<times> json) list option"

record task_status_update_event =
  tsu_task_id :: string
  tsu_context_id :: string
  tsu_status :: task_status
  tsu_metadata :: "(string \<times> json) list option"

record task_artifact_update_event =
  tau_task_id :: string
  tau_context_id :: string
  tau_artifact :: artifact
  tau_append :: "bool option"
  tau_last_chunk :: "bool option"
  tau_metadata :: "(string \<times> json) list option"

datatype stream_response =
    SR_Task task | SR_Message message
  | SR_StatusUpdate task_status_update_event
  | SR_ArtifactUpdate task_artifact_update_event

datatype send_message_response = SendTask task | SendMessage message

section \<open>Requests\<close>

record authentication_info =
  auth_scheme :: string
  auth_credentials :: "string option"

record task_push_notification_config =
  push_url :: string
  push_id :: "string option"
  push_task_id :: string
  push_token :: "string option"
  push_authentication :: "authentication_info option"
  push_tenant :: "string option"

record send_message_configuration =
  accepted_output_modes :: "string list option"
  smc_push_notification_config :: "task_push_notification_config option"
  smc_history_length :: "int option"
  return_immediately :: "bool option"

record send_message_request =
  smr_message :: message
  smr_configuration :: "send_message_configuration option"
  smr_metadata :: "(string \<times> json) list option"
  smr_tenant :: "string option"

record get_task_request =
  gtr_id :: string
  gtr_history_length :: "int option"
  gtr_tenant :: "string option"

record list_tasks_request =
  lr_context_id :: "string option"
  lr_status :: "task_state option"
  lr_page_size :: "int option"
  lr_page_token :: "string option"
  lr_history_length :: "int option"
  lr_status_timestamp_after :: "int option"
  lr_include_artifacts :: "bool option"
  lr_tenant :: "string option"

record list_tasks_response =
  lt_tasks :: "task list"
  lt_next_page_token :: string
  lt_page_size :: int
  lt_total_size :: int

record cancel_task_request =
  ctr_id :: string
  ctr_metadata :: "(string \<times> json) list option"
  ctr_tenant :: "string option"

record subscribe_to_task_request =
  str_id :: string
  str_tenant :: "string option"

section \<open>Errors\<close>

record typed_detail =
  type_url :: string
  detail_value :: "(string \<times> json) list"

record a2a_error =
  err_code :: int
  err_message :: string
  err_details :: "typed_detail list option"

definition new_error :: "int \<Rightarrow> string \<Rightarrow> a2a_error" where
  "new_error c m = \<lparr>err_code = c, err_message = m, err_details = None\<rparr>"

definition task_not_found :: "string \<Rightarrow> a2a_error" where
  "task_not_found tid = new_error (-32001) (''task not found: '' @ tid)"

definition task_not_cancelable :: "string \<Rightarrow> a2a_error" where
  "task_not_cancelable tid = new_error (-32002) (''task cannot be canceled: '' @ tid)"

definition unsupported_operation :: "string \<Rightarrow> a2a_error" where
  "unsupported_operation m = new_error (-32004) m"

definition invalid_agent_response :: a2a_error where
  "invalid_agent_response = new_error (-32006) ''invalid agent response''"

definition internal :: "string \<Rightarrow> a2a_error" where
  "internal m = new_error (-32603) m"

definition invalid_params :: "string \<Rightarrow> a2a_error" where
  "invalid_params m = new_error (-32602) m"

definition invalid_request :: "string \<Rightarrow> a2a_error" where
  "invalid_request m = new_error (-32600) m"

definition error_reason :: "int \<Rightarrow> string" where
  "error_reason c =
     (if c = -32001 then ''TASK_NOT_FOUND''
      else if c = -32002 then ''TASK_NOT_CANCELABLE''
      else if c = -32003 then ''PUSH_NOTIFICATION_NOT_SUPPORTED''
      else if c = -32004 then ''UNSUPPORTED_OPERATION''
      else if c = -32005 then ''CONTENT_TYPE_NOT_SUPPORTED''
      else if c = -32006 then ''INVALID_AGENT_RESPONSE''
      else if c = -32007 then ''EXTENDED_AGENT_CARD_NOT_CONFIGURED''
      else if c = -32008 then ''EXTENSION_SUPPORT_REQUIRED''
      else if c = -32009 then ''VERSION_NOT_SUPPORTED''
      else if c = -32010 then ''RESOURCE_EXHAUSTED''
      else if c = -32011 then ''UNAVAILABLE''
      else if c = -32700 then ''PARSE_ERROR''
      else if c = -32600 then ''INVALID_REQUEST''
      else if c = -32601 then ''METHOD_NOT_FOUND''
      else if c = -32602 then ''INVALID_PARAMS''
      else ''INTERNAL_ERROR'')"

definition reason_to_error_code :: "string \<Rightarrow> int option" where
  "reason_to_error_code r =
     (if r = ''TASK_NOT_FOUND'' then Some (-32001)
      else if r = ''TASK_NOT_CANCELABLE'' then Some (-32002)
      else if r = ''PUSH_NOTIFICATION_NOT_SUPPORTED'' then Some (-32003)
      else if r = ''UNSUPPORTED_OPERATION'' then Some (-32004)
      else if r = ''UNSUPPORTED_CONTENT_TYPE'' \<or> r = ''CONTENT_TYPE_NOT_SUPPORTED''
      then Some (-32005)
      else if r = ''INVALID_AGENT_RESPONSE'' then Some (-32006)
      else if r = ''EXTENDED_AGENT_CARD_NOT_CONFIGURED'' \<or> r = ''EXTENDED_CARD_NOT_CONFIGURED''
      then Some (-32007)
      else if r = ''EXTENSION_SUPPORT_REQUIRED'' then Some (-32008)
      else if r = ''VERSION_NOT_SUPPORTED'' then Some (-32009)
      else if r = ''RESOURCE_EXHAUSTED'' then Some (-32010)
      else if r = ''UNAVAILABLE'' then Some (-32011)
      else if r = ''PARSE_ERROR'' then Some (-32700)
      else if r = ''INVALID_REQUEST'' then Some (-32600)
      else if r = ''METHOD_NOT_FOUND'' then Some (-32601)
      else if r = ''INVALID_PARAMS'' then Some (-32602)
      else if r = ''INTERNAL_ERROR'' then Some (-32603)
      else None)"

definition http_status_code :: "a2a_error \<Rightarrow> nat" where
  "http_status_code e =
     (let c = err_code e in
      if c = -32001 then 404
      else if c = -32002 \<or> c = -32003 \<or> c = -32004 \<or> c = -32005 \<or> c = -32009 then 400
      else if c = -32010 then 429
      else if c = -32011 then 503
      else if c = -32700 \<or> c = -32600 then 400
      else if c = -32601 then 501
      else if c = -32602 then 400
      else 500)"

lemmas a2a_error_defs = new_error_def task_not_found_def task_not_cancelable_def
  unsupported_operation_def invalid_agent_response_def internal_def invalid_params_def
  invalid_request_def

section \<open>The lifecycle matrix\<close>

definition task_state_transition_allowed :: "task_state \<Rightarrow> task_state \<Rightarrow> bool" where
  "task_state_transition_allowed from_s to_s =
     (if from_s = to_s then True
      else case from_s of
        Unspecified \<Rightarrow> to_s \<in> {Submitted, Failed, Rejected}
      | Submitted \<Rightarrow> to_s \<in> {Working, InputRequired, AuthRequired, Completed, Failed, Canceled,
                             Rejected}
      | Working \<Rightarrow> to_s \<in> {InputRequired, AuthRequired, Completed, Failed, Canceled, Rejected}
      | InputRequired \<Rightarrow> to_s \<in> {Working, Failed, Canceled, Rejected}
      | AuthRequired \<Rightarrow> to_s \<in> {Working, Failed, Canceled, Rejected}
      | Completed \<Rightarrow> False
      | Failed \<Rightarrow> False
      | Canceled \<Rightarrow> False
      | Rejected \<Rightarrow> False)"

lemma terminal_transition_iff [simp]:
  "is_terminal s \<Longrightarrow> task_state_transition_allowed s t \<longleftrightarrow> t = s"
  by (cases s) (auto simp: task_state_transition_allowed_def)

lemma transition_refl [simp]: "task_state_transition_allowed s s"
  by (simp add: task_state_transition_allowed_def)

lemma is_terminal_iff: "is_terminal s \<longleftrightarrow> s \<in> {Completed, Failed, Canceled, Rejected}"
  by (cases s) simp_all

text \<open>A small task for the witnesses.\<close>

definition sample_task :: "string \<Rightarrow> task_state \<Rightarrow> int \<Rightarrow> task" where
  "sample_task i st ts =
     \<lparr>task_id = i, context_id = ''ctx'',
      status = \<lparr>state = st, status_message = None, timestamp = Some ts\<rparr>,
      artifacts = None, history = None, metadata = None\<rparr>"

section \<open>Properties\<close>

lemma lifecycle_step:
  "task_state_transition_allowed s t \<Longrightarrow>
     (is_terminal s \<longrightarrow> t = s) \<and> (t = Submitted \<longrightarrow> s = Unspecified \<or> s = Submitted) \<and>
     (t = Unspecified \<longrightarrow> s = Unspecified)"
  by (cases s; cases t) (simp_all add: task_state_transition_allowed_def)

text \<open>
  The lifecycle matrix, followed for any number of steps: a terminal state is never left, no
  task returns to \<open>Submitted\<close> or to \<open>Unspecified\<close> once it has left it, and every state
  that is not terminal can be failed or rejected in one step.
\<close>

theorem lifecycle_matrix:
  assumes "task_state_transition_allowed\<^sup>*\<^sup>* s t"
  shows "(is_terminal s \<longrightarrow> t = s) \<and> (t = Submitted \<longrightarrow> s = Unspecified \<or> s = Submitted) \<and>
    (t = Unspecified \<longrightarrow> s = Unspecified) \<and>
    (\<not> is_terminal t \<longrightarrow> task_state_transition_allowed t Failed \<and> task_state_transition_allowed t Rejected)"
proof -
  from assms have "(is_terminal s \<longrightarrow> t = s) \<and> (t = Submitted \<longrightarrow> s = Unspecified \<or> s = Submitted) \<and>
      (t = Unspecified \<longrightarrow> s = Unspecified)"
  proof (induction rule: rtranclp_induct)
    case (step y z)
    from step.IH lifecycle_step [OF step.hyps(2)] show ?case by blast
  qed simp
  moreover have "\<not> is_terminal t \<longrightarrow>
      task_state_transition_allowed t Failed \<and> task_state_transition_allowed t Rejected"
    by (cases t) (simp_all add: task_state_transition_allowed_def)
  ultimately show ?thesis by blast
qed

theorem lifecycle_matrix_witness:
  "task_state_transition_allowed\<^sup>*\<^sup>* Unspecified InputRequired \<and>
   task_state_transition_allowed InputRequired Rejected"
proof -
  have r: "task_state_transition_allowed\<^sup>*\<^sup>* Unspecified InputRequired"
    by (rule rtranclp_trans [OF r_into_rtranclp r_into_rtranclp, of _ _ Submitted])
      (simp_all add: task_state_transition_allowed_def)
  with lifecycle_matrix [OF r] show ?thesis by simp
qed

text \<open>
  The wire names of states and of error codes are unambiguous: every state decodes from its
  own encoding, and every error code decodes from its reason, the codes the protocol does not name
  as an internal error.
\<close>

theorem wire_names_round_trip:
  "deserialize_task_state (serialize_task_state s) = Some s \<and>
   reason_to_error_code (error_reason c) =
     Some (if c \<in> {-32001, -32002, -32003, -32004, -32005, -32006, -32007, -32008, -32009, -32010,
                  -32011, -32700, -32600, -32601, -32602} then c else -32603)"
proof -
  have "deserialize_task_state (serialize_task_state s) = Some s"
    by (cases s) (simp_all add: deserialize_task_state_def)
  moreover have "reason_to_error_code (error_reason c) =
     Some (if c \<in> {-32001, -32002, -32003, -32004, -32005, -32006, -32007, -32008, -32009, -32010,
                  -32011, -32700, -32600, -32601, -32602} then c else -32603)"
    unfolding error_reason_def by (simp add: reason_to_error_code_def)
  ultimately show ?thesis by blast
qed

end
