(* ===== verification/Ledger_Interface.thy ===== *)
theory Ledger_Interface
  imports A2A_Types
begin

text \<open>
  The contract of a task ledger, the \<open>TaskStore\<close> trait the request handlers rely on
  (\<^verbatim>\<open>vendor/a2a-server-lf/src/task_store\<close>), as a locale over the operations a client calls:
  \<open>create\<close>, \<open>update\<close>, \<open>get\<close>, and \<open>observe\<close> for the operations that only read tasks.
  A run is any sequence of these operations; the lemmas of the locale say what every ledger with
  this contract guarantees along a run. \<open>spec_create\<close> and \<open>spec_update\<close> are the abstract ledger,
  a bounded map from identifiers to tasks.
\<close>

section \<open>The abstract ledger\<close>

type_synonym ledger = "string \<rightharpoonup> task"

definition spec_create :: "nat \<Rightarrow> task \<Rightarrow> ledger \<Rightarrow> bool \<times> ledger" where
  "spec_create mx t m =
     (if task_id t \<in> dom m \<or> mx \<le> card (dom m) then (False, m)
      else (True, m(task_id t \<mapsto> t)))"

definition spec_update :: "task \<Rightarrow> ledger \<Rightarrow> bool \<times> ledger" where
  "spec_update t m =
     (case m (task_id t) of
        None \<Rightarrow> (False, m)
      | Some old \<Rightarrow>
          if old = t \<or> (\<not> is_terminal (state (status old)) \<and>
               task_state_transition_allowed (state (status old)) (state (status t)))
          then (True, m(task_id t \<mapsto> t)) else (False, m))"

section \<open>Runs\<close>

datatype 'o ledger_op = Op_create task | Op_update task | Op_observe 'o

fun apply_op :: "(task \<Rightarrow> 's \<Rightarrow> (a2a_error + nat) \<times> 's) \<Rightarrow> (task \<Rightarrow> 's \<Rightarrow> (a2a_error + nat) \<times> 's)
    \<Rightarrow> ('o \<Rightarrow> 's \<Rightarrow> 's) \<Rightarrow> 'o ledger_op \<Rightarrow> 's \<Rightarrow> 's" where
  "apply_op c u ob (Op_create t) s = snd (c t s)"
| "apply_op c u ob (Op_update t) s = snd (u t s)"
| "apply_op c u ob (Op_observe o') s = ob o' s"

definition run_ops :: "(task \<Rightarrow> 's \<Rightarrow> (a2a_error + nat) \<times> 's)
    \<Rightarrow> (task \<Rightarrow> 's \<Rightarrow> (a2a_error + nat) \<times> 's) \<Rightarrow> ('o \<Rightarrow> 's \<Rightarrow> 's) \<Rightarrow> 'o ledger_op list \<Rightarrow> 's \<Rightarrow> 's" where
  "run_ops c u ob ops s = fold (apply_op c u ob) ops s"

text \<open>The outcomes of the mutations of a run, on a store and on the abstract ledger.\<close>

fun op_outcome :: "(task \<Rightarrow> 's \<Rightarrow> (a2a_error + nat) \<times> 's) \<Rightarrow> (task \<Rightarrow> 's \<Rightarrow> (a2a_error + nat) \<times> 's)
    \<Rightarrow> 'o ledger_op \<Rightarrow> 's \<Rightarrow> bool" where
  "op_outcome c u (Op_create t) s = is_ok (fst (c t s))"
| "op_outcome c u (Op_update t) s = is_ok (fst (u t s))"
| "op_outcome c u (Op_observe o') s = True"

fun run_outcomes :: "(task \<Rightarrow> 's \<Rightarrow> (a2a_error + nat) \<times> 's)
    \<Rightarrow> (task \<Rightarrow> 's \<Rightarrow> (a2a_error + nat) \<times> 's) \<Rightarrow> ('o \<Rightarrow> 's \<Rightarrow> 's) \<Rightarrow> 'o ledger_op list \<Rightarrow> 's
    \<Rightarrow> bool list" where
  "run_outcomes c u ob [] s = []"
| "run_outcomes c u ob (x # xs) s = op_outcome c u x s # run_outcomes c u ob xs (apply_op c u ob x s)"

fun spec_run :: "nat \<Rightarrow> 'o ledger_op list \<Rightarrow> ledger \<Rightarrow> bool list \<times> ledger" where
  "spec_run mx [] m = ([], m)"
| "spec_run mx (x # xs) m =
     (let (b, m1) = (case x of Op_create t \<Rightarrow> spec_create mx t m | Op_update t \<Rightarrow> spec_update t m
                     | Op_observe _ \<Rightarrow> (True, m));
          (bs, m2) = spec_run mx xs m1
      in (b # bs, m2))"

lemma run_ops_simps [simp]:
  "run_ops c u ob [] s = s"
  "run_ops c u ob (x # xs) s = run_ops c u ob xs (apply_op c u ob x s)"
  by (simp_all add: run_ops_def)

section \<open>The contract\<close>

locale task_ledger =
  fixes create :: "task \<Rightarrow> 's \<Rightarrow> (a2a_error + nat) \<times> 's"
    and update :: "task \<Rightarrow> 's \<Rightarrow> (a2a_error + nat) \<times> 's"
    and get :: "string \<Rightarrow> 's \<Rightarrow> task option"
    and observe :: "'o \<Rightarrow> 's \<Rightarrow> 's"
    and invar :: "'s \<Rightarrow> bool"
  assumes invar_create: "invar s \<Longrightarrow> invar (snd (create t s))"
    and invar_update: "invar s \<Longrightarrow> invar (snd (update t s))"
    and invar_observe: "invar s \<Longrightarrow> invar (observe ob s)"
    and get_create: "invar s \<Longrightarrow> get i (snd (create t s)) =
      (if is_ok (fst (create t s)) \<and> i = task_id t then Some t else get i s)"
    and create_fresh: "invar s \<Longrightarrow> is_ok (fst (create t s)) \<Longrightarrow> get (task_id t) s = None"
    and get_update: "invar s \<Longrightarrow> get i (snd (update t s)) =
      (if is_ok (fst (update t s)) \<and> i = task_id t then Some t else get i s)"
    and update_allowed: "invar s \<Longrightarrow> is_ok (fst (update t s)) \<Longrightarrow>
      \<exists>old. get (task_id t) s = Some old \<and>
        (old = t \<or> \<not> is_terminal (state (status old)) \<and>
           task_state_transition_allowed (state (status old)) (state (status t)))"
    and get_observe: "invar s \<Longrightarrow> get i (observe ob s) = get i s"
begin

lemma invar_apply_op: "invar s \<Longrightarrow> invar (apply_op create update observe x s)"
  by (cases x) (simp_all add: invar_create invar_update invar_observe)

lemma invar_run: "invar s \<Longrightarrow> invar (run_ops create update observe ops s)"
  by (induction ops arbitrary: s) (simp_all add: invar_apply_op)

lemma apply_op_step:
  assumes "invar s" and "get i s = Some t"
  shows "\<exists>t'. get i (apply_op create update observe x s) = Some t' \<and>
    (t' = t \<or> \<not> is_terminal (state (status t)) \<and>
       task_state_transition_allowed (state (status t)) (state (status t')))"
proof (cases x)
  case (Op_create u)
  with assms create_fresh [of s u] show ?thesis by (auto simp: get_create)
next
  case (Op_update u)
  with assms update_allowed [of s u] show ?thesis by (auto simp: get_update)
next
  case (Op_observe ob)
  with assms show ?thesis by (simp add: get_observe)
qed

lemma lifecycle_along_run:
  assumes "invar s" and "get i s = Some t"
  shows "\<exists>t'. get i (run_ops create update observe ops s) = Some t' \<and>
    task_state_transition_allowed\<^sup>*\<^sup>* (state (status t)) (state (status t'))"
  using assms
proof (induction ops arbitrary: s t)
  case Nil
  then show ?case by simp
next
  case (Cons x ops)
  let ?s = "apply_op create update observe x s"
  from apply_op_step [OF Cons.prems, of x] obtain u where u: "get i ?s = Some u"
    and step: "task_state_transition_allowed (state (status t)) (state (status u))"
    by auto
  from Cons.IH [OF invar_apply_op [OF Cons.prems(1), of x] u] step show ?case
    by (auto intro: converse_rtranclp_into_rtranclp)
qed

lemma terminal_absorbing:
  assumes "invar s" and "get i s = Some t" and "is_terminal (state (status t))"
  shows "get i (run_ops create update observe ops s) = Some t"
  using assms
proof (induction ops arbitrary: s)
  case Nil
  then show ?case by simp
next
  case (Cons x ops)
  from apply_op_step [OF Cons.prems(1,2), of x] Cons.prems(3)
  have "get i (apply_op create update observe x s) = Some t" by auto
  from Cons.IH [OF invar_apply_op [OF Cons.prems(1), of x] this Cons.prems(3)] show ?case by simp
qed

end

text \<open>A ledger that also implements the abstract one, through \<open>absf\<close>.\<close>

locale refined_ledger = task_ledger create update get observe invar
  for create :: "task \<Rightarrow> 's \<Rightarrow> (a2a_error + nat) \<times> 's"
    and update :: "task \<Rightarrow> 's \<Rightarrow> (a2a_error + nat) \<times> 's"
    and get :: "string \<Rightarrow> 's \<Rightarrow> task option"
    and observe :: "'o \<Rightarrow> 's \<Rightarrow> 's"
    and invar :: "'s \<Rightarrow> bool" +
  fixes mx :: nat and absf :: "'s \<Rightarrow> ledger"
  assumes create_refines: "invar s \<Longrightarrow>
      spec_create mx t (absf s) = (is_ok (fst (create t s)), absf (snd (create t s)))"
    and update_refines: "invar s \<Longrightarrow>
      spec_update t (absf s) = (is_ok (fst (update t s)), absf (snd (update t s)))"
    and observe_refines: "invar s \<Longrightarrow> absf (observe ob s) = absf s"
    and get_refines: "invar s \<Longrightarrow> get i s = absf s i"
begin

lemma run_refines:
  "invar s \<Longrightarrow> spec_run mx ops (absf s)
     = (run_outcomes create update observe ops s, absf (run_ops create update observe ops s))"
proof (induction ops arbitrary: s)
  case Nil
  then show ?case by simp
next
  case (Cons x ops)
  from Cons.IH [OF invar_apply_op [OF Cons.prems, of x]] Cons.prems show ?case
    by (cases x) (simp_all add: create_refines update_refines observe_refines)
qed

end

end
