(* ===== verification/Task_Store.thy ===== *)
theory Task_Store
  imports Ledger_Interface "HOL-Library.AList" "HOL-Library.Multiset"
begin

text \<open>
  The process-local task ledger \<^verbatim>\<open>src/store.rs\<close>: \<open>BoundedTaskStore\<close> with its
  \<open>create\<close>, \<open>update\<close>, \<open>get\<close> and \<open>list\<close> operations and the frozen page snapshots.

  The \<open>HashMap\<close> of tasks is an association list in some iteration order. What the operations
  take from outside the repository is the record \<open>list_env\<close>: the clock reading, the JSON codec
  of a task, the random page tokens and snapshot id, and the allocator-dependent sizes.
  An operation under the write lock returns its result and the new state.
\<close>

section \<open>State\<close>

definition max_page_token_bytes :: nat where "max_page_token_bytes = 4096"
definition snapshot_ttl_millis :: nat where "snapshot_ttl_millis = 300000"
definition max_snapshot_bytes :: nat where "max_snapshot_bytes = 67108864"
definition max_active_snapshots :: nat where "max_active_snapshots = 128"
definition allocation_overhead_bytes :: nat where "allocation_overhead_bytes = 24"

record cursor_scope =
  cs_context_id :: "string option"
  cs_status :: "task_state option"
  cs_page_size :: int
  cs_history_length :: "int option"
  cs_status_timestamp_after :: "int option"
  cs_include_artifacts :: bool
  cs_tenant :: "string option"

definition from_request :: "list_tasks_request \<Rightarrow> int \<Rightarrow> cursor_scope" where
  "from_request r ps =
     \<lparr>cs_context_id = lr_context_id r, cs_status = lr_status r, cs_page_size = ps,
      cs_history_length = lr_history_length r,
      cs_status_timestamp_after = lr_status_timestamp_after r,
      cs_include_artifacts = (case lr_include_artifacts r of None \<Rightarrow> False | Some b \<Rightarrow> b),
      cs_tenant = lr_tenant r\<rparr>"

record memory_snapshot =
  ms_tasks :: "string list"
  ms_page_size :: int
  ms_scope :: cursor_scope
  ms_expires_at :: nat
  ms_bytes :: nat
  ms_tokens :: "(nat \<times> string) list"

record store_state =
  st_tasks :: "(string \<times> task) list"
  st_snapshots :: "(byte list \<times> memory_snapshot) list"
  st_snapshot_bytes :: nat
  st_observed_now :: nat

record list_env =
  env_clock :: nat
  env_encode :: "task \<Rightarrow> string option"
  env_decode :: "string \<Rightarrow> task option"
  env_token :: "nat \<Rightarrow> string"
  env_snapshot_id :: "byte list"
  env_string_capacity :: "string \<Rightarrow> nat"
  env_vec_capacity :: "nat \<Rightarrow> nat"
  env_registry_slot :: nat
  env_vec_slot :: nat
  env_token_slot :: nat

definition default_store_state :: "nat \<Rightarrow> nat \<Rightarrow> store_state" where
  "default_store_state registry_capacity registry_slot =
     \<lparr>st_tasks = [], st_snapshots = [],
      st_snapshot_bytes = registry_capacity * registry_slot + allocation_overhead_bytes,
      st_observed_now = 0\<rparr>"

section \<open>Listing\<close>

definition validate_list_request ::
    "list_tasks_request \<Rightarrow> a2a_error + (int \<times> cursor_scope)" where
  "validate_list_request r =
     (if (case lr_history_length r of None \<Rightarrow> False | Some l \<Rightarrow> \<not> (0 \<le> l \<and> l \<le> 100))
      then Inl (invalid_params ''historyLength must be between 0 and 100'')
      else let ps = (case lr_page_size r of None \<Rightarrow> 50 | Some p \<Rightarrow> p) in
        if \<not> (1 \<le> ps \<and> ps \<le> 100)
        then Inl (invalid_params ''pageSize must be between 1 and 100'')
        else Inr (ps, from_request r ps))"

definition list_filter :: "list_tasks_request \<Rightarrow> task \<Rightarrow> bool" where
  "list_filter r t \<longleftrightarrow>
     (case lr_context_id r of None \<Rightarrow> True | Some c \<Rightarrow> context_id t = c) \<and>
     (case lr_status r of None \<Rightarrow> True | Some s \<Rightarrow> state (status t) = s) \<and>
     (case lr_status_timestamp_after r of None \<Rightarrow> True
      | Some a \<Rightarrow> (case timestamp (status t) of None \<Rightarrow> False | Some ts \<Rightarrow> a \<le> ts))"

text \<open>
  The comparator \<open>right.timestamp.cmp(&left.timestamp).then(left.id.cmp(&right.id))\<close> as a sort
  key: later timestamps first, a missing timestamp last, then the identifier.
\<close>

definition list_key :: "task \<Rightarrow> (nat \<times> int) \<times> string" where
  "list_key t = ((case timestamp (status t) of Some ts \<Rightarrow> (0, - ts) | None \<Rightarrow> (1, 0)), task_id t)"

definition keep_last :: "nat \<Rightarrow> 'a list \<Rightarrow> 'a list" where
  "keep_last n xs = (if n < length xs then drop (length xs - n) xs else xs)"

definition project_task :: "list_tasks_request \<Rightarrow> task \<Rightarrow> task" where
  "project_task r t =
     (let include = (case lr_include_artifacts r of None \<Rightarrow> False | Some b \<Rightarrow> b);
          hl = Option.bind (lr_history_length r) usize_of_i32;
          t1 = (if include then t else t\<lparr>artifacts := None\<rparr>)
      in if hl = Some 0 then t1\<lparr>history := None\<rparr>
         else case (hl, history t1) of
             (Some limit, Some h) \<Rightarrow> t1\<lparr>history := Some (keep_last limit h)\<rparr>
           | _ \<Rightarrow> t1)"

definition freeze_projection :: "task list \<Rightarrow> list_tasks_request \<Rightarrow> task list" where
  "freeze_projection ts r = map (project_task r) (sort_key list_key (filter (list_filter r) ts))"

definition memory_page ::
    "list_env \<Rightarrow> memory_snapshot \<Rightarrow> nat \<Rightarrow> a2a_error + list_tasks_response" where
  "memory_page e sn pos =
     (let step = nat (ms_page_size sn);
          stop = min (sat_add pos step) (length (ms_tasks sn))
      in and_then
           (collect_res (\<lambda>enc. ok_or (env_decode e enc) (internal ''frozen task snapshot is corrupt''))
              (take (stop - pos) (drop pos (ms_tasks sn))))
           (\<lambda>ts. Inr \<lparr>lt_tasks = ts,
              lt_next_page_token =
                (case find_map (\<lambda>(p, tok). if p = stop then Some tok else None) (ms_tokens sn) of
                   None \<Rightarrow> [] | Some tok \<Rightarrow> tok),
              lt_page_size = ms_page_size sn,
              lt_total_size = i32_of_usize (length (ms_tasks sn))\<rparr>))"

fun gc_loop :: "nat \<Rightarrow> (byte list \<times> memory_snapshot) list \<Rightarrow> nat
    \<Rightarrow> (byte list \<times> memory_snapshot) list \<times> nat" where
  "gc_loop now [] bytes = ([], bytes)"
| "gc_loop now ((i, sn) # rest) bytes =
     (if ms_expires_at sn \<le> now then gc_loop now rest (sat_sub bytes (ms_bytes sn))
      else let (kept, b) = gc_loop now rest bytes in ((i, sn) # kept, b))"

definition gc_memory_snapshots :: "store_state \<Rightarrow> nat \<Rightarrow> store_state" where
  "gc_memory_snapshots s now =
     (let (kept, b) = gc_loop now (st_snapshots s) (st_snapshot_bytes s)
      in s\<lparr>st_snapshots := kept, st_snapshot_bytes := b\<rparr>)"

definition reusable_snapshot :: "store_state \<Rightarrow> cursor_scope \<Rightarrow> nat \<Rightarrow> memory_snapshot option" where
  "reusable_snapshot s scope now =
     find (\<lambda>sn. now < ms_expires_at sn \<and> ms_scope sn = scope) (map snd (st_snapshots s))"

definition add_or_capacity :: "nat \<Rightarrow> nat \<Rightarrow> a2a_error + nat" where
  "add_or_capacity a b = ok_or (checked_add a b) (internal ''task snapshot capacity reached'')"

definition mul_or_capacity :: "nat \<Rightarrow> nat \<Rightarrow> a2a_error + nat" where
  "mul_or_capacity a b = ok_or (checked_mul a b) (internal ''task snapshot capacity reached'')"

definition conservative_snapshot_bytes ::
    "list_env \<Rightarrow> string list \<Rightarrow> nat \<Rightarrow> cursor_scope \<Rightarrow> (nat \<times> string) list \<Rightarrow> nat \<Rightarrow> a2a_error + nat"
where
  "conservative_snapshot_bytes e ts task_capacity scope tokens token_capacity =
     (let ov = allocation_overhead_bytes;
          text_sizes = (\<lambda>x. case x of None \<Rightarrow> [0, 0] | Some c \<Rightarrow> [env_string_capacity e c, ov])
      in and_then (try_for add_or_capacity (env_registry_slot e) [ov, ov]) (\<lambda>b0.
         and_then (mul_or_capacity task_capacity (env_vec_slot e)) (\<lambda>slots.
         and_then (add_or_capacity b0 slots) (\<lambda>b1.
         and_then (try_for (\<lambda>b enc. try_for add_or_capacity b [env_string_capacity e enc, ov]) b1 ts)
           (\<lambda>b2.
         and_then (try_for add_or_capacity b2
             (text_sizes (cs_context_id scope) @ text_sizes (cs_tenant scope))) (\<lambda>b3.
         and_then (mul_or_capacity token_capacity (env_token_slot e)) (\<lambda>token_slots.
         and_then (add_or_capacity b3 token_slots) (\<lambda>b4.
         try_for (\<lambda>b (p, tok). try_for add_or_capacity b [env_string_capacity e tok, ov])
           b4 tokens))))))))"

definition page_tokens :: "list_env \<Rightarrow> nat \<Rightarrow> nat \<Rightarrow> (nat \<times> string) list" where
  "page_tokens e step n = map (\<lambda>k. (Suc k * step, env_token e k)) [0..<(n - 1) div step]"

definition list_by_token ::
    "list_env \<Rightarrow> cursor_scope \<Rightarrow> nat \<Rightarrow> string \<Rightarrow> store_state \<Rightarrow> a2a_error + list_tasks_response"
where
  "list_by_token e scope now tok s =
     (if max_page_token_bytes < length tok then Inl (invalid_params ''invalid pageToken'')
      else case find_map (\<lambda>(i, sn). map_option (\<lambda>p. (sn, p))
             (find_map (\<lambda>(p, cand). if cand = tok then Some p else None) (ms_tokens sn)))
             (st_snapshots s) of
        None \<Rightarrow> Inl (invalid_params ''invalid pageToken'')
      | Some (sn, pos) \<Rightarrow>
          if \<not> (now < ms_expires_at sn \<and> ms_scope sn = scope)
          then Inl (invalid_params ''invalid pageToken'')
          else if pos = 0 \<or> length (ms_tasks sn) < pos \<or> pos mod nat (ms_page_size sn) \<noteq> 0
          then Inl (invalid_params ''invalid pageToken'')
          else memory_page e sn pos)"

definition new_snapshot ::
    "int \<Rightarrow> cursor_scope \<Rightarrow> nat \<Rightarrow> string list \<Rightarrow> (nat \<times> string) list \<Rightarrow> nat \<Rightarrow> memory_snapshot"
where
  "new_snapshot ps scope exp frozen tokens b =
     \<lparr>ms_tasks = frozen, ms_page_size = ps, ms_scope = scope, ms_expires_at = exp,
      ms_bytes = b, ms_tokens = tokens\<rparr>"

definition push_snapshot :: "byte list \<Rightarrow> memory_snapshot \<Rightarrow> store_state \<Rightarrow> store_state" where
  "push_snapshot i sn s =
     s\<lparr>st_snapshots := st_snapshots s @ [(i, sn)],
       st_snapshot_bytes := st_snapshot_bytes s + ms_bytes sn\<rparr>"

definition list_fresh ::
    "list_env \<Rightarrow> int \<Rightarrow> cursor_scope \<Rightarrow> nat \<Rightarrow> list_tasks_request \<Rightarrow> store_state
     \<Rightarrow> (a2a_error + list_tasks_response) \<times> store_state" where
  "list_fresh e ps scope now r s =
     (let ts = freeze_projection (map snd (st_tasks s)) r; step = nat ps in
      if length ts \<le> step
      then (Inr \<lparr>lt_tasks = ts, lt_next_page_token = [], lt_page_size = ps,
                 lt_total_size = i32_of_usize (length ts)\<rparr>, s)
      else case collect_res (\<lambda>t. ok_or (env_encode e t) (internal ''failed to freeze task snapshot'')) ts
        of Inl err \<Rightarrow> (Inl err, s)
         | Inr frozen \<Rightarrow>
             let tokens = page_tokens e step (length ts) in
             case conservative_snapshot_bytes e frozen (env_vec_capacity e (length frozen)) scope
                    tokens (env_vec_capacity e (length tokens)) of
               Inl err \<Rightarrow> (Inl err, s)
             | Inr b \<Rightarrow>
                 if max_active_snapshots \<le> length (st_snapshots s) \<or>
                    (case checked_add (st_snapshot_bytes s) b of None \<Rightarrow> True
                     | Some new_bytes \<Rightarrow> max_snapshot_bytes < new_bytes)
                 then (Inl (internal ''task snapshot capacity reached''), s)
                 else case checked_add now snapshot_ttl_millis of
                   None \<Rightarrow> (Inl (internal ''task snapshot clock exhausted''), s)
                 | Some exp \<Rightarrow>
                     let s' = push_snapshot (env_snapshot_id e) (new_snapshot ps scope exp frozen tokens b) s
                     in case find_map (\<lambda>(i, x). if i = env_snapshot_id e then Some x else None)
                               (st_snapshots s') of
                          None \<Rightarrow> (Inl (internal ''snapshot inserted''), s')
                        | Some x \<Rightarrow> (memory_page e x 0, s'))"

definition list_tasks ::
    "list_env \<Rightarrow> list_tasks_request \<Rightarrow> store_state
     \<Rightarrow> (a2a_error + list_tasks_response) \<times> store_state" where
  "list_tasks e r s =
     (case validate_list_request r of
        Inl err \<Rightarrow> (Inl err, s)
      | Inr (ps, scope) \<Rightarrow>
          let now = max (env_clock e) (st_observed_now s);
              s1 = gc_memory_snapshots (s\<lparr>st_observed_now := now\<rparr>) now
          in case lr_page_token r of
               Some tok \<Rightarrow> (list_by_token e scope now tok s1, s1)
             | None \<Rightarrow>
                 (case reusable_snapshot s1 scope now of
                    Some sn \<Rightarrow> (memory_page e sn 0, s1)
                  | None \<Rightarrow> list_fresh e ps scope now r s1))"

section \<open>Creating, updating and reading tasks\<close>

definition create_task :: "nat \<Rightarrow> task \<Rightarrow> store_state \<Rightarrow> (a2a_error + nat) \<times> store_state" where
  "create_task max_tasks t s =
     (if task_id t \<in> fst ` set (st_tasks s)
      then (Inl (invalid_request ''task already exists''), s)
      else if max_tasks \<le> length (st_tasks s)
      then (Inl (internal ''task store capacity reached''), s)
      else (Inr 1, s\<lparr>st_tasks := (task_id t, t) # st_tasks s\<rparr>))"

definition update_task :: "task \<Rightarrow> store_state \<Rightarrow> (a2a_error + nat) \<times> store_state" where
  "update_task t s =
     (case map_of (st_tasks s) (task_id t) of
        None \<Rightarrow> (Inl (task_not_found (task_id t)), s)
      | Some stored \<Rightarrow>
          if stored = t then (Inr 1, s)
          else if is_terminal (state (status stored))
          then (Inl (unsupported_operation ''terminal task state cannot be changed''), s)
          else if \<not> task_state_transition_allowed (state (status stored)) (state (status t))
          then (Inl (unsupported_operation ''invalid task state transition''), s)
          else (Inr 1, s\<lparr>st_tasks := AList.update (task_id t) t (st_tasks s)\<rparr>))"

definition get_task :: "string \<Rightarrow> store_state \<Rightarrow> task option" where
  "get_task i s = map_of (st_tasks s) i"

definition new_store_max :: "nat \<Rightarrow> nat" where
  "new_store_max max_tasks = max max_tasks 1"


section \<open>The invariant of the store\<close>

definition snapshot_total :: "(byte list \<times> memory_snapshot) list \<Rightarrow> nat" where
  "snapshot_total xs = sum_list (map (\<lambda>x. ms_bytes (snd x)) xs)"

definition snapshot_wf :: "memory_snapshot \<Rightarrow> bool" where
  "snapshot_wf sn \<longleftrightarrow>
     1 \<le> ms_page_size sn \<and> ms_page_size sn \<le> 100 \<and>
     ms_page_size sn = cs_page_size (ms_scope sn) \<and>
     map fst (ms_tokens sn) =
       map (\<lambda>k. Suc k * nat (ms_page_size sn)) [0..<(length (ms_tasks sn) - 1) div nat (ms_page_size sn)]"

definition tasks_wf :: "(string \<times> task) list \<Rightarrow> bool" where
  "tasks_wf ts \<longleftrightarrow> distinct (map fst ts) \<and> (\<forall>(k, t) \<in> set ts. task_id t = k)"

definition store_inv :: "nat \<Rightarrow> nat \<Rightarrow> store_state \<Rightarrow> bool" where
  "store_inv mx base s \<longleftrightarrow>
     tasks_wf (st_tasks s) \<and> length (st_tasks s) \<le> mx \<and>
     length (st_snapshots s) \<le> max_active_snapshots \<and>
     (\<forall>x \<in> set (st_snapshots s). snapshot_wf (snd x)) \<and>
     st_snapshot_bytes s = base + snapshot_total (st_snapshots s) \<and>
     st_snapshot_bytes s \<le> max_snapshot_bytes"

lemma snapshot_total_simps [simp]:
  "snapshot_total [] = 0"
  "snapshot_total (x # xs) = ms_bytes (snd x) + snapshot_total xs"
  "snapshot_total (xs @ ys) = snapshot_total xs + snapshot_total ys"
  by (simp_all add: snapshot_total_def)

lemma gc_loop_eq:
  "gc_loop now xs b =
     (filter (\<lambda>x. now < ms_expires_at (snd x)) xs,
      b - snapshot_total (filter (\<lambda>x. \<not> now < ms_expires_at (snd x)) xs))"
  by (induction now xs b rule: gc_loop.induct) (auto simp: sat_sub_def)

lemma snapshot_total_filter:
  "snapshot_total (filter P xs) + snapshot_total (filter (\<lambda>x. \<not> P x) xs) = snapshot_total xs"
  by (induction xs) auto

lemma gc_memory_snapshots_eq:
  "gc_memory_snapshots s now =
     s\<lparr>st_snapshots := filter (\<lambda>x. now < ms_expires_at (snd x)) (st_snapshots s),
       st_snapshot_bytes := st_snapshot_bytes s
         - snapshot_total (filter (\<lambda>x. \<not> now < ms_expires_at (snd x)) (st_snapshots s))\<rparr>"
  by (simp add: gc_memory_snapshots_def gc_loop_eq)

lemma gc_tasks [simp]: "st_tasks (gc_memory_snapshots s now) = st_tasks s"
  by (simp add: gc_memory_snapshots_eq)

lemma store_inv_gc: "store_inv mx base s \<Longrightarrow> store_inv mx base (gc_memory_snapshots s now)"
proof -
  assume inv: "store_inv mx base s"
  let ?live = "\<lambda>x. now < ms_expires_at (snd x)"
  have "snapshot_total (filter ?live (st_snapshots s))
        + snapshot_total (filter (\<lambda>x. \<not> ?live x) (st_snapshots s)) = snapshot_total (st_snapshots s)"
    by (rule snapshot_total_filter)
  then show ?thesis
    using inv by (auto simp: store_inv_def gc_memory_snapshots_eq intro: le_trans [OF length_filter_le])
qed

lemma store_inv_observed [simp]:
  "store_inv mx base (s\<lparr>st_observed_now := n\<rparr>) = store_inv mx base s"
  by (simp add: store_inv_def)

lemma length_page_tokens [simp]: "length (page_tokens e step n) = (n - 1) div step"
  by (simp add: page_tokens_def)

lemma fst_page_tokens: "map fst (page_tokens e step n) = map (\<lambda>k. Suc k * step) [0..<(n - 1) div step]"
  by (simp add: page_tokens_def)

text \<open>What a successful first page that had to freeze a snapshot adds to the state.\<close>

lemma push_snapshot_simps [simp]:
  "st_tasks (push_snapshot i sn s) = st_tasks s"
  "st_snapshots (push_snapshot i sn s) = st_snapshots s @ [(i, sn)]"
  "st_snapshot_bytes (push_snapshot i sn s) = st_snapshot_bytes s + ms_bytes sn"
  "st_observed_now (push_snapshot i sn s) = st_observed_now s"
  by (simp_all add: push_snapshot_def)

lemma new_snapshot_simps [simp]:
  "ms_tasks (new_snapshot ps scope exp frozen tokens b) = frozen"
  "ms_page_size (new_snapshot ps scope exp frozen tokens b) = ps"
  "ms_scope (new_snapshot ps scope exp frozen tokens b) = scope"
  "ms_expires_at (new_snapshot ps scope exp frozen tokens b) = exp"
  "ms_bytes (new_snapshot ps scope exp frozen tokens b) = b"
  "ms_tokens (new_snapshot ps scope exp frozen tokens b) = tokens"
  by (simp_all add: new_snapshot_def)

lemma list_fresh_state:
  assumes "list_fresh e ps scope now r s = (res, s')"
  shows "s' = s \<or> (\<exists>frozen b.
     s' = push_snapshot (env_snapshot_id e)
            (new_snapshot ps scope (now + snapshot_ttl_millis) frozen
              (page_tokens e (nat ps) (length frozen)) b) s \<and>
     list_all2 (\<lambda>t c. env_encode e t = Some c) (freeze_projection (map snd (st_tasks s)) r) frozen \<and>
     length (st_snapshots s) < max_active_snapshots \<and>
     st_snapshot_bytes s + b \<le> max_snapshot_bytes)"
  using assms
  by (auto simp: list_fresh_def Let_def result_simps not_le list_all2_lengthD
      split: if_splits sum.splits option.splits)

lemma list_fresh_tasks [simp]: "st_tasks (snd (list_fresh e ps scope now r s)) = st_tasks s"
  using list_fresh_state [of e ps scope now r s "fst (list_fresh e ps scope now r s)"
      "snd (list_fresh e ps scope now r s)"]
  by auto

lemma validate_list_request_Inr:
  "validate_list_request r = Inr (ps, scope) \<Longrightarrow>
     1 \<le> ps \<and> ps \<le> 100 \<and> scope = from_request r ps \<and>
     ps = (case lr_page_size r of None \<Rightarrow> 50 | Some p \<Rightarrow> p) \<and>
     (\<forall>l. lr_history_length r = Some l \<longrightarrow> 0 \<le> l \<and> l \<le> 100)"
  by (auto simp: validate_list_request_def Let_def split: if_splits option.splits)

lemma store_inv_list_fresh:
  assumes "store_inv mx base s" and "1 \<le> ps" and "ps \<le> 100" and "cs_page_size scope = ps"
  shows "store_inv mx base (snd (list_fresh e ps scope now r s))"
proof -
  obtain res s' where eq: "list_fresh e ps scope now r s = (res, s')"
    by (cases "list_fresh e ps scope now r s")
  from list_fresh_state [OF eq] assms show ?thesis
    by (auto simp: eq store_inv_def snapshot_wf_def fst_page_tokens)
qed

lemma list_tasks_tasks [simp]: "st_tasks (snd (list_tasks e r s)) = st_tasks s"
  by (simp add: list_tasks_def Let_def split: sum.splits option.splits prod.splits)

lemma store_inv_list:
  assumes "store_inv mx base s"
  shows "store_inv mx base (snd (list_tasks e r s))"
proof (cases "validate_list_request r")
  case (Inl err)
  with assms show ?thesis by (simp add: list_tasks_def)
next
  case (Inr a)
  obtain ps scope where a: "a = (ps, scope)" by (cases a)
  let ?now = "max (env_clock e) (st_observed_now s)"
  let ?s1 = "gc_memory_snapshots (s\<lparr>st_observed_now := ?now\<rparr>) ?now"
  have s1: "store_inv mx base ?s1"
    using assms by (intro store_inv_gc) simp
  have "store_inv mx base (snd (list_fresh e ps scope ?now r ?s1))"
    using validate_list_request_Inr [of r ps scope] Inr a s1
    by (intro store_inv_list_fresh) (auto simp: from_request_def)
  with s1 Inr a show ?thesis
    by (simp add: list_tasks_def Let_def split: option.splits)
qed

lemma tasks_wf_lookup: "tasks_wf ts \<Longrightarrow> map_of ts i = Some t \<Longrightarrow> task_id t = i"
  by (auto simp: tasks_wf_def dest: map_of_SomeD)

lemma tasks_wf_Cons: "tasks_wf ts \<Longrightarrow> task_id t \<notin> fst ` set ts \<Longrightarrow> tasks_wf ((task_id t, t) # ts)"
  by (simp add: tasks_wf_def)

lemma set_update_subset: "set (AList.update k v ts) \<subseteq> insert (k, v) (set ts)"
  by (induction ts) auto

lemma tasks_wf_update: "tasks_wf ts \<Longrightarrow> tasks_wf (AList.update (task_id t) t ts)"
  using set_update_subset [of "task_id t" t ts]
  by (auto simp: tasks_wf_def intro: distinct_update)

lemma length_update_present: "map_of ts k = Some u \<Longrightarrow> length (AList.update k v ts) = length ts"
  by (induction ts) (auto split: if_splits)

lemma store_inv_create:
  "store_inv mx base s \<Longrightarrow> store_inv mx base (snd (create_task mx t s))"
  by (auto simp: create_task_def store_inv_def intro: tasks_wf_Cons)

lemma store_inv_update:
  "store_inv mx base s \<Longrightarrow> store_inv mx base (snd (update_task t s))"
  by (auto simp: update_task_def store_inv_def tasks_wf_update length_update_present
      split: option.splits)


section \<open>The store is a task ledger\<close>

definition observe_list :: "list_env \<times> list_tasks_request \<Rightarrow> store_state \<Rightarrow> store_state" where
  "observe_list q s = snd (list_tasks (fst q) (snd q) s)"

abbreviation store_run :: "nat \<Rightarrow> (list_env \<times> list_tasks_request) ledger_op list \<Rightarrow> store_state \<Rightarrow> store_state" where
  "store_run mx \<equiv> run_ops (create_task mx) update_task observe_list"

interpretation bounded: task_ledger "create_task mx" update_task get_task observe_list "store_inv mx base"
  for mx base
proof unfold_locales
  fix s i t
  show "store_inv mx base s \<Longrightarrow> store_inv mx base (snd (create_task mx t s))"
    by (rule store_inv_create)
  show "store_inv mx base s \<Longrightarrow> store_inv mx base (snd (update_task t s))"
    by (rule store_inv_update)
  show "get_task i (snd (create_task mx t s)) =
      (if is_ok (fst (create_task mx t s)) \<and> i = task_id t then Some t else get_task i s)"
    by (auto simp: create_task_def get_task_def)
  show "is_ok (fst (create_task mx t s)) \<Longrightarrow> get_task (task_id t) s = None"
    by (auto simp: create_task_def get_task_def map_of_eq_None_iff split: if_splits)
  show "get_task i (snd (update_task t s)) =
      (if is_ok (fst (update_task t s)) \<and> i = task_id t then Some t else get_task i s)"
    by (auto simp: update_task_def get_task_def update_conv split: option.splits)
  show "is_ok (fst (update_task t s)) \<Longrightarrow> \<exists>old. get_task (task_id t) s = Some old \<and>
        (old = t \<or> \<not> is_terminal (state (status old)) \<and>
           task_state_transition_allowed (state (status old)) (state (status t)))"
    by (auto simp: update_task_def get_task_def split: option.splits if_splits)
next
  fix s ob i
  show "store_inv mx base s \<Longrightarrow> store_inv mx base (observe_list ob s)"
    by (simp add: observe_list_def store_inv_list)
  show "get_task i (observe_list ob s) = get_task i s"
    by (simp add: observe_list_def get_task_def)
qed

text \<open>Refinement of the abstract ledger: \<open>store_abs\<close> forgets snapshots and iteration order.\<close>

definition store_abs :: "store_state \<Rightarrow> ledger" where
  "store_abs s = map_of (st_tasks s)"

lemma dom_store_abs: "dom (store_abs s) = fst ` set (st_tasks s)"
  by (simp add: store_abs_def dom_map_of_conv_image_fst)

lemma card_dom_store_abs: "store_inv mx base s \<Longrightarrow> card (dom (store_abs s)) = length (st_tasks s)"
  using distinct_card [of "map fst (st_tasks s)"]
  by (simp add: dom_store_abs store_inv_def tasks_wf_def)

lemma create_task_refines:
  assumes "store_inv mx base s"
  shows "spec_create mx t (store_abs s) =
     (is_ok (fst (create_task mx t s)), store_abs (snd (create_task mx t s)))"
  using card_dom_store_abs [OF assms]
  by (simp add: spec_create_def create_task_def dom_store_abs) (simp add: store_abs_def)

lemma update_task_refines:
  "spec_update t (store_abs s) =
     (is_ok (fst (update_task t s)), store_abs (snd (update_task t s)))"
  by (auto simp: spec_update_def update_task_def store_abs_def update_conv split: option.splits)

interpretation bounded: refined_ledger
  "create_task mx" update_task get_task observe_list "store_inv mx base" mx store_abs
  for mx base
  by unfold_locales
    (simp add: create_task_refines update_task_refines,
     simp add: create_task_refines update_task_refines,
     simp_all add: store_abs_def observe_list_def get_task_def)

section \<open>Properties\<close>

text \<open>
  C1. Along every sequence of create, update and list calls on a new store the ledger stays
  within its bounds: identifiers are unique and name their own task, the number of tasks is at
  most the configured maximum, at most 128 snapshots are live, their page tokens sit exactly at
  the page boundaries, and the byte account is exact and never above 64 MiB.
\<close>

theorem store_bounded_along_run:
  assumes "cap * slot + allocation_overhead_bytes \<le> max_snapshot_bytes"
  shows "store_inv mx (cap * slot + allocation_overhead_bytes)
    (store_run mx ops (default_store_state cap slot))"
proof -
  have "store_inv mx (cap * slot + allocation_overhead_bytes) (default_store_state cap slot)"
    using assms by (simp add: store_inv_def default_store_state_def tasks_wf_def)
  then show ?thesis by (rule bounded.invar_run)
qed

text \<open>
  C2. The store implements the abstract bounded map of tasks: the mutations of any run succeed or
  fail exactly as on the map, and the final tasks are the map's, whatever listings run between.
\<close>

theorem store_refines_ledger:
  assumes "store_inv mx base s"
  shows "spec_run mx ops (store_abs s)
    = (run_outcomes (create_task mx) update_task observe_list ops s, store_abs (store_run mx ops s))"
  using assms by (rule bounded.run_refines)

text \<open>
  A task in a terminal state is immutable: whatever operations run afterwards, reading it
  returns the same task.
\<close>

theorem terminal_task_immutable:
  assumes "store_inv mx base s" and "get_task i s = Some t" and "is_terminal (state (status t))"
  shows "get_task i (store_run mx ops s) = Some t"
  using assms by (rule bounded.terminal_absorbing)

text \<open>
  C31. A stored task is never lost and only moves along the lifecycle matrix: after any run it is
  still there, in a state the matrix reaches from its earlier state.
\<close>

theorem stored_task_follows_lifecycle:
  assumes "store_inv mx base s" and "get_task i s = Some t"
  shows "\<exists>t'. get_task i (store_run mx ops s) = Some t' \<and>
    task_state_transition_allowed\<^sup>*\<^sup>* (state (status t)) (state (status t'))"
  using assms by (rule bounded.lifecycle_along_run)

section \<open>Witnesses\<close>

definition one_task_store :: "task_state \<Rightarrow> store_state" where
  "one_task_store st =
     \<lparr>st_tasks = [(''a'', sample_task ''a'' st 1)], st_snapshots = [], st_snapshot_bytes = 100,
      st_observed_now = 0\<rparr>"

lemma one_task_store_inv: "store_inv 2 100 (one_task_store st)"
  by (simp add: store_inv_def tasks_wf_def one_task_store_def sample_task_def max_snapshot_bytes_def)

lemma get_one_task: "get_task ''a'' (one_task_store st) = Some (sample_task ''a'' st 1)"
  by (simp add: get_task_def one_task_store_def)

theorem store_bounded_witness:
  "store_inv 2 (128 * 200 + allocation_overhead_bytes)
     (store_run 2 [Op_create (sample_task ''a'' Submitted 1), Op_update (sample_task ''a'' Working 2)]
       (default_store_state 128 200))"
  by (rule store_bounded_along_run) (simp add: allocation_overhead_bytes_def max_snapshot_bytes_def)

theorem store_refines_witness:
  "fst (spec_run 2 ([Op_create (sample_task ''a'' Submitted 1), Op_update (sample_task ''a'' Completed 2)]
       :: (list_env \<times> list_tasks_request) ledger_op list) (store_abs (one_task_store Working)))
   = [False, True]"
  unfolding store_refines_ledger [OF one_task_store_inv]
  by (simp add: create_task_def update_task_def
      one_task_store_def sample_task_def task_state_transition_allowed_def)

theorem terminal_task_witness:
  "get_task ''a'' (store_run 2 [Op_update (sample_task ''a'' Working 5)] (one_task_store Completed))
   = Some (sample_task ''a'' Completed 1)"
  by (rule terminal_task_immutable [OF one_task_store_inv get_one_task]) (simp add: sample_task_def)

theorem stored_task_witness:
  "\<exists>t'. get_task ''a'' (store_run 2 [Op_update (sample_task ''a'' Working 5)] (one_task_store Submitted)) = Some t' \<and>
     task_state_transition_allowed\<^sup>*\<^sup>* Submitted (state (status t'))"
  using stored_task_follows_lifecycle [OF one_task_store_inv get_one_task, of "[Op_update (sample_task ''a'' Working 5)]" Submitted]
  by (simp add: sample_task_def)

end
