(* ===== verification/Task_Pages.thy ===== *)
theory Task_Pages
  imports Task_Store
begin

text \<open>
  The paged listing of \<^verbatim>\<open>src/store.rs\<close>: the frozen projection is the filtered and
  sorted contents of the ledger whatever the iteration order of its map, and a client that walks
  the page tokens reads exactly that projection, with any operations of other clients between
  two pages, as long as the snapshot has not expired.
\<close>

section \<open>Frozen pages\<close>

lemma find_map_key: "find_map (\<lambda>(p, v). if p = a then Some v else None) xs = map_of xs a"
  by (induction xs) auto

lemma find_map_value:
  "find_map (\<lambda>(p, v). if v = a then Some p else None) xs = map_of (map prod.swap xs) a"
  by (induction xs) auto

text \<open>The ordering and the projection of a listing do not depend on the iteration order.\<close>

lemma inj_on_list_key: "distinct (map task_id ts) \<Longrightarrow> inj_on list_key (set ts)"
  unfolding distinct_map by (rule inj_onI) (auto simp: list_key_def dest: inj_onD)

lemma freeze_projection_perm:
  assumes "mset ts = mset us" and "distinct (map task_id ts)"
  shows "freeze_projection ts r = freeze_projection us r"
proof -
  have "mset (filter (list_filter r) ts) = mset (filter (list_filter r) us)"
    using assms(1) by simp
  moreover have "inj_on list_key (set (filter (list_filter r) ts))"
    using inj_on_list_key [OF assms(2)] by (rule inj_on_subset) auto
  ultimately have "sort_key list_key (filter (list_filter r) ts)
      = sort_key list_key (filter (list_filter r) us)"
    by (intro sort_key_inj_key_eq) simp_all
  then show ?thesis by (simp add: freeze_projection_def)
qed

lemma project_task_frame [simp]:
  "task_id (project_task r t) = task_id t"
  "context_id (project_task r t) = context_id t"
  "status (project_task r t) = status t"
  "metadata (project_task r t) = metadata t"
  by (simp_all add: project_task_def Let_def split: option.splits)

lemma list_key_project [simp]: "list_key (project_task r t) = list_key t"
  by (simp add: list_key_def)

lemma list_filter_project [simp]: "list_filter r (project_task r' t) = list_filter r t"
  by (simp add: list_filter_def cong: option.case_cong)

lemma sorted_freeze: "sorted (map list_key (freeze_projection ts r))"
  by (simp add: freeze_projection_def comp_def)

lemma freeze_filter: "t \<in> set (freeze_projection ts r) \<Longrightarrow> list_filter r t"
  by (auto simp: freeze_projection_def)

lemma set_freeze: "set (freeze_projection ts r) = project_task r ` {t \<in> set ts. list_filter r t}"
  by (simp add: freeze_projection_def)

lemma length_freeze_le: "length (freeze_projection ts r) \<le> length ts"
  by (simp add: freeze_projection_def)

lemma mset_ids_freeze:
  "image_mset task_id (mset (freeze_projection ts r))
     = image_mset task_id (filter_mset (list_filter r) (mset ts))"
  by (simp add: freeze_projection_def image_mset.compositionality comp_def)

lemma distinct_freeze:
  assumes "distinct (map task_id ts)"
  shows "distinct (map task_id (freeze_projection ts r))"
proof -
  have "distinct (map task_id (filter (list_filter r) ts))"
    using assms by (induction ts) auto
  moreover have "mset (map task_id (filter (list_filter r) ts))
      = mset (map task_id (freeze_projection ts r))"
    using mset_ids_freeze [of ts r] by simp
  ultimately show ?thesis
    by (metis mset_eq_imp_distinct_iff)
qed

text \<open>A page of a snapshot whose entries decode to \<open>ts\<close>.\<close>

lemma memory_page_eq:
  assumes dec: "list_all2 (\<lambda>t c. env_decode e c = Some t) ts (ms_tasks sn)"
    and len: "length ts \<le> usize_max" and pos: "pos \<le> length ts"
  shows "memory_page e sn pos = Inr
    \<lparr>lt_tasks = take (nat (ms_page_size sn)) (drop pos ts),
     lt_next_page_token =
       (case map_of (ms_tokens sn) (min (pos + nat (ms_page_size sn)) (length ts)) of
          None \<Rightarrow> [] | Some tok \<Rightarrow> tok),
     lt_page_size = ms_page_size sn,
     lt_total_size = i32_of_usize (length ts)\<rparr>"
proof -
  let ?step = "nat (ms_page_size sn)"
  let ?stop = "min (pos + ?step) (length ts)"
  have n: "length (ms_tasks sn) = length ts"
    using dec by (simp add: list_all2_lengthD)
  have stop: "min (sat_add pos ?step) (length (ms_tasks sn)) = ?stop"
    using len by (simp add: n sat_add_def)
  have cut: "take (?stop - pos) (drop pos xs) = take ?step (drop pos xs)"
    if "length xs = length ts" for xs :: "'a list"
    using that pos by (simp add: min_def)
  have "list_all2 (\<lambda>c t. env_decode e c = Some t)
      (take (?stop - pos) (drop pos (ms_tasks sn))) (take ?step (drop pos ts))"
    using dec n cut [of ts] by (auto simp: list_all2_conv_all_nth min_def)
  then have "collect_res (\<lambda>c. ok_or (env_decode e c) (internal ''frozen task snapshot is corrupt''))
      (take (?stop - pos) (drop pos (ms_tasks sn))) = Inr (take ?step (drop pos ts))"
    by (simp add: result_simps)
  then show ?thesis
    unfolding memory_page_def Let_def stop by (simp add: find_map_key n)
qed


section \<open>Walking the pages of a listing\<close>

text \<open>
  A client that reads a listing to its end: each step presents the token of the previous page,
  and between two pages other clients run any operations on the store.
\<close>

fun walk_pages :: "nat \<Rightarrow> (list_env \<times> (list_env \<times> list_tasks_request) ledger_op list) list
    \<Rightarrow> list_tasks_request \<Rightarrow> store_state \<Rightarrow> task list option" where
  "walk_pages mx [] r s = None"
| "walk_pages mx ((e, ops) # rest) r s =
     (case list_tasks e r s of
        (Inl err, s') \<Rightarrow> None
      | (Inr resp, s') \<Rightarrow>
          if lt_next_page_token resp = [] then Some (lt_tasks resp)
          else map_option ((@) (lt_tasks resp))
            (walk_pages mx rest (r\<lparr>lr_page_token := Some (lt_next_page_token resp)\<rparr>)
              (store_run mx ops s')))"

definition clock_below :: "nat \<Rightarrow> (list_env \<times> list_tasks_request) ledger_op \<Rightarrow> bool" where
  "clock_below n x = (case x of Op_observe q \<Rightarrow> env_clock (fst q) < n | _ \<Rightarrow> True)"

definition holds_snapshot :: "memory_snapshot \<Rightarrow> store_state \<Rightarrow> bool" where
  "holds_snapshot sn s \<longleftrightarrow> (\<exists>xs i ys. st_snapshots s = xs @ (i, sn) # ys \<and>
     (\<forall>x \<in> set xs. snd ` set (ms_tokens sn) \<inter> snd ` set (ms_tokens (snd x)) = {}))"

text \<open>The random values of \<open>e\<close> do not repeat one another or what the store already holds.\<close>

definition fresh_env :: "list_env \<Rightarrow> store_state \<Rightarrow> bool" where
  "fresh_env e s \<longleftrightarrow>
     env_snapshot_id e \<notin> fst ` set (st_snapshots s) \<and>
     distinct (map (env_token e) [0..<length (st_tasks s)]) \<and>
     (\<forall>k < length (st_tasks s). env_token e k \<noteq> [] \<and>
        length (env_token e k) \<le> max_page_token_bytes \<and>
        (\<forall>x \<in> set (st_snapshots s). env_token e k \<notin> snd ` set (ms_tokens (snd x))))"

text \<open>Reading back what was frozen (\<open>serde_json::to_vec\<close> then \<open>serde_json::from_slice\<close>).\<close>

definition reads_back :: "list_env \<Rightarrow> list_env \<Rightarrow> bool" where
  "reads_back e e' \<longleftrightarrow> (\<forall>t c. env_encode e t = Some c \<longrightarrow> env_decode e' c = Some t)"

lemma list_tasks_snapshots:
  "\<exists>keep zs. st_snapshots (snd (list_tasks e r s)) = filter keep (st_snapshots s) @ zs \<and>
     (\<forall>x. max (env_clock e) (st_observed_now s) < ms_expires_at (snd x) \<longrightarrow> keep x) \<and>
     st_observed_now (snd (list_tasks e r s)) \<le> max (env_clock e) (st_observed_now s)"
proof (cases "validate_list_request r")
  case (Inl err)
  then show ?thesis
    by (intro exI [of _ "\<lambda>_. True"] exI [of _ "[]"]) (simp add: list_tasks_def)
next
  case (Inr a)
  obtain ps scope where a: "a = (ps, scope)" by (cases a)
  let ?now = "max (env_clock e) (st_observed_now s)"
  let ?s1 = "gc_memory_snapshots (s\<lparr>st_observed_now := ?now\<rparr>) ?now"
  let ?live = "\<lambda>x. ?now < ms_expires_at (snd x)"
  have s1: "st_snapshots ?s1 = filter ?live (st_snapshots s)" "st_observed_now ?s1 = ?now"
    by (simp_all add: gc_memory_snapshots_eq)
  have "\<exists>zs. st_snapshots (snd (list_fresh e ps scope ?now r ?s1)) = st_snapshots ?s1 @ zs \<and>
      st_observed_now (snd (list_fresh e ps scope ?now r ?s1)) = ?now"
    using list_fresh_state [of e ps scope ?now r ?s1, OF surjective_pairing] s1(2) by auto
  then have "\<exists>zs. st_snapshots (snd (list_tasks e r s)) = filter ?live (st_snapshots s) @ zs \<and>
      st_observed_now (snd (list_tasks e r s)) = ?now"
    using Inr a s1 by (auto simp: list_tasks_def Let_def split: option.splits)
  then show ?thesis
    by (intro exI [of _ ?live]) auto
qed

lemma holds_snapshot_list:
  assumes "holds_snapshot sn s" and "max (env_clock e) (st_observed_now s) < ms_expires_at sn"
  shows "holds_snapshot sn (snd (list_tasks e r s))"
proof -
  from assms(1) obtain xs i ys where s: "st_snapshots s = xs @ (i, sn) # ys"
    and apart: "\<forall>x \<in> set xs. snd ` set (ms_tokens sn) \<inter> snd ` set (ms_tokens (snd x)) = {}"
    by (auto simp: holds_snapshot_def)
  obtain keep zs where k: "st_snapshots (snd (list_tasks e r s)) = filter keep (st_snapshots s) @ zs"
    and live: "\<forall>x. max (env_clock e) (st_observed_now s) < ms_expires_at (snd x) \<longrightarrow> keep x"
    using list_tasks_snapshots [of e r s] by auto
  from live assms(2) have "keep (i, sn)" by simp
  with k s have "st_snapshots (snd (list_tasks e r s)) = filter keep xs @ (i, sn) # (filter keep ys @ zs)"
    by simp
  moreover have "\<forall>x \<in> set (filter keep xs).
      snd ` set (ms_tokens sn) \<inter> snd ` set (ms_tokens (snd x)) = {}"
    using apart by simp
  ultimately show ?thesis
    unfolding holds_snapshot_def by blast
qed

lemma list_tasks_observed:
  "st_observed_now (snd (list_tasks e r s)) \<le> max (env_clock e) (st_observed_now s)"
  using list_tasks_snapshots [of e r s] by (elim exE conjE)

lemma holds_snapshot_step:
  assumes "holds_snapshot sn s" and "st_observed_now s < ms_expires_at sn"
    and "clock_below (ms_expires_at sn) x"
  shows "holds_snapshot sn (apply_op (create_task mx) update_task observe_list x s) \<and>
    st_observed_now (apply_op (create_task mx) update_task observe_list x s) < ms_expires_at sn"
proof (cases x)
  case (Op_observe q)
  with assms have "max (env_clock (fst q)) (st_observed_now s) < ms_expires_at sn"
    by (simp add: clock_below_def)
  with Op_observe show ?thesis
    using holds_snapshot_list [OF assms(1)] le_less_trans [OF list_tasks_observed]
    by (simp add: observe_list_def)
qed (use assms in \<open>auto simp: holds_snapshot_def create_task_def update_task_def split: option.splits\<close>)

lemma holds_snapshot_run:
  assumes "holds_snapshot sn s" and "st_observed_now s < ms_expires_at sn"
    and "list_all (clock_below (ms_expires_at sn)) ops"
  shows "holds_snapshot sn (store_run mx ops s) \<and>
    st_observed_now (store_run mx ops s) < ms_expires_at sn"
  using assms by (induction ops arbitrary: s) (simp_all add: holds_snapshot_step)


text \<open>The snapshot \<open>sn\<close> freezes \<open>ts\<close> for the request \<open>r\<close> with the random values of \<open>e\<close>.\<close>

definition freezes :: "list_env \<Rightarrow> list_tasks_request \<Rightarrow> task list \<Rightarrow> memory_snapshot \<Rightarrow> bool" where
  "freezes e r ts sn \<longleftrightarrow>
     validate_list_request r = Inr (ms_page_size sn, ms_scope sn) \<and>
     ms_tokens sn = page_tokens e (nat (ms_page_size sn)) (length ts) \<and>
     list_all2 (\<lambda>t c. env_encode e t = Some c) ts (ms_tasks sn) \<and>
     length ts \<le> usize_max \<and> distinct (map (env_token e) [0..<length ts]) \<and>
     (\<forall>k < length ts. env_token e k \<noteq> [] \<and> length (env_token e k) \<le> max_page_token_bytes)"

lemma freezes_page_size: "freezes e r ts sn \<Longrightarrow> 0 < nat (ms_page_size sn)"
  by (auto simp: freezes_def dest!: validate_list_request_Inr)

lemma page_count_bound: "0 < step \<Longrightarrow> k < (n - 1) div step \<Longrightarrow> Suc k * step < n \<and> k < n"
proof -
  assume "0 < step" and k: "k < (n - 1) div step"
  then have "Suc k * step \<le> (n - 1) div step * step" by (intro mult_le_mono1) simp
  also have "\<dots> \<le> n - 1" by simp
  finally have "Suc k * step \<le> n - 1" .
  moreover have "k < Suc k * step" using \<open>0 < step\<close> by (cases step) simp_all
  ultimately show ?thesis by linarith
qed

lemma page_count_last: "0 < step \<Longrightarrow> (n - 1) div step \<le> k \<Longrightarrow> n \<le> Suc k * step"
proof -
  assume "0 < step" "(n - 1) div step \<le> k"
  then have "n - 1 < Suc k * step"
    by (metis div_less_iff_less_mult less_Suc_eq_le)
  then show ?thesis by simp
qed

lemma map_of_page_tokens:
  assumes "0 < step"
  shows "map_of (page_tokens e step n) p =
    (if p mod step = 0 \<and> 0 < p \<and> p < n then Some (env_token e (p div step - 1)) else None)"
proof (cases "p mod step = 0 \<and> 0 < p \<and> p < n")
  case True
  then obtain k where p: "p = Suc k * step"
    by (metis gr0_implies_Suc mod_0_imp_dvd dvd_div_mult_self mult_eq_0_iff not_gr_zero)
  have "k < (n - 1) div step"
    using page_count_last [OF assms, of n k] True p by linarith
  then have "(p, env_token e k) \<in> set (page_tokens e step n)"
    by (auto simp: page_tokens_def p)
  moreover have "distinct (map fst (page_tokens e step n))"
    using assms by (simp add: fst_page_tokens distinct_map inj_on_def)
  ultimately have "map_of (page_tokens e step n) p = Some (env_token e k)"
    by (simp only: map_of_eq_Some_iff)
  moreover have "p div step - 1 = k"
    using assms by (simp only: p) simp
  ultimately show ?thesis
    using True by simp
next
  case False
  have "p \<notin> fst ` set (page_tokens e step n)"
  proof
    assume "p \<in> fst ` set (page_tokens e step n)"
    then obtain k where "p = Suc k * step" and "k < (n - 1) div step"
      unfolding page_tokens_def by fastforce
    with False page_count_bound [OF assms] assms show False
      by (metis mod_mult_self2_is_0 mult_pos_pos zero_less_Suc)
  qed
  then have "map_of (page_tokens e step n) p = None"
    by (simp only: map_of_eq_None_iff not_False_eq_True)
  with False show ?thesis by simp
qed

lemma token_position:
  assumes "0 < step" and "distinct (map (env_token e) [0..<n])" and "k < (n - 1) div step"
  shows "find_map (\<lambda>(p, v). if v = env_token e k then Some p else None) (page_tokens e step n)
    = Some (Suc k * step)"
proof -
  let ?m = "(n - 1) div step"
  have "{0..<?m} \<subseteq> {0..<n}"
    using le_trans [OF div_le_dividend [of "n - 1" step] diff_le_self] by simp
  with assms(2) have "inj_on (env_token e) {0..<?m}"
    by (simp add: distinct_map inj_on_subset)
  then have "distinct (map fst (map prod.swap (page_tokens e step n)))"
    by (simp add: page_tokens_def distinct_map comp_def)
  moreover have "(env_token e k, Suc k * step) \<in> set (map prod.swap (page_tokens e step n))"
    using assms(3) by (auto simp: page_tokens_def simp del: mult_Suc)
  ultimately show ?thesis
    by (simp only: find_map_value map_of_eq_Some_iff)
qed

lemma find_snapshot_holds:
  assumes "holds_snapshot sn s" and "find_map f (ms_tokens sn) = Some p"
    and tok: "\<And>q v. f (q, v) \<noteq> None \<Longrightarrow> v = tok"
  shows "find_map (\<lambda>(i, x). map_option (\<lambda>p. (x, p)) (find_map f (ms_tokens x))) (st_snapshots s)
    = Some (sn, p)"
proof -
  from assms(1) obtain xs i ys where s: "st_snapshots s = xs @ (i, sn) # ys"
    and apart: "\<forall>x \<in> set xs. snd ` set (ms_tokens sn) \<inter> snd ` set (ms_tokens (snd x)) = {}"
    by (auto simp: holds_snapshot_def)
  have mem: "tok \<in> snd ` set (ms_tokens x)" if "find_map f (ms_tokens x) = Some q" for x q
    using find_map_SomeD [OF that] tok by force
  have "find_map f (ms_tokens (snd x)) = None" if "x \<in> set xs" for x
  proof (cases "find_map f (ms_tokens (snd x))")
    case (Some q)
    from mem [OF this] mem [OF assms(2)] apart that show ?thesis by blast
  qed
  then have "\<forall>x \<in> set xs. find_map f (ms_tokens (snd x)) = None" by blast
  then have "find_map (\<lambda>(i, x). map_option (\<lambda>p. (x, p)) (find_map f (ms_tokens x)))
      (xs @ (i, sn) # ys) = Some (sn, p)"
    using assms(2) by (induction xs) auto
  then show ?thesis by (simp only: s)
qed

lemma list_by_token_page:
  assumes fr: "freezes e r ts sn" and h: "holds_snapshot sn s" and "now < ms_expires_at sn"
    and k: "k < (length ts - 1) div nat (ms_page_size sn)"
  shows "list_by_token e' (ms_scope sn) now (env_token e k) s
    = memory_page e' sn (Suc k * nat (ms_page_size sn))"
proof -
  let ?step = "nat (ms_page_size sn)"
  have step: "0 < ?step" by (rule freezes_page_size [OF fr])
  have tokens: "ms_tokens sn = page_tokens e ?step (length ts)"
    and distinct: "distinct (map (env_token e) [0..<length ts])"
    and n: "length (ms_tasks sn) = length ts"
    using fr by (auto simp: freezes_def list_all2_lengthD)
  have pos: "Suc k * ?step < length ts" and kn: "k < length ts"
    using page_count_bound [OF step k] by auto
  have "\<not> max_page_token_bytes < length (env_token e k)"
    using fr kn by (simp add: freezes_def not_less)
  moreover have "find_map (\<lambda>(i, x). map_option (\<lambda>p. (x, p))
      (find_map (\<lambda>(p, v). if v = env_token e k then Some p else None) (ms_tokens x))) (st_snapshots s)
      = Some (sn, Suc k * ?step)"
    using token_position [OF step distinct k]
    by (intro find_snapshot_holds [OF h, where tok = "env_token e k"])
      (auto simp: tokens split: if_splits)
  moreover have "0 < Suc k * ?step" "Suc k * ?step mod ?step = 0"
    using step by simp_all
  ultimately show ?thesis
    using assms(3) pos by (simp add: list_by_token_def n del: mult_Suc)
qed

lemma memory_page_frozen:
  assumes fr: "freezes e r ts sn" and rb: "reads_back e e'" and k: "k * nat (ms_page_size sn) \<le> length ts"
  shows "\<exists>resp. memory_page e' sn (k * nat (ms_page_size sn)) = Inr resp \<and>
    lt_tasks resp = take (nat (ms_page_size sn)) (drop (k * nat (ms_page_size sn)) ts) \<and>
    lt_next_page_token resp =
      (if k < (length ts - 1) div nat (ms_page_size sn) then env_token e k else [])"
proof -
  let ?step = "nat (ms_page_size sn)"
  have step: "0 < ?step" by (rule freezes_page_size [OF fr])
  have dec: "list_all2 (\<lambda>t c. env_decode e' c = Some t) ts (ms_tasks sn)"
    using fr rb by (auto simp: freezes_def reads_back_def elim: list_all2_mono)
  have tokens: "ms_tokens sn = page_tokens e ?step (length ts)" and len: "length ts \<le> usize_max"
    using fr by (auto simp: freezes_def)
  have "(case map_of (ms_tokens sn) (min (k * ?step + ?step) (length ts)) of None \<Rightarrow> [] | Some tok \<Rightarrow> tok)
      = (if k < (length ts - 1) div ?step then env_token e k else [])"
  proof (cases "k < (length ts - 1) div ?step")
    case True
    then have "min (k * ?step + ?step) (length ts) = Suc k * ?step" and "Suc k * ?step < length ts"
      using page_count_bound [OF step True] by (simp_all add: add.commute)
    moreover have "0 < Suc k * ?step" "Suc k * ?step mod ?step = 0" "Suc k * ?step div ?step - 1 = k"
      using step by simp_all
    ultimately show ?thesis
      using True by (simp only: tokens map_of_page_tokens [OF step]) simp
  next
    case False
    then have "min (k * ?step + ?step) (length ts) = length ts"
      using page_count_last [OF step, of "length ts" k] by simp
    with False show ?thesis
      by (simp only: tokens map_of_page_tokens [OF step]) simp
  qed
  with memory_page_eq [OF dec len k] show ?thesis by simp
qed

lemma validate_list_request_token [simp]:
  "validate_list_request (r\<lparr>lr_page_token := tok\<rparr>) = validate_list_request r"
  by (simp add: validate_list_request_def from_request_def Let_def)

lemma list_tasks_token:
  assumes fr: "freezes e r ts sn" and h: "holds_snapshot sn s"
    and clock: "max (env_clock e') (st_observed_now s) < ms_expires_at sn"
    and k: "k < (length ts - 1) div nat (ms_page_size sn)"
  shows "fst (list_tasks e' (r\<lparr>lr_page_token := Some (env_token e k)\<rparr>) s)
    = memory_page e' sn (Suc k * nat (ms_page_size sn))"
proof -
  let ?r = "r\<lparr>lr_page_token := Some (env_token e k)\<rparr>"
  let ?now = "max (env_clock e') (st_observed_now s)"
  let ?s1 = "gc_memory_snapshots (s\<lparr>st_observed_now := ?now\<rparr>) ?now"
  have v: "validate_list_request r = Inr (ms_page_size sn, ms_scope sn)"
    using fr by (simp add: freezes_def)
  then have eq: "list_tasks e' ?r s = (list_by_token e' (ms_scope sn) ?now (env_token e k) ?s1, ?s1)"
    by (simp add: list_tasks_def Let_def)
  with holds_snapshot_list [OF h clock, of ?r] have "holds_snapshot sn ?s1" by simp
  from list_by_token_page [OF fr this clock k] eq show ?thesis by simp
qed

definition page_env :: "list_env \<Rightarrow> nat
    \<Rightarrow> list_env \<times> (list_env \<times> list_tasks_request) ledger_op list \<Rightarrow> bool" where
  "page_env e exp p \<longleftrightarrow> reads_back e (fst p) \<and> env_clock (fst p) < exp \<and> list_all (clock_below exp) (snd p)"

lemma take_drop_page: "take n (drop m xs) @ drop (n + m) xs = drop m xs"
  by (metis append_take_drop_id drop_drop)

lemma walk_pages_from:
  assumes fr: "freezes e r ts sn" and "holds_snapshot sn s" and "st_observed_now s < ms_expires_at sn"
    and "list_all (page_env e (ms_expires_at sn)) pages"
    and "k < (length ts - 1) div nat (ms_page_size sn)"
    and "(length ts - 1) div nat (ms_page_size sn) - k \<le> length pages"
  shows "walk_pages mx pages (r\<lparr>lr_page_token := Some (env_token e k)\<rparr>) s
    = Some (drop (Suc k * nat (ms_page_size sn)) ts)"
  using assms(2-)
proof (induction pages arbitrary: k s)
  case Nil
  then show ?case by simp
next
  case (Cons p pages)
  let ?step = "nat (ms_page_size sn)"
  let ?r = "r\<lparr>lr_page_token := Some (env_token e k)\<rparr>"
  obtain e' ops where p: "p = (e', ops)" by (cases p)
  have step: "0 < ?step" by (rule freezes_page_size [OF fr])
  have pos: "Suc k * ?step < length ts" using page_count_bound [OF step Cons.prems(4)] by simp
  have env: "reads_back e e'" "env_clock e' < ms_expires_at sn"
      "list_all (clock_below (ms_expires_at sn)) ops"
    using Cons.prems(3) by (simp_all add: p page_env_def)
  have clock: "max (env_clock e') (st_observed_now s) < ms_expires_at sn"
    using env Cons.prems(2) by simp
  obtain resp where resp: "fst (list_tasks e' ?r s) = Inr resp"
    and ts: "lt_tasks resp = take ?step (drop (Suc k * ?step) ts)"
    and nxt: "lt_next_page_token resp =
      (if Suc k < (length ts - 1) div ?step then env_token e (Suc k) else [])"
    using memory_page_frozen [OF fr env(1), of "Suc k"] pos
      list_tasks_token [OF fr Cons.prems(1) clock Cons.prems(4)]
    by (auto simp del: mult_Suc)
  obtain s' where l: "list_tasks e' ?r s = (Inr resp, s')"
    using resp by (cases "list_tasks e' ?r s") simp
  have s': "holds_snapshot sn s'" "st_observed_now s' < ms_expires_at sn"
    using holds_snapshot_list [OF Cons.prems(1) clock, of ?r]
      le_less_trans [OF list_tasks_observed [of e' ?r s] clock] by (simp_all add: l)
  show ?case
  proof (cases "Suc k < (length ts - 1) div ?step")
    case True
    have "env_token e (Suc k) \<noteq> []"
      using fr page_count_bound [OF step True] by (auto simp: freezes_def)
    moreover from holds_snapshot_run [OF s' env(3), of mx]
    have "walk_pages mx pages (r\<lparr>lr_page_token := Some (env_token e (Suc k))\<rparr>) (store_run mx ops s')
        = Some (drop (Suc (Suc k) * ?step) ts)"
      using Cons.prems True by (intro Cons.IH) auto
    ultimately show ?thesis
      using True take_drop_page [of ?step "Suc k * ?step" ts] by (simp add: p l nxt ts)
  next
    case False
    then have "length ts \<le> Suc (Suc k) * ?step"
      using page_count_last [OF step, of "length ts" "Suc k"] by simp
    with False show ?thesis by (simp add: p l nxt ts)
  qed
qed

text \<open>The first page of a listing that no live snapshot serves.\<close>

lemma list_tasks_first:
  assumes v: "validate_list_request r = Inr (ps, scope)" and tok: "lr_page_token r = None"
    and new: "\<forall>x \<in> set (st_snapshots s). ms_scope (snd x) \<noteq> scope"
    and now: "now = max (env_clock e) (st_observed_now s)"
  shows "\<exists>s1. list_tasks e r s = list_fresh e ps scope now r s1 \<and> st_tasks s1 = st_tasks s \<and>
    st_observed_now s1 = now \<and> set (st_snapshots s1) \<subseteq> set (st_snapshots s)"
proof -
  let ?s1 = "gc_memory_snapshots (s\<lparr>st_observed_now := now\<rparr>) now"
  have sub: "set (st_snapshots ?s1) \<subseteq> set (st_snapshots s)"
    by (auto simp: gc_memory_snapshots_eq)
  have "reusable_snapshot ?s1 scope now = None"
    using sub new by (auto simp: reusable_snapshot_def find_None_iff)
  with v tok now have "list_tasks e r s = list_fresh e ps scope now r ?s1"
    by (simp add: list_tasks_def Let_def)
  with sub show ?thesis
    by (intro exI [of _ ?s1]) (simp add: gc_memory_snapshots_eq)
qed

lemma list_fresh_long:
  assumes "list_fresh e ps scope now r s = (Inr resp, s')"
    and "nat ps < length (freeze_projection (map snd (st_tasks s)) r)"
    and "env_snapshot_id e \<notin> fst ` set (st_snapshots s)"
  shows "\<exists>frozen b. list_all2 (\<lambda>t c. env_encode e t = Some c)
      (freeze_projection (map snd (st_tasks s)) r) frozen \<and>
    s' = push_snapshot (env_snapshot_id e) (new_snapshot ps scope (now + snapshot_ttl_millis) frozen
           (page_tokens e (nat ps) (length frozen)) b) s \<and>
    memory_page e (new_snapshot ps scope (now + snapshot_ttl_millis) frozen
           (page_tokens e (nat ps) (length frozen)) b) 0 = Inr resp"
proof -
  have "find_map (\<lambda>(i, x). if i = env_snapshot_id e then Some x else None)
      (st_snapshots s @ [(env_snapshot_id e, sn)]) = Some sn" for sn
    using assms(3) by (simp add: find_map_key map_add_Some_iff map_of_eq_None_iff)
  with assms(1,2) show ?thesis
    by (auto simp: list_fresh_def Let_def result_simps list_all2_lengthD
        split: if_splits sum.splits option.splits)
qed

lemma freezes_new_snapshot:
  assumes "validate_list_request r = Inr (ps, scope)"
    and "list_all2 (\<lambda>t c. env_encode e t = Some c) ts frozen"
    and "length ts \<le> length (st_tasks s)" and "length (st_tasks s) \<le> usize_max" and "fresh_env e s"
  shows "freezes e r ts (new_snapshot ps scope exp frozen (page_tokens e (nat ps) (length frozen)) b)"
proof -
  have "{0..<length ts} \<subseteq> {0..<length (st_tasks s)}" using assms(3) by simp
  with assms(5) have "inj_on (env_token e) {0..<length ts}"
    by (auto simp: fresh_env_def distinct_map intro: inj_on_subset)
  with assms show ?thesis
    by (auto simp: freezes_def fresh_env_def distinct_map list_all2_lengthD)
qed

lemma holds_push_snapshot:
  assumes "fresh_env e s" and "set (st_snapshots s1) \<subseteq> set (st_snapshots s)"
    and "st_tasks s1 = st_tasks s" and "freezes e r ts sn" and "length ts \<le> length (st_tasks s)"
  shows "holds_snapshot sn (push_snapshot i sn s1)"
proof -
  have tok: "\<exists>k < length (st_tasks s). c = env_token e k" if "c \<in> snd ` set (ms_tokens sn)" for c
  proof -
    from that assms(4) obtain k where k: "k < (length ts - 1) div nat (ms_page_size sn)"
      and c: "c = env_token e k"
      by (auto simp: freezes_def page_tokens_def)
    have "k < length (st_tasks s)"
      using page_count_bound [OF freezes_page_size [OF assms(4)] k] assms(5) by simp
    with c show ?thesis by blast
  qed
  have "snd ` set (ms_tokens sn) \<inter> snd ` set (ms_tokens (snd x)) = {}"
    if "x \<in> set (st_snapshots s1)" for x
  proof -
    from that assms(2) have "x \<in> set (st_snapshots s)" by blast
    with assms(1) have "c \<notin> snd ` set (ms_tokens (snd x))" if "c \<in> snd ` set (ms_tokens sn)" for c
      using tok [OF that] unfolding fresh_env_def by (elim exE conjE) simp
    then show ?thesis by blast
  qed
  then show ?thesis
    unfolding holds_snapshot_def
    by (intro exI [of _ "st_snapshots s1"] exI [of _ i] exI [of _ "[]"]) simp
qed

lemma list_fresh_freezes:
  assumes f: "list_fresh e ps scope now r s1 = (Inr resp, s')"
    and s1: "st_tasks s1 = st_tasks s" "set (st_snapshots s1) \<subseteq> set (st_snapshots s)"
    and long: "nat ps < length (freeze_projection (map snd (st_tasks s)) r)"
    and v: "validate_list_request r = Inr (ps, scope)" and fresh: "fresh_env e s"
    and len: "length (st_tasks s) \<le> usize_max"
  shows "\<exists>sn. freezes e r (freeze_projection (map snd (st_tasks s)) r) sn \<and> holds_snapshot sn s' \<and>
    ms_expires_at sn = now + snapshot_ttl_millis \<and> ms_page_size sn = ps \<and>
    st_observed_now s' = st_observed_now s1 \<and> memory_page e sn 0 = Inr resp"
proof -
  let ?ts = "freeze_projection (map snd (st_tasks s)) r"
  have "env_snapshot_id e \<notin> fst ` set (st_snapshots s1)"
    using fresh s1(2) unfolding fresh_env_def by blast
  from list_fresh_long [OF f _ this] long obtain frozen b sn where
    enc: "list_all2 (\<lambda>t c. env_encode e t = Some c) ?ts frozen"
    and sn: "sn = new_snapshot ps scope (now + snapshot_ttl_millis) frozen
         (page_tokens e (nat ps) (length frozen)) b"
    and s': "s' = push_snapshot (env_snapshot_id e) sn s1" and page: "memory_page e sn 0 = Inr resp"
    by (auto simp: s1)
  have le: "length ?ts \<le> length (st_tasks s)"
    using length_freeze_le [of "map snd (st_tasks s)" r] by simp
  have fr: "freezes e r ?ts sn"
    unfolding sn by (rule freezes_new_snapshot [OF v enc le len fresh])
  moreover have "holds_snapshot sn s'"
    unfolding s' by (rule holds_push_snapshot [OF fresh s1(2,1) fr le])
  ultimately show ?thesis
    using page by (intro exI [of _ sn]) (simp add: s' sn)
qed

lemma page_count_le: "0 < step \<Longrightarrow> n \<le> step * Suc m \<Longrightarrow> (n - 1) div step \<le> m"
proof -
  assume "0 < step" and "n \<le> step * Suc m"
  moreover from this have "n - 1 < Suc m * step" by (simp add: mult.commute)
  ultimately show ?thesis by (metis div_less_iff_less_mult less_Suc_eq_le)
qed

section \<open>Properties\<close>

text \<open>
  The order in which the ledger's hash map yields its tasks does not show in a listing: for
  two iteration orders of the same tasks the frozen projections are equal, sorted by descending
  timestamp and then by identifier, without repetition, and hold exactly the tasks that pass the
  request's filter.
\<close>

theorem listing_canonical:
  assumes "mset ts = mset us" and "distinct (map task_id ts)"
  shows "freeze_projection ts r = freeze_projection us r \<and>
    sorted (map list_key (freeze_projection ts r)) \<and>
    distinct (map task_id (freeze_projection ts r)) \<and>
    set (freeze_projection ts r) = project_task r ` {t \<in> set ts. list_filter r t}"
  by (intro conjI freeze_projection_perm [OF assms] sorted_freeze distinct_freeze [OF assms(2)]
      set_freeze)



section \<open>Witnesses\<close>

definition sample_list_request :: list_tasks_request where
  "sample_list_request =
     \<lparr>lr_context_id = None, lr_status = None, lr_page_size = Some 1, lr_page_token = None,
      lr_history_length = None, lr_status_timestamp_after = None, lr_include_artifacts = None,
      lr_tenant = None\<rparr>"

definition sample_codec :: "task \<Rightarrow> string option" where
  "sample_codec t =
     (if t = sample_task ''a'' Working 1 then Some ''A''
      else if t = sample_task ''b'' Submitted 2 then Some ''B'' else None)"

definition sample_decode :: "string \<Rightarrow> task option" where
  "sample_decode c =
     (if c = ''A'' then Some (sample_task ''a'' Working 1)
      else if c = ''B'' then Some (sample_task ''b'' Submitted 2) else None)"

definition sample_env :: "nat \<Rightarrow> list_env" where
  "sample_env clock =
     \<lparr>env_clock = clock, env_encode = sample_codec, env_decode = sample_decode,
      env_token = (\<lambda>k. if k = 0 then ''t0'' else ''t1''), env_snapshot_id = [7],
      env_string_capacity = length, env_vec_capacity = (\<lambda>n. n), env_registry_slot = 200,
      env_vec_slot = 24, env_token_slot = 32\<rparr>"

definition sample_store :: store_state where
  "sample_store =
     \<lparr>st_tasks = [(''a'', sample_task ''a'' Working 1), (''b'', sample_task ''b'' Submitted 2)],
      st_snapshots = [], st_snapshot_bytes = 100, st_observed_now = 0\<rparr>"

lemmas sample_defs = sample_task_def sample_list_request_def sample_codec_def sample_decode_def
  sample_env_def sample_store_def

theorem listing_canonical_witness:
  "freeze_projection [sample_task ''a'' Working 1, sample_task ''b'' Submitted 2] sample_list_request
     = freeze_projection [sample_task ''b'' Submitted 2, sample_task ''a'' Working 1] sample_list_request"
  using listing_canonical [of "[sample_task ''a'' Working 1, sample_task ''b'' Submitted 2]"
      "[sample_task ''b'' Submitted 2, sample_task ''a'' Working 1]" sample_list_request]
  by (simp add: sample_defs)

lemmas list_eval = conservative_snapshot_bytes_def allocation_overhead_bytes_def add_or_capacity_def
  mul_or_capacity_def checked_add_def checked_mul_def usize_max_def max_active_snapshots_def
  max_snapshot_bytes_def snapshot_ttl_millis_def memory_page_def sat_add_def push_snapshot_def
  new_snapshot_def max_page_token_bytes_def

lemma sample_reads_back: "reads_back (sample_env c) (sample_env d)"
  by (auto simp: reads_back_def sample_env_def sample_codec_def sample_decode_def split: if_splits)


end
