(* ===== verification/Completion_Policy.thy ===== *)
theory Completion_Policy
  imports A2A_Types "HOL-Library.Multiset"
begin

text \<open>
  The completion policy \<^verbatim>\<open>src/policy.rs\<close>: the evidence records, the validated policy
  profile, the fail-closed evaluation of a completion snapshot, and the sealed checkpoints and
  receipts it produces.

  \<^item> \<open>u16\<close>, \<open>u32\<close> and \<open>usize\<close> counts are \<open>nat\<close>: the code only compares them and sums four
    16-bit counts in 32 bits, which cannot wrap.
  \<^item> SHA-256, HMAC-SHA-256, \<open>serde_json::to_vec\<close> and \<open>Attestation::verify\<close> are code of other
    packages: the record \<open>policy_env\<close> passes them as parameters. The JSON value that
    \<open>derive(Serialize)\<close> writes for each structure is spelled out by the \<open>_json\<close> functions, with
    the members in declaration order and the camel-case names.
  \<^item> \<open>BTreeSet\<close> is a HOL set; the reasons of a block are read in the order of the enumeration.
  \<^item> \<open>evaluate\<close> is one Rust function; here each of its phases is a definition and \<open>evaluate\<close>
    composes them in the order of the code.
\<close>

section \<open>Data\<close>

record artifact_manifest =
  am_name :: string
  am_media_type :: string
  am_digest :: string

record closed_attestation =
  ca_node_id :: string
  ca_public_key :: string
  ca_signature :: string

record ratification_statement =
  rs_policy_hash :: string
  rs_evidence_snapshot_hash :: string
  rs_artifact_set_digest :: string
  rs_approved :: bool

record ratification_receipt =
  rr_statement :: ratification_statement
  rr_authority :: closed_attestation

datatype completion_evidence =
    Review string string string "byte list" string bool nat
      \<comment> \<open>id, issuer, subject digest, evidence, evidence digest, approved, assurance\<close>
  | Test string string string "byte list" string bool nat
      \<comment> \<open>id, issuer, subject digest, evidence, evidence digest, passed, assurance\<close>
  | Attestation string string closed_attestation nat
      \<comment> \<open>id, subject digest, attestation, assurance\<close>
  | Contradiction string string string "byte list" string bool
      \<comment> \<open>id, issuer, subject digest, evidence, evidence digest, blocking\<close>
  | Ratification ratification_receipt

fun evidence_id :: "completion_evidence \<Rightarrow> string option" where
  "evidence_id (Review i _ _ _ _ _ _) = Some i"
| "evidence_id (Test i _ _ _ _ _ _) = Some i"
| "evidence_id (Attestation i _ _ _) = Some i"
| "evidence_id (Contradiction i _ _ _ _ _) = Some i"
| "evidence_id (Ratification _) = None"

fun subject_digest :: "completion_evidence \<Rightarrow> string option" where
  "subject_digest (Review _ _ d _ _ _ _) = Some d"
| "subject_digest (Test _ _ d _ _ _ _) = Some d"
| "subject_digest (Attestation _ d _ _) = Some d"
| "subject_digest (Contradiction _ _ d _ _ _) = Some d"
| "subject_digest (Ratification _) = None"

fun assurance_bps :: "completion_evidence \<Rightarrow> nat option" where
  "assurance_bps (Review _ _ _ _ _ _ a) = Some a"
| "assurance_bps (Test _ _ _ _ _ _ a) = Some a"
| "assurance_bps (Attestation _ _ _ a) = Some a"
| "assurance_bps (Contradiction _ _ _ _ _ _) = None"
| "assurance_bps (Ratification _) = None"

fun provenance_identity :: "completion_evidence \<Rightarrow> string option" where
  "provenance_identity (Review _ _ _ _ d _ _) = Some d"
| "provenance_identity (Test _ _ _ _ d _ _) = Some d"
| "provenance_identity (Contradiction _ _ _ _ d _) = Some d"
| "provenance_identity (Attestation _ _ a _) =
     Some (''attestation:'' @ ca_node_id a @ '':'' @ ca_public_key a @ '':'' @ ca_signature a)"
| "provenance_identity (Ratification _) = None"

record completion_snapshot =
  sn_task_id :: string
  sn_context_id :: string
  sn_request_digest :: string
  sn_artifacts :: "artifact_manifest list"
  sn_evidence :: "completion_evidence list"

record trusted_authority =
  ta_node_id :: string
  ta_public_key :: string

record completion_policy_spec =
  policy_id :: string
  version :: nat
  required_reviews :: nat
  required_tests :: nat
  required_attestations :: nat
  required_contradiction_clearances :: nat
  min_assurance_bps :: nat
  require_human_ratification :: bool
  review_issuers :: "string list"
  test_issuers :: "string list"
  contradiction_issuers :: "string list"
  attestation_authorities :: "trusted_authority list"
  ratification_authorities :: "trusted_authority list"
  max_evidence_records :: nat
  max_artifacts :: nat

definition development :: completion_policy_spec where
  "development =
     \<lparr>policy_id = ''smesh-completion/v1'', version = 1, required_reviews = 1, required_tests = 1,
      required_attestations = 0, required_contradiction_clearances = 1, min_assurance_bps = 7500,
      require_human_ratification = False, review_issuers = [''review-authority''],
      test_issuers = [''test-authority''], contradiction_issuers = [''contradiction-monitor''],
      attestation_authorities = [], ratification_authorities = [], max_evidence_records = 32,
      max_artifacts = 16\<rparr>"

record policy_checkpoint =
  cp_task_id :: string
  cp_context_id :: string
  cp_request_digest :: string
  cp_policy_id :: string
  cp_policy_version :: nat
  cp_policy_hash :: string
  cp_evidence_snapshot_hash :: string
  cp_artifact_set_digest :: string
  cp_evidence_hashes :: "string list"
  cp_assurance_bps :: nat
  cp_seal :: string

datatype policy_block_reason =
    BlockingContradiction | FailedReview | FailedTest | InsufficientReviews | InsufficientTests
  | InsufficientAttestations | InsufficientContradictionClearances | InsufficientAssurance
  | HumanRejected

record policy_block =
  pb_checkpoint :: policy_checkpoint
  pb_reasons :: "policy_block_reason list"

record completion_receipt =
  cr_task_id :: string
  cr_context_id :: string
  cr_request_digest :: string
  cr_policy_id :: string
  cr_policy_version :: nat
  cr_policy_hash :: string
  cr_evidence_snapshot_hash :: string
  cr_artifact_set_digest :: string
  cr_evidence_hashes :: "string list"
  cr_assurance_bps :: nat
  cr_ratification_receipt_hash :: "string option"
  cr_seal :: string

datatype policy_decision =
    Accepted completion_receipt | AwaitingRatification policy_checkpoint | Blocked policy_block

datatype policy_error =
    InvalidPolicy string | MissingArtifact | ArtifactLimitExceeded nat nat
  | EvidenceLimitExceeded nat nat | InvalidDigest string string | EvidencePayloadTooLarge nat
  | EvidenceDigestMismatch | DuplicateEvidenceId string | DuplicateEvidenceProvenance string
  | DuplicateArtifactDigest string | SubjectDigestMismatch string string | InvalidAssurance nat
  | InvalidAttestation string | UntrustedEvidenceIssuer string string | MultipleRatifications
  | UnexpectedRatification | RatificationStatementMismatch | UntrustedRatificationAuthority
  | InvalidRatificationSignature | InvalidReceiptSeal | CanonicalEncoding string
  | InvalidText string nat

record versioned_completion_policy =
  vp_spec :: completion_policy_spec
  vp_policy_hash :: string
  vp_receipt_key :: "byte list"

record policy_env =
  sha256 :: "byte list \<Rightarrow> byte list"
  hmac_sha256 :: "byte list \<Rightarrow> byte list \<Rightarrow> byte list"
  json_to_vec :: "json \<Rightarrow> string + byte list"
  verify_attestation :: "closed_attestation \<Rightarrow> string \<Rightarrow> bool"

text \<open>The order of the block reasons is the order of the enumeration (\<open>derive(Ord)\<close>).\<close>

fun reason_rank :: "policy_block_reason \<Rightarrow> nat" where
  "reason_rank BlockingContradiction = 0"
| "reason_rank FailedReview = 1"
| "reason_rank FailedTest = 2"
| "reason_rank InsufficientReviews = 3"
| "reason_rank InsufficientTests = 4"
| "reason_rank InsufficientAttestations = 5"
| "reason_rank InsufficientContradictionClearances = 6"
| "reason_rank InsufficientAssurance = 7"
| "reason_rank HumanRejected = 8"

instantiation policy_block_reason :: linorder
begin

definition less_eq_policy_block_reason :: "policy_block_reason \<Rightarrow> policy_block_reason \<Rightarrow> bool" where
  "less_eq_policy_block_reason a b \<longleftrightarrow> reason_rank a \<le> reason_rank b"

definition less_policy_block_reason :: "policy_block_reason \<Rightarrow> policy_block_reason \<Rightarrow> bool" where
  "less_policy_block_reason a b \<longleftrightarrow> reason_rank a < reason_rank b"

instance
proof
  fix a b :: policy_block_reason
  show "a \<le> b \<Longrightarrow> b \<le> a \<Longrightarrow> a = b"
    by (cases a; cases b) (simp_all add: less_eq_policy_block_reason_def)
qed (auto simp: less_eq_policy_block_reason_def less_policy_block_reason_def)

end

section \<open>Serialized form\<close>

definition json_nat :: "nat \<Rightarrow> json" where
  "json_nat n = JNumber (show_nat n)"

definition json_strings :: "string list \<Rightarrow> json" where
  "json_strings xs = JArray (map JString xs)"

definition json_bytes :: "byte list \<Rightarrow> json" where
  "json_bytes bs = JArray (map (\<lambda>b. json_nat (unat b)) bs)"

definition manifest_json :: "artifact_manifest \<Rightarrow> json" where
  "manifest_json a = JObject [(''name'', JString (am_name a)),
     (''mediaType'', JString (am_media_type a)), (''digest'', JString (am_digest a))]"

definition attestation_json :: "closed_attestation \<Rightarrow> json" where
  "attestation_json a = JObject [(''nodeId'', JString (ca_node_id a)),
     (''publicKey'', JString (ca_public_key a)), (''signature'', JString (ca_signature a))]"

definition statement_json :: "ratification_statement \<Rightarrow> json" where
  "statement_json s = JObject [(''policyHash'', JString (rs_policy_hash s)),
     (''evidenceSnapshotHash'', JString (rs_evidence_snapshot_hash s)),
     (''artifactSetDigest'', JString (rs_artifact_set_digest s)),
     (''approved'', JBool (rs_approved s))]"

definition ratification_json :: "ratification_receipt \<Rightarrow> json" where
  "ratification_json r = JObject [(''statement'', statement_json (rr_statement r)),
     (''authority'', attestation_json (rr_authority r))]"

fun evidence_json :: "completion_evidence \<Rightarrow> json" where
  "evidence_json (Review i iss sub ev d ok a) = JObject [(''kind'', JString ''review''),
     (''id'', JString i), (''issuer'', JString iss), (''subject_digest'', JString sub),
     (''evidence'', json_bytes ev), (''evidence_digest'', JString d), (''approved'', JBool ok),
     (''assurance_bps'', json_nat a)]"
| "evidence_json (Test i iss sub ev d ok a) = JObject [(''kind'', JString ''test''),
     (''id'', JString i), (''issuer'', JString iss), (''subject_digest'', JString sub),
     (''evidence'', json_bytes ev), (''evidence_digest'', JString d), (''passed'', JBool ok),
     (''assurance_bps'', json_nat a)]"
| "evidence_json (Attestation i sub att a) = JObject [(''kind'', JString ''attestation''),
     (''id'', JString i), (''subject_digest'', JString sub), (''attestation'', attestation_json att),
     (''assurance_bps'', json_nat a)]"
| "evidence_json (Contradiction i iss sub ev d b) = JObject [(''kind'', JString ''contradiction''),
     (''id'', JString i), (''issuer'', JString iss), (''subject_digest'', JString sub),
     (''evidence'', json_bytes ev), (''evidence_digest'', JString d), (''blocking'', JBool b)]"
| "evidence_json (Ratification r) = JObject [(''kind'', JString ''ratification''),
     (''statement'', statement_json (rr_statement r)),
     (''authority'', attestation_json (rr_authority r))]"

definition authority_json :: "trusted_authority \<Rightarrow> json" where
  "authority_json a = JObject [(''nodeId'', JString (ta_node_id a)),
     (''publicKey'', JString (ta_public_key a))]"

definition spec_json :: "completion_policy_spec \<Rightarrow> json" where
  "spec_json s = JObject [(''policyId'', JString (policy_id s)), (''version'', json_nat (version s)),
     (''requiredReviews'', json_nat (required_reviews s)),
     (''requiredTests'', json_nat (required_tests s)),
     (''requiredAttestations'', json_nat (required_attestations s)),
     (''requiredContradictionClearances'', json_nat (required_contradiction_clearances s)),
     (''minAssuranceBps'', json_nat (min_assurance_bps s)),
     (''requireHumanRatification'', JBool (require_human_ratification s)),
     (''reviewIssuers'', json_strings (review_issuers s)),
     (''testIssuers'', json_strings (test_issuers s)),
     (''contradictionIssuers'', json_strings (contradiction_issuers s)),
     (''attestationAuthorities'', JArray (map authority_json (attestation_authorities s))),
     (''ratificationAuthorities'', JArray (map authority_json (ratification_authorities s))),
     (''maxEvidenceRecords'', json_nat (max_evidence_records s)),
     (''maxArtifacts'', json_nat (max_artifacts s))]"

definition normalized_json ::
    "string \<Rightarrow> string \<Rightarrow> string \<Rightarrow> artifact_manifest list \<Rightarrow> completion_evidence list \<Rightarrow> json" where
  "normalized_json tid cid rd arts evs = JObject [(''taskId'', JString tid), (''contextId'', JString cid),
     (''requestDigest'', JString rd), (''artifacts'', JArray (map manifest_json arts)),
     (''evidence'', JArray (map evidence_json evs))]"

definition checkpoint_claims :: "policy_checkpoint \<Rightarrow> json" where
  "checkpoint_claims c = JObject [(''taskId'', JString (cp_task_id c)),
     (''contextId'', JString (cp_context_id c)), (''requestDigest'', JString (cp_request_digest c)),
     (''policyId'', JString (cp_policy_id c)), (''policyVersion'', json_nat (cp_policy_version c)),
     (''policyHash'', JString (cp_policy_hash c)),
     (''evidenceSnapshotHash'', JString (cp_evidence_snapshot_hash c)),
     (''artifactSetDigest'', JString (cp_artifact_set_digest c)),
     (''evidenceHashes'', json_strings (cp_evidence_hashes c)),
     (''assuranceBps'', json_nat (cp_assurance_bps c))]"

definition receipt_claims :: "completion_receipt \<Rightarrow> json" where
  "receipt_claims r = JObject [(''taskId'', JString (cr_task_id r)),
     (''contextId'', JString (cr_context_id r)), (''requestDigest'', JString (cr_request_digest r)),
     (''policyId'', JString (cr_policy_id r)), (''policyVersion'', json_nat (cr_policy_version r)),
     (''policyHash'', JString (cr_policy_hash r)),
     (''evidenceSnapshotHash'', JString (cr_evidence_snapshot_hash r)),
     (''artifactSetDigest'', JString (cr_artifact_set_digest r)),
     (''evidenceHashes'', json_strings (cr_evidence_hashes r)),
     (''assuranceBps'', json_nat (cr_assurance_bps r)),
     (''ratificationReceiptHash'',
        case cr_ratification_receipt_hash r of None \<Rightarrow> JNull | Some h \<Rightarrow> JString h)]"

section \<open>Validation and digests\<close>

definition max_text_bytes :: nat where "max_text_bytes = 512"
definition max_evidence_payload_bytes :: nat where "max_evidence_payload_bytes = 65536"

definition validate_text :: "string \<Rightarrow> string \<Rightarrow> policy_error + unit" where
  "validate_text field v =
     ensure (\<not> (v = [] \<or> max_text_bytes < length v \<or> is_blank v \<or> has_control v))
       (InvalidText field max_text_bytes)"

definition valid_digest :: "string \<Rightarrow> bool" where
  "valid_digest v \<longleftrightarrow> length v = 71 \<and> take 7 v = ''sha256:'' \<and> list_all is_hex_digit (drop 7 v)"

definition validate_digest :: "string \<Rightarrow> string \<Rightarrow> policy_error + unit" where
  "validate_digest field v = ensure (valid_digest v) (InvalidDigest field v)"

definition decode_sha256_tag :: "string \<Rightarrow> byte list option" where
  "decode_sha256_tag v =
     (case strip_prefix ''sha256:'' v of
        None \<Rightarrow> None
      | Some hex \<Rightarrow> if length hex \<noteq> 64 then None else hex_decode hex)"

definition ascii :: "string \<Rightarrow> byte list" where
  "ascii s = map byte_of_char s"

definition sha256_text :: "byte list \<Rightarrow> string" where
  "sha256_text d = ''sha256:'' @ hex_bytes d"

definition canonical_digest :: "policy_env \<Rightarrow> string \<Rightarrow> json \<Rightarrow> policy_error + string" where
  "canonical_digest E domain j =
     and_then (map_err CanonicalEncoding (json_to_vec E j)) (\<lambda>bytes.
       Inr (sha256_text (sha256 E
         (ascii ''SMESH-A2A'' @ [0] @ ascii ''completion-policy'' @ [0] @ ascii ''smesh-json-v1'' @ [0]
          @ be64 (length domain) @ ascii domain @ be64 (length bytes) @ bytes))))"

definition content_digest :: "policy_env \<Rightarrow> byte list \<Rightarrow> string" where
  "content_digest E bytes = sha256_text (sha256 E bytes)"

definition completion_evidence_digest :: "policy_env \<Rightarrow> completion_evidence \<Rightarrow> policy_error + string" where
  "completion_evidence_digest E ev = canonical_digest E ''evidence-record'' (evidence_json ev)"

definition statement_digest :: "policy_env \<Rightarrow> ratification_statement \<Rightarrow> policy_error + string" where
  "statement_digest E s = canonical_digest E ''ratification-statement'' (statement_json s)"

definition seal_message :: "string \<Rightarrow> byte list \<Rightarrow> byte list" where
  "seal_message kind bytes =
     ascii ''SMESH-A2A'' @ [0] @ ascii kind @ [0] @ ascii ''v1'' @ [0] @ be64 (length bytes) @ bytes"

definition compute_checkpoint_seal :: "policy_env \<Rightarrow> json \<Rightarrow> byte list \<Rightarrow> policy_error + string" where
  "compute_checkpoint_seal E claims key =
     and_then (map_err CanonicalEncoding (json_to_vec E claims)) (\<lambda>bytes.
       Inr (sha256_text (hmac_sha256 E key (seal_message ''completion-checkpoint'' bytes))))"

definition compute_receipt_seal :: "policy_env \<Rightarrow> json \<Rightarrow> byte list \<Rightarrow> policy_error + string" where
  "compute_receipt_seal E claims key =
     and_then (map_err CanonicalEncoding (json_to_vec E claims)) (\<lambda>bytes.
       Inr (sha256_text (hmac_sha256 E key (seal_message ''completion-receipt'' bytes))))"

text \<open>The ordering of manifests and the loop over them, shared by \<open>artifact_set_digest\<close> and \<open>evaluate\<close>.\<close>

definition manifest_key :: "artifact_manifest \<Rightarrow> string \<times> string \<times> string" where
  "manifest_key a = (am_digest a, am_name a, am_media_type a)"

definition check_artifact :: "string set \<Rightarrow> artifact_manifest \<Rightarrow> policy_error + string set" where
  "check_artifact seen a =
     and_then (validate_text ''artifact.name'' (am_name a)) (\<lambda>_.
     and_then (validate_text ''artifact.mediaType'' (am_media_type a)) (\<lambda>_.
     and_then (validate_digest ''artifact.digest'' (am_digest a)) (\<lambda>_.
       if am_digest a \<in> seen then Inl (DuplicateArtifactDigest (am_digest a))
       else Inr (insert (am_digest a) seen))))"

definition artifact_set_digest :: "policy_env \<Rightarrow> artifact_manifest list \<Rightarrow> policy_error + string" where
  "artifact_set_digest E arts =
     (if arts = [] then Inl MissingArtifact
      else let normalized = sort_key manifest_key arts in
        and_then (try_for check_artifact {} normalized) (\<lambda>_.
          canonical_digest E ''artifact-set'' (JArray (map manifest_json normalized))))"

section \<open>The policy profile\<close>

fun adjacent_equal :: "'a list \<Rightarrow> bool" where
  "adjacent_equal (x # y # zs) = (x = y \<or> adjacent_equal (y # zs))"
| "adjacent_equal _ = False"

definition normalize_issuers :: "string \<Rightarrow> string list \<Rightarrow> policy_error + string list" where
  "normalize_issuers field issuers =
     (let sorted_issuers = sort issuers in
      and_then (try_for (\<lambda>_ i. validate_text field i) () sorted_issuers) (\<lambda>_.
        if adjacent_equal sorted_issuers
        then Inl (InvalidPolicy (field @ '' must contain unique values''))
        else Inr sorted_issuers))"

definition authority_key :: "trusted_authority \<Rightarrow> string \<times> string" where
  "authority_key a = (ta_node_id a, ta_public_key a)"

definition normalize_authorities ::
    "string \<Rightarrow> trusted_authority list \<Rightarrow> policy_error + trusted_authority list" where
  "normalize_authorities field auths =
     (let sorted_auths = sort_key authority_key auths in
      and_then (try_for (\<lambda>_ a. and_then (validate_text (field @ ''.nodeId'') (ta_node_id a))
                   (\<lambda>_. validate_text (field @ ''.publicKey'') (ta_public_key a))) () sorted_auths) (\<lambda>_.
        if adjacent_equal sorted_auths
        then Inl (InvalidPolicy (field @ '' must contain unique values''))
        else Inr sorted_auths))"

definition check_spec_limits :: "completion_policy_spec \<Rightarrow> policy_error + unit" where
  "check_spec_limits s =
     and_then (validate_text ''policyId'' (policy_id s)) (\<lambda>_.
     and_then (ensure (version s = 1) (InvalidPolicy ''only completion policy version 1 is supported'')) (\<lambda>_.
     and_then (ensure (\<not> (required_reviews s = 0 \<or> required_tests s = 0))
       (InvalidPolicy ''at least one review and one test are mandatory'')) (\<lambda>_.
     and_then (ensure (1 \<le> min_assurance_bps s \<and> min_assurance_bps s \<le> 10000)
       (InvalidPolicy ''minAssuranceBps must be between 1 and 10000'')) (\<lambda>_.
     and_then (ensure (\<not> (max_evidence_records s = 0 \<or> max_artifacts s = 0))
       (InvalidPolicy ''evidence and artifact limits must be non-zero'')) (\<lambda>_.
     ensure (\<not> max_evidence_records s < required_reviews s + required_tests s
               + required_attestations s + required_contradiction_clearances s)
       (InvalidPolicy ''required evidence exceeds maxEvidenceRecords''))))))"

definition normalize_spec :: "completion_policy_spec \<Rightarrow> policy_error + completion_policy_spec" where
  "normalize_spec s =
     and_then (normalize_issuers ''reviewIssuers'' (review_issuers s)) (\<lambda>ri.
     and_then (normalize_issuers ''testIssuers'' (test_issuers s)) (\<lambda>ti.
     and_then (normalize_issuers ''contradictionIssuers'' (contradiction_issuers s)) (\<lambda>ci.
     and_then (normalize_authorities ''attestationAuthorities'' (attestation_authorities s)) (\<lambda>aa.
     and_then (normalize_authorities ''ratificationAuthorities'' (ratification_authorities s)) (\<lambda>ra.
       Inr (s\<lparr>review_issuers := ri, test_issuers := ti, contradiction_issuers := ci,
              attestation_authorities := aa, ratification_authorities := ra\<rparr>))))))"

definition check_spec_authorities :: "completion_policy_spec \<Rightarrow> policy_error + unit" where
  "check_spec_authorities s =
     and_then (ensure (\<not> (length (review_issuers s) < required_reviews s \<or>
         length (test_issuers s) < required_tests s \<or>
         length (attestation_authorities s) < required_attestations s))
       (InvalidPolicy ''configured evidence authorities cannot satisfy required counts'')) (\<lambda>_.
     and_then (ensure (required_contradiction_clearances s \<noteq> 0)
       (InvalidPolicy ''at least one contradiction clearance is mandatory'')) (\<lambda>_.
     and_then (ensure (\<not> length (contradiction_issuers s) < required_contradiction_clearances s)
       (InvalidPolicy ''configured contradiction issuers cannot satisfy required clearances'')) (\<lambda>_.
     and_then (ensure (\<not> (require_human_ratification s \<and> ratification_authorities s = []))
       (InvalidPolicy ''human ratification requires at least one authority'')) (\<lambda>_.
     ensure (\<not> (\<not> require_human_ratification s \<and> ratification_authorities s \<noteq> []))
       (InvalidPolicy ''authorities are invalid when human ratification is disabled'')))))"

definition new_with_receipt_key ::
    "policy_env \<Rightarrow> completion_policy_spec \<Rightarrow> byte list \<Rightarrow> policy_error + versioned_completion_policy" where
  "new_with_receipt_key E spec0 key =
     and_then (check_spec_limits spec0) (\<lambda>_.
     and_then (normalize_spec spec0) (\<lambda>spec.
     and_then (check_spec_authorities spec) (\<lambda>_.
     and_then (canonical_digest E ''policy-profile'' (spec_json spec)) (\<lambda>h.
       Inr \<lparr>vp_spec = spec, vp_policy_hash = h, vp_receipt_key = key\<rparr>))))"

section \<open>Verification of seals\<close>

definition verify_checkpoint ::
    "policy_env \<Rightarrow> versioned_completion_policy \<Rightarrow> policy_checkpoint \<Rightarrow> string \<Rightarrow> string \<Rightarrow> bool" where
  "verify_checkpoint E pol cp tid cid \<longleftrightarrow>
     cp_task_id cp = tid \<and> cp_context_id cp = cid \<and>
     cp_policy_id cp = policy_id (vp_spec pol) \<and> cp_policy_version cp = version (vp_spec pol) \<and>
     cp_policy_hash cp = vp_policy_hash pol \<and>
     is_ok (validate_digest ''checkpoint.requestDigest'' (cp_request_digest cp)) \<and>
     is_ok (validate_digest ''checkpoint.evidenceSnapshotHash'' (cp_evidence_snapshot_hash cp)) \<and>
     is_ok (validate_digest ''checkpoint.artifactSetDigest'' (cp_artifact_set_digest cp)) \<and>
     list_all (\<lambda>d. is_ok (validate_digest ''checkpoint.evidenceHash'' d)) (cp_evidence_hashes cp) \<and>
     min_assurance_bps (vp_spec pol) \<le> cp_assurance_bps cp \<and>
     (case json_to_vec E (checkpoint_claims cp) of
        Inl _ \<Rightarrow> False
      | Inr bytes \<Rightarrow>
          (case decode_sha256_tag (cp_seal cp) of
             None \<Rightarrow> False
           | Some tag \<Rightarrow>
               hmac_sha256 E (vp_receipt_key pol) (seal_message ''completion-checkpoint'' bytes) = tag))"

definition verify_receipt ::
    "policy_env \<Rightarrow> versioned_completion_policy \<Rightarrow> completion_receipt \<Rightarrow> bool" where
  "verify_receipt E pol r \<longleftrightarrow>
     cr_policy_id r = policy_id (vp_spec pol) \<and> cr_policy_version r = version (vp_spec pol) \<and>
     cr_policy_hash r = vp_policy_hash pol \<and>
     (case json_to_vec E (receipt_claims r) of
        Inl _ \<Rightarrow> False
      | Inr bytes \<Rightarrow>
          (case decode_sha256_tag (cr_seal r) of
             None \<Rightarrow> False
           | Some tag \<Rightarrow>
               hmac_sha256 E (vp_receipt_key pol) (seal_message ''completion-receipt'' bytes) = tag))"

definition receipt_from_checkpoint ::
    "policy_env \<Rightarrow> policy_checkpoint \<Rightarrow> string option \<Rightarrow> byte list \<Rightarrow> policy_error + completion_receipt" where
  "receipt_from_checkpoint E c rh key =
     (let r = \<lparr>cr_task_id = cp_task_id c, cr_context_id = cp_context_id c,
               cr_request_digest = cp_request_digest c, cr_policy_id = cp_policy_id c,
               cr_policy_version = cp_policy_version c, cr_policy_hash = cp_policy_hash c,
               cr_evidence_snapshot_hash = cp_evidence_snapshot_hash c,
               cr_artifact_set_digest = cp_artifact_set_digest c,
               cr_evidence_hashes = cp_evidence_hashes c, cr_assurance_bps = cp_assurance_bps c,
               cr_ratification_receipt_hash = rh, cr_seal = []\<rparr>
      in and_then (compute_receipt_seal E (receipt_claims r) key) (\<lambda>seal. Inr (r\<lparr>cr_seal := seal\<rparr>)))"

section \<open>Evaluation\<close>

definition validate_claimed_evidence ::
    "policy_env \<Rightarrow> string \<Rightarrow> string \<Rightarrow> byte list \<Rightarrow> string \<Rightarrow> string list \<Rightarrow> policy_error + unit" where
  "validate_claimed_evidence E kind issuer ev digest allowed =
     and_then (validate_text ''evidence.issuer'' issuer) (\<lambda>_.
     and_then (ensure (issuer \<in> set allowed) (UntrustedEvidenceIssuer kind issuer)) (\<lambda>_.
     and_then (ensure (\<not> max_evidence_payload_bytes < length ev)
       (EvidencePayloadTooLarge max_evidence_payload_bytes)) (\<lambda>_.
     and_then (validate_digest ''evidence.evidenceDigest'' digest) (\<lambda>_.
       ensure (content_digest E ev = digest) EvidenceDigestMismatch))))"

fun validate_evidence_record ::
    "policy_env \<Rightarrow> completion_evidence \<Rightarrow> string \<Rightarrow> completion_policy_spec \<Rightarrow> policy_error + unit" where
  "validate_evidence_record E (Review _ issuer _ ev d _ _) subject spec =
     validate_claimed_evidence E ''review'' issuer ev d (review_issuers spec)"
| "validate_evidence_record E (Test _ issuer _ ev d _ _) subject spec =
     validate_claimed_evidence E ''test'' issuer ev d (test_issuers spec)"
| "validate_evidence_record E (Contradiction _ issuer _ ev d _) subject spec =
     validate_claimed_evidence E ''contradiction'' issuer ev d (contradiction_issuers spec)"
| "validate_evidence_record E (Attestation _ _ a _) subject spec =
     and_then (validate_text ''attestation.nodeId'' (ca_node_id a)) (\<lambda>_.
     and_then (validate_text ''attestation.publicKey'' (ca_public_key a)) (\<lambda>_.
     and_then (ensure (verify_attestation E a subject) (InvalidAttestation (ca_node_id a))) (\<lambda>_.
       ensure (list_ex (\<lambda>t. ta_node_id t = ca_node_id a \<and> ta_public_key t = ca_public_key a)
                 (attestation_authorities spec))
         (UntrustedEvidenceIssuer ''attestation'' (ca_node_id a)))))"
| "validate_evidence_record E (Ratification _) subject spec = Inl UnexpectedRatification"

definition preflight :: "completion_policy_spec \<Rightarrow> completion_snapshot \<Rightarrow> policy_error + unit" where
  "preflight spec snap =
     and_then (validate_text ''taskId'' (sn_task_id snap)) (\<lambda>_.
     and_then (validate_text ''contextId'' (sn_context_id snap)) (\<lambda>_.
     and_then (validate_digest ''requestDigest'' (sn_request_digest snap)) (\<lambda>_.
     and_then (ensure (sn_artifacts snap \<noteq> []) MissingArtifact) (\<lambda>_.
     and_then (ensure (\<not> max_artifacts spec < length (sn_artifacts snap))
       (ArtifactLimitExceeded (length (sn_artifacts snap)) (max_artifacts spec))) (\<lambda>_.
     ensure (\<not> max_evidence_records spec + 1 < length (sn_evidence snap))
       (EvidenceLimitExceeded (length (sn_evidence snap)) (max_evidence_records spec + 1)))))))"

fun is_ratification :: "completion_evidence \<Rightarrow> bool" where
  "is_ratification (Ratification _) = True"
| "is_ratification _ = False"

fun ratification_of :: "completion_evidence \<Rightarrow> ratification_receipt list" where
  "ratification_of (Ratification r) = [r]"
| "ratification_of _ = []"

definition split_evidence :: "completion_policy_spec \<Rightarrow> completion_evidence list
    \<Rightarrow> policy_error + (completion_evidence list \<times> ratification_receipt list)" where
  "split_evidence spec evs =
     (let records = filter (\<lambda>e. \<not> is_ratification e) evs;
          ratifications = concat (map ratification_of evs)
      in and_then (ensure (\<not> max_evidence_records spec < length records)
           (EvidenceLimitExceeded (length records) (max_evidence_records spec))) (\<lambda>_.
         and_then (ensure (\<not> 1 < length ratifications) MultipleRatifications) (\<lambda>_.
           Inr (sort_key evidence_id records, ratifications))))"

definition check_record :: "policy_env \<Rightarrow> completion_policy_spec \<Rightarrow> string \<Rightarrow> string set \<times> string set
    \<Rightarrow> completion_evidence \<Rightarrow> policy_error + (string set \<times> string set)" where
  "check_record E spec asd st record =
     and_then (ok_or (evidence_id record) UnexpectedRatification) (\<lambda>i.
     and_then (validate_text ''evidence.id'' i) (\<lambda>_.
     and_then (ensure (i \<notin> fst st) (DuplicateEvidenceId i)) (\<lambda>_.
     and_then (ok_or (subject_digest record) UnexpectedRatification) (\<lambda>actual.
     and_then (validate_digest ''evidence.subjectDigest'' actual) (\<lambda>_.
     and_then (ensure (actual = asd) (SubjectDigestMismatch asd actual)) (\<lambda>_.
     and_then (case assurance_bps record of
         Some a \<Rightarrow> ensure (\<not> 10000 < a) (InvalidAssurance a) | None \<Rightarrow> Inr ()) (\<lambda>_.
     and_then (validate_evidence_record E record asd spec) (\<lambda>_.
     and_then (ok_or (provenance_identity record) UnexpectedRatification) (\<lambda>identity.
     and_then (ensure (identity \<notin> snd st) (DuplicateEvidenceProvenance identity)) (\<lambda>_.
       Inr (insert i (fst st), insert identity (snd st))))))))))))"

record evidence_tally =
  tl_reasons :: "policy_block_reason set"
  tl_reviews :: "nat list"
  tl_tests :: "nat list"
  tl_attestations :: "nat list"
  tl_reviewers :: "string set"
  tl_testers :: "string set"
  tl_attesters :: "(string \<times> string) set"
  tl_clearances :: "string set"

definition empty_tally :: evidence_tally where
  "empty_tally = \<lparr>tl_reasons = {}, tl_reviews = [], tl_tests = [], tl_attestations = [],
     tl_reviewers = {}, tl_testers = {}, tl_attesters = {}, tl_clearances = {}\<rparr>"

fun tally_record :: "completion_evidence \<Rightarrow> evidence_tally \<Rightarrow> evidence_tally" where
  "tally_record (Review _ issuer _ _ _ approved a) t =
     (if \<not> approved then t\<lparr>tl_reasons := insert FailedReview (tl_reasons t)\<rparr>
      else if issuer \<in> tl_reviewers t then t
      else t\<lparr>tl_reviewers := insert issuer (tl_reviewers t), tl_reviews := tl_reviews t @ [a]\<rparr>)"
| "tally_record (Test _ issuer _ _ _ passed a) t =
     (if \<not> passed then t\<lparr>tl_reasons := insert FailedTest (tl_reasons t)\<rparr>
      else if issuer \<in> tl_testers t then t
      else t\<lparr>tl_testers := insert issuer (tl_testers t), tl_tests := tl_tests t @ [a]\<rparr>)"
| "tally_record (Attestation _ _ att a) t =
     (let identity = (ca_node_id att, ca_public_key att) in
      if identity \<in> tl_attesters t then t
      else t\<lparr>tl_attesters := insert identity (tl_attesters t),
             tl_attestations := tl_attestations t @ [a]\<rparr>)"
| "tally_record (Contradiction _ issuer _ _ _ blocking) t =
     (if blocking then t\<lparr>tl_reasons := insert BlockingContradiction (tl_reasons t)\<rparr>
      else t\<lparr>tl_clearances := insert issuer (tl_clearances t)\<rparr>)"
| "tally_record (Ratification _) t = t"

definition sort_desc :: "nat list \<Rightarrow> nat list" where
  "sort_desc xs = rev (sort xs)"

definition selected_assurance ::
    "nat list \<Rightarrow> nat \<Rightarrow> nat list \<Rightarrow> nat \<Rightarrow> nat list \<Rightarrow> nat \<Rightarrow> nat" where
  "selected_assurance reviews rr tests rt attestations ra =
     (let selected = take rr reviews @ take rt tests @ take ra attestations
      in if selected = [] then 0 else Min (set selected))"

definition qualifying :: "completion_policy_spec \<Rightarrow> nat list \<Rightarrow> nat" where
  "qualifying spec xs = length (filter (\<lambda>a. min_assurance_bps spec \<le> a) xs)"

definition tally_assurance :: "completion_policy_spec \<Rightarrow> evidence_tally \<Rightarrow> nat" where
  "tally_assurance spec t =
     selected_assurance (sort_desc (tl_reviews t)) (required_reviews spec)
       (sort_desc (tl_tests t)) (required_tests spec)
       (sort_desc (tl_attestations t)) (required_attestations spec)"

definition block_reasons :: "completion_policy_spec \<Rightarrow> evidence_tally \<Rightarrow> policy_block_reason set" where
  "block_reasons spec t =
     tl_reasons t
     \<union> (if qualifying spec (sort_desc (tl_reviews t)) < required_reviews spec
        then {InsufficientReviews} else {})
     \<union> (if qualifying spec (sort_desc (tl_tests t)) < required_tests spec
        then {InsufficientTests} else {})
     \<union> (if qualifying spec (sort_desc (tl_attestations t)) < required_attestations spec
        then {InsufficientAttestations} else {})
     \<union> (if card (tl_clearances t) < required_contradiction_clearances spec
        then {InsufficientContradictionClearances} else {})
     \<union> (if tally_assurance spec t < min_assurance_bps spec then {InsufficientAssurance} else {})"

definition decide_ratification :: "policy_env \<Rightarrow> versioned_completion_policy \<Rightarrow> policy_checkpoint
    \<Rightarrow> ratification_receipt \<Rightarrow> policy_error + policy_decision" where
  "decide_ratification E pol cp rat =
     (let expected = \<lparr>rs_policy_hash = cp_policy_hash cp,
            rs_evidence_snapshot_hash = cp_evidence_snapshot_hash cp,
            rs_artifact_set_digest = cp_artifact_set_digest cp,
            rs_approved = rs_approved (rr_statement rat)\<rparr>
      in and_then (ensure (rr_statement rat = expected) RatificationStatementMismatch) (\<lambda>_.
         and_then (ensure (list_ex (\<lambda>t. ta_node_id t = ca_node_id (rr_authority rat) \<and>
               ta_public_key t = ca_public_key (rr_authority rat))
             (ratification_authorities (vp_spec pol))) UntrustedRatificationAuthority) (\<lambda>_.
         and_then (statement_digest E (rr_statement rat)) (\<lambda>d.
         and_then (ensure (verify_attestation E (rr_authority rat) d) InvalidRatificationSignature) (\<lambda>_.
           if \<not> rs_approved (rr_statement rat)
           then Inr (Blocked \<lparr>pb_checkpoint = cp, pb_reasons = [HumanRejected]\<rparr>)
           else and_then (canonical_digest E ''ratification-receipt'' (ratification_json rat)) (\<lambda>h.
             and_then (receipt_from_checkpoint E cp (Some h) (vp_receipt_key pol)) (\<lambda>r.
               Inr (Accepted r))))))))"

definition decide :: "policy_env \<Rightarrow> versioned_completion_policy \<Rightarrow> policy_checkpoint
    \<Rightarrow> policy_block_reason set \<Rightarrow> ratification_receipt list \<Rightarrow> policy_error + policy_decision" where
  "decide E pol cp reasons rats =
     (if reasons \<noteq> {}
      then Inr (Blocked \<lparr>pb_checkpoint = cp, pb_reasons = sorted_list_of_set reasons\<rparr>)
      else if \<not> require_human_ratification (vp_spec pol)
      then (if rats \<noteq> [] then Inl UnexpectedRatification
            else and_then (receipt_from_checkpoint E cp None (vp_receipt_key pol)) (\<lambda>r.
              Inr (Accepted r)))
      else case rats of
          [] \<Rightarrow> Inr (AwaitingRatification cp)
        | rat # _ \<Rightarrow> decide_ratification E pol cp rat)"

definition make_checkpoint :: "policy_env \<Rightarrow> versioned_completion_policy \<Rightarrow> completion_snapshot
    \<Rightarrow> string \<Rightarrow> string \<Rightarrow> string list \<Rightarrow> nat \<Rightarrow> policy_error + policy_checkpoint" where
  "make_checkpoint E pol snap esh asd hashes assurance =
     (let cp = \<lparr>cp_task_id = sn_task_id snap, cp_context_id = sn_context_id snap,
                cp_request_digest = sn_request_digest snap,
                cp_policy_id = policy_id (vp_spec pol), cp_policy_version = version (vp_spec pol),
                cp_policy_hash = vp_policy_hash pol, cp_evidence_snapshot_hash = esh,
                cp_artifact_set_digest = asd, cp_evidence_hashes = hashes,
                cp_assurance_bps = assurance, cp_seal = []\<rparr>
      in and_then (compute_checkpoint_seal E (checkpoint_claims cp) (vp_receipt_key pol)) (\<lambda>seal.
           Inr (cp\<lparr>cp_seal := seal\<rparr>)))"

definition evaluate :: "policy_env \<Rightarrow> versioned_completion_policy \<Rightarrow> completion_snapshot
    \<Rightarrow> policy_error + policy_decision" where
  "evaluate E pol snap =
     (let spec = vp_spec pol; arts = sort_key manifest_key (sn_artifacts snap) in
      and_then (preflight spec snap) (\<lambda>_.
      and_then (try_for check_artifact {} arts) (\<lambda>_.
      and_then (artifact_set_digest E arts) (\<lambda>asd.
      and_then (split_evidence spec (sn_evidence snap)) (\<lambda>(records, rats).
      and_then (try_for (check_record E spec asd) ({}, {}) records) (\<lambda>_.
      and_then (collect_res (completion_evidence_digest E) records) (\<lambda>hashes.
      and_then (canonical_digest E ''evidence-snapshot''
        (normalized_json (sn_task_id snap) (sn_context_id snap) (sn_request_digest snap) arts records)) (\<lambda>esh.
      let t = fold tally_record records empty_tally in
      and_then (make_checkpoint E pol snap esh asd hashes (tally_assurance spec t)) (\<lambda>cp.
        decide E pol cp (block_reasons spec t) rats)))))))))"

end
