(* ===== verification/Policy_Decisions.thy ===== *)
theory Policy_Decisions
  imports Completion_Policy
begin

text \<open>
  What the completion policy guarantees: the decision \<open>evaluate\<close> returns, the seals it produces
  and the profile it runs under. The helper lemmas are an inversion rule for a successful
  evaluation, the account of the tally over the evidence records, and the round trips of digests
  and seals.
\<close>

section \<open>Digests and seals\<close>

lemma sha256_text_decode [simp]: "length d = 32 \<Longrightarrow> decode_sha256_tag (sha256_text d) = Some d"
  by (simp add: decode_sha256_tag_def sha256_text_def)

lemma sha256_text_valid: "length d = 32 \<Longrightarrow> valid_digest (sha256_text d)"
  by (simp add: valid_digest_def sha256_text_def hex_bytes_digits)

lemma sha256_text_inj [simp]: "sha256_text a = sha256_text b \<longleftrightarrow> a = b"
  by (simp add: sha256_text_def)

lemma hex_digits_image: "hex_digit ` {0, 1, 2, 3, 4, 5, 6, 7, 8, 9, 10, 11, 12, 13, 14, 15}
    = char_of ` {48, 49, 50, 51, 52, 53, 54, 55, 56, 57, 97, 98, 99, 100, 101, 102 :: nat}"
  by (simp only: image_insert image_empty) (simp add: hex_digit_def)

lemma hex_nibble_Some: "is_hex_digit c \<Longrightarrow> \<exists>n. n < 16 \<and> hex_nibble c = Some n \<and> hex_digit n = c"
proof -
  assume "is_hex_digit c"
  then have "of_char c \<in> {48, 49, 50, 51, 52, 53, 54, 55, 56, 57, 97, 98, 99, 100, 101, 102 :: nat}"
    by (simp only: is_hex_digit_def is_ascii_digit_def in_range_def insert_iff empty_iff) (simp, presburger)
  then have "c \<in> char_of ` {48, 49, 50, 51, 52, 53, 54, 55, 56, 57, 97, 98, 99, 100, 101, 102 :: nat}"
    by (metis char_of_char image_eqI)
  then have "c \<in> hex_digit ` {0, 1, 2, 3, 4, 5, 6, 7, 8, 9, 10, 11, 12, 13, 14, 15}" by (simp only: hex_digits_image)
  then obtain n where n: "c = hex_digit n" "n \<in> {0, 1, 2, 3, 4, 5, 6, 7, 8, 9, 10, 11, 12, 13, 14, 15}" by (rule imageE)
  from n(2) have "n < 16" by (elim insertE emptyE) simp_all
  then show ?thesis using n(1) hex_nibble_digit(1) by metis
qed

lemma hex_decode_digits:
  "list_all is_hex_digit s \<Longrightarrow> even (length s) \<Longrightarrow> \<exists>bs. hex_decode s = Some bs \<and> hex_bytes bs = s"
proof (induction s rule: hex_decode.induct)
  case (1 h l rest)
  from 1 obtain a b where a: "a < 16" "hex_nibble h = Some a" "hex_digit a = h"
    and b: "b < 16" "hex_nibble l = Some b" "hex_digit b = l"
    using hex_nibble_Some [of h] hex_nibble_Some [of l] by auto
  from 1 a b obtain bs where bs: "hex_decode rest = Some bs" "hex_bytes bs = rest" by auto
  have "drop_bit 4 (push_bit 4 a OR b) = a" "take_bit 4 (push_bit 4 a OR b) = b"
    using byte_cases_16 [OF a(1)] byte_cases_16 [OF b(1)] by auto
  with a b bs show ?case by (simp add: hex_byte_def)
qed auto

lemma valid_digest_iff: "valid_digest v \<longleftrightarrow> (\<exists>d. length d = 32 \<and> v = sha256_text d)"
proof
  assume "valid_digest v"
  then obtain w where v: "v = ''sha256:'' @ w" and w: "length w = 64" "list_all is_hex_digit w"
    using append_take_drop_id [of 7 v] by (intro that [of "drop 7 v"]) (simp_all add: valid_digest_def)
  from w obtain d where d: "hex_bytes d = w"
    using hex_decode_digits [of w] by auto
  with w have "length d = 32" using length_hex_bytes [of d] by simp
  with v d show "\<exists>d. length d = 32 \<and> v = sha256_text d"
    by (auto simp: sha256_text_def)
qed (auto intro: sha256_text_valid)

lemma canonical_digest_valid:
  "canonical_digest E dm j = Inr h \<Longrightarrow> (\<And>m. length (sha256 E m) = 32) \<Longrightarrow> valid_digest h"
  by (auto simp: canonical_digest_def result_simps sha256_text_valid)

lemma show_nat_digits: "foldl (\<lambda>n c. 10 * n + (of_char c - 48)) 0 (show_nat n) = n"
proof (induction n rule: show_nat.induct)
  case (1 n)
  then show ?case
    by (subst show_nat.simps) (auto simp: foldl_append)
qed

lemma show_nat_inj [simp]: "show_nat a = show_nat b \<longleftrightarrow> a = b"
  by (metis show_nat_digits)

lemma json_nat_inj [simp]: "json_nat a = json_nat b \<longleftrightarrow> a = b"
  by (simp add: json_nat_def)

lemma json_strings_inj [simp]: "json_strings a = json_strings b \<longleftrightarrow> a = b"
  by (auto simp: json_strings_def dest: map_injective intro: injI)

lemma receipt_claims_inj:
  "receipt_claims a = receipt_claims b \<Longrightarrow> a\<lparr>cr_seal := s\<rparr> = b\<lparr>cr_seal := s\<rparr>"
  by (cases a; cases b) (auto simp: receipt_claims_def split: option.splits)

lemma seal_message_inj: "seal_message k x = seal_message k y \<Longrightarrow> x = y"
  by (simp add: seal_message_def)

lemma seal_message_kinds:
  "seal_message ''completion-checkpoint'' x \<noteq> seal_message ''completion-receipt'' y"
  by (simp add: seal_message_def ascii_def byte_of_char_def)

section \<open>The tally of the evidence\<close>

text \<open>The records that count: an approving review, a passed test, an attestation, a clearance.\<close>

fun review_pair :: "completion_evidence \<Rightarrow> (string \<times> nat) list" where
  "review_pair (Review _ issuer _ _ _ approved a) = (if approved then [(issuer, a)] else [])"
| "review_pair _ = []"

fun test_pair :: "completion_evidence \<Rightarrow> (string \<times> nat) list" where
  "test_pair (Test _ issuer _ _ _ passed a) = (if passed then [(issuer, a)] else [])"
| "test_pair _ = []"

fun attester_pair :: "completion_evidence \<Rightarrow> ((string \<times> string) \<times> nat) list" where
  "attester_pair (Attestation _ _ att a) = [((ca_node_id att, ca_public_key att), a)]"
| "attester_pair _ = []"

fun clearance :: "completion_evidence \<Rightarrow> string list" where
  "clearance (Contradiction _ issuer _ _ _ blocking) = (if blocking then [] else [issuer])"
| "clearance _ = []"

text \<open>The records that veto completion, each with the reason it gives.\<close>

fun veto :: "completion_evidence \<Rightarrow> policy_block_reason list" where
  "veto (Review _ _ _ _ _ approved _) = (if approved then [] else [FailedReview])"
| "veto (Test _ _ _ _ _ passed _) = (if passed then [] else [FailedTest])"
| "veto (Contradiction _ _ _ _ _ blocking) = (if blocking then [BlockingContradiction] else [])"
| "veto _ = []"

definition gather :: "('a \<Rightarrow> 'b list) \<Rightarrow> 'a list \<Rightarrow> 'b list" where
  "gather f xs = concat (map f xs)"

definition qualified_by :: "nat \<Rightarrow> ('k \<times> nat) list \<Rightarrow> 'k set" where
  "qualified_by m ps = fst ` set (filter (\<lambda>p. m \<le> snd p) ps)"

text \<open>The first entry of every key that is not in \<open>seen\<close>.\<close>

fun firsts :: "'k set \<Rightarrow> ('k \<times> nat) list \<Rightarrow> ('k \<times> nat) list" where
  "firsts seen [] = []"
| "firsts seen ((k, v) # xs) =
     (if k \<in> seen then firsts seen xs else (k, v) # firsts (insert k seen) xs)"

lemma gather_simps [simp]:
  "gather f [] = []" "gather f (x # xs) = f x @ gather f xs"
  by (simp_all add: gather_def)

lemma set_gather: "set (gather f xs) = (\<Union>x \<in> set xs. set (f x))"
  by (simp add: gather_def)

lemma firsts_append: "firsts seen (xs @ ys) = firsts seen xs @ firsts (seen \<union> fst ` set xs) ys"
  by (induction seen xs rule: firsts.induct) (auto simp: insert_absorb)

lemma firsts_distinct: "distinct (map fst (firsts seen xs)) \<and> fst ` set (firsts seen xs) \<inter> seen = {}"
  by (induction seen xs rule: firsts.induct) auto

lemma firsts_subset: "set (firsts seen xs) \<subseteq> set xs"
  by (induction seen xs rule: firsts.induct) auto

lemma count_firsts_le: "length (filter (\<lambda>a. m \<le> a) (map snd (firsts seen xs))) \<le> card (qualified_by m xs)"
proof -
  let ?ys = "filter (\<lambda>p. m \<le> snd p) (firsts seen xs)"
  have "distinct (map fst ?ys)"
    using firsts_distinct [of seen xs] by (simp add: distinct_map_filter)
  then have "length ?ys = card (fst ` set ?ys)"
    by (metis distinct_card length_map set_map)
  also have "\<dots> \<le> card (qualified_by m xs)"
    unfolding qualified_by_def using firsts_subset [of seen xs] by (intro card_mono) auto
  finally show ?thesis
    by (simp add: filter_map comp_def)
qed

lemma tally_fold:
  "tl_reviews (fold tally_record rs t) = tl_reviews t @ map snd (firsts (tl_reviewers t) (gather review_pair rs))"
  "tl_tests (fold tally_record rs t) = tl_tests t @ map snd (firsts (tl_testers t) (gather test_pair rs))"
  "tl_attestations (fold tally_record rs t) =
     tl_attestations t @ map snd (firsts (tl_attesters t) (gather attester_pair rs))"
  "tl_clearances (fold tally_record rs t) = tl_clearances t \<union> set (gather clearance rs)"
  "tl_reasons (fold tally_record rs t) = tl_reasons t \<union> set (gather veto rs)"
proof (induction rs arbitrary: t)
  case (Cons r rs)
  {
    case 1
    show ?case by (cases r) (simp_all add: Cons Let_def)
  next
    case 2
    show ?case by (cases r) (simp_all add: Cons Let_def)
  next
    case 3
    show ?case by (cases r) (simp_all add: Cons Let_def)
  next
    case 4
    show ?case by (cases r) (simp_all add: Cons Let_def)
  next
    case 5
    show ?case by (cases r) (simp_all add: Cons Let_def)
  }
qed simp_all

lemma empty_tally_simps [simp]:
  "tl_reviews empty_tally = []" "tl_tests empty_tally = []" "tl_attestations empty_tally = []"
  "tl_reviewers empty_tally = {}" "tl_testers empty_tally = {}" "tl_attesters empty_tally = {}"
  "tl_clearances empty_tally = {}" "tl_reasons empty_tally = {}"
  by (simp_all add: empty_tally_def)

lemma qualifying_sort_desc [simp]: "qualifying spec (sort_desc xs) = qualifying spec xs"
proof -
  have "mset (filter P (sort_desc xs)) = mset (filter P xs)" for P
    by (simp add: sort_desc_def)
  then show ?thesis
    unfolding qualifying_def by (metis size_mset)
qed

lemma qualifying_le: "qualifying spec (map snd (firsts {} ps)) \<le> card (qualified_by (min_assurance_bps spec) ps)"
  unfolding qualifying_def by (rule count_firsts_le)

lemma block_reasons_empty:
  assumes "block_reasons spec (fold tally_record rs empty_tally) = {}"
  shows "gather veto rs = []"
    and "required_reviews spec \<le> card (qualified_by (min_assurance_bps spec) (gather review_pair rs))"
    and "required_tests spec \<le> card (qualified_by (min_assurance_bps spec) (gather test_pair rs))"
    and "required_attestations spec \<le> card (qualified_by (min_assurance_bps spec) (gather attester_pair rs))"
    and "required_contradiction_clearances spec \<le> card (set (gather clearance rs))"
    and "min_assurance_bps spec \<le> tally_assurance spec (fold tally_record rs empty_tally)"
  using assms qualifying_le [of spec "gather review_pair rs"] qualifying_le [of spec "gather test_pair rs"]
    qualifying_le [of spec "gather attester_pair rs"]
  by (auto simp: block_reasons_def tally_fold not_less split: if_splits)

lemma veto_blocks: "set (gather veto rs) \<subseteq> block_reasons spec (fold tally_record rs empty_tally)"
  by (auto simp: block_reasons_def tally_fold)

lemma finite_block_reasons: "finite (block_reasons spec (fold tally_record rs empty_tally))"
  by (simp add: block_reasons_def tally_fold)

section \<open>The validated profile\<close>

lemma adjacent_equal_sorted:
  "sorted (map k xs) \<Longrightarrow> inj_on k (set xs) \<Longrightarrow> adjacent_equal xs \<longleftrightarrow> \<not> distinct xs"
proof (induction xs rule: adjacent_equal.induct)
  case (1 x y zs)
  then have "x \<in> set zs \<Longrightarrow> x = y"
    by (auto simp: inj_on_def intro: antisym)
  moreover have "adjacent_equal (y # zs) \<longleftrightarrow> \<not> distinct (y # zs)"
    using "1.prems" by (intro "1.IH") (auto simp: inj_on_def)
  ultimately show ?case by auto
qed auto

lemma authority_key_inj [simp]: "authority_key a = authority_key b \<longleftrightarrow> a = b"
  by (cases a; cases b) (auto simp: authority_key_def)

lemma normalize_issuers_Inr:
  "normalize_issuers field xs = Inr ys \<Longrightarrow> ys = sort xs \<and> distinct ys"
  using adjacent_equal_sorted [of "\<lambda>x. x" "sort xs"]
  by (auto simp: normalize_issuers_def Let_def result_simps split: if_splits)

lemma normalize_authorities_Inr:
  "normalize_authorities field xs = Inr ys \<Longrightarrow> ys = sort_key authority_key xs \<and> distinct ys"
  using adjacent_equal_sorted [of authority_key "sort_key authority_key xs"]
  by (auto simp: normalize_authorities_def Let_def result_simps inj_on_def split: if_splits)

definition sorted_spec :: "completion_policy_spec \<Rightarrow> completion_policy_spec" where
  "sorted_spec s = s\<lparr>review_issuers := sort (review_issuers s), test_issuers := sort (test_issuers s),
     contradiction_issuers := sort (contradiction_issuers s),
     attestation_authorities := sort_key authority_key (attestation_authorities s),
     ratification_authorities := sort_key authority_key (ratification_authorities s)\<rparr>"

lemma sorted_spec_simps [simp]:
  "policy_id (sorted_spec s) = policy_id s" "version (sorted_spec s) = version s"
  "required_reviews (sorted_spec s) = required_reviews s"
  "required_tests (sorted_spec s) = required_tests s"
  "required_attestations (sorted_spec s) = required_attestations s"
  "required_contradiction_clearances (sorted_spec s) = required_contradiction_clearances s"
  "min_assurance_bps (sorted_spec s) = min_assurance_bps s"
  "require_human_ratification (sorted_spec s) = require_human_ratification s"
  "max_evidence_records (sorted_spec s) = max_evidence_records s"
  "max_artifacts (sorted_spec s) = max_artifacts s"
  "set (review_issuers (sorted_spec s)) = set (review_issuers s)"
  "set (test_issuers (sorted_spec s)) = set (test_issuers s)"
  "set (contradiction_issuers (sorted_spec s)) = set (contradiction_issuers s)"
  "set (attestation_authorities (sorted_spec s)) = set (attestation_authorities s)"
  "set (ratification_authorities (sorted_spec s)) = set (ratification_authorities s)"
  by (simp_all add: sorted_spec_def)

text \<open>What a profile the constructor accepts satisfies.\<close>

definition spec_wf :: "completion_policy_spec \<Rightarrow> bool" where
  "spec_wf s \<longleftrightarrow>
     version s = 1 \<and> 1 \<le> required_reviews s \<and> 1 \<le> required_tests s \<and>
     1 \<le> required_contradiction_clearances s \<and>
     1 \<le> min_assurance_bps s \<and> min_assurance_bps s \<le> 10000 \<and>
     1 \<le> max_artifacts s \<and>
     required_reviews s + required_tests s + required_attestations s
       + required_contradiction_clearances s \<le> max_evidence_records s \<and>
     required_reviews s \<le> card (set (review_issuers s)) \<and>
     required_tests s \<le> card (set (test_issuers s)) \<and>
     required_contradiction_clearances s \<le> card (set (contradiction_issuers s)) \<and>
     required_attestations s \<le> card (set (attestation_authorities s)) \<and>
     (require_human_ratification s \<longleftrightarrow> ratification_authorities s \<noteq> [])"

lemma new_with_receipt_key_Inr:
  assumes "new_with_receipt_key E spec key = Inr pol"
  shows "vp_spec pol = sorted_spec spec" and "vp_receipt_key pol = key"
    and "canonical_digest E ''policy-profile'' (spec_json (sorted_spec spec)) = Inr (vp_policy_hash pol)"
    and "spec_wf spec"
proof -
  from assms obtain spec' where lim: "check_spec_limits spec = Inr ()"
    and n: "normalize_spec spec = Inr spec'" and au: "check_spec_authorities spec' = Inr ()"
    and h: "canonical_digest E ''policy-profile'' (spec_json spec') = Inr (vp_policy_hash pol)"
    and pol: "vp_spec pol = spec'" "vp_receipt_key pol = key"
    by (auto simp: new_with_receipt_key_def result_simps)
  from n have spec': "spec' = sorted_spec spec"
    and d: "distinct (review_issuers spec')" "distinct (test_issuers spec')"
      "distinct (contradiction_issuers spec')" "distinct (attestation_authorities spec')"
    by (auto simp: normalize_spec_def result_simps sorted_spec_def
        dest!: normalize_issuers_Inr normalize_authorities_Inr)
  show "vp_spec pol = sorted_spec spec" "vp_receipt_key pol = key"
    "canonical_digest E ''policy-profile'' (spec_json (sorted_spec spec)) = Inr (vp_policy_hash pol)"
    using pol h spec' by simp_all
  have "ratification_authorities (sorted_spec spec) = [] \<longleftrightarrow> ratification_authorities spec = []"
    by (metis set_empty sorted_spec_simps(15))
  with lim au d show "spec_wf spec"
    by (auto simp: spec_wf_def check_spec_limits_def check_spec_authorities_def result_simps spec'
        not_less distinct_card [symmetric])
qed

section \<open>A successful evaluation\<close>

definition records_of :: "completion_evidence list \<Rightarrow> completion_evidence list" where
  "records_of evs = sort_key evidence_id (filter (\<lambda>e. \<not> is_ratification e) evs)"

lemma evaluate_Inr:
  assumes "evaluate E pol snap = Inr d"
  obtains asd hashes esh cp st where
    "preflight (vp_spec pol) snap = Inr ()"
    "artifact_set_digest E (sort_key manifest_key (sn_artifacts snap)) = Inr asd"
    "length (gather ratification_of (sn_evidence snap)) \<le> 1"
    "try_for (check_record E (vp_spec pol) asd) ({}, {}) (records_of (sn_evidence snap)) = Inr st"
    "collect_res (completion_evidence_digest E) (records_of (sn_evidence snap)) = Inr hashes"
    "canonical_digest E ''evidence-snapshot'' (normalized_json (sn_task_id snap) (sn_context_id snap)
       (sn_request_digest snap) (sort_key manifest_key (sn_artifacts snap))
       (records_of (sn_evidence snap))) = Inr esh"
    "make_checkpoint E pol snap esh asd hashes
       (tally_assurance (vp_spec pol) (fold tally_record (records_of (sn_evidence snap)) empty_tally)) = Inr cp"
    "decide E pol cp (block_reasons (vp_spec pol)
       (fold tally_record (records_of (sn_evidence snap)) empty_tally))
       (gather ratification_of (sn_evidence snap)) = Inr d"
proof -
  from assms show ?thesis
    unfolding evaluate_def split_evidence_def Let_def records_of_def [symmetric] gather_def [symmetric]
    by (auto simp: result_simps intro: that)
qed

lemma make_checkpoint_Inr:
  assumes "make_checkpoint E pol snap esh asd hashes a = Inr cp"
  shows "cp_task_id cp = sn_task_id snap" "cp_context_id cp = sn_context_id snap"
    "cp_request_digest cp = sn_request_digest snap" "cp_policy_id cp = policy_id (vp_spec pol)"
    "cp_policy_version cp = version (vp_spec pol)" "cp_policy_hash cp = vp_policy_hash pol"
    "cp_evidence_snapshot_hash cp = esh" "cp_artifact_set_digest cp = asd"
    "cp_evidence_hashes cp = hashes" "cp_assurance_bps cp = a"
    "\<exists>bytes. json_to_vec E (checkpoint_claims cp) = Inr bytes \<and>
       cp_seal cp = sha256_text (hmac_sha256 E (vp_receipt_key pol)
         (seal_message ''completion-checkpoint'' bytes))"
  using assms
  by (auto simp: make_checkpoint_def Let_def compute_checkpoint_seal_def result_simps checkpoint_claims_def)

lemma receipt_from_checkpoint_Inr:
  assumes "receipt_from_checkpoint E cp rh key = Inr r"
  shows "cr_task_id r = cp_task_id cp" "cr_context_id r = cp_context_id cp"
    "cr_request_digest r = cp_request_digest cp" "cr_policy_id r = cp_policy_id cp"
    "cr_policy_version r = cp_policy_version cp" "cr_policy_hash r = cp_policy_hash cp"
    "cr_evidence_snapshot_hash r = cp_evidence_snapshot_hash cp"
    "cr_artifact_set_digest r = cp_artifact_set_digest cp"
    "cr_evidence_hashes r = cp_evidence_hashes cp" "cr_assurance_bps r = cp_assurance_bps cp"
    "cr_ratification_receipt_hash r = rh"
    "\<exists>bytes. json_to_vec E (receipt_claims r) = Inr bytes \<and>
       cr_seal r = sha256_text (hmac_sha256 E key (seal_message ''completion-receipt'' bytes))"
  using assms
  by (auto simp: receipt_from_checkpoint_def Let_def compute_receipt_seal_def result_simps receipt_claims_def)

lemma decide_Accepted:
  assumes "decide E pol cp reasons rats = Inr (Accepted r)"
  shows "reasons = {} \<and> (\<exists>rh. receipt_from_checkpoint E cp rh (vp_receipt_key pol) = Inr r)"
  using assms
  by (auto simp: decide_def decide_ratification_def Let_def result_simps split: if_splits list.splits)

lemma decide_Awaiting:
  "decide E pol cp reasons rats = Inr (AwaitingRatification c) \<Longrightarrow> c = cp \<and> reasons = {}"
  by (auto simp: decide_def decide_ratification_def Let_def result_simps split: if_splits list.splits)

lemma decide_Blocked:
  assumes "decide E pol cp reasons rats = Inr (Blocked b)" and "finite reasons"
  shows "pb_checkpoint b = cp \<and>
    (reasons \<noteq> {} \<and> pb_reasons b = sorted_list_of_set reasons \<or>
     reasons = {} \<and> pb_reasons b = [HumanRejected])"
  using assms
  by (auto simp: decide_def decide_ratification_def Let_def result_simps split: if_splits list.splits)

lemma set_records_of: "set (records_of evs) = {e \<in> set evs. \<not> is_ratification e}"
  by (simp add: records_of_def)

lemma set_gather_records:
  assumes "\<And>r. f (Ratification r) = []"
  shows "set (gather f (records_of evs)) = set (gather f evs)"
proof -
  have "f e = []" if "is_ratification e" for e
    using that assms by (cases e) simp_all
  then show ?thesis by (auto simp: set_gather set_records_of)
qed

lemma qualified_by_records:
  assumes "\<And>r. f (Ratification r) = []"
  shows "qualified_by m (gather f (records_of evs)) = qualified_by m (gather f evs)"
  using set_gather_records [of f evs] assms by (simp add: qualified_by_def)

text \<open>What a record must be for the loop over the records to accept it.\<close>

fun trusted_record :: "policy_env \<Rightarrow> completion_policy_spec \<Rightarrow> string \<Rightarrow> completion_evidence \<Rightarrow> bool" where
  "trusted_record E spec asd (Review _ issuer sub ev d _ a) \<longleftrightarrow>
     sub = asd \<and> issuer \<in> set (review_issuers spec) \<and> d = content_digest E ev \<and> a \<le> 10000"
| "trusted_record E spec asd (Test _ issuer sub ev d _ a) \<longleftrightarrow>
     sub = asd \<and> issuer \<in> set (test_issuers spec) \<and> d = content_digest E ev \<and> a \<le> 10000"
| "trusted_record E spec asd (Contradiction _ issuer sub ev d _) \<longleftrightarrow>
     sub = asd \<and> issuer \<in> set (contradiction_issuers spec) \<and> d = content_digest E ev"
| "trusted_record E spec asd (Attestation _ sub att a) \<longleftrightarrow>
     sub = asd \<and> verify_attestation E att asd \<and> a \<le> 10000 \<and>
     \<lparr>ta_node_id = ca_node_id att, ta_public_key = ca_public_key att\<rparr> \<in> set (attestation_authorities spec)"
| "trusted_record E spec asd (Ratification _) \<longleftrightarrow> True"

lemma check_record_trusted: "check_record E spec asd u e = Inr v \<Longrightarrow> trusted_record E spec asd e"
  by (cases e) (auto simp: check_record_def validate_claimed_evidence_def result_simps list_ex_iff not_less
      intro: back_subst [of "\<lambda>t. t \<in> set (attestation_authorities spec)"])

lemma check_record_keys:
  "check_record E spec asd u e = Inr v \<Longrightarrow>
     the (evidence_id e) \<notin> fst u \<and> fst v = insert (the (evidence_id e)) (fst u)"
  by (auto simp: check_record_def result_simps)

lemma records_trusted:
  assumes "try_for (check_record E spec asd) st0 (records_of evs) = Inr st"
  shows "list_all (trusted_record E spec asd) evs"
proof -
  have "trusted_record E spec asd e" if "e \<in> set evs" for e
  proof (cases "is_ratification e")
    case True
    then show ?thesis by (cases e) simp_all
  next
    case False
    with that have "e \<in> set (records_of evs)" by (simp add: set_records_of)
    from try_for_each [OF assms this] show ?thesis
      by (auto intro: check_record_trusted)
  qed
  then show ?thesis by (simp add: list_all_iff)
qed

lemma trusted_record_sorted_spec [simp]:
  "trusted_record E (sorted_spec spec) asd = trusted_record E spec asd"
proof
  fix e show "trusted_record E (sorted_spec spec) asd e = trusted_record E spec asd e"
    by (cases e) simp_all
qed

lemma manifest_key_inj [simp]: "manifest_key a = manifest_key b \<longleftrightarrow> a = b"
  by (cases a; cases b) (auto simp: manifest_key_def)

lemma sort_key_idem [simp]: "sort_key k (sort_key k xs) = sort_key k xs"
  by (rule sort_key_id_if_sorted) simp

lemma sort_key_Nil_iff [simp]: "sort_key k xs = [] \<longleftrightarrow> xs = []"
  by (metis length_0_conv length_sort)

lemma artifact_set_digest_sort [simp]:
  "artifact_set_digest E (sort_key manifest_key xs) = artifact_set_digest E xs"
  by (cases "xs = []") (simp_all add: artifact_set_digest_def)

lemma evidence_digests_valid:
  assumes "list_all2 (\<lambda>r h. completion_evidence_digest E r = Inr h) rs hs"
    and "\<And>m. length (sha256 E m) = 32"
  shows "list_all valid_digest hs"
  using assms(1) by (induction rule: list_all2_induct)
    (auto simp: completion_evidence_digest_def intro: canonical_digest_valid assms(2))

text \<open>The order in which artifacts and evidence are submitted.\<close>

lemma preflight_cong:
  assumes "sn_task_id a = sn_task_id b" "sn_context_id a = sn_context_id b"
    "sn_request_digest a = sn_request_digest b"
    "length (sn_artifacts a) = length (sn_artifacts b)" "length (sn_evidence a) = length (sn_evidence b)"
  shows "preflight spec a = preflight spec b"
proof -
  from assms(4) have "sn_artifacts a = [] \<longleftrightarrow> sn_artifacts b = []" by auto
  with assms show ?thesis by (simp add: preflight_def)
qed

lemma split_evidence_cong:
  assumes "records_of xs = records_of ys" and "gather ratification_of xs = gather ratification_of ys"
  shows "split_evidence spec xs = split_evidence spec ys"
proof -
  have "length (filter (\<lambda>e. \<not> is_ratification e) xs) = length (filter (\<lambda>e. \<not> is_ratification e) ys)"
    using assms(1) unfolding records_of_def by (metis length_sort)
  with assms show ?thesis
    by (simp add: split_evidence_def Let_def records_of_def gather_def)
qed

lemma mset_gather: "mset xs = mset ys \<Longrightarrow> mset (gather f xs) = mset (gather f ys)"
proof -
  have "mset (gather f zs) = \<Sum>\<^sub># (image_mset (\<lambda>z. mset (f z)) (mset zs))" for zs
    by (induction zs) simp_all
  then show "mset xs = mset ys \<Longrightarrow> mset (gather f xs) = mset (gather f ys)" by simp
qed

lemma short_mset_eq: "mset xs = mset ys \<Longrightarrow> length xs \<le> 1 \<Longrightarrow> xs = ys"
  by (cases xs) auto

lemma evidence_id_inj:
  assumes "try_for (check_record E spec asd) ({}, {}) (records_of evs) = Inr st"
  shows "inj_on evidence_id (set (records_of evs))"
proof -
  have "distinct (map (\<lambda>e. the (evidence_id e)) (records_of evs))"
    using try_for_distinct [OF assms, of "\<lambda>e. the (evidence_id e)" fst] check_record_keys by blast
  then have "inj_on (\<lambda>e. the (evidence_id e)) (set (records_of evs))"
    by (simp add: distinct_map)
  then show ?thesis by (auto simp: inj_on_def)
qed

lemma records_of_perm:
  assumes "mset xs = mset ys" and "inj_on evidence_id (set (records_of xs))"
  shows "records_of xs = records_of ys"
  unfolding records_of_def using assms
  by (intro sort_key_inj_key_eq) (simp_all add: records_of_def)

section \<open>Properties\<close>

text \<open>
  C32. An accepted completion is backed by the evidence its profile demands: at least the required
  numbers of distinct allowlisted reviewers, testers and attesters, each with the minimum
  assurance, and of contradiction clearances; no failed review, failed test or blocking
  contradiction; and every record is about exactly this set of artifacts, from an allowlisted
  issuer, with a digest that matches its bytes (or a valid signature).
\<close>

theorem accepted_evidence_sufficient:
  assumes "new_with_receipt_key E spec key = Inr pol" and "evaluate E pol snap = Inr (Accepted r)"
  shows "spec_wf spec \<and>
    required_reviews spec \<le> card (qualified_by (min_assurance_bps spec) (gather review_pair (sn_evidence snap))) \<and>
    required_tests spec \<le> card (qualified_by (min_assurance_bps spec) (gather test_pair (sn_evidence snap))) \<and>
    required_attestations spec
      \<le> card (qualified_by (min_assurance_bps spec) (gather attester_pair (sn_evidence snap))) \<and>
    required_contradiction_clearances spec \<le> card (set (gather clearance (sn_evidence snap))) \<and>
    gather veto (sn_evidence snap) = [] \<and>
    artifact_set_digest E (sn_artifacts snap) = Inr (cr_artifact_set_digest r) \<and>
    list_all (trusted_record E spec (cr_artifact_set_digest r)) (sn_evidence snap) \<and>
    min_assurance_bps spec \<le> cr_assurance_bps r"
proof -
  note pol = new_with_receipt_key_Inr [OF assms(1)]
  from evaluate_Inr [OF assms(2)] obtain asd hashes esh cp st where
    asd: "artifact_set_digest E (sn_artifacts snap) = Inr asd"
    and recs: "try_for (check_record E (vp_spec pol) asd) ({}, {}) (records_of (sn_evidence snap)) = Inr st"
    and cp: "make_checkpoint E pol snap esh asd hashes (tally_assurance (vp_spec pol)
       (fold tally_record (records_of (sn_evidence snap)) empty_tally)) = Inr cp"
    and d: "decide E pol cp (block_reasons (vp_spec pol)
       (fold tally_record (records_of (sn_evidence snap)) empty_tally))
       (gather ratification_of (sn_evidence snap)) = Inr (Accepted r)"
    by (metis artifact_set_digest_sort)
  from decide_Accepted [OF d] obtain rh where
    none: "block_reasons (vp_spec pol) (fold tally_record (records_of (sn_evidence snap)) empty_tally) = {}"
    and r: "receipt_from_checkpoint E cp rh (vp_receipt_key pol) = Inr r" by auto
  note facts = make_checkpoint_Inr [OF cp] receipt_from_checkpoint_Inr [OF r]
  have "gather veto (sn_evidence snap) = []"
    using block_reasons_empty(1) [OF none] set_gather_records [of veto "sn_evidence snap"] by simp
  then show ?thesis
    using block_reasons_empty(2-) [OF none] pol(4) asd records_trusted [OF recs]
      set_gather_records [of clearance "sn_evidence snap"]
    by (simp add: pol(1) qualified_by_records facts)
qed

text \<open>
  C33. When the profile requires human ratification, an accepted completion carries exactly one
  ratification receipt: it approves this policy, this evidence snapshot and this set of artifacts,
  comes from an allowlisted authority, and its signature over the statement digest verifies.
\<close>

theorem accepted_ratification:
  assumes "new_with_receipt_key E spec key = Inr pol" and "evaluate E pol snap = Inr (Accepted r)"
    and "require_human_ratification spec"
  shows "\<exists>rat d. gather ratification_of (sn_evidence snap) = [rat] \<and>
    rr_statement rat = \<lparr>rs_policy_hash = cr_policy_hash r,
      rs_evidence_snapshot_hash = cr_evidence_snapshot_hash r,
      rs_artifact_set_digest = cr_artifact_set_digest r, rs_approved = True\<rparr> \<and>
    \<lparr>ta_node_id = ca_node_id (rr_authority rat), ta_public_key = ca_public_key (rr_authority rat)\<rparr>
      \<in> set (ratification_authorities spec) \<and>
    statement_digest E (rr_statement rat) = Inr d \<and> verify_attestation E (rr_authority rat) d"
proof -
  note pol = new_with_receipt_key_Inr [OF assms(1)]
  from evaluate_Inr [OF assms(2)] obtain cp reasons where
    len: "length (gather ratification_of (sn_evidence snap)) \<le> 1"
    and d: "decide E pol cp reasons (gather ratification_of (sn_evidence snap)) = Inr (Accepted r)"
    by metis
  then obtain rat where rat: "gather ratification_of (sn_evidence snap) = [rat]"
    using assms(3) pol(1) by (cases "gather ratification_of (sn_evidence snap)")
      (auto simp: decide_def split: if_splits)
  with d assms(3) pol(1) have dr: "decide_ratification E pol cp rat = Inr (Accepted r)"
    by (auto simp: decide_def split: if_splits)
  then obtain rh where "receipt_from_checkpoint E cp rh (vp_receipt_key pol) = Inr r"
    by (auto simp: decide_ratification_def Let_def result_simps split: if_splits)
  note facts = receipt_from_checkpoint_Inr [OF this]
  have "\<lparr>ta_node_id = n, ta_public_key = k\<rparr> \<in> set (ratification_authorities spec)"
    if "t \<in> set (ratification_authorities spec)" "ta_node_id t = n" "ta_public_key t = k" for t n k
  proof -
    have "\<lparr>ta_node_id = n, ta_public_key = k\<rparr> = t" using that(2,3) by (cases t) simp
    with that(1) show ?thesis by simp
  qed
  with dr rat show ?thesis
    by (auto simp: decide_ratification_def Let_def result_simps facts list_ex_iff pol(1) split: if_splits)
qed

lemma decision_verifies:
  assumes "\<And>m. length (sha256 E m) = 32" and "\<And>k m. length (hmac_sha256 E k m) = 32"
    and "evaluate E pol snap = Inr d"
  shows "(case d of
      Accepted r \<Rightarrow> verify_receipt E pol r \<and> cr_task_id r = sn_task_id snap \<and>
        cr_context_id r = sn_context_id snap \<and> cr_request_digest r = sn_request_digest snap
    | AwaitingRatification c \<Rightarrow> verify_checkpoint E pol c (sn_task_id snap) (sn_context_id snap) \<and>
        cp_request_digest c = sn_request_digest snap
    | Blocked b \<Rightarrow> cp_task_id (pb_checkpoint b) = sn_task_id snap)"
proof -
  from evaluate_Inr [OF assms(3)] obtain asd hashes esh cp where
    pre: "preflight (vp_spec pol) snap = Inr ()"
    and asd: "artifact_set_digest E (sn_artifacts snap) = Inr asd"
    and h: "collect_res (completion_evidence_digest E) (records_of (sn_evidence snap)) = Inr hashes"
    and esh: "canonical_digest E ''evidence-snapshot'' (normalized_json (sn_task_id snap) (sn_context_id snap)
       (sn_request_digest snap) (sort_key manifest_key (sn_artifacts snap)) (records_of (sn_evidence snap))) = Inr esh"
    and cp: "make_checkpoint E pol snap esh asd hashes (tally_assurance (vp_spec pol)
       (fold tally_record (records_of (sn_evidence snap)) empty_tally)) = Inr cp"
    and d: "decide E pol cp (block_reasons (vp_spec pol)
       (fold tally_record (records_of (sn_evidence snap)) empty_tally))
       (gather ratification_of (sn_evidence snap)) = Inr d"
    by (metis artifact_set_digest_sort)
  note facts = make_checkpoint_Inr [OF cp]
  show ?thesis
  proof (cases d)
    case (Accepted r)
    from decide_Accepted [OF d [unfolded Accepted]] obtain rh
      where "receipt_from_checkpoint E cp rh (vp_receipt_key pol) = Inr r" by auto
    from receipt_from_checkpoint_Inr [OF this] show ?thesis
      using assms(2) by (auto simp: Accepted verify_receipt_def facts)
  next
    case (AwaitingRatification c)
    have "list_all valid_digest hashes"
      using h assms(1) by (auto simp: result_simps intro: evidence_digests_valid)
    moreover have "valid_digest asd" "valid_digest esh"
      using asd esh assms(1) by (auto simp: artifact_set_digest_def Let_def result_simps split: if_splits
          intro: canonical_digest_valid)
    moreover have "valid_digest (sn_request_digest snap)"
      using pre by (auto simp: preflight_def validate_digest_def result_simps)
    moreover have "min_assurance_bps (vp_spec pol) \<le> cp_assurance_bps cp"
      using decide_Awaiting [OF d [unfolded AwaitingRatification]] block_reasons_empty(6) facts(10) by metis
    ultimately show ?thesis
      using decide_Awaiting [OF d [unfolded AwaitingRatification]] facts assms(2)
      by (auto simp: AwaitingRatification verify_checkpoint_def validate_digest_def ensure_def)
  next
    case (Blocked b)
    from decide_Blocked [OF d [unfolded Blocked] finite_block_reasons] facts show ?thesis
      by (simp add: Blocked)
  qed
qed

lemma accepted_artifact_digest:
  assumes "evaluate E pol snap = Inr (Accepted r)"
  shows "artifact_set_digest E (sn_artifacts snap) = Inr (cr_artifact_set_digest r)"
proof -
  from evaluate_Inr [OF assms] obtain asd hashes esh cp bps reasons rats where
    asd: "artifact_set_digest E (sn_artifacts snap) = Inr asd"
    and cp: "make_checkpoint E pol snap esh asd hashes bps = Inr cp"
    and d: "decide E pol cp reasons rats = Inr (Accepted r)"
    by (metis artifact_set_digest_sort)
  from decide_Accepted [OF d] obtain rh where r: "receipt_from_checkpoint E cp rh (vp_receipt_key pol) = Inr r" by auto
  show ?thesis using asd make_checkpoint_Inr [OF cp] receipt_from_checkpoint_Inr [OF r] by simp
qed

text \<open>
  C34. What the policy seals it also verifies: the receipt of an accepted completion and the
  checkpoint of one that awaits ratification pass verification under the same policy, and both
  name the task, context, request and policy that were evaluated. SHA-256 and HMAC-SHA-256 give
  32 bytes.
\<close>

theorem sealed_decisions_verify:
  assumes "\<And>m. length (sha256 E m) = 32" and "\<And>k m. length (hmac_sha256 E k m) = 32"
    and "evaluate E pol snap = Inr d"
  shows "(case d of
      Accepted r \<Rightarrow> verify_receipt E pol r \<and> cr_task_id r = sn_task_id snap \<and>
        cr_context_id r = sn_context_id snap \<and> cr_request_digest r = sn_request_digest snap
    | AwaitingRatification c \<Rightarrow> verify_checkpoint E pol c (sn_task_id snap) (sn_context_id snap) \<and>
        cp_request_digest c = sn_request_digest snap
    | Blocked b \<Rightarrow> cp_task_id (pb_checkpoint b) = sn_task_id snap)"
  by (rule decision_verifies [OF assms])

text \<open>
  A veto is never outvoted: if any evidence record is a failed review, a failed test or a
  blocking contradiction, a successful evaluation blocks, and the reason is reported. The reasons
  of a block are in the order of the enumeration, without repetition and never empty.
\<close>

theorem veto_blocks_completion:
  assumes "evaluate E pol snap = Inr d" and "e \<in> set (sn_evidence snap)" and "v \<in> set (veto e)"
  shows "\<exists>b. d = Blocked b \<and> v \<in> set (pb_reasons b) \<and> sorted (pb_reasons b) \<and> distinct (pb_reasons b)"
proof -
  let ?reasons = "block_reasons (vp_spec pol) (fold tally_record (records_of (sn_evidence snap)) empty_tally)"
  from evaluate_Inr [OF assms(1)] obtain cp where
    d: "decide E pol cp ?reasons (gather ratification_of (sn_evidence snap)) = Inr d"
    by metis
  have "v \<in> set (gather veto (records_of (sn_evidence snap)))"
    using assms(2,3) set_gather_records [of veto "sn_evidence snap"] by (auto simp: set_gather)
  then have v: "v \<in> ?reasons" using veto_blocks by blast
  show ?thesis
  proof (cases d)
    case (Accepted r)
    with decide_Accepted [of E pol cp ?reasons _ r] d v show ?thesis by blast
  next
    case (AwaitingRatification c)
    with decide_Awaiting [of E pol cp ?reasons _ c] d v show ?thesis by blast
  next
    case (Blocked b)
    with decide_Blocked [of E pol cp ?reasons "gather ratification_of (sn_evidence snap)" b] d v
    show ?thesis by (auto simp: finite_block_reasons)
  qed
qed

text \<open>
  C35. The decision does not depend on the order in which artifacts and evidence were submitted:
  a snapshot that evaluates to a decision evaluates to the same decision, with the same seal, in
  every order.
\<close>

theorem evaluate_order_independent:
  assumes "evaluate E pol a = Inr d"
    and "mset (sn_artifacts a) = mset (sn_artifacts b)" and "mset (sn_evidence a) = mset (sn_evidence b)"
    and "sn_task_id a = sn_task_id b" and "sn_context_id a = sn_context_id b"
    and "sn_request_digest a = sn_request_digest b"
  shows "evaluate E pol b = Inr d"
proof -
  from evaluate_Inr [OF assms(1)] obtain asd st where
    rats: "length (gather ratification_of (sn_evidence a)) \<le> 1"
    and recs: "try_for (check_record E (vp_spec pol) asd) ({}, {}) (records_of (sn_evidence a)) = Inr st"
    by metis
  have arts: "sort_key manifest_key (sn_artifacts a) = sort_key manifest_key (sn_artifacts b)"
    using assms(2) by (intro sort_key_inj_key_eq) (simp_all add: inj_on_def)
  have "split_evidence (vp_spec pol) (sn_evidence a) = split_evidence (vp_spec pol) (sn_evidence b)"
    using records_of_perm [OF assms(3) evidence_id_inj [OF recs]]
      short_mset_eq [OF mset_gather [OF assms(3)] rats] by (rule split_evidence_cong)
  moreover have "preflight (vp_spec pol) a = preflight (vp_spec pol) b"
    using assms(2-6) by (intro preflight_cong) (auto dest: mset_eq_length)
  moreover have "make_checkpoint E pol a = make_checkpoint E pol b"
    using assms(4-6) by (intro ext) (simp add: make_checkpoint_def)
  ultimately have "evaluate E pol a = evaluate E pol b"
    unfolding evaluate_def Let_def by (simp only: arts assms(4-6))
  with assms(1) show ?thesis by simp
qed

text \<open>
  A seal binds a receipt to its claims: two receipts with the same seal that verify under one
  policy are the same receipt, unless they exhibit an HMAC collision. The seal of a checkpoint is
  never the seal of a receipt for another reason, because the two seal different messages. The
  JSON encoder is injective.
\<close>

theorem seal_binds_receipt:
  assumes "\<And>x y b. json_to_vec E x = Inr b \<Longrightarrow> json_to_vec E y = Inr b \<Longrightarrow> x = y"
    and "verify_receipt E pol r1"
  shows "(verify_receipt E pol r2 \<and> cr_seal r1 = cr_seal r2 \<longrightarrow> r1 = r2 \<or>
      (\<exists>m1 m2. m1 \<noteq> m2 \<and> hmac_sha256 E (vp_receipt_key pol) m1 = hmac_sha256 E (vp_receipt_key pol) m2)) \<and>
    (verify_checkpoint E pol cp tid cid \<and> cr_seal r1 = cp_seal cp \<longrightarrow>
      (\<exists>m1 m2. m1 \<noteq> m2 \<and> hmac_sha256 E (vp_receipt_key pol) m1 = hmac_sha256 E (vp_receipt_key pol) m2))"
proof -
  let ?mac = "hmac_sha256 E (vp_receipt_key pol)"
  from assms(2) obtain b1 where b1: "json_to_vec E (receipt_claims r1) = Inr b1"
    and t1: "decode_sha256_tag (cr_seal r1) = Some (?mac (seal_message ''completion-receipt'' b1))"
    by (auto simp: verify_receipt_def split: sum.splits option.splits)
  have "r1 = r2 \<or> (\<exists>m1 m2. m1 \<noteq> m2 \<and> ?mac m1 = ?mac m2)"
    if v2: "verify_receipt E pol r2" and seal: "cr_seal r1 = cr_seal r2"
  proof -
    from v2 obtain b2 where b2: "json_to_vec E (receipt_claims r2) = Inr b2"
      and t2: "decode_sha256_tag (cr_seal r2) = Some (?mac (seal_message ''completion-receipt'' b2))"
      by (auto simp: verify_receipt_def split: sum.splits option.splits)
    show ?thesis
    proof (cases "b1 = b2")
      case True
      with assms(1) b1 b2 have eq: "receipt_claims r1 = receipt_claims r2" by blast
      have "r1 = r1\<lparr>cr_seal := cr_seal r1\<rparr>" by simp
      also have "\<dots> = r2\<lparr>cr_seal := cr_seal r1\<rparr>" by (rule receipt_claims_inj [OF eq])
      also have "\<dots> = r2" by (simp add: seal)
      finally show ?thesis ..
    next
      case False
      then have "seal_message ''completion-receipt'' b1 \<noteq> seal_message ''completion-receipt'' b2"
        using seal_message_inj by blast
      moreover have "?mac (seal_message ''completion-receipt'' b1) = ?mac (seal_message ''completion-receipt'' b2)"
        using t1 t2 seal by simp
      ultimately show ?thesis by blast
    qed
  qed
  moreover have "\<exists>m1 m2. m1 \<noteq> m2 \<and> ?mac m1 = ?mac m2"
    if vc: "verify_checkpoint E pol cp tid cid" and seal: "cr_seal r1 = cp_seal cp"
  proof -
    from vc obtain b2 where
      "decode_sha256_tag (cp_seal cp) = Some (?mac (seal_message ''completion-checkpoint'' b2))"
      by (auto simp: verify_checkpoint_def split: sum.splits option.splits)
    with t1 seal have "?mac (seal_message ''completion-receipt'' b1)
        = ?mac (seal_message ''completion-checkpoint'' b2)" by simp
    with seal_message_kinds [of b2 b1] show ?thesis by metis
  qed
  ultimately show ?thesis by blast
qed

text \<open>
  A digest is accepted exactly when it is the text of a 32-byte hash, and decoding that text
  gives the hash back.
\<close>

theorem digest_text_round_trip:
  "(is_ok (validate_digest field v) \<longleftrightarrow> (\<exists>d. length d = 32 \<and> v = sha256_text d)) \<and>
   (length h = 32 \<longrightarrow> decode_sha256_tag (sha256_text h) = Some h)"
  by (simp add: validate_digest_def ensure_def valid_digest_iff)

text \<open>
  A policy profile that the constructor accepts is satisfiable and canonical: its thresholds
  are within their ranges, the demanded records fit the evidence limit, there are enough distinct
  authorities for every requirement, and listing issuers or authorities in another order gives the
  same policy with the same hash (or the same error).
\<close>

theorem policy_profile_canonical:
  assumes "mset (review_issuers s) = mset ri" and "mset (test_issuers s) = mset ti"
    and "mset (contradiction_issuers s) = mset ci"
    and "mset (attestation_authorities s) = mset aa" and "mset (ratification_authorities s) = mset ra"
  shows "new_with_receipt_key E (s\<lparr>review_issuers := ri, test_issuers := ti, contradiction_issuers := ci,
        attestation_authorities := aa, ratification_authorities := ra\<rparr>) key
      = new_with_receipt_key E s key \<and>
    (\<forall>pol. new_with_receipt_key E s key = Inr pol \<longrightarrow> spec_wf s)"
proof -
  have iss: "normalize_issuers f xs = normalize_issuers f ys" if "mset ys = mset xs" for f xs ys
    using that sort_key_inj_key_eq [of xs "sort ys" "\<lambda>x. x"] by (simp add: normalize_issuers_def)
  have auth: "normalize_authorities f xs = normalize_authorities f ys" if "mset ys = mset xs" for f xs ys
    using that sort_key_inj_key_eq [of xs "sort_key authority_key ys" authority_key]
    by (simp add: normalize_authorities_def inj_on_def)
  have "normalize_spec (s\<lparr>review_issuers := ri, test_issuers := ti, contradiction_issuers := ci,
        attestation_authorities := aa, ratification_authorities := ra\<rparr>) = normalize_spec s"
    by (simp add: normalize_spec_def iss [OF assms(1)] iss [OF assms(2)] iss [OF assms(3)]
        auth [OF assms(4)] auth [OF assms(5)])
  then have "new_with_receipt_key E (s\<lparr>review_issuers := ri, test_issuers := ti, contradiction_issuers := ci,
        attestation_authorities := aa, ratification_authorities := ra\<rparr>) key
      = new_with_receipt_key E s key"
    by (simp add: new_with_receipt_key_def check_spec_limits_def)
  then show ?thesis
    using new_with_receipt_key_Inr(4) by blast
qed

section \<open>Witnesses\<close>

definition sample_policy_env :: policy_env where
  "sample_policy_env =
     \<lparr>sha256 = (\<lambda>m. take 32 (m @ replicate 32 0)), hmac_sha256 = (\<lambda>k m. replicate 32 7),
      json_to_vec = (\<lambda>j. Inr []), verify_attestation = (\<lambda>a h. True)\<rparr>"

definition sample_digest :: string where
  "sample_digest = sha256_text (ascii ''SMESH-A2A'' @ [0] @ ascii ''completion-policy'' @ [0] @ ascii ''smes'')"

definition sample_snapshot :: "bool \<Rightarrow> completion_snapshot" where
  "sample_snapshot passed =
     \<lparr>sn_task_id = ''t'', sn_context_id = ''c'', sn_request_digest = sample_digest,
      sn_artifacts = [\<lparr>am_name = ''a'', am_media_type = ''text/plain'', am_digest = sample_digest\<rparr>],
      sn_evidence =
        [Review ''r1'' ''review-authority'' sample_digest [1] (content_digest sample_policy_env [1]) True 9000,
         Test ''t1'' ''test-authority'' sample_digest [2] (content_digest sample_policy_env [2]) passed 8000,
         Contradiction ''c1'' ''contradiction-monitor'' sample_digest [3]
           (content_digest sample_policy_env [3]) False]\<rparr>"

definition sample_policy :: versioned_completion_policy where
  "sample_policy = \<lparr>vp_spec = development, vp_policy_hash = sample_digest, vp_receipt_key = [1]\<rparr>"

lemma sample_canonical [simp]: "canonical_digest sample_policy_env dm j = Inr sample_digest"
  by (simp add: canonical_digest_def map_err_def sample_policy_env_def sample_digest_def ascii_def)

lemma sample_digest_valid [simp]: "valid_digest sample_digest"
  unfolding sample_digest_def by (rule sha256_text_valid) (simp add: ascii_def)

lemma sample_content_valid [simp]: "valid_digest (content_digest sample_policy_env b)"
  unfolding content_digest_def by (rule sha256_text_valid) (simp add: sample_policy_env_def)

lemma sample_content_inj: "content_digest sample_policy_env [a] = content_digest sample_policy_env [b] \<longleftrightarrow> a = b"
  by (simp add: content_digest_def sample_policy_env_def)

lemma sample_texts [simp]:
  "validate_text f ''t'' = Inr ()" "validate_text f ''c'' = Inr ()" "validate_text f ''a'' = Inr ()"
  "validate_text f ''text/plain'' = Inr ()" "validate_text f ''r1'' = Inr ()"
  "validate_text f ''t1'' = Inr ()" "validate_text f ''c1'' = Inr ()"
  "validate_text f ''review-authority'' = Inr ()" "validate_text f ''test-authority'' = Inr ()"
  "validate_text f ''contradiction-monitor'' = Inr ()" "validate_text f ''smesh-completion/v1'' = Inr ()"
  by (simp_all add: validate_text_def max_text_bytes_def ensure_def text_simps)

lemma sample_policy_new: "new_with_receipt_key sample_policy_env development [1] = Inr sample_policy"
  by (simp add: new_with_receipt_key_def check_spec_limits_def normalize_spec_def normalize_issuers_def
      normalize_authorities_def check_spec_authorities_def development_def ensure_def sample_policy_def)

definition human_spec :: completion_policy_spec where
  "human_spec = development\<lparr>require_human_ratification := True,
     ratification_authorities := [\<lparr>ta_node_id = ''h'', ta_public_key = ''k''\<rparr>]\<rparr>"

definition human_policy :: versioned_completion_policy where
  "human_policy = \<lparr>vp_spec = human_spec, vp_policy_hash = sample_digest, vp_receipt_key = [1]\<rparr>"

definition human_snapshot :: completion_snapshot where
  "human_snapshot = (sample_snapshot True)\<lparr>sn_evidence := sn_evidence (sample_snapshot True) @
     [Ratification \<lparr>rr_statement = \<lparr>rs_policy_hash = sample_digest,
        rs_evidence_snapshot_hash = sample_digest, rs_artifact_set_digest = sample_digest,
        rs_approved = True\<rparr>,
        rr_authority = \<lparr>ca_node_id = ''h'', ca_public_key = ''k'', ca_signature = ''s''\<rparr>\<rparr>]\<rparr>"

lemmas policy_eval = preflight_def check_artifact_def artifact_set_digest_def split_evidence_def
  check_record_def validate_claimed_evidence_def validate_digest_def completion_evidence_digest_def
  statement_digest_def make_checkpoint_def compute_checkpoint_seal_def compute_receipt_seal_def
  receipt_from_checkpoint_def decide_def decide_ratification_def block_reasons_def
  tally_assurance_def selected_assurance_def qualifying_def sort_desc_def empty_tally_def
  ensure_def ok_or_def map_err_def Let_def max_evidence_payload_bytes_def development_def

lemma sample_env_simps [simp]:
  "json_to_vec sample_policy_env j = Inr []" "verify_attestation sample_policy_env a h"
  "length (sha256 sample_policy_env m) = 32" "length (hmac_sha256 sample_policy_env k m) = 32"
  by (simp_all add: sample_policy_env_def)

lemma sample_evaluate:
  "\<exists>r. evaluate sample_policy_env sample_policy (sample_snapshot True) = Inr (Accepted r)"
  unfolding evaluate_def
  by (simp add: policy_eval sample_policy_def sample_snapshot_def sample_content_inj less_char_def)

lemma sample_evaluate_failed:
  "\<exists>b. evaluate sample_policy_env sample_policy (sample_snapshot False) = Inr (Blocked b)"
  unfolding evaluate_def
  by (simp add: policy_eval sample_policy_def sample_snapshot_def sample_content_inj less_char_def)

lemma human_texts [simp]: "validate_text f ''h'' = Inr ()" "validate_text f ''k'' = Inr ()"
  by (simp_all add: validate_text_def max_text_bytes_def ensure_def text_simps)

lemma human_policy_new: "new_with_receipt_key sample_policy_env human_spec [1] = Inr human_policy"
  by (simp add: new_with_receipt_key_def check_spec_limits_def normalize_spec_def normalize_issuers_def
      normalize_authorities_def check_spec_authorities_def development_def ensure_def human_spec_def
      human_policy_def)

lemma human_evaluate:
  "\<exists>r. evaluate sample_policy_env human_policy human_snapshot = Inr (Accepted r)"
  unfolding evaluate_def
  by (simp add: policy_eval human_policy_def human_spec_def human_snapshot_def sample_snapshot_def
      sample_content_inj less_char_def)

theorem accepted_evidence_witness:
  "1 \<le> card (qualified_by 7500 (gather review_pair (sn_evidence (sample_snapshot True))))"
proof -
  from sample_evaluate obtain r where
    "evaluate sample_policy_env sample_policy (sample_snapshot True) = Inr (Accepted r)" ..
  from accepted_evidence_sufficient [OF sample_policy_new this] show ?thesis
    by (simp add: development_def)
qed

theorem accepted_ratification_witness:
  "\<exists>rat. gather ratification_of (sn_evidence human_snapshot) = [rat] \<and> rs_approved (rr_statement rat)"
proof -
  from human_evaluate obtain r where
    r: "evaluate sample_policy_env human_policy human_snapshot = Inr (Accepted r)" ..
  have "require_human_ratification human_spec" by (simp add: human_spec_def)
  from accepted_ratification [OF human_policy_new r this] show ?thesis by auto
qed

theorem sealed_decisions_witness:
  "\<exists>r. evaluate sample_policy_env sample_policy (sample_snapshot True) = Inr (Accepted r) \<and>
     verify_receipt sample_policy_env sample_policy r"
proof -
  from sample_evaluate obtain r where
    r: "evaluate sample_policy_env sample_policy (sample_snapshot True) = Inr (Accepted r)" ..
  from sealed_decisions_verify [OF _ _ r] r show ?thesis by simp
qed

theorem veto_blocks_witness:
  "\<exists>b. evaluate sample_policy_env sample_policy (sample_snapshot False) = Inr (Blocked b) \<and>
     FailedTest \<in> set (pb_reasons b)"
proof -
  from sample_evaluate_failed obtain b where
    b: "evaluate sample_policy_env sample_policy (sample_snapshot False) = Inr (Blocked b)" ..
  let ?e = "sn_evidence (sample_snapshot False) ! 1"
  have "?e \<in> set (sn_evidence (sample_snapshot False))" "FailedTest \<in> set (veto ?e)"
    by (simp_all add: sample_snapshot_def)
  from veto_blocks_completion [OF b this] b show ?thesis by auto
qed

theorem evaluate_order_witness:
  "evaluate sample_policy_env sample_policy
     ((sample_snapshot True)\<lparr>sn_evidence := rev (sn_evidence (sample_snapshot True))\<rparr>)
   = evaluate sample_policy_env sample_policy (sample_snapshot True)"
proof -
  from sample_evaluate obtain r where
    r: "evaluate sample_policy_env sample_policy (sample_snapshot True) = Inr (Accepted r)" ..
  from evaluate_order_independent [OF r, of "(sample_snapshot True)\<lparr>sn_evidence := rev (sn_evidence (sample_snapshot True))\<rparr>"]
  show ?thesis by (simp add: r)
qed

definition empty_receipt :: completion_receipt where
  "empty_receipt = \<lparr>cr_task_id = [], cr_context_id = [], cr_request_digest = [],
     cr_policy_id = ''smesh-completion/v1'', cr_policy_version = 1, cr_policy_hash = sample_digest,
     cr_evidence_snapshot_hash = [], cr_artifact_set_digest = [], cr_evidence_hashes = [],
     cr_assurance_bps = 0, cr_ratification_receipt_hash = None, cr_seal = sha256_text (replicate 32 7)\<rparr>"

definition other_receipt :: completion_receipt where
  "other_receipt = empty_receipt\<lparr>cr_task_id := ''t''\<rparr>"

definition sealed_env :: policy_env where
  "sealed_env = sample_policy_env\<lparr>json_to_vec :=
     (\<lambda>j. if j = receipt_claims empty_receipt then Inr [0]
          else if j = receipt_claims other_receipt then Inr [1] else Inl ''refused'')\<rparr>"

theorem seal_binds_witness:
  "verify_receipt sealed_env sample_policy empty_receipt \<and>
   verify_receipt sealed_env sample_policy other_receipt \<and>
   (\<exists>m1 m2. m1 \<noteq> m2 \<and> hmac_sha256 sealed_env [1] m1 = hmac_sha256 sealed_env [1] m2)"
proof -
  have claims: "receipt_claims other_receipt \<noteq> receipt_claims empty_receipt"
    by (simp add: receipt_claims_def other_receipt_def empty_receipt_def)
  have v: "verify_receipt sealed_env sample_policy empty_receipt"
    "verify_receipt sealed_env sample_policy other_receipt"
    using claims
    by (simp_all add: verify_receipt_def sealed_env_def sample_policy_def other_receipt_def empty_receipt_def
        development_def sample_policy_env_def)
  have inj: "\<And>x y b. json_to_vec sealed_env x = Inr b \<Longrightarrow> json_to_vec sealed_env y = Inr b \<Longrightarrow> x = y"
    by (auto simp: sealed_env_def split: if_splits)
  have "other_receipt \<noteq> empty_receipt" "cr_seal empty_receipt = cr_seal other_receipt"
    using claims by (auto simp: other_receipt_def)
  with seal_binds_receipt [OF inj v(1), where ?r2.0 = other_receipt] v show ?thesis
    by (auto simp: sample_policy_def)
qed

theorem digest_text_witness: "decode_sha256_tag (sha256_text (replicate 32 255)) = Some (replicate 32 255)"
  using digest_text_round_trip [of "[]" "[]" "replicate 32 255"] by simp

theorem policy_profile_witness:
  "new_with_receipt_key sample_policy_env (development\<lparr>review_issuers := [''b'', ''a'']\<rparr>) [1]
   = new_with_receipt_key sample_policy_env (development\<lparr>review_issuers := [''a'', ''b'']\<rparr>) [1]"
  using policy_profile_canonical [of "development\<lparr>review_issuers := [''a'', ''b'']\<rparr>" "[''b'', ''a'']"
      "test_issuers development" "contradiction_issuers development" "attestation_authorities development"
      "ratification_authorities development" sample_policy_env "[1]"]
  by (simp add: development_def)

end
