(* ===== verification/Request_Guard.thy ===== *)
theory Request_Guard
  imports Task_Pages Policy_Decisions
begin

text \<open>
  The request guard \<^verbatim>\<open>src/guard.rs\<close>: what the gateway checks before a request reaches the
  official handler and before a task, a page or a stream event becomes visible, with the store hook
  \<open>validate_current_list_page\<close> of \<^verbatim>\<open>src/server.rs\<close>.

  The wrapped handler is a trait object: its answer is an argument of each guard operation. So are
  the reads of the store, one argument per read, because other requests run between two of them.
  \<open>serde_json::from_value\<close> and \<open>to_value\<close> of receipts and checkpoints are the record
  \<open>record_codec\<close>. A stream is the list of its results.
\<close>

section \<open>Completion records in the metadata\<close>

record record_codec =
  receipt_from_value :: "json \<Rightarrow> completion_receipt option"
  checkpoint_from_value :: "json \<Rightarrow> policy_checkpoint option"
  receipt_to_value :: "completion_receipt \<Rightarrow> string + json"
  checkpoint_to_value :: "policy_checkpoint \<Rightarrow> string + json"
  block_to_value :: "policy_block \<Rightarrow> string + json"

definition completion_metadata :: "task \<Rightarrow> json option" where
  "completion_metadata t = Option.bind (metadata t) (\<lambda>kvs. map_of kvs ''smesh.completionPolicy'')"

definition status_is :: "string \<Rightarrow> json \<Rightarrow> bool" where
  "status_is st v \<longleftrightarrow> Option.bind (json_get ''status'' v) json_as_str = Some st"

definition policy_record :: "string \<Rightarrow> task \<Rightarrow> json option" where
  "policy_record st t =
     Option.bind (case completion_metadata t of Some v \<Rightarrow> if status_is st v then Some v else None | None \<Rightarrow> None)
       (json_get ''record'')"

definition manifest_of_artifact :: "policy_env \<Rightarrow> artifact \<Rightarrow> a2a_error + artifact_manifest" where
  "manifest_of_artifact E a =
     and_then (ok_or (artifact_name a) invalid_agent_response) (\<lambda>name.
       case artifact_parts a of
         [p] \<Rightarrow>
           (case part_content p of
              Text content \<Rightarrow>
                and_then (ok_or (part_media_type p) invalid_agent_response) (\<lambda>media.
                  Inr \<lparr>am_name = name, am_media_type = media,
                       am_digest = content_digest E (ascii content)\<rparr>)
            | _ \<Rightarrow> Inl invalid_agent_response)
       | _ \<Rightarrow> Inl invalid_agent_response)"

definition validate_open_task ::
    "policy_env \<Rightarrow> record_codec \<Rightarrow> versioned_completion_policy \<Rightarrow> task \<Rightarrow> a2a_error + unit" where
  "validate_open_task E G pol t =
     and_then (ensure (\<not> (case artifacts t of Some as \<Rightarrow> as \<noteq> [] | None \<Rightarrow> False)) invalid_agent_response) (\<lambda>_.
       if state (status t) = InputRequired
       then and_then (ok_or (policy_record ''awaitingRatification'' t) invalid_agent_response) (\<lambda>v.
            and_then (ok_or (checkpoint_from_value G v) invalid_agent_response) (\<lambda>cp.
              ensure (verify_checkpoint E pol cp (task_id t) (context_id t)) invalid_agent_response))
       else case completion_metadata t of
           None \<Rightarrow> Inr ()
         | Some v \<Rightarrow> ensure (state (status t) = Failed \<and> status_is ''blocked'' v) invalid_agent_response)"

definition validate_completed_task ::
    "policy_env \<Rightarrow> record_codec \<Rightarrow> versioned_completion_policy \<Rightarrow> task \<Rightarrow> bool \<Rightarrow> a2a_error + unit" where
  "validate_completed_task E G pol t projected_out =
     and_then (ok_or (policy_record ''accepted'' t) invalid_agent_response) (\<lambda>v.
     and_then (ok_or (receipt_from_value G v) invalid_agent_response) (\<lambda>r.
     and_then (ensure (cr_task_id r = task_id t \<and> cr_context_id r = context_id t \<and>
         cr_policy_id r = policy_id (vp_spec pol) \<and> cr_policy_version r = version (vp_spec pol) \<and>
         cr_policy_hash r = vp_policy_hash pol \<and> verify_receipt E pol r) invalid_agent_response) (\<lambda>_.
       case artifacts t of
         None \<Rightarrow> if projected_out then Inr () else Inl invalid_agent_response
       | Some as \<Rightarrow>
           and_then (collect_res (manifest_of_artifact E) as) (\<lambda>manifests.
           and_then (map_err (\<lambda>_. invalid_agent_response) (artifact_set_digest E manifests)) (\<lambda>digest.
             ensure (cr_artifact_set_digest r = digest) invalid_agent_response)))))"

definition validate_task_with_policy_projection ::
    "policy_env \<Rightarrow> record_codec \<Rightarrow> versioned_completion_policy \<Rightarrow> task \<Rightarrow> bool \<Rightarrow> a2a_error + unit" where
  "validate_task_with_policy_projection E G pol t projected_out =
     (if state (status t) \<noteq> Completed then validate_open_task E G pol t
      else validate_completed_task E G pol t projected_out)"

definition validate_task_with_policy ::
    "policy_env \<Rightarrow> record_codec \<Rightarrow> versioned_completion_policy \<Rightarrow> task \<Rightarrow> a2a_error + unit" where
  "validate_task_with_policy E G pol t = validate_task_with_policy_projection E G pol t False"

definition validate_stream_item :: "policy_env \<Rightarrow> record_codec \<Rightarrow> versioned_completion_policy
    \<Rightarrow> a2a_error + stream_response \<Rightarrow> a2a_error + stream_response" where
  "validate_stream_item E G pol item =
     (case item of
        Inr (SR_Task t) \<Rightarrow> and_then (validate_task_with_policy E G pol t) (\<lambda>_. Inr (SR_Task t))
      | Inr (SR_ArtifactUpdate _) \<Rightarrow> Inl invalid_agent_response
      | other \<Rightarrow> other)"

definition validate_stream :: "policy_env \<Rightarrow> record_codec \<Rightarrow> versioned_completion_policy
    \<Rightarrow> (a2a_error + stream_response) list \<Rightarrow> (a2a_error + stream_response) list" where
  "validate_stream E G pol items = map (validate_stream_item E G pol) items"

section \<open>Request checks\<close>

definition reject_tenant :: "string option \<Rightarrow> a2a_error + unit" where
  "reject_tenant tenant =
     ensure (tenant = None) (invalid_params ''tenant is not supported by the single-tenant gateway'')"

definition validate_history_length :: "int option \<Rightarrow> a2a_error + unit" where
  "validate_history_length hl =
     ensure (\<not> (case hl of Some l \<Rightarrow> \<not> (0 \<le> l \<and> l \<le> 100) | None \<Rightarrow> False))
       (invalid_params ''historyLength must be between 0 and 100'')"

definition apply_history_length :: "int option \<Rightarrow> task \<Rightarrow> task" where
  "apply_history_length hl t =
     (case hl of
        None \<Rightarrow> t
      | Some l \<Rightarrow>
          if l = 0 then t\<lparr>history := None\<rparr>
          else case usize_of_i32 l of
              None \<Rightarrow> t
            | Some limit \<Rightarrow>
                (case history t of
                   Some h \<Rightarrow> if limit < length h then t\<lparr>history := Some (drop (length h - limit) h)\<rparr> else t
                 | None \<Rightarrow> t))"

text \<open>The check of one task of a page; the state is the identifiers seen and the previous task.\<close>

definition listed_out_of_order :: "task \<Rightarrow> task \<Rightarrow> bool" where
  "listed_out_of_order left t \<longleftrightarrow>
     (case (timestamp (status left), timestamp (status t)) of
        (None, Some _) \<Rightarrow> True
      | (Some a, Some b) \<Rightarrow> a < b \<or> (a = b \<and> task_id t < task_id left)
      | (None, None) \<Rightarrow> task_id t < task_id left
      | (Some _, None) \<Rightarrow> False)"

definition listed_task_bad :: "list_tasks_request \<Rightarrow> string set \<Rightarrow> task \<Rightarrow> bool" where
  "listed_task_bad r ids t \<longleftrightarrow>
     task_id t = [] \<or> task_id t \<in> ids \<or>
     (case lr_context_id r of Some c \<Rightarrow> context_id t \<noteq> c | None \<Rightarrow> False) \<or>
     (case lr_status r of Some s \<Rightarrow> state (status t) \<noteq> s | None \<Rightarrow> False) \<or>
     (case lr_status_timestamp_after r of
        Some a \<Rightarrow> (case timestamp (status t) of None \<Rightarrow> True | Some ts \<Rightarrow> ts < a) | None \<Rightarrow> False) \<or>
     (\<not> (case lr_include_artifacts r of Some b \<Rightarrow> b | None \<Rightarrow> False) \<and> artifacts t \<noteq> None)"

definition listed_history_bad :: "list_tasks_request \<Rightarrow> task \<Rightarrow> bool" where
  "listed_history_bad r t \<longleftrightarrow>
     (case Option.bind (lr_history_length r) usize_of_i32 of
        Some limit \<Rightarrow> (case history t of Some h \<Rightarrow> limit = 0 \<or> limit < length h | None \<Rightarrow> False)
      | None \<Rightarrow> False)"

definition check_listed_task :: "list_tasks_request \<Rightarrow> string set \<times> task option \<Rightarrow> task
    \<Rightarrow> a2a_error + (string set \<times> task option)" where
  "check_listed_task r st t =
     and_then (ensure (\<not> listed_task_bad r (fst st) t) invalid_agent_response) (\<lambda>_.
     and_then (ensure (\<not> listed_history_bad r t) invalid_agent_response) (\<lambda>_.
     and_then (ensure (\<not> (case snd st of Some left \<Rightarrow> listed_out_of_order left t | None \<Rightarrow> False))
       invalid_agent_response) (\<lambda>_.
       Inr (insert (task_id t) (fst st), Some t))))"

definition validate_list_structure :: "list_tasks_request \<Rightarrow> list_tasks_response \<Rightarrow> a2a_error + unit" where
  "validate_list_structure r resp =
     and_then (ensure (\<not> (lt_page_size resp \<noteq> (case lr_page_size r of Some p \<Rightarrow> p | None \<Rightarrow> 50) \<or>
         \<not> (1 \<le> lt_page_size resp \<and> lt_page_size resp \<le> 100) \<or> lt_total_size resp < 0 \<or>
         nat (lt_page_size resp) < length (lt_tasks resp) \<or>
         nat (lt_total_size resp) < length (lt_tasks resp))) invalid_agent_response) (\<lambda>_.
     and_then (try_for (check_listed_task r) ({}, None) (lt_tasks resp)) (\<lambda>_. Inr ()))"

definition expected_projection :: "list_tasks_request \<Rightarrow> task \<Rightarrow> task" where
  "expected_projection r t =
     (let t1 = (if (case lr_include_artifacts r of Some b \<Rightarrow> b | None \<Rightarrow> False) then t else t\<lparr>artifacts := None\<rparr>)
      in case Option.bind (lr_history_length r) usize_of_i32 of
           None \<Rightarrow> t1
         | Some limit \<Rightarrow>
             if limit = 0 then t1\<lparr>history := None\<rparr>
             else (case history t1 of
                     Some h \<Rightarrow> if limit < length h then t1\<lparr>history := Some (drop (length h - limit) h)\<rparr> else t1
                   | None \<Rightarrow> t1))"

definition validate_current_list_page :: "(string \<Rightarrow> a2a_error + task option) \<Rightarrow> list_tasks_request
    \<Rightarrow> list_tasks_response \<Rightarrow> a2a_error + unit" where
  "validate_current_list_page get r resp =
     try_for (\<lambda>_ t. and_then (get (task_id t)) (\<lambda>found.
       and_then (ok_or found (task_not_found (task_id t))) (\<lambda>stored.
         ensure (expected_projection r stored = t) invalid_agent_response))) () (lt_tasks resp)"

definition reject_terminal_subscription :: "(string \<Rightarrow> a2a_error + task option) \<Rightarrow> string \<Rightarrow> a2a_error + unit" where
  "reject_terminal_subscription get i =
     and_then (get i) (\<lambda>found.
       ensure (\<not> (case found of Some t \<Rightarrow> is_terminal (state (status t)) | None \<Rightarrow> False))
         (unsupported_operation ''terminal tasks cannot be subscribed to''))"

definition preflight_message :: "(string \<Rightarrow> a2a_error + task option) \<Rightarrow> send_message_request \<Rightarrow> a2a_error + unit" where
  "preflight_message get req =
     and_then (reject_tenant (smr_tenant req)) (\<lambda>_.
       case msg_task_id (smr_message req) of
         None \<Rightarrow> Inr ()
       | Some i \<Rightarrow>
           and_then (get i) (\<lambda>found.
             ensure (\<not> (case found of Some t \<Rightarrow> is_terminal (state (status t)) | None \<Rightarrow> False))
               (unsupported_operation ''terminal tasks cannot accept additional messages'')))"

section \<open>The guarded operations\<close>

definition guard_send_message :: "policy_env \<Rightarrow> record_codec \<Rightarrow> versioned_completion_policy
    \<Rightarrow> (string \<Rightarrow> a2a_error + task option) \<Rightarrow> (send_message_request \<Rightarrow> a2a_error + send_message_response)
    \<Rightarrow> send_message_request \<Rightarrow> a2a_error + send_message_response" where
  "guard_send_message E G pol get inner req =
     and_then (preflight_message get req) (\<lambda>_.
     and_then (inner req) (\<lambda>response.
       case response of
         SendTask t \<Rightarrow> and_then (validate_task_with_policy E G pol t) (\<lambda>_. Inr response)
       | SendMessage _ \<Rightarrow> Inr response))"

definition guard_send_streaming_message :: "policy_env \<Rightarrow> record_codec \<Rightarrow> versioned_completion_policy
    \<Rightarrow> (string \<Rightarrow> a2a_error + task option)
    \<Rightarrow> (send_message_request \<Rightarrow> a2a_error + (a2a_error + stream_response) list)
    \<Rightarrow> send_message_request \<Rightarrow> a2a_error + (a2a_error + stream_response) list" where
  "guard_send_streaming_message E G pol get inner req =
     and_then (preflight_message get req) (\<lambda>_.
     and_then (inner req) (\<lambda>items. Inr (validate_stream E G pol items)))"

definition guard_get_task :: "policy_env \<Rightarrow> record_codec \<Rightarrow> versioned_completion_policy
    \<Rightarrow> (get_task_request \<Rightarrow> a2a_error + task) \<Rightarrow> get_task_request \<Rightarrow> a2a_error + task" where
  "guard_get_task E G pol inner req =
     and_then (reject_tenant (gtr_tenant req)) (\<lambda>_.
     and_then (validate_history_length (gtr_history_length req)) (\<lambda>_.
     and_then (inner req) (\<lambda>t.
     and_then (validate_task_with_policy E G pol t) (\<lambda>_.
       Inr (apply_history_length (gtr_history_length req) t)))))"

definition guard_list_tasks :: "policy_env \<Rightarrow> record_codec \<Rightarrow> versioned_completion_policy
    \<Rightarrow> (list_tasks_request \<Rightarrow> a2a_error + list_tasks_response) \<Rightarrow> bool
    \<Rightarrow> (list_tasks_request \<Rightarrow> list_tasks_response \<Rightarrow> a2a_error + unit)
    \<Rightarrow> list_tasks_request \<Rightarrow> a2a_error + list_tasks_response" where
  "guard_list_tasks E G pol list_store self_authenticating validate_page req =
     and_then (reject_tenant (lr_tenant req)) (\<lambda>_.
     and_then (validate_history_length (lr_history_length req)) (\<lambda>_.
     and_then (list_store req) (\<lambda>resp.
     and_then (validate_list_structure req resp) (\<lambda>_.
     and_then (if self_authenticating then Inr () else validate_page req resp) (\<lambda>_.
     and_then (try_for (\<lambda>_ t. validate_task_with_policy_projection E G pol t
         (\<not> (case lr_include_artifacts req of Some b \<Rightarrow> b | None \<Rightarrow> False))) () (lt_tasks resp)) (\<lambda>_.
       Inr resp))))))"

definition guard_cancel_task :: "policy_env \<Rightarrow> record_codec \<Rightarrow> versioned_completion_policy
    \<Rightarrow> (cancel_task_request \<Rightarrow> a2a_error + task) \<Rightarrow> cancel_task_request \<Rightarrow> a2a_error + task" where
  "guard_cancel_task E G pol inner req =
     and_then (reject_tenant (ctr_tenant req)) (\<lambda>_.
     and_then (inner req) (\<lambda>t.
     and_then (validate_task_with_policy E G pol t) (\<lambda>_. Inr t)))"

definition guard_subscribe_to_task :: "policy_env \<Rightarrow> record_codec \<Rightarrow> versioned_completion_policy
    \<Rightarrow> (string \<Rightarrow> a2a_error + task option)
    \<Rightarrow> (subscribe_to_task_request \<Rightarrow> a2a_error + (a2a_error + stream_response) list)
    \<Rightarrow> (string \<Rightarrow> a2a_error + task option)
    \<Rightarrow> subscribe_to_task_request \<Rightarrow> a2a_error + (a2a_error + stream_response) list" where
  "guard_subscribe_to_task E G pol get_before inner get_after req =
     and_then (reject_tenant (str_tenant req)) (\<lambda>_.
     and_then (reject_terminal_subscription get_before (str_id req)) (\<lambda>_.
       case inner req of
         Inr items \<Rightarrow>
           and_then (reject_terminal_subscription get_after (str_id req)) (\<lambda>_.
             Inr (validate_stream E G pol items))
       | Inl error \<Rightarrow>
           and_then (reject_terminal_subscription get_after (str_id req)) (\<lambda>_. Inl error)))"

definition guard_pass_through :: "string option \<Rightarrow> ('q \<Rightarrow> a2a_error + 'a) \<Rightarrow> 'q \<Rightarrow> a2a_error + 'a" where
  "guard_pass_through tenant inner req = and_then (reject_tenant tenant) (\<lambda>_. inner req)"

section \<open>What becomes visible\<close>

text \<open>
  A completed task is backed by a receipt: the receipt in its metadata verifies, names the task and
  its context, and its artifact digest is recomputed from the texts the task carries.
\<close>

definition receipt_backed :: "policy_env \<Rightarrow> record_codec \<Rightarrow> versioned_completion_policy \<Rightarrow> task \<Rightarrow> bool" where
  "receipt_backed E G pol t \<longleftrightarrow>
     (case Option.bind (policy_record ''accepted'' t) (receipt_from_value G) of
        None \<Rightarrow> False
      | Some r \<Rightarrow>
          verify_receipt E pol r \<and> cr_task_id r = task_id t \<and> cr_context_id r = context_id t \<and>
          (case artifacts t of
             None \<Rightarrow> False
           | Some as \<Rightarrow>
               (case collect_res (manifest_of_artifact E) as of
                  Inl _ \<Rightarrow> False
                | Inr ms \<Rightarrow> artifact_set_digest E ms = Inr (cr_artifact_set_digest r))))"

definition checkpoint_backed :: "policy_env \<Rightarrow> record_codec \<Rightarrow> versioned_completion_policy \<Rightarrow> task \<Rightarrow> bool" where
  "checkpoint_backed E G pol t \<longleftrightarrow>
     (case Option.bind (policy_record ''awaitingRatification'' t) (checkpoint_from_value G) of
        None \<Rightarrow> False
      | Some cp \<Rightarrow> verify_checkpoint E pol cp (task_id t) (context_id t))"

definition visible_ok :: "policy_env \<Rightarrow> record_codec \<Rightarrow> versioned_completion_policy \<Rightarrow> task \<Rightarrow> bool" where
  "visible_ok E G pol t \<longleftrightarrow>
     (if state (status t) = Completed then receipt_backed E G pol t
      else artifacts t \<in> {None, Some []} \<and>
        (state (status t) = InputRequired \<longrightarrow> checkpoint_backed E G pol t) \<and>
        (state (status t) \<notin> {InputRequired, Failed} \<longrightarrow> completion_metadata t = None))"

lemma validate_task_visible:
  assumes "validate_task_with_policy E G pol t = Inr ()"
  shows "visible_ok E G pol t"
proof (cases "state (status t) = Completed")
  case True
  with assms have "receipt_backed E G pol t"
    by (auto simp: validate_task_with_policy_def validate_task_with_policy_projection_def
        validate_completed_task_def receipt_backed_def result_simps simp del: collect_res_Inr_iff
        split: option.splits sum.splits)
  with True show ?thesis by (simp add: visible_ok_def)
next
  case False
  with assms have "validate_open_task E G pol t = Inr ()"
    by (simp add: validate_task_with_policy_def validate_task_with_policy_projection_def)
  with False show ?thesis
    by (auto simp: validate_open_task_def visible_ok_def checkpoint_backed_def result_simps
        split: option.splits if_splits)
qed

lemma visible_ok_history [simp]: "visible_ok E G pol (t\<lparr>history := h\<rparr>) = visible_ok E G pol t"
  by (simp add: visible_ok_def receipt_backed_def checkpoint_backed_def policy_record_def completion_metadata_def
      cong: option.case_cong)

lemma apply_history_length_visible [simp]:
  "visible_ok E G pol (apply_history_length hl t) = visible_ok E G pol t"
  by (simp add: apply_history_length_def split: option.splits)

lemma validate_stream_visible:
  assumes "Inr (SR_Task t) \<in> set (validate_stream E G pol items)"
  shows "visible_ok E G pol t"
  using assms
  by (auto simp: validate_stream_def validate_stream_item_def result_simps
      split: sum.splits stream_response.splits intro: validate_task_visible)

lemma validate_stream_no_artifact_update:
  "Inr (SR_ArtifactUpdate u) \<notin> set (validate_stream E G pol items)"
  by (auto simp: validate_stream_def validate_stream_item_def result_simps
      split: sum.splits stream_response.splits)

lemma usize_of_i32_eq: "usize_of_i32 l = (if 0 \<le> l then Some (nat l) else None)"
  by (simp add: usize_of_i32_def)

lemma expected_projection_eq: "expected_projection r t = project_task r t"
  by (simp add: expected_projection_def project_task_def keep_last_def Let_def split: option.splits)

section \<open>Properties\<close>

text \<open>
  C36. Nothing unverified becomes visible: whatever the wrapped handler returns, a task that leaves
  the guard in state \<open>Completed\<close> carries a receipt that verifies and whose artifact digest is
  recomputed from the delivered texts, one in \<open>InputRequired\<close> carries a verified checkpoint for
  this task and context, every other one carries no artifacts, and no stream yields an artifact
  update.
\<close>

theorem guard_outputs_visible:
  "(guard_get_task E G pol get_inner gq = Inr t \<longrightarrow> visible_ok E G pol t) \<and>
   (guard_cancel_task E G pol cancel_inner cq = Inr t \<longrightarrow> visible_ok E G pol t) \<and>
   (guard_send_message E G pol get send_inner sq = Inr (SendTask t) \<longrightarrow> visible_ok E G pol t) \<and>
   (guard_send_streaming_message E G pol get stream_inner sq = Inr items \<and> Inr (SR_Task t) \<in> set items
      \<longrightarrow> visible_ok E G pol t) \<and>
   (guard_subscribe_to_task E G pol g1 sub_inner g2 uq = Inr items \<and> Inr (SR_Task t) \<in> set items
      \<longrightarrow> visible_ok E G pol t) \<and>
   (guard_send_streaming_message E G pol get stream_inner sq = Inr items \<or>
    guard_subscribe_to_task E G pol g1 sub_inner g2 uq = Inr items
      \<longrightarrow> Inr (SR_ArtifactUpdate u) \<notin> set items)"
proof (intro conjI)
  show "guard_get_task E G pol get_inner gq = Inr t \<longrightarrow> visible_ok E G pol t"
    by (auto simp: guard_get_task_def result_simps intro: validate_task_visible)
  show "guard_cancel_task E G pol cancel_inner cq = Inr t \<longrightarrow> visible_ok E G pol t"
    by (auto simp: guard_cancel_task_def result_simps intro: validate_task_visible)
  show "guard_send_message E G pol get send_inner sq = Inr (SendTask t) \<longrightarrow> visible_ok E G pol t"
    by (auto simp: guard_send_message_def result_simps intro: validate_task_visible
        split: send_message_response.split_asm)
  show "guard_send_streaming_message E G pol get stream_inner sq = Inr items \<and> Inr (SR_Task t) \<in> set items
      \<longrightarrow> visible_ok E G pol t"
    by (auto simp: guard_send_streaming_message_def result_simps intro: validate_stream_visible)
  show "guard_subscribe_to_task E G pol g1 sub_inner g2 uq = Inr items \<and> Inr (SR_Task t) \<in> set items
      \<longrightarrow> visible_ok E G pol t"
    by (auto simp: guard_subscribe_to_task_def result_simps intro: validate_stream_visible split: sum.splits)
  show "guard_send_streaming_message E G pol get stream_inner sq = Inr items \<or>
    guard_subscribe_to_task E G pol g1 sub_inner g2 uq = Inr items
      \<longrightarrow> Inr (SR_ArtifactUpdate u) \<notin> set items"
    by (auto simp: guard_send_streaming_message_def guard_subscribe_to_task_def result_simps
        validate_stream_no_artifact_update split: sum.splits)
qed

text \<open>
  A subscription is only established to a task that was not terminal before and after the
  wrapped handler resolved it; a handler error on a task that became terminal in between is
  reported as the terminal-task error.
\<close>

theorem subscription_to_live_task:
  "(guard_subscribe_to_task E G pol g1 inner g2 q = Inr items \<longrightarrow>
      (\<exists>a b. g1 (str_id q) = Inr a \<and> g2 (str_id q) = Inr b \<and>
         (\<forall>t. a = Some t \<or> b = Some t \<longrightarrow> \<not> is_terminal (state (status t))))) \<and>
   (str_tenant q = None \<and> g1 (str_id q) = Inr None \<and> inner q = Inl err \<and>
      g2 (str_id q) = Inr (Some t) \<and> is_terminal (state (status t)) \<longrightarrow>
    guard_subscribe_to_task E G pol g1 inner g2 q
      = Inl (unsupported_operation ''terminal tasks cannot be subscribed to''))"
  by (auto simp: guard_subscribe_to_task_def reject_terminal_subscription_def reject_tenant_def
      result_simps ensure_def split: sum.splits option.splits if_splits)

section \<open>Witnesses\<close>

definition sample_codec_records :: record_codec where
  "sample_codec_records =
     \<lparr>receipt_from_value = (\<lambda>v. None), checkpoint_from_value = (\<lambda>v. None),
      receipt_to_value = (\<lambda>r. Inr JNull), checkpoint_to_value = (\<lambda>c. Inr JNull),
      block_to_value = (\<lambda>b. Inr JNull)\<rparr>"

theorem guard_outputs_witness:
  "visible_ok sample_policy_env sample_codec_records sample_policy (sample_task ''a'' Working 1)"
proof -
  have "guard_get_task sample_policy_env sample_codec_records sample_policy (\<lambda>q. Inr (sample_task ''a'' Working 1))
      \<lparr>gtr_id = ''a'', gtr_history_length = None, gtr_tenant = None\<rparr> = Inr (sample_task ''a'' Working 1)"
    by (simp add: guard_get_task_def reject_tenant_def validate_history_length_def ensure_def
        validate_task_with_policy_def validate_task_with_policy_projection_def validate_open_task_def
        completion_metadata_def apply_history_length_def sample_task_def)
  with guard_outputs_visible show ?thesis by blast
qed

theorem subscription_witness:
  "guard_subscribe_to_task sample_policy_env sample_codec_records sample_policy (\<lambda>i. Inr None)
     (\<lambda>q. Inl (task_not_found ''a'')) (\<lambda>i. Inr (Some (sample_task ''a'' Canceled 1)))
     \<lparr>str_id = ''a'', str_tenant = None\<rparr>
   = Inl (unsupported_operation ''terminal tasks cannot be subscribed to'')"
  using subscription_to_live_task [where q = "\<lparr>str_id = ''a'', str_tenant = None\<rparr>"
      and ?g1.0 = "\<lambda>i. Inr None" and inner = "\<lambda>q. Inl (task_not_found ''a'')"
      and ?g2.0 = "\<lambda>i. Inr (Some (sample_task ''a'' Canceled 1))" and err = "task_not_found ''a''"
      and t = "sample_task ''a'' Canceled 1" and items = "[]"
      and E = sample_policy_env and G = sample_codec_records and pol = sample_policy]
  by (simp add: sample_task_def)

end
