(* ===== verification/Guarded_Listing.thy ===== *)
theory Guarded_Listing
  imports Request_Guard
begin

text \<open>
  The guard and the store together: the contract between the listing of a store and the structural
  check of the guard (\<open>GuardedRequestHandler::list_tasks\<close> in \<^verbatim>\<open>src/guard.rs\<close>, which calls
  \<open>store.list\<close> and then \<open>validate_list_structure\<close>). The locale \<open>page_source\<close> states what a store
  promises of a page; every page of the bounded store keeps the promise, along every run, including
  pages of frozen snapshots read long after the ledger has changed.
\<close>

section \<open>Well-formed listings\<close>

definition page_list_ok :: "list_tasks_request \<Rightarrow> task list \<Rightarrow> bool" where
  "page_list_ok r ts \<longleftrightarrow>
     sorted (map list_key ts) \<and> distinct (map task_id ts) \<and>
     list_all (\<lambda>t. list_filter r t \<and> project_task r t = t \<and> task_id t \<noteq> []) ts"

definition page_of :: "list_tasks_request \<Rightarrow> list_tasks_response \<Rightarrow> task list \<Rightarrow> nat \<Rightarrow> bool" where
  "page_of r resp ts pos \<longleftrightarrow>
     lt_page_size resp = (case lr_page_size r of None \<Rightarrow> 50 | Some p \<Rightarrow> p) \<and>
     1 \<le> lt_page_size resp \<and> lt_page_size resp \<le> 100 \<and>
     lt_tasks resp = take (nat (lt_page_size resp)) (drop pos ts) \<and>
     lt_total_size resp = i32_of_usize (length ts)"

lemma list_key_order:
  "list_key a \<le> list_key b \<Longrightarrow> \<not> listed_out_of_order a b"
  by (auto simp: list_key_def listed_out_of_order_def less_le_not_le split: option.splits)

lemma listed_task_fine:
  assumes "list_filter r t" and "project_task r t = t" and "task_id t \<noteq> []" and "task_id t \<notin> ids"
  shows "\<not> listed_task_bad r ids t" and "\<not> listed_history_bad r t"
proof -
  have "(case lr_include_artifacts r of Some b \<Rightarrow> b | None \<Rightarrow> False) \<or> artifacts (project_task r t) = None"
    by (simp add: project_task_def Let_def split: option.splits)
  with assms show "\<not> listed_task_bad r ids t"
    by (auto simp: listed_task_bad_def list_filter_def split: option.splits)
  have "\<not> listed_history_bad r (project_task r t)"
    by (auto simp: listed_history_bad_def project_task_def keep_last_def Let_def split: option.splits if_splits)
  with assms(2) show "\<not> listed_history_bad r t" by simp
qed

lemma check_listed_tasks:
  assumes "sorted (map list_key ts)" and "distinct (map task_id ts)"
    and "list_all (\<lambda>t. list_filter r t \<and> project_task r t = t \<and> task_id t \<noteq> []) ts"
    and "task_id ` set ts \<inter> ids = {}"
    and "\<And>p t. prev = Some p \<Longrightarrow> t \<in> set ts \<Longrightarrow> list_key p \<le> list_key t"
  shows "is_ok (try_for (check_listed_task r) (ids, prev) ts)"
  using assms
proof (induction ts arbitrary: ids prev)
  case Nil
  then show ?case by simp
next
  case (Cons t ts)
  have "check_listed_task r (ids, prev) t = Inr (insert (task_id t) ids, Some t)"
    using Cons.prems listed_task_fine [of r t ids]
    by (auto simp: check_listed_task_def ensure_def list_key_order split: option.splits)
  moreover have "is_ok (try_for (check_listed_task r) (insert (task_id t) ids, Some t) ts)"
    using Cons.prems by (intro Cons.IH) (auto simp: sorted_wrt_map)
  ultimately show ?case by simp
qed

lemma page_list_ok_slice: "page_list_ok r ts \<Longrightarrow> page_list_ok r (take n (drop m ts))"
  unfolding page_list_ok_def
  by (auto simp: sorted_wrt_take sorted_wrt_drop take_map [symmetric] drop_map [symmetric] list_all_iff
      dest!: in_set_takeD in_set_dropD)

section \<open>The contract of a page source\<close>

locale page_source =
  fixes list_page :: "'e \<Rightarrow> list_tasks_request \<Rightarrow> 's \<Rightarrow> (a2a_error + list_tasks_response) \<times> 's"
    and env_ok :: "'e \<Rightarrow> 's \<Rightarrow> bool"
    and invar :: "'s \<Rightarrow> bool"
  assumes page_sound: "invar s \<Longrightarrow> env_ok e s \<Longrightarrow> list_page e r s = (Inr resp, s') \<Longrightarrow>
      \<exists>ts pos. page_list_ok r ts \<and> page_of r resp ts pos"
    and page_invar: "invar s \<Longrightarrow> env_ok e s \<Longrightarrow> invar (snd (list_page e r s))"
begin

lemma structure_accepted:
  assumes "invar s" and "env_ok e s" and "list_page e r s = (Inr resp, s')"
  shows "validate_list_structure r resp = Inr ()"
proof -
  from page_sound [OF assms] obtain ts pos where ok: "page_list_ok r ts" and page: "page_of r resp ts pos"
    by auto
  have "page_list_ok r (lt_tasks resp)"
    using page_list_ok_slice [OF ok] page by (simp add: page_of_def)
  then obtain u where "try_for (check_listed_task r) ({}, None) (lt_tasks resp) = Inr u"
    using check_listed_tasks [of "lt_tasks resp" r "{}" None]
    by (auto simp: page_list_ok_def result_simps)
  moreover have "length (lt_tasks resp) \<le> nat (lt_page_size resp)" "nat (lt_page_size resp) \<le> 100"
    "length (lt_tasks resp) \<le> length ts"
    using page by (auto simp: page_of_def)
  moreover have "0 \<le> lt_total_size resp" "length (lt_tasks resp) \<le> nat (lt_total_size resp)"
    using page calculation(2-4) by (auto simp: page_of_def i32_of_usize_def i32_max_def)
  ultimately show ?thesis
    using page by (auto simp: validate_list_structure_def ensure_def page_of_def not_less)
qed

end

section \<open>The bounded store is a page source\<close>

lemma scope_determines:
  assumes "from_request r p = from_request r' p'"
  shows "list_filter r = list_filter r'" and "project_task r = project_task r'"
proof -
  from assms have "lr_context_id r = lr_context_id r'" "lr_status r = lr_status r'"
    "lr_status_timestamp_after r = lr_status_timestamp_after r'" "lr_history_length r = lr_history_length r'"
    "(case lr_include_artifacts r of None \<Rightarrow> False | Some b \<Rightarrow> b)
       = (case lr_include_artifacts r' of None \<Rightarrow> False | Some b \<Rightarrow> b)"
    by (simp_all add: from_request_def)
  then show "list_filter r = list_filter r'" "project_task r = project_task r'"
    by (simp_all add: fun_eq_iff list_filter_def project_task_def)
qed

lemma page_list_ok_scope:
  "from_request r p = from_request r' p' \<Longrightarrow> page_list_ok r ts = page_list_ok r' ts"
  using scope_determines [of r p r' p'] by (simp add: page_list_ok_def)

lemma project_task_idem [simp]: "project_task r (project_task r t) = project_task r t"
  by (auto simp: project_task_def keep_last_def Let_def split: option.splits)

definition snapshot_content :: "(string \<Rightarrow> task option) \<Rightarrow> memory_snapshot \<Rightarrow> bool" where
  "snapshot_content dec sn \<longleftrightarrow>
     length (ms_tasks sn) \<le> usize_max \<and>
     (\<exists>ts r. list_all2 (\<lambda>t c. dec c = Some t) ts (ms_tasks sn) \<and>
        ms_scope sn = from_request r (ms_page_size sn) \<and> page_list_ok r ts)"

definition listing_inv :: "nat \<Rightarrow> nat \<Rightarrow> (string \<Rightarrow> task option) \<Rightarrow> store_state \<Rightarrow> bool" where
  "listing_inv mx base dec s \<longleftrightarrow>
     store_inv mx base s \<and> mx \<le> usize_max \<and>
     (\<forall>x \<in> set (st_snapshots s). snapshot_content dec (snd x)) \<and>
     [] \<notin> fst ` set (st_tasks s)"

definition codec_env :: "(string \<Rightarrow> task option) \<Rightarrow> list_env \<Rightarrow> bool" where
  "codec_env dec e \<longleftrightarrow> env_decode e = dec \<and> (\<forall>t c. env_encode e t = Some c \<longrightarrow> dec c = Some t)"

lemma freeze_page_list_ok:
  assumes "listing_inv mx base dec s"
  shows "page_list_ok r (freeze_projection (map snd (st_tasks s)) r)"
proof -
  have wf: "tasks_wf (st_tasks s)" using assms by (simp add: listing_inv_def store_inv_def)
  have "map task_id (map snd (st_tasks s)) = map fst (st_tasks s)"
    using wf by (auto simp: tasks_wf_def)
  with wf have "distinct (map task_id (map snd (st_tasks s)))"
    by (simp only: tasks_wf_def)
  moreover have "task_id t \<noteq> []" if "t \<in> set (freeze_projection (map snd (st_tasks s)) r)" for t
  proof -
    from that obtain k u where u: "(k, u) \<in> set (st_tasks s)" and t: "task_id t = task_id u"
      by (auto simp: set_freeze)
    with wf have "task_id u = k" by (auto simp: tasks_wf_def)
    moreover from u have "k \<in> fst ` set (st_tasks s)" by force
    ultimately show ?thesis
      using assms t unfolding listing_inv_def by metis
  qed
  moreover have "project_task r t = t" if "t \<in> set (freeze_projection (map snd (st_tasks s)) r)" for t
    using that unfolding set_freeze by auto
  ultimately show ?thesis
    unfolding page_list_ok_def list_all_iff
    by (intro conjI ballI sorted_freeze distinct_freeze) (auto dest: freeze_filter)
qed

lemma memory_page_sound:
  assumes "memory_page e sn pos = Inr resp" and "snapshot_content dec sn" and "codec_env dec e"
    and "pos \<le> length (ms_tasks sn)" and "validate_list_request r = Inr (ms_page_size sn, ms_scope sn)"
  shows "\<exists>ts pos. page_list_ok r ts \<and> page_of r resp ts pos"
proof -
  from assms(2) obtain ts r' where dec: "list_all2 (\<lambda>t c. dec c = Some t) ts (ms_tasks sn)"
    and scope: "ms_scope sn = from_request r' (ms_page_size sn)" and ok: "page_list_ok r' ts"
    and len: "length (ms_tasks sn) \<le> usize_max"
    by (auto simp: snapshot_content_def)
  note v = validate_list_request_Inr [OF assms(5)]
  have n: "length ts = length (ms_tasks sn)" using dec by (rule list_all2_lengthD)
  have "list_all2 (\<lambda>t c. env_decode e c = Some t) ts (ms_tasks sn)"
    using dec assms(3) by (simp add: codec_env_def)
  from memory_page_eq [OF this] n len assms(1,4) v have "page_of r resp ts pos"
    by (auto simp: page_of_def)
  moreover from v scope have "from_request r (ms_page_size sn) = from_request r' (ms_page_size sn)"
    by metis
  from page_list_ok_scope [OF this] ok have "page_list_ok r ts" by simp
  ultimately show ?thesis by blast
qed

lemma list_fresh_sound:
  assumes inv: "listing_inv mx base dec s" and env: "codec_env dec e"
    and v: "validate_list_request r = Inr (ps, scope)"
    and f: "list_fresh e ps scope now r s = (Inr resp, s')"
    and fresh: "env_snapshot_id e \<notin> fst ` set (st_snapshots s)"
  shows "\<exists>ts pos. page_list_ok r ts \<and> page_of r resp ts pos"
proof (cases "length (freeze_projection (map snd (st_tasks s)) r) \<le> nat ps")
  case True
  with f have "page_of r resp (freeze_projection (map snd (st_tasks s)) r) 0"
    using validate_list_request_Inr [OF v] by (auto simp: list_fresh_def Let_def page_of_def)
  with freeze_page_list_ok [OF inv] show ?thesis by blast
next
  case False
  let ?ts = "freeze_projection (map snd (st_tasks s)) r"
  from list_fresh_long [OF f _ fresh] False obtain frozen b sn where
    enc: "list_all2 (\<lambda>t c. env_encode e t = Some c) ?ts frozen"
    and sn: "sn = new_snapshot ps scope (now + snapshot_ttl_millis) frozen (page_tokens e (nat ps) (length frozen)) b"
    and page: "memory_page e sn 0 = Inr resp"
    by auto
  have "list_all2 (\<lambda>t c. env_decode e c = Some t) ?ts (ms_tasks sn)"
    using enc env by (auto simp: sn codec_env_def elim: list_all2_mono)
  moreover have "length ?ts \<le> usize_max"
    using length_freeze_le [of "map snd (st_tasks s)" r] inv by (simp add: listing_inv_def store_inv_def)
  ultimately have "page_of r resp ?ts 0"
    using memory_page_eq [of e ?ts sn 0] page validate_list_request_Inr [OF v] by (auto simp: sn page_of_def)
  with freeze_page_list_ok [OF inv] show ?thesis by blast
qed

lemma listing_inv_fresh:
  assumes inv: "listing_inv mx base dec s" and env: "codec_env dec e"
    and v: "validate_list_request r = Inr (ps, scope)"
  shows "listing_inv mx base dec (snd (list_fresh e ps scope now r s))"
proof -
  obtain res s' where f: "list_fresh e ps scope now r s = (res, s')"
    by (cases "list_fresh e ps scope now r s")
  have "snapshot_content dec (snd x)" if "x \<in> set (st_snapshots s')" for x
  proof (cases "x \<in> set (st_snapshots s)")
    case True
    with inv show ?thesis by (simp add: listing_inv_def)
  next
    case False
    with list_fresh_state [OF f] that obtain frozen b where
      x: "snd x = new_snapshot ps scope (now + snapshot_ttl_millis) frozen (page_tokens e (nat ps) (length frozen)) b"
      and enc: "list_all2 (\<lambda>t c. env_encode e t = Some c) (freeze_projection (map snd (st_tasks s)) r) frozen"
      by auto
    have "length frozen \<le> usize_max"
      using length_freeze_le [of "map snd (st_tasks s)" r] inv list_all2_lengthD [OF enc]
      by (simp add: listing_inv_def store_inv_def)
    moreover have "list_all2 (\<lambda>t c. dec c = Some t) (freeze_projection (map snd (st_tasks s)) r) frozen"
      using enc env by (auto simp: codec_env_def elim: list_all2_mono)
    ultimately show ?thesis
      using freeze_page_list_ok [OF inv, of r] validate_list_request_Inr [OF v]
      by (auto simp: snapshot_content_def x)
  qed
  moreover have "1 \<le> ps" "ps \<le> 100" "cs_page_size scope = ps"
    using validate_list_request_Inr [OF v] by (auto simp: from_request_def)
  from store_inv_list_fresh [OF _ this, of mx base s e now r] inv have "store_inv mx base s'"
    by (simp add: listing_inv_def f)
  moreover have "st_tasks s' = st_tasks s"
    using list_fresh_tasks [of e ps scope now r s] by (simp only: f snd_conv)
  ultimately show ?thesis
    using inv unfolding f snd_conv listing_inv_def by simp
qed

lemma gc_snapshots_subset: "set (st_snapshots (gc_memory_snapshots s now)) \<subseteq> set (st_snapshots s)"
  by (auto simp: gc_memory_snapshots_eq)

lemma listing_inv_gc:
  assumes "listing_inv mx base dec s"
  shows "listing_inv mx base dec (gc_memory_snapshots (s\<lparr>st_observed_now := n\<rparr>) now)"
proof -
  have "store_inv mx base (gc_memory_snapshots (s\<lparr>st_observed_now := n\<rparr>) now)"
    using assms by (intro store_inv_gc) (simp add: listing_inv_def)
  moreover have "\<forall>x \<in> set (st_snapshots (gc_memory_snapshots (s\<lparr>st_observed_now := n\<rparr>) now)).
      snapshot_content dec (snd x)"
    using assms gc_snapshots_subset [of "s\<lparr>st_observed_now := n\<rparr>" now]
    unfolding listing_inv_def by auto
  ultimately show ?thesis
    using assms by (simp add: listing_inv_def)
qed

lemma list_by_token_Inr:
  assumes "list_by_token e scope now tok s = Inr resp"
  shows "\<exists>x pos. x \<in> set (st_snapshots s) \<and> ms_scope (snd x) = scope \<and> pos \<le> length (ms_tasks (snd x)) \<and>
    memory_page e (snd x) pos = Inr resp"
  using assms
  by (auto simp: list_by_token_def not_less dest!: find_map_SomeD split: if_splits option.splits) blast

lemma find_Some_mem: "find P xs = Some x \<Longrightarrow> P x \<and> x \<in> set xs"
  by (induction xs) (auto split: if_splits)

lemma reusable_snapshot_Some:
  "reusable_snapshot s scope now = Some sn \<Longrightarrow> \<exists>x. x \<in> set (st_snapshots s) \<and> snd x = sn \<and> ms_scope sn = scope"
  by (auto simp: reusable_snapshot_def dest!: find_Some_mem) blast

lemma list_tasks_sound:
  assumes inv: "listing_inv mx base dec s" and env: "codec_env dec e"
    and fresh: "env_snapshot_id e \<notin> fst ` set (st_snapshots s)"
    and l: "list_tasks e r s = (Inr resp, s')"
  shows "\<exists>ts pos. page_list_ok r ts \<and> page_of r resp ts pos"
proof -
  let ?now = "max (env_clock e) (st_observed_now s)"
  define s1 where "s1 = gc_memory_snapshots (s\<lparr>st_observed_now := ?now\<rparr>) ?now"
  have inv1: "listing_inv mx base dec s1" unfolding s1_def by (rule listing_inv_gc [OF inv])
  have fresh1: "env_snapshot_id e \<notin> fst ` set (st_snapshots s1)"
    using fresh gc_snapshots_subset [of "s\<lparr>st_observed_now := ?now\<rparr>" ?now] by (auto simp: s1_def)
  from l obtain ps scope where v: "validate_list_request r = Inr (ps, scope)"
    by (auto simp: list_tasks_def split: sum.splits)
  note vr = validate_list_request_Inr [OF v]
  have stored: "\<exists>ts pos. page_list_ok r ts \<and> page_of r resp ts pos"
    if x: "x \<in> set (st_snapshots s1)" and sc: "ms_scope (snd x) = scope" and p: "pos \<le> length (ms_tasks (snd x))"
      and m: "memory_page e (snd x) pos = Inr resp" for x pos
  proof -
    have "snapshot_wf (snd x)" "snapshot_content dec (snd x)"
      using inv1 x by (auto simp: listing_inv_def store_inv_def)
    moreover from this(1) sc vr have "ms_page_size (snd x) = ps"
      by (auto simp: snapshot_wf_def from_request_def)
    ultimately show ?thesis
      using memory_page_sound [OF m _ env p] v sc by simp
  qed
  from l v consider (token) tok where "list_by_token e scope ?now tok s1 = Inr resp"
    | (reuse) sn where "reusable_snapshot s1 scope ?now = Some sn" "memory_page e sn 0 = Inr resp"
    | (fresh) "list_fresh e ps scope ?now r s1 = (Inr resp, s')"
    by (auto simp: list_tasks_def Let_def s1_def split: option.splits)
  then show ?thesis
  proof cases
    case token
    from list_by_token_Inr [OF this] stored show ?thesis by blast
  next
    case reuse
    from reusable_snapshot_Some [OF reuse(1)] reuse(2) stored [where pos = 0] show ?thesis by blast
  next
    case fresh
    show ?thesis by (rule list_fresh_sound [OF inv1 env v fresh fresh1])
  qed
qed

lemma listing_inv_list:
  assumes inv: "listing_inv mx base dec s" and env: "codec_env dec e"
  shows "listing_inv mx base dec (snd (list_tasks e r s))"
proof (cases "validate_list_request r")
  case (Inl err)
  with inv show ?thesis by (simp add: list_tasks_def)
next
  case (Inr a)
  obtain ps scope where a: "a = (ps, scope)" by (cases a)
  let ?now = "max (env_clock e) (st_observed_now s)"
  let ?s1 = "gc_memory_snapshots (s\<lparr>st_observed_now := ?now\<rparr>) ?now"
  have "listing_inv mx base dec ?s1" by (rule listing_inv_gc [OF inv])
  with listing_inv_fresh [OF this env, of r ps scope ?now] Inr a show ?thesis
    by (simp add: list_tasks_def Let_def split: option.splits)
qed

definition page_env_ok :: "(string \<Rightarrow> task option) \<Rightarrow> list_env \<Rightarrow> store_state \<Rightarrow> bool" where
  "page_env_ok dec e s \<longleftrightarrow> codec_env dec e \<and> env_snapshot_id e \<notin> fst ` set (st_snapshots s)"

interpretation bounded_pages: page_source list_tasks "page_env_ok dec" "listing_inv mx base dec"
  for dec mx base
proof unfold_locales
  fix s e r resp s'
  assume inv: "listing_inv mx base dec s" and env: "page_env_ok dec e s"
  then show "listing_inv mx base dec (snd (list_tasks e r s))"
    by (auto simp: page_env_ok_def intro: listing_inv_list)
  show "\<exists>ts pos. page_list_ok r ts \<and> page_of r resp ts pos" if "list_tasks e r s = (Inr resp, s')"
    using list_tasks_sound [OF inv _ _ that] env by (simp add: page_env_ok_def)
qed

section \<open>Properties\<close>

text \<open>An operation of another client that keeps the listing invariant: identifiers are not empty
  and listings use the same JSON codec.\<close>

definition client_op :: "(string \<Rightarrow> task option) \<Rightarrow> (list_env \<times> list_tasks_request) ledger_op \<Rightarrow> bool" where
  "client_op dec x =
     (case x of Op_create t \<Rightarrow> task_id t \<noteq> [] | Op_update t \<Rightarrow> True | Op_observe q \<Rightarrow> codec_env dec (fst q))"

lemma listing_inv_step:
  assumes "listing_inv mx base dec s" and "client_op dec x"
  shows "listing_inv mx base dec (apply_op (create_task mx) update_task observe_list x s)"
proof (cases x)
  case (Op_create t)
  with assms store_inv_create [of mx base s t] show ?thesis
    by (auto simp: listing_inv_def client_op_def create_task_def)
next
  case (Op_update t)
  have "fst ` set (st_tasks (snd (update_task t s))) = fst ` set (st_tasks s)"
    by (auto simp: update_task_def dom_update split: option.splits dest: map_of_SomeD intro: rev_image_eqI)
  moreover have "st_snapshots (snd (update_task t s)) = st_snapshots s"
    by (simp add: update_task_def split: option.splits)
  ultimately show ?thesis
    using Op_update assms store_inv_update [of mx base s t] by (simp add: listing_inv_def)
next
  case (Op_observe q)
  with assms listing_inv_list [of mx base dec s "fst q" "snd q"] show ?thesis
    by (simp add: client_op_def observe_list_def)
qed

lemma listing_inv_run:
  "listing_inv mx base dec s \<Longrightarrow> list_all (client_op dec) ops \<Longrightarrow> listing_inv mx base dec (store_run mx ops s)"
proof (induction ops arbitrary: s)
  case (Cons x ops)
  then have "listing_inv mx base dec (apply_op (create_task mx) update_task observe_list x s)"
    by (intro listing_inv_step) simp_all
  with Cons show ?case by simp
qed simp

lemma listing_inv_default:
  assumes "cap * slot + allocation_overhead_bytes \<le> max_snapshot_bytes" and "mx \<le> usize_max"
  shows "listing_inv mx (cap * slot + allocation_overhead_bytes) dec (default_store_state cap slot)"
  using assms by (simp add: listing_inv_def store_inv_def default_store_state_def tasks_wf_def)

text \<open>
  The guard never rejects the structure of its own store's pages: after any run of the ledger,
  every page a listing returns, whether computed now, reused or read with a page token from a
  frozen snapshot, passes the guard's check of page size, total, filters, projection, uniqueness
  and order.
\<close>

theorem store_pages_pass_guard:
  assumes "cap * slot + allocation_overhead_bytes \<le> max_snapshot_bytes" and "mx \<le> usize_max"
    and "list_all (client_op dec) ops" and "s = store_run mx ops (default_store_state cap slot)"
    and "page_env_ok dec e s" and "list_tasks e r s = (Inr resp, s')"
  shows "validate_list_structure r resp = Inr ()"
proof -
  have "listing_inv mx (cap * slot + allocation_overhead_bytes) dec s"
    unfolding assms(4) by (rule listing_inv_run [OF listing_inv_default [OF assms(1,2)] assms(3)])
  then show ?thesis
    by (rule bounded_pages.structure_accepted [OF _ assms(5,6)])
qed

text \<open>
  The provenance check for generic stores and the listing of the bounded store compute the
  same projection: the row that \<open>validate_current_list_page\<close> rebuilds from a current task is the
  task a listing freezes, for every request, so a page that was just listed passes the check.
\<close>

theorem current_page_check_agrees:
  assumes "store_inv mx base s" and "\<And>i. get i = Inr (get_task i s)"
    and "\<And>t. t \<in> set (lt_tasks resp) \<Longrightarrow> t \<in> set (freeze_projection (map snd (st_tasks s)) r)"
  shows "validate_current_list_page get r resp = Inr () \<and> expected_projection r = project_task r"
proof -
  have wf: "tasks_wf (st_tasks s)" using assms(1) by (simp add: store_inv_def)
  have step: "\<exists>u. get_task (task_id t) s = Some u \<and> expected_projection r u = t" if "t \<in> set (lt_tasks resp)" for t
  proof -
    from assms(3) [OF that] obtain k u where u: "(k, u) \<in> set (st_tasks s)" and t: "t = project_task r u"
      by (auto simp: set_freeze)
    with wf have "map_of (st_tasks s) (task_id u) = Some u"
      by (auto simp: tasks_wf_def)
    with t show ?thesis by (simp add: get_task_def expected_projection_eq)
  qed
  have "try_for (\<lambda>_ t. and_then (get (task_id t)) (\<lambda>found.
       and_then (ok_or found (task_not_found (task_id t))) (\<lambda>stored.
         ensure (expected_projection r stored = t) invalid_agent_response))) () ts = Inr ()"
    if "set ts \<subseteq> set (lt_tasks resp)" for ts
    using that
  proof (induction ts)
    case (Cons t ts)
    with step [of t] show ?case by (auto simp: assms(2) ok_or_def ensure_def)
  qed simp
  then show ?thesis
    by (simp add: validate_current_list_page_def expected_projection_eq fun_eq_iff)
qed

section \<open>Witnesses\<close>

lemma sample_page_env: "page_env_ok sample_decode (sample_env 10) (default_store_state 128 200)"
  using sample_reads_back [of 10 10]
  by (auto simp: page_env_ok_def codec_env_def reads_back_def sample_env_def default_store_state_def)

theorem store_pages_witness:
  "validate_list_structure sample_list_request
     \<lparr>lt_tasks = [], lt_next_page_token = [], lt_page_size = 1, lt_total_size = 0\<rparr> = Inr ()"
proof (rule store_pages_pass_guard [where cap = 128 and slot = 200 and mx = 4 and ops = "[]"
      and dec = sample_decode and e = "sample_env 10"
      and s = "default_store_state 128 200"])
  show "list_tasks (sample_env 10) sample_list_request (default_store_state 128 200) =
      (Inr \<lparr>lt_tasks = [], lt_next_page_token = [], lt_page_size = 1, lt_total_size = 0\<rparr>,
       snd (list_tasks (sample_env 10) sample_list_request (default_store_state 128 200)))"
    by (simp add: list_tasks_def sample_list_request_def validate_list_request_def Let_def
        gc_memory_snapshots_eq reusable_snapshot_def list_fresh_def freeze_projection_def
        default_store_state_def i32_of_usize_def i32_max_def)
qed (simp_all add: sample_page_env allocation_overhead_bytes_def max_snapshot_bytes_def usize_max_def)

theorem current_page_witness:
  "validate_current_list_page (\<lambda>i. Inr (get_task i (one_task_store Working))) sample_list_request
     \<lparr>lt_tasks = [sample_task ''a'' Working 1], lt_next_page_token = [], lt_page_size = 1, lt_total_size = 1\<rparr>
   = Inr ()"
proof -
  have "freeze_projection (map snd (st_tasks (one_task_store Working))) sample_list_request
      = [sample_task ''a'' Working 1]"
    by code_simp
  with current_page_check_agrees [OF one_task_store_inv [of Working], where
      get = "\<lambda>i. Inr (get_task i (one_task_store Working))" and r = sample_list_request and
      resp = "\<lparr>lt_tasks = [sample_task ''a'' Working 1], lt_next_page_token = [], lt_page_size = 1, lt_total_size = 1\<rparr>"]
  show ?thesis by simp
qed

end
