(* ===== verification/Mesh_Bridge.thy ===== *)
theory Mesh_Bridge
  imports Policy_Decisions
begin

text \<open>
  The boundary between A2A messages and the mesh: \<^verbatim>\<open>src/input.rs\<close> (text extraction and
  its byte limit), \<^verbatim>\<open>src/bridge.rs\<close> (requests, events and the internal artifact
  envelope) and the deterministic worker \<^verbatim>\<open>src/loopback.rs\<close>.

  What comes from other packages is the record \<open>mesh_env\<close>: the JSON encoder of an event, the JSON
  and base64 codecs of the artifact envelope, the origin hash of a signal and the text of the
  result document.
\<close>

section \<open>Input\<close>

record input_limits =
  il_max_text_bytes :: nat

definition default_input_limits :: input_limits where
  "default_input_limits = \<lparr>il_max_text_bytes = 65536\<rparr>"

datatype input_error = InputEmpty | UnsupportedPart | TooLarge nat nat

definition extract_part :: "nat \<Rightarrow> string \<times> bool \<Rightarrow> part \<Rightarrow> input_error + (string \<times> bool)" where
  "extract_part limit st p =
     (case part_content p of
        Text txt \<Rightarrow>
          (let separator_bytes = (if snd st then 0 else 1);
               actual = (case Option.bind (checked_add (length (fst st)) separator_bytes)
                                (\<lambda>size. checked_add size (length txt)) of
                           Some n \<Rightarrow> n | None \<Rightarrow> usize_max)
           in if limit < actual then Inl (TooLarge actual limit)
              else Inr ((if snd st then fst st else fst st @ [CHR 0x0A]) @ txt, False))
      | _ \<Rightarrow> Inl UnsupportedPart)"

definition extract_text :: "message \<Rightarrow> input_limits \<Rightarrow> input_error + string" where
  "extract_text m l =
     and_then (try_for (extract_part (il_max_text_bytes l)) ([], True) (msg_parts m)) (\<lambda>st.
       if is_blank (fst st) then Inl InputEmpty else Inr (fst st))"

definition input_error_text :: "input_error \<Rightarrow> string" where
  "input_error_text e =
     (case e of
        InputEmpty \<Rightarrow> ''message contains no text''
      | UnsupportedPart \<Rightarrow> ''only inline text parts are supported''
      | TooLarge actual limit \<Rightarrow>
          ''message is '' @ show_nat actual @ '' bytes; limit is '' @ show_nat limit)"

section \<open>Requests and events\<close>

datatype dispatch_error = DispatchMessage string | CancellationForcedAbort

datatype mesh_event =
    Progress string
  | Evidence completion_evidence
  | ArtifactEvent string string string \<comment> \<open>name, media type, content\<close>
  | CompletedEvent string

datatype internal_artifact_payload = Binary string | Published string

record mesh_request =
  mr_protocol :: string
  mr_task_id :: string
  mr_context_id :: string
  mr_text :: string

record mesh_env =
  event_to_vec :: "mesh_event \<Rightarrow> string + byte list"
  payload_to_string :: "internal_artifact_payload \<Rightarrow> string"
  payload_from_str :: "string \<Rightarrow> internal_artifact_payload option"
  base64_encode :: "byte list \<Rightarrow> string"
  base64_decode :: "string \<Rightarrow> byte list option"
  artifact_from_str :: "string \<Rightarrow> artifact option"
  request_to_vec :: "mesh_request \<Rightarrow> string + byte list"
  signal_hash :: "mesh_request \<Rightarrow> string \<Rightarrow> json"
  json_to_string :: "json \<Rightarrow> string"

definition internal_artifact_prefix :: string where
  "internal_artifact_prefix = ''smesh-internal-artifact/v1:''"

definition binary_artifact_event :: "mesh_env \<Rightarrow> string \<Rightarrow> string \<Rightarrow> byte list \<Rightarrow> mesh_event" where
  "binary_artifact_event M name media content =
     ArtifactEvent name media
       (internal_artifact_prefix @ payload_to_string M (Binary (base64_encode M content)))"

definition published_artifact_event :: "mesh_env \<Rightarrow> string \<Rightarrow> mesh_event" where
  "published_artifact_event M projection =
     ArtifactEvent ''artifact'' ''application/vnd.smesh.artifact-manifest+json''
       (internal_artifact_prefix @ payload_to_string M (Published projection))"

definition internal_artifact_payload :: "mesh_env \<Rightarrow> string \<Rightarrow> internal_artifact_payload option" where
  "internal_artifact_payload M content =
     Option.bind (strip_prefix internal_artifact_prefix content) (payload_from_str M)"

definition from_a2a :: "string \<Rightarrow> string \<Rightarrow> message \<Rightarrow> input_limits \<Rightarrow> input_error + mesh_request" where
  "from_a2a tid cid m l =
     and_then (extract_text m l) (\<lambda>txt.
       Inr \<lparr>mr_protocol = ''a2a-v1'', mr_task_id = tid, mr_context_id = cid, mr_text = txt\<rparr>)"

section \<open>The loopback worker\<close>

definition loopback_content :: "mesh_env \<Rightarrow> mesh_request \<Rightarrow> string" where
  "loopback_content M r =
     json_to_string M (JObject [(''contextId'', JString (mr_context_id r)),
       (''result'', JString (''SMESH accepted: '' @ mr_text r)),
       (''signalHash'', signal_hash M r ''loopback-worker''), (''taskId'', JString (mr_task_id r))])"

definition loopback_manifest :: "policy_env \<Rightarrow> mesh_env \<Rightarrow> mesh_request \<Rightarrow> artifact_manifest" where
  "loopback_manifest E M r =
     \<lparr>am_name = ''smesh-result.json'', am_media_type = ''application/json'',
      am_digest = content_digest E (ascii (loopback_content M r))\<rparr>"

definition review_fixture :: "byte list" where
  "review_fixture = ascii ''loopback deterministic review fixture''"
definition test_fixture :: "byte list" where
  "test_fixture = ascii ''loopback deterministic test fixture''"
definition clearance_fixture :: "byte list" where
  "clearance_fixture = ascii ''loopback deterministic contradiction clearance''"

definition loopback_evidence :: "policy_env \<Rightarrow> string \<Rightarrow> completion_evidence list" where
  "loopback_evidence E subject =
     [Review ''loopback-review'' ''review-authority'' subject review_fixture
        (content_digest E review_fixture) True 10000,
      Test ''loopback-test'' ''test-authority'' subject test_fixture
        (content_digest E test_fixture) True 10000,
      Contradiction ''loopback-contradiction-clearance'' ''contradiction-monitor'' subject
        clearance_fixture (content_digest E clearance_fixture) False]"

definition loopback_dispatch ::
    "policy_env \<Rightarrow> mesh_env \<Rightarrow> (policy_error \<Rightarrow> string) \<Rightarrow> mesh_request \<Rightarrow> (dispatch_error + mesh_event) list" where
  "loopback_dispatch E M show_error r =
     (case artifact_set_digest E [loopback_manifest E M r] of
        Inl error \<Rightarrow> [Inl (DispatchMessage (''loopback completion manifest failed: '' @ show_error error))]
      | Inr subject \<Rightarrow>
          [Inr (Progress ''task claimed by the loopback SMESH worker'')]
          @ map (\<lambda>e. Inr (Evidence e)) (loopback_evidence E subject)
          @ [Inr (ArtifactEvent ''smesh-result.json'' ''application/json'' (loopback_content M r)),
             Inr (CompletedEvent ''SMESH swarm completed the task'')])"

section \<open>Extracted text\<close>

fun join_lines :: "string list \<Rightarrow> string" where
  "join_lines [] = []"
| "join_lines [t] = t"
| "join_lines (t # ts) = t @ [CHR 0x0A] @ join_lines ts"

fun texts_of :: "part list \<Rightarrow> string list option" where
  "texts_of [] = Some []"
| "texts_of (p # ps) =
     (case part_content p of Text t \<Rightarrow> map_option ((#) t) (texts_of ps) | _ \<Rightarrow> None)"

definition after_texts :: "string list \<Rightarrow> string \<times> bool \<Rightarrow> string \<times> bool" where
  "after_texts ts st =
     (if ts = [] then st
      else ((if snd st then fst st else fst st @ [CHR 0x0A]) @ join_lines ts, False))"

lemma texts_of_Some_iff: "texts_of ps = Some ts \<longleftrightarrow> map part_content ps = map Text ts"
  by (induction ps arbitrary: ts) (auto simp: Cons_eq_map_conv split: part_content.splits)

lemma after_texts_Cons:
  "after_texts ts ((if snd st then fst st else fst st @ [CHR 0x0A]) @ t, False) = after_texts (t # ts) st"
  by (cases ts) (simp_all add: after_texts_def)

lemma length_after_texts: "length (fst st) \<le> length (fst (after_texts ts st))"
  by (simp add: after_texts_def)

lemma extract_part_Inr:
  assumes "limit < usize_max"
  shows "extract_part limit st p = Inr st' \<longleftrightarrow>
    (\<exists>t. part_content p = Text t \<and> st' = ((if snd st then fst st else fst st @ [CHR 0x0A]) @ t, False) \<and>
       length (fst st') \<le> limit)"
  using assms
  by (auto simp: extract_part_def Let_def checked_add_def split: part_content.splits)

lemma extract_parts_Inr:
  assumes "limit < usize_max"
  shows "try_for (extract_part limit) st ps = Inr st' \<longleftrightarrow>
    (\<exists>ts. texts_of ps = Some ts \<and> st' = after_texts ts st \<and>
       (ts \<noteq> [] \<longrightarrow> length (fst st') \<le> limit))"
proof (induction ps arbitrary: st)
  case Nil
  then show ?case by (auto simp: after_texts_def)
next
  case (Cons p ps)
  show ?case
  proof (cases "part_content p")
    case (Text t)
    let ?st = "((if snd st then fst st else fst st @ [CHR 0x0A]) @ t, False)"
    have "try_for (extract_part limit) st (p # ps) = Inr st' \<longleftrightarrow>
        length (fst ?st) \<le> limit \<and> try_for (extract_part limit) ?st ps = Inr st'"
      by (simp only: try_for.simps result_simps extract_part_Inr [OF assms] Text part_content.inject) blast
    also have "\<dots> \<longleftrightarrow> (\<exists>ts. texts_of ps = Some ts \<and> st' = after_texts (t # ts) st \<and> length (fst st') \<le> limit)"
      unfolding Cons.IH after_texts_Cons [symmetric]
      using length_after_texts [of ?st] by (auto simp: after_texts_def intro: le_trans)
    finally show ?thesis by (auto simp: Text)
  qed (simp_all add: result_simps extract_part_Inr [OF assms])
qed

lemma extract_text_Inr:
  assumes "il_max_text_bytes l < usize_max"
  shows "extract_text m l = Inr t \<longleftrightarrow>
    (\<exists>ts. texts_of (msg_parts m) = Some ts \<and> t = join_lines ts \<and>
       length t \<le> il_max_text_bytes l \<and> \<not> is_blank t)"
proof -
  have b: "is_blank []" by (simp add: is_blank_def trim_chars_def)
  have "extract_text m l = Inr t \<longleftrightarrow>
      (\<exists>st. try_for (extract_part (il_max_text_bytes l)) ([], True) (msg_parts m) = Inr st \<and>
         \<not> is_blank (fst st) \<and> t = fst st)"
    by (auto simp: extract_text_def result_simps split: if_splits)
  also have "\<dots> \<longleftrightarrow> (\<exists>ts. texts_of (msg_parts m) = Some ts \<and> ts \<noteq> [] \<and> t = join_lines ts \<and>
       length t \<le> il_max_text_bytes l \<and> \<not> is_blank t)"
    unfolding extract_parts_Inr [OF assms] using b by (auto simp: after_texts_def)
  also have "\<dots> \<longleftrightarrow> (\<exists>ts. texts_of (msg_parts m) = Some ts \<and> t = join_lines ts \<and>
       length t \<le> il_max_text_bytes l \<and> \<not> is_blank t)"
    using b by force
  finally show ?thesis .
qed

section \<open>Properties\<close>

text \<open>
  Text extraction is exact: it succeeds precisely when every part is inline text, the lines
  joined in wire order fit the byte limit and they are not blank, and it then returns exactly the
  joined lines.
\<close>

theorem extract_text_exact:
  assumes "il_max_text_bytes l < usize_max"
  shows "extract_text m l = Inr t \<longleftrightarrow>
    (\<exists>ts. map part_content (msg_parts m) = map Text ts \<and> t = join_lines ts \<and>
       length t \<le> il_max_text_bytes l \<and> \<not> is_blank t)"
  using extract_text_Inr [OF assms] by (simp add: texts_of_Some_iff)

theorem extract_text_witness:
  "extract_text \<lparr>message_id = ''m'', msg_context_id = None, msg_task_id = None, msg_role = User,
      msg_parts = [part_text ''a'', part_text ''b''], msg_metadata = None, msg_extensions = None,
      reference_task_ids = None\<rparr> default_input_limits = Inr [CHR ''a'', CHR 0x0A, CHR ''b'']"
proof (subst extract_text_exact)
  show "il_max_text_bytes default_input_limits < usize_max"
    by (simp add: default_input_limits_def usize_max_def)
qed (rule exI [of _ "[''a'', ''b'']"],
    simp add: part_text_def default_input_limits_def text_simps)

section \<open>The loopback worker under the development policy\<close>

lemma sorted_development: "sorted_spec development = development"
  by (simp add: sorted_spec_def development_def)

lemma loopback_texts [simp]:
  "validate_text f ''loopback-review'' = Inr ()" "validate_text f ''loopback-test'' = Inr ()"
  "validate_text f ''loopback-contradiction-clearance'' = Inr ()"
  "validate_text f ''smesh-result.json'' = Inr ()" "validate_text f ''application/json'' = Inr ()"
  by (simp_all add: validate_text_def max_text_bytes_def ensure_def text_simps)

lemma fixture_lengths [simp]:
  "length review_fixture = 37" "length test_fixture = 35" "length clearance_fixture = 46"
  by (simp_all add: review_fixture_def test_fixture_def clearance_fixture_def ascii_def)

lemma loopback_manifest_simps [simp]:
  "am_name (loopback_manifest E M r) = ''smesh-result.json''"
  "am_media_type (loopback_manifest E M r) = ''application/json''"
  "am_digest (loopback_manifest E M r) = content_digest E (ascii (loopback_content M r))"
  by (simp_all add: loopback_manifest_def)

lemma content_digest_valid: "(\<And>m. length (sha256 E m) = 32) \<Longrightarrow> valid_digest (content_digest E b)"
  by (simp add: content_digest_def sha256_text_valid)

text \<open>
  The loopback worker satisfies the policy the gateway starts with: for every request its events
  carry one artifact and evidence about exactly that artifact, and the development policy accepts
  them.
\<close>

lemma loopback_accepted:
  assumes "\<And>m. length (sha256 E m) = 32" and total: "\<And>j. \<exists>b. json_to_vec E j = Inr b"
    and "distinct [sha256 E review_fixture, sha256 E test_fixture, sha256 E clearance_fixture]"
    and pol: "new_with_receipt_key E development key = Inr pol"
    and "validate_text ''taskId'' (mr_task_id r) = Inr ()"
    and "validate_text ''contextId'' (mr_context_id r) = Inr ()" and "valid_digest rd"
  shows "\<exists>subject receipt.
    loopback_dispatch E M se r =
      [Inr (Progress ''task claimed by the loopback SMESH worker'')]
      @ map (\<lambda>e. Inr (Evidence e)) (loopback_evidence E subject)
      @ [Inr (ArtifactEvent ''smesh-result.json'' ''application/json'' (loopback_content M r)),
         Inr (CompletedEvent ''SMESH swarm completed the task'')] \<and>
    evaluate E pol \<lparr>sn_task_id = mr_task_id r, sn_context_id = mr_context_id r, sn_request_digest = rd,
       sn_artifacts = [loopback_manifest E M r], sn_evidence = loopback_evidence E subject\<rparr>
      = Inr (Accepted receipt)"
proof -
  define enc where "enc j = projr (json_to_vec E j)" for j
  have enc [simp]: "json_to_vec E j = Inr (enc j)" for j
    using total [of j] by (auto simp: enc_def)
  have cd: "\<exists>h. canonical_digest E dm j = Inr h \<and> valid_digest h" for dm j
    using assms(1) by (auto simp: canonical_digest_def map_err_def sha256_text_valid)
  have valid: "valid_digest (content_digest E b)" for b
    using assms(1) by (rule content_digest_valid)
  have spec: "vp_spec pol = development"
    using new_with_receipt_key_Inr(1) [OF pol] by (simp add: sorted_development)
  obtain subject where subject: "artifact_set_digest E [loopback_manifest E M r] = Inr subject"
    and vs: "valid_digest subject"
    using cd [of "''artifact-set''" "JArray [manifest_json (loopback_manifest E M r)]"]
    by (auto simp: artifact_set_digest_def loopback_manifest_def check_artifact_def validate_digest_def
        ensure_def valid Let_def)
  have apart: "content_digest E review_fixture \<noteq> content_digest E test_fixture"
    "content_digest E review_fixture \<noteq> content_digest E clearance_fixture"
    "content_digest E test_fixture \<noteq> content_digest E clearance_fixture"
    using assms(3) by (simp_all add: content_digest_def)
  define cdg where "cdg dm j = projr (canonical_digest E dm j)" for dm j
  have cdg [simp]: "canonical_digest E dm j = Inr (cdg dm j)" for dm j
    using cd [of dm j] by (auto simp: cdg_def)
  have "\<exists>receipt. evaluate E pol \<lparr>sn_task_id = mr_task_id r, sn_context_id = mr_context_id r,
       sn_request_digest = rd, sn_artifacts = [loopback_manifest E M r],
       sn_evidence = loopback_evidence E subject\<rparr> = Inr (Accepted receipt)"
    unfolding evaluate_def
    using apart assms(5-7) vs subject
    by (simp add: policy_eval spec loopback_evidence_def less_char_def valid)
  with subject show ?thesis
    by (intro exI [of _ subject]) (simp add: loopback_dispatch_def)
qed

definition sample_mesh_env :: mesh_env where
  "sample_mesh_env =
     \<lparr>event_to_vec = (\<lambda>e. Inr [0]), payload_to_string = (\<lambda>p. case p of Binary b \<Rightarrow> CHR ''b'' # b | Published q \<Rightarrow> CHR ''p'' # q),
      payload_from_str = (\<lambda>s. case s of [] \<Rightarrow> None
        | c # r \<Rightarrow> if c = CHR ''b'' then Some (Binary r) else if c = CHR ''p'' then Some (Published r) else None),
      base64_encode = hex_bytes, base64_decode = hex_decode, artifact_from_str = (\<lambda>s. None),
      request_to_vec = (\<lambda>r. Inr (ascii (mr_text r))), signal_hash = (\<lambda>r n. JNull),
      json_to_string = (\<lambda>j. ''{}'')\<rparr>"

definition sample_request :: mesh_request where
  "sample_request = \<lparr>mr_protocol = ''a2a-v1'', mr_task_id = ''t'', mr_context_id = ''c'', mr_text = ''hi''\<rparr>"

end
