(* ===== verification/Tenant_Authorization.thy ===== *)
theory Tenant_Authorization
  imports Policy_Decisions
begin

text \<open>
  Tenant authorization, \<^verbatim>\<open>src/authorization.rs\<close> with the identities of
  \<^verbatim>\<open>src/auth.rs\<close> and the audit record of \<^verbatim>\<open>src/durable_authority.rs\<close>:
  the validation of a policy document, the resolution of a principal and a tenant selector to an
  immutable context, the fixed role matrix, and the middleware that resolves or denies a request.

  A policy document is the record the JSON decoder yields; decoding, the canonical encoding of the
  document, the text of a header value and the audit store are parameters. Loading the file is not
  modelled.
\<close>

section \<open>Identities\<close>

datatype authentication_method = BearerJwt | MutualTls

record principal_limits =
  max_issuer_bytes :: nat
  max_subject_bytes :: nat

definition default_principal_limits :: principal_limits where
  "default_principal_limits = \<lparr>max_issuer_bytes = 2048, max_subject_bytes = 256\<rparr>"

record principal =
  pr_issuer :: string
  pr_subject :: string
  pr_authentication :: authentication_method

definition principal_new :: "string \<Rightarrow> string \<Rightarrow> authentication_method \<Rightarrow> principal_limits \<Rightarrow> unit + principal" where
  "principal_new issuer subject method l =
     (if issuer = [] \<or> subject = [] \<or> max_issuer_bytes l < length issuer \<or> max_subject_bytes l < length subject
      then Inl ()
      else Inr \<lparr>pr_issuer = issuer, pr_subject = subject, pr_authentication = method\<rparr>)"

section \<open>Roles and operations\<close>

datatype authorization_error = AuthzInvalidPolicy | AuthzDenied | AuthzUnavailable

datatype tenant_role =
  TenantAdmin | HumanRatifier | TaskOperator | TaskViewer | Auditor | TaskAgent | ServiceReader

datatype operation =
    OpTaskCreate | OpTaskContinue | OpTaskGet | OpTaskList | OpTaskSubscribe | OpTaskCancel
  | OpHistoryRead | OpArtifactRead | OpArtifactResolve | OpAuditRead | OpAuthorizationAdmin
  | OpPushCreate | OpPushGet | OpPushList | OpPushDelete | OpExtendedCard
  | OpRatificationRead | OpRatificationReview | OpRatificationDecide

datatype visibility_scope = OwnScope | TenantScope

datatype account_kind = HumanAccount | ServiceAccount

text \<open>The order of the roles is the order of the enumeration (\<open>derive(Ord)\<close>).\<close>

fun role_rank :: "tenant_role \<Rightarrow> nat" where
  "role_rank TenantAdmin = 0"
| "role_rank HumanRatifier = 1"
| "role_rank TaskOperator = 2"
| "role_rank TaskViewer = 3"
| "role_rank Auditor = 4"
| "role_rank TaskAgent = 5"
| "role_rank ServiceReader = 6"

lemma role_rank_inj: "role_rank a = role_rank b \<Longrightarrow> a = b"
  by (cases a; cases b) simp_all

instantiation tenant_role :: linorder
begin

definition less_eq_tenant_role :: "tenant_role \<Rightarrow> tenant_role \<Rightarrow> bool" where
  "less_eq_tenant_role a b \<longleftrightarrow> role_rank a \<le> role_rank b"

definition less_tenant_role :: "tenant_role \<Rightarrow> tenant_role \<Rightarrow> bool" where
  "less_tenant_role a b \<longleftrightarrow> role_rank a < role_rank b"

instance
  by standard (auto simp: less_eq_tenant_role_def less_tenant_role_def intro: role_rank_inj)

end

definition role_grant :: "tenant_role \<Rightarrow> operation \<Rightarrow> visibility_scope option" where
  "role_grant role op =
     (case role of
        TenantAdmin \<Rightarrow>
          if op \<in> {OpTaskCreate, OpTaskContinue, OpTaskGet, OpTaskList, OpTaskSubscribe, OpTaskCancel,
            OpHistoryRead, OpArtifactRead, OpArtifactResolve, OpAuditRead, OpAuthorizationAdmin,
            OpExtendedCard, OpPushCreate, OpPushGet, OpPushList, OpPushDelete}
          then Some TenantScope else None
      | TaskOperator \<Rightarrow>
          if op \<in> {OpTaskCreate, OpTaskContinue, OpTaskGet, OpTaskList, OpTaskSubscribe, OpTaskCancel,
            OpHistoryRead, OpArtifactRead, OpArtifactResolve, OpExtendedCard,
            OpPushCreate, OpPushGet, OpPushList, OpPushDelete}
          then Some TenantScope else None
      | TaskViewer \<Rightarrow>
          if op \<in> {OpTaskGet, OpTaskList, OpTaskSubscribe, OpHistoryRead, OpArtifactRead,
            OpArtifactResolve, OpExtendedCard}
          then Some TenantScope else None
      | ServiceReader \<Rightarrow>
          if op \<in> {OpTaskGet, OpTaskList, OpTaskSubscribe, OpHistoryRead, OpArtifactRead,
            OpArtifactResolve, OpExtendedCard}
          then Some TenantScope else None
      | Auditor \<Rightarrow>
          if op \<in> {OpTaskGet, OpTaskList, OpHistoryRead, OpArtifactRead, OpArtifactResolve,
            OpAuditRead, OpExtendedCard}
          then Some TenantScope else None
      | TaskAgent \<Rightarrow>
          if op = OpExtendedCard then Some TenantScope
          else if op \<in> {OpTaskCreate, OpTaskContinue, OpTaskGet, OpTaskList, OpTaskSubscribe,
            OpTaskCancel, OpHistoryRead, OpArtifactRead, OpArtifactResolve,
            OpPushCreate, OpPushGet, OpPushList, OpPushDelete}
          then Some OwnScope else None
      | HumanRatifier \<Rightarrow>
          if op \<in> {OpRatificationRead, OpRatificationReview, OpRatificationDecide}
          then Some TenantScope else None)"

definition kind_allows :: "account_kind \<Rightarrow> tenant_role \<Rightarrow> bool" where
  "kind_allows kind role =
     (case kind of
        HumanAccount \<Rightarrow> role \<noteq> TaskAgent \<and> role \<noteq> ServiceReader
      | ServiceAccount \<Rightarrow> role = TaskAgent \<or> role = ServiceReader)"

definition authz_valid_id :: "string \<Rightarrow> bool" where
  "authz_valid_id value \<longleftrightarrow>
     1 \<le> length value \<and> length value \<le> 64 \<and> is_ascii value \<and>
     list_all (\<lambda>(i, c). is_ascii_lowercase c \<or> is_ascii_digit c \<or>
       (0 < i \<and> (c = CHR ''_'' \<or> c = CHR ''-''))) (enumerate 0 value)"

section \<open>The policy document and the policy\<close>

record tenant_document =
  td_id :: string
  td_enabled :: bool

record membership_document =
  md_tenant_id :: string
  md_roles :: "tenant_role list"

record account_document =
  ad_id :: string
  ad_kind :: account_kind
  ad_memberships :: "membership_document list"

record binding_document =
  bd_issuer :: string
  bd_subject :: string
  bd_account_id :: string

record authz_document =
  zd_schema_version :: string
  zd_policy_id :: string
  zd_revision :: nat
  zd_tenants :: "tenant_document list"
  zd_accounts :: "account_document list"
  zd_bindings :: "binding_document list"

record account =
  ac_id :: string
  ac_kind :: account_kind
  ac_memberships :: "(string \<times> tenant_role list) list"

record authorization_policy =
  az_policy_id :: string
  az_revision :: nat
  az_digest :: string
  az_bindings :: "((string \<times> string) \<times> string) list"
  az_accounts :: "(string \<times> account) list"

definition check_document :: "authz_document \<Rightarrow> authorization_error + unit" where
  "check_document d =
     ensure (zd_schema_version d = ''smesh-authz-policy/v1'' \<and> zd_revision d \<noteq> 0 \<and>
       authz_valid_id (zd_policy_id d) \<and>
       zd_tenants d \<noteq> [] \<and> length (zd_tenants d) \<le> 1024 \<and>
       zd_accounts d \<noteq> [] \<and> length (zd_accounts d) \<le> 4096 \<and>
       zd_bindings d \<noteq> [] \<and> length (zd_bindings d) \<le> 8192) AuthzInvalidPolicy"

definition load_tenants :: "tenant_document list \<Rightarrow> authorization_error + (string \<times> bool) list" where
  "load_tenants ts =
     try_for (\<lambda>m t. and_then (and_then (ensure (authz_valid_id (td_id t)) AuthzInvalidPolicy) (\<lambda>_. Inr (td_enabled t)))
       (\<lambda>v. insert_new (td_id t) v AuthzInvalidPolicy m)) [] ts"

definition membership_roles :: "(string \<times> bool) list \<Rightarrow> account_kind \<Rightarrow> membership_document
    \<Rightarrow> authorization_error + tenant_role list" where
  "membership_roles tenants kind mb =
     and_then (ensure (map_of tenants (md_tenant_id mb) = Some True \<and> md_roles mb \<noteq> []) AuthzInvalidPolicy) (\<lambda>_.
       let roles = sorted_list_of_set (set (md_roles mb)) in
       and_then (ensure (length roles = length (md_roles mb) \<and> list_all (kind_allows kind) roles)
         AuthzInvalidPolicy) (\<lambda>_. Inr roles))"

definition load_account :: "(string \<times> bool) list \<Rightarrow> account_document \<Rightarrow> authorization_error + account" where
  "load_account tenants a =
     and_then (ensure (authz_valid_id (ad_id a) \<and> ad_memberships a \<noteq> []) AuthzInvalidPolicy) (\<lambda>_.
     and_then (try_for (\<lambda>m mb. and_then (membership_roles tenants (ad_kind a) mb)
         (\<lambda>roles. insert_new (md_tenant_id mb) roles AuthzInvalidPolicy m)) [] (ad_memberships a)) (\<lambda>ms.
       Inr \<lparr>ac_id = ad_id a, ac_kind = ad_kind a, ac_memberships = ms\<rparr>))"

definition load_accounts :: "(string \<times> bool) list \<Rightarrow> account_document list
    \<Rightarrow> authorization_error + (string \<times> account) list" where
  "load_accounts tenants as =
     try_for (\<lambda>m a. and_then (load_account tenants a)
       (\<lambda>ac. insert_new (ad_id a) ac AuthzInvalidPolicy m)) [] as"

definition load_bindings :: "(string \<times> account) list \<Rightarrow> binding_document list
    \<Rightarrow> authorization_error + ((string \<times> string) \<times> string) list" where
  "load_bindings accounts bs =
     try_for (\<lambda>m b. and_then (and_then (ensure (bd_issuer b \<noteq> [] \<and> length (bd_issuer b) \<le> 2048 \<and>
           bd_subject b \<noteq> [] \<and> length (bd_subject b) \<le> 256 \<and>
           map_of accounts (bd_account_id b) \<noteq> None) AuthzInvalidPolicy) (\<lambda>_. Inr (bd_account_id b)))
       (\<lambda>v. insert_new (bd_issuer b, bd_subject b) v AuthzInvalidPolicy m)) [] bs"

definition authz_from_json :: "policy_env \<Rightarrow> (byte list \<Rightarrow> authz_document option)
    \<Rightarrow> (authz_document \<Rightarrow> byte list option) \<Rightarrow> byte list \<Rightarrow> authorization_error + authorization_policy" where
  "authz_from_json E parse encode bytes =
     and_then (ensure (bytes \<noteq> [] \<and> length bytes \<le> 262144) AuthzInvalidPolicy) (\<lambda>_.
     and_then (ok_or (parse bytes) AuthzInvalidPolicy) (\<lambda>d.
     and_then (check_document d) (\<lambda>_.
     and_then (load_tenants (zd_tenants d)) (\<lambda>tenants.
     and_then (load_accounts tenants (zd_accounts d)) (\<lambda>accounts.
     and_then (load_bindings accounts (zd_bindings d)) (\<lambda>bindings.
     and_then (ok_or (encode d) AuthzInvalidPolicy) (\<lambda>canonical.
       Inr \<lparr>az_policy_id = zd_policy_id d, az_revision = zd_revision d,
            az_digest = content_digest E canonical, az_bindings = bindings,
            az_accounts = accounts\<rparr>)))))))"

section \<open>Contexts\<close>

record authorization_context =
  ax_account_id :: string
  ax_tenant_id :: string
  ax_principal_scope :: string
  ax_roles :: "tenant_role list"
  ax_account_kind :: account_kind
  ax_policy_id :: string
  ax_policy_revision :: nat
  ax_policy_digest :: string
  ax_authentication_method :: authentication_method

definition is_human :: "authorization_context \<Rightarrow> bool" where
  "is_human c \<longleftrightarrow> ax_account_kind c = HumanAccount"

fun visibility_loop :: "operation \<Rightarrow> visibility_scope option \<Rightarrow> tenant_role list
    \<Rightarrow> authorization_error + visibility_scope" where
  "visibility_loop op granted [] = ok_or granted AuthzDenied"
| "visibility_loop op granted (r # rs) =
     (let scope = role_grant r op in
      if scope = Some TenantScope then Inr TenantScope
      else visibility_loop op (if scope \<noteq> None then scope else granted) rs)"

definition visibility :: "authorization_context \<Rightarrow> operation \<Rightarrow> authorization_error + visibility_scope" where
  "visibility c op = visibility_loop op None (ax_roles c)"

definition authorize :: "authorization_context \<Rightarrow> operation \<Rightarrow> authorization_error + unit" where
  "authorize c op = and_then (visibility c op) (\<lambda>_. Inr ())"

definition principal_scope_of :: "policy_env \<Rightarrow> string \<Rightarrow> string \<Rightarrow> string" where
  "principal_scope_of E issuer subject =
     content_digest E (ascii (''quota-principal-v1'' @ [CHR 0x00] @ issuer @ [CHR 0x00] @ subject))"

definition select_tenant :: "account \<Rightarrow> string option \<Rightarrow> authorization_error + (string \<times> tenant_role list)" where
  "select_tenant account selector =
     (case selector of
        Some value \<Rightarrow>
          if authz_valid_id value
          then and_then (ok_or (map_of (ac_memberships account) value) AuthzDenied) (\<lambda>roles. Inr (value, roles))
          else Inl AuthzDenied
      | None \<Rightarrow>
          (case ac_memberships account of [membership] \<Rightarrow> Inr membership | _ \<Rightarrow> Inl AuthzDenied))"

definition resolve :: "policy_env \<Rightarrow> authorization_policy \<Rightarrow> principal \<Rightarrow> string option
    \<Rightarrow> authorization_error + authorization_context" where
  "resolve E pol p selector =
     and_then (ok_or (map_of (az_bindings pol) (pr_issuer p, pr_subject p)) AuthzDenied) (\<lambda>account_id.
     and_then (ok_or (map_of (az_accounts pol) account_id) AuthzDenied) (\<lambda>account.
     and_then (select_tenant account selector) (\<lambda>(tenant, roles).
       Inr \<lparr>ax_account_id = ac_id account, ax_tenant_id = tenant,
            ax_principal_scope = principal_scope_of E (pr_issuer p) (pr_subject p),
            ax_roles = roles, ax_account_kind = ac_kind account,
            ax_policy_id = az_policy_id pol, ax_policy_revision = az_revision pol,
            ax_policy_digest = az_digest pol, ax_authentication_method = pr_authentication p\<rparr>)))"

definition valid_bounded_identity :: "string \<Rightarrow> bool" where
  "valid_bounded_identity value \<longleftrightarrow> value \<noteq> [] \<and> length value \<le> 64 \<and> is_ascii value"

record legacy_tenant_binding =
  lb_tenant_scope :: string
  lb_owner_account_id :: string
  lb_policy_id :: string
  lb_policy_revision :: nat
  lb_policy_digest :: string

definition legacy_tenant_binding_new :: "string \<Rightarrow> string \<Rightarrow> string \<Rightarrow> nat \<Rightarrow> string
    \<Rightarrow> unit + legacy_tenant_binding" where
  "legacy_tenant_binding_new tenant owner pid r digest =
     (if \<not> valid_bounded_identity tenant \<or> \<not> valid_bounded_identity owner \<or> \<not> valid_bounded_identity pid \<or>
         r = 0 \<or> digest = [] \<or> 256 < length digest
      then Inl ()
      else Inr \<lparr>lb_tenant_scope = tenant, lb_owner_account_id = owner, lb_policy_id = pid,
                lb_policy_revision = r, lb_policy_digest = digest\<rparr>)"

definition legacy_tenant_binding_of :: "authorization_policy \<Rightarrow> string \<Rightarrow> string
    \<Rightarrow> authorization_error + legacy_tenant_binding" where
  "legacy_tenant_binding_of pol tenant account_id =
     and_then (ok_or (map_of (az_accounts pol) account_id) AuthzDenied) (\<lambda>account.
     and_then (ensure (map_of (ac_memberships account) tenant \<noteq> None) AuthzDenied) (\<lambda>_.
       map_err (\<lambda>_. AuthzInvalidPolicy) (legacy_tenant_binding_new tenant account_id (az_policy_id pol)
         (az_revision pol) (az_digest pol))))"

section \<open>The middleware\<close>

datatype decision_effect = AllowEffect | DenyEffect

record authorization_audit_input =
  au_decision_id :: string
  au_tenant_scope :: string
  au_actor_account_id :: string
  au_policy_id :: string
  au_policy_revision :: nat
  au_policy_digest :: string
  au_operation :: string
  au_effect :: decision_effect
  au_reason :: string
  au_resource_kind :: string
  au_resource_digest :: string
  au_task_id :: "string option"
  au_decided_at :: int

definition max_authorization_text_bytes :: nat where
  "max_authorization_text_bytes = 4096"

definition audit_input_new :: "authorization_audit_input \<Rightarrow> a2a_error + authorization_audit_input" where
  "audit_input_new v =
     (if list_ex (\<lambda>s. s = [] \<or> 256 < length s)
           [au_decision_id v, au_tenant_scope v, au_actor_account_id v, au_policy_id v, au_operation v,
            au_reason v, au_resource_kind v, au_resource_digest v] \<or>
         au_policy_revision v = 0 \<or> au_policy_digest v = [] \<or> 256 < length (au_policy_digest v) \<or>
         (case au_task_id v of Some t \<Rightarrow> t = [] \<or> max_authorization_text_bytes < length t | None \<Rightarrow> False)
      then Inl (invalid_request ''invalid authorization audit input'')
      else Inr v)"

record audit_port =
  port_resource_digest :: "string \<Rightarrow> string option"
  port_append_denied :: "authorization_audit_input \<Rightarrow> bool"

record authorization_middleware =
  mw_policy :: authorization_policy
  mw_audit_store :: "audit_port option"
  mw_now :: int

datatype middleware_outcome =
    Forward authorization_context
  | Respond nat "authorization_audit_input option" \<comment> \<open>status, appended audit record\<close>

definition deny :: "policy_env \<Rightarrow> authorization_middleware \<Rightarrow> byte list \<Rightarrow> string \<Rightarrow> middleware_outcome" where
  "deny E mw entropy reason =
     (case mw_audit_store mw of
        None \<Rightarrow> Respond 403 None
      | Some port \<Rightarrow>
          (case port_resource_digest port reason of
             None \<Rightarrow> Respond 500 None
           | Some resource_digest \<Rightarrow>
               (case audit_input_new \<lparr>au_decision_id = content_digest E (ascii resource_digest @ entropy),
                    au_tenant_scope = ''authorization-denial'', au_actor_account_id = ''unresolved-principal'',
                    au_policy_id = az_policy_id (mw_policy mw), au_policy_revision = az_revision (mw_policy mw),
                    au_policy_digest = az_digest (mw_policy mw), au_operation = ''TenantSelectorResolve'',
                    au_effect = DenyEffect, au_reason = reason, au_resource_kind = ''tenant-selector'',
                    au_resource_digest = resource_digest, au_task_id = None, au_decided_at = mw_now mw\<rparr> of
                  Inl _ \<Rightarrow> Respond 500 None
                | Inr audit \<Rightarrow> if port_append_denied port audit then Respond 403 (Some audit) else Respond 500 None)))"

definition authorize_request :: "policy_env \<Rightarrow> (string \<Rightarrow> string option) \<Rightarrow> authorization_middleware
    \<Rightarrow> byte list \<Rightarrow> string list \<Rightarrow> principal option \<Rightarrow> middleware_outcome" where
  "authorize_request E to_str mw entropy values p =
     (let continue = (\<lambda>selector.
        case p of
          None \<Rightarrow> deny E mw entropy ''missing_principal''
        | Some p \<Rightarrow>
            (case resolve E (mw_policy mw) p selector of
               Inl _ \<Rightarrow> deny E mw entropy ''selector_denied''
             | Inr ctx \<Rightarrow> Forward ctx))
      in case values of
           [] \<Rightarrow> continue None
         | [value] \<Rightarrow>
             (case to_str value of
                Some txt \<Rightarrow>
                  if CHR '','' \<notin> set txt \<and> length txt \<le> 64 then continue (Some txt)
                  else deny E mw entropy ''malformed_selector''
              | None \<Rightarrow> deny E mw entropy ''malformed_selector'')
         | _ \<Rightarrow> deny E mw entropy ''ambiguous_selector'')"

section \<open>What an accepted document says\<close>

lemma ascii_eq_iff: "ascii s = ascii t \<longleftrightarrow> s = t"
  by (simp add: ascii_def inj_map_eq_map inj_def)

lemma authz_from_json_Inr:
  assumes "authz_from_json E parse encode bytes = Inr pol"
  obtains d tenants canonical where "parse bytes = Some d" and "check_document d = Inr ()"
    and "load_tenants (zd_tenants d) = Inr tenants"
    and "load_accounts tenants (zd_accounts d) = Inr (az_accounts pol)"
    and "load_bindings (az_accounts pol) (zd_bindings d) = Inr (az_bindings pol)"
    and "az_policy_id pol = zd_policy_id d" and "az_revision pol = zd_revision d"
    and "encode d = Some canonical" and "az_digest pol = content_digest E canonical"
  using assms by (auto simp: authz_from_json_def result_simps)

lemma load_tenants_lookup:
  assumes "load_tenants ts = Inr tenants"
  shows "map_of tenants t = Some b \<longleftrightarrow> (\<exists>x \<in> set ts. td_id x = t \<and> td_enabled x = b)"
    and "map_of tenants t = Some b \<Longrightarrow> authz_valid_id t"
  using try_for_insert_new [OF assms [unfolded load_tenants_def]] by (auto simp: result_simps)

text \<open>The memberships of a loaded account are those of its document, with sorted roles.\<close>

definition role_list :: "membership_document \<Rightarrow> tenant_role list" where
  "role_list mb = sorted_list_of_set (set (md_roles mb))"

lemma membership_roles_Inr:
  "membership_roles tenants kind mb = Inr roles \<longleftrightarrow>
     map_of tenants (md_tenant_id mb) = Some True \<and> md_roles mb \<noteq> [] \<and> distinct (md_roles mb) \<and>
     (\<forall>r \<in> set (md_roles mb). kind_allows kind r) \<and> roles = role_list mb"
  by (auto simp: membership_roles_def result_simps Let_def role_list_def list_all_iff
      distinct_card card_distinct)

lemma load_account_Inr:
  assumes "load_account tenants a = Inr ac"
  shows "ac_id ac = ad_id a" and "ac_kind ac = ad_kind a" and "authz_valid_id (ad_id a)"
    and "distinct (map md_tenant_id (ad_memberships a))"
    and "length (ac_memberships ac) = length (ad_memberships a)"
    and "mb \<in> set (ad_memberships a) \<Longrightarrow> membership_roles tenants (ad_kind a) mb = Inr (role_list mb)"
    and "map_of (ac_memberships ac) t = Some roles \<longleftrightarrow>
      (\<exists>mb \<in> set (ad_memberships a). md_tenant_id mb = t \<and> roles = role_list mb)"
proof -
  from assms obtain ms where valid: "authz_valid_id (ad_id a)" and
    ac: "ac = \<lparr>ac_id = ad_id a, ac_kind = ad_kind a, ac_memberships = ms\<rparr>" and
    ms: "try_for (\<lambda>m mb. and_then (membership_roles tenants (ad_kind a) mb)
         (\<lambda>roles. insert_new (md_tenant_id mb) roles AuthzInvalidPolicy m)) [] (ad_memberships a) = Inr ms"
    by (auto simp: load_account_def result_simps)
  note t = try_for_insert_new [OF ms]
  show "ac_id ac = ad_id a" "ac_kind ac = ad_kind a" "authz_valid_id (ad_id a)"
    "distinct (map md_tenant_id (ad_memberships a))"
    "length (ac_memberships ac) = length (ad_memberships a)"
    using ac valid t by simp_all
  have r: "membership_roles tenants (ad_kind a) mb = Inr (role_list mb)" if "mb \<in> set (ad_memberships a)" for mb
    using t that by (auto simp: membership_roles_Inr)
  then show "mb \<in> set (ad_memberships a) \<Longrightarrow> membership_roles tenants (ad_kind a) mb = Inr (role_list mb)" .
  show "map_of (ac_memberships ac) t = Some roles \<longleftrightarrow>
      (\<exists>mb \<in> set (ad_memberships a). md_tenant_id mb = t \<and> roles = role_list mb)"
    using t r unfolding ac by fastforce
qed

lemma load_accounts_lookup:
  assumes "load_accounts tenants as = Inr accounts"
  shows "map_of accounts i = Some ac \<longleftrightarrow> (\<exists>a \<in> set as. ad_id a = i \<and> load_account tenants a = Inr ac)"
    and "distinct (map ad_id as)" and "a \<in> set as \<Longrightarrow> \<exists>ac. load_account tenants a = Inr ac"
  using try_for_insert_new [OF assms [unfolded load_accounts_def]] by auto

lemma load_bindings_lookup:
  assumes "load_bindings accounts bs = Inr bindings"
  shows "map_of bindings (i, s) = Some acc \<longleftrightarrow>
      (\<exists>b \<in> set bs. bd_issuer b = i \<and> bd_subject b = s \<and> bd_account_id b = acc)"
    and "b \<in> set bs \<Longrightarrow> map_of accounts (bd_account_id b) \<noteq> None"
  using try_for_insert_new [OF assms [unfolded load_bindings_def]] by (auto simp: result_simps)

text \<open>The context the document gives a principal through a binding, an account and a membership.\<close>

definition document_context :: "policy_env \<Rightarrow> authorization_policy \<Rightarrow> principal \<Rightarrow> account_document
    \<Rightarrow> membership_document \<Rightarrow> authorization_context" where
  "document_context E pol p a mb =
     \<lparr>ax_account_id = ad_id a, ax_tenant_id = md_tenant_id mb,
      ax_principal_scope = principal_scope_of E (pr_issuer p) (pr_subject p),
      ax_roles = role_list mb, ax_account_kind = ad_kind a,
      ax_policy_id = az_policy_id pol, ax_policy_revision = az_revision pol,
      ax_policy_digest = az_digest pol, ax_authentication_method = pr_authentication p\<rparr>"

definition selects :: "string option \<Rightarrow> account_document \<Rightarrow> membership_document \<Rightarrow> bool" where
  "selects selector a mb \<longleftrightarrow>
     (case selector of Some t \<Rightarrow> md_tenant_id mb = t | None \<Rightarrow> ad_memberships a = [mb])"

lemma single_membership:
  assumes "load_account tenants a = Inr ac"
  shows "ac_memberships ac = [(t, roles)] \<longleftrightarrow>
    (\<exists>mb. ad_memberships a = [mb] \<and> t = md_tenant_id mb \<and> roles = role_list mb)" (is "?l \<longleftrightarrow> ?r")
proof
  assume ?l
  with load_account_Inr(5) [OF assms] have "length (ad_memberships a) = 1" by simp
  then obtain mb where "ad_memberships a = [mb]"
    by (auto simp: length_Suc_conv)
  moreover have "map_of (ac_memberships ac) t = Some roles" using \<open>?l\<close> by simp
  ultimately show ?r using load_account_Inr(7) [OF assms, of t roles] by auto
next
  assume ?r
  then obtain mb where mb: "ad_memberships a = [mb]" "t = md_tenant_id mb" "roles = role_list mb" by blast
  with load_account_Inr(5) [OF assms] obtain t' roles' where ac: "ac_memberships ac = [(t', roles')]"
    by (auto simp: length_Suc_conv)
  with load_account_Inr(7) [OF assms, of t roles] mb show ?l by (auto split: if_splits)
qed

lemma select_tenant_document:
  assumes "load_account tenants a = Inr ac"
    and "\<And>mb. mb \<in> set (ad_memberships a) \<Longrightarrow> authz_valid_id (md_tenant_id mb)"
  shows "select_tenant ac selector = Inr (t, roles) \<longleftrightarrow>
    (\<exists>mb \<in> set (ad_memberships a). selects selector a mb \<and> t = md_tenant_id mb \<and> roles = role_list mb)"
proof (cases selector)
  case None
  have "select_tenant ac None = Inr (t, roles) \<longleftrightarrow> ac_memberships ac = [(t, roles)]"
    by (simp add: select_tenant_def split: list.split)
  also have "\<dots> \<longleftrightarrow> (\<exists>mb. ad_memberships a = [mb] \<and> t = md_tenant_id mb \<and> roles = role_list mb)"
    by (rule single_membership [OF assms(1)])
  finally show ?thesis
    unfolding None selects_def option.case by (metis list.set_intros(1))
next
  case (Some v)
  have "select_tenant ac (Some v) = Inr (t, roles) \<longleftrightarrow>
      authz_valid_id v \<and> t = v \<and> map_of (ac_memberships ac) v = Some roles"
    by (auto simp: select_tenant_def result_simps)
  also have "\<dots> \<longleftrightarrow> authz_valid_id v \<and> t = v \<and> (\<exists>mb \<in> set (ad_memberships a). md_tenant_id mb = v \<and> roles = role_list mb)"
    unfolding load_account_Inr(7) [OF assms(1)] ..
  finally show ?thesis
    unfolding Some selects_def option.case using assms(2) by metis
qed

lemma select_tenant_Inl: "select_tenant ac selector = Inl e \<Longrightarrow> e = AuthzDenied"
  by (auto simp: select_tenant_def result_simps split: option.split_asm list.split_asm if_split_asm)

lemma resolve_document:
  assumes pol: "authz_from_json E parse encode bytes = Inr pol" and d: "parse bytes = Some d"
  shows "resolve E pol p selector = Inr ctx \<longleftrightarrow>
    (\<exists>b \<in> set (zd_bindings d). \<exists>a \<in> set (zd_accounts d). \<exists>mb \<in> set (ad_memberships a).
       bd_issuer b = pr_issuer p \<and> bd_subject b = pr_subject p \<and> bd_account_id b = ad_id a \<and>
       selects selector a mb \<and> ctx = document_context E pol p a mb)" (is "?l \<longleftrightarrow> ?r")
proof -
  from pol d obtain tenants where
    t: "load_tenants (zd_tenants d) = Inr tenants" and
    a: "load_accounts tenants (zd_accounts d) = Inr (az_accounts pol)" and
    b: "load_bindings (az_accounts pol) (zd_bindings d) = Inr (az_bindings pol)"
    by (auto elim: authz_from_json_Inr)
  have enabled: "authz_valid_id (md_tenant_id mb)"
    if "load_account tenants x = Inr ac" "mb \<in> set (ad_memberships x)" for x ac mb
    using that(2) load_account_Inr(6) [OF that] load_tenants_lookup(2) [OF t]
    by (auto simp: membership_roles_Inr)
  define P where "P ac \<longleftrightarrow> (\<exists>t roles. select_tenant ac selector = Inr (t, roles) \<and>
      ctx = \<lparr>ax_account_id = ac_id ac, ax_tenant_id = t,
            ax_principal_scope = principal_scope_of E (pr_issuer p) (pr_subject p),
            ax_roles = roles, ax_account_kind = ac_kind ac,
            ax_policy_id = az_policy_id pol, ax_policy_revision = az_revision pol,
            ax_policy_digest = az_digest pol, ax_authentication_method = pr_authentication p\<rparr>)" for ac
  have P: "P ac \<longleftrightarrow> (\<exists>mb \<in> set (ad_memberships x). selects selector x mb \<and> ctx = document_context E pol p x mb)"
    if "load_account tenants x = Inr ac" for x ac
    unfolding P_def document_context_def
    using select_tenant_document [OF that enabled [OF that], of selector] load_account_Inr(1,2) [OF that]
    by auto
  have "?l \<longleftrightarrow> (\<exists>i ac. map_of (az_bindings pol) (pr_issuer p, pr_subject p) = Some i \<and>
      map_of (az_accounts pol) i = Some ac \<and> P ac)"
    unfolding resolve_def P_def by (simp add: result_simps split: prod.splits) blast
  also have "\<dots> \<longleftrightarrow> (\<exists>b \<in> set (zd_bindings d). \<exists>a \<in> set (zd_accounts d). \<exists>ac. load_account tenants a = Inr ac \<and>
      bd_issuer b = pr_issuer p \<and> bd_subject b = pr_subject p \<and> bd_account_id b = ad_id a \<and> P ac)"
    unfolding load_bindings_lookup(1) [OF b] load_accounts_lookup(1) [OF a] by (auto, metis)
  also have "\<dots> \<longleftrightarrow> (\<exists>b \<in> set (zd_bindings d). \<exists>a \<in> set (zd_accounts d).
      bd_issuer b = pr_issuer p \<and> bd_subject b = pr_subject p \<and> bd_account_id b = ad_id a \<and>
      (\<exists>ac. load_account tenants a = Inr ac \<and> P ac))"
    by blast
  also have "\<dots> \<longleftrightarrow> (\<exists>b \<in> set (zd_bindings d). \<exists>a \<in> set (zd_accounts d).
      bd_issuer b = pr_issuer p \<and> bd_subject b = pr_subject p \<and> bd_account_id b = ad_id a \<and>
      (\<exists>mb \<in> set (ad_memberships a). selects selector a mb \<and> ctx = document_context E pol p a mb))"
    by (intro bex_cong refl conj_cong) (metis P load_accounts_lookup(3) [OF a])
  also have "\<dots> \<longleftrightarrow> ?r"
    by (intro bex_cong refl) blast
  finally show ?thesis .
qed

lemma enabled_membership:
  assumes pol: "authz_from_json E parse encode bytes = Inr pol" and d: "parse bytes = Some d"
    and "a \<in> set (zd_accounts d)" and "mb \<in> set (ad_memberships a)"
  shows "\<exists>t \<in> set (zd_tenants d). td_id t = md_tenant_id mb \<and> td_enabled t"
    and "authz_valid_id (md_tenant_id mb)" and "authz_valid_id (ad_id a)"
    and "r \<in> set (md_roles mb) \<Longrightarrow> kind_allows (ad_kind a) r"
    and "set (role_list mb) = set (md_roles mb)"
proof -
  from pol d obtain tenants where
    t: "load_tenants (zd_tenants d) = Inr tenants" and
    a: "load_accounts tenants (zd_accounts d) = Inr (az_accounts pol)"
    by (auto elim: authz_from_json_Inr)
  from load_accounts_lookup(3) [OF a assms(3)] obtain ac where ac: "load_account tenants a = Inr ac" by blast
  from load_account_Inr(6) [OF ac assms(4)]
  have m: "map_of tenants (md_tenant_id mb) = Some True" "\<forall>r \<in> set (md_roles mb). kind_allows (ad_kind a) r"
    by (simp_all add: membership_roles_Inr)
  show "\<exists>t \<in> set (zd_tenants d). td_id t = md_tenant_id mb \<and> td_enabled t" "authz_valid_id (md_tenant_id mb)"
    "authz_valid_id (ad_id a)" "r \<in> set (md_roles mb) \<Longrightarrow> kind_allows (ad_kind a) r"
    using m load_tenants_lookup(1) [OF t] load_tenants_lookup(2) [OF t m(1)] load_account_Inr(3) [OF ac]
    by auto
  show "set (role_list mb) = set (md_roles mb)" by (simp add: role_list_def)
qed

section \<open>The effective visibility\<close>

lemma visibility_loop_eq:
  "visibility_loop op granted rs =
     (if \<exists>r \<in> set rs. role_grant r op = Some TenantScope then Inr TenantScope
      else if (\<exists>r \<in> set rs. role_grant r op = Some OwnScope) then Inr OwnScope
      else ok_or granted AuthzDenied)"
proof (induction rs arbitrary: granted)
  case (Cons r rs)
  show ?case
  proof (cases "role_grant r op")
    case None
    with Cons show ?thesis by simp
  next
    case (Some sc)
    with Cons show ?thesis by (cases sc) (auto simp: Let_def ok_or_def)
  qed
qed simp

lemma visibility_iff:
  "visibility c op = Inr TenantScope \<longleftrightarrow> (\<exists>r \<in> set (ax_roles c). role_grant r op = Some TenantScope)"
  "visibility c op = Inr OwnScope \<longleftrightarrow> (\<exists>r \<in> set (ax_roles c). role_grant r op = Some OwnScope) \<and>
     (\<forall>r \<in> set (ax_roles c). role_grant r op \<noteq> Some TenantScope)"
  "visibility c op = Inl e \<longleftrightarrow> e = AuthzDenied \<and> (\<forall>r \<in> set (ax_roles c). role_grant r op = None)"
  by (auto simp: visibility_def visibility_loop_eq ok_or_def) (metis (full_types) not_None_eq visibility_scope.exhaust)

lemma authorize_iff: "authorize c op = Inr () \<longleftrightarrow> (\<exists>r \<in> set (ax_roles c). role_grant r op \<noteq> None)"
proof -
  have "authorize c op = Inr () \<longleftrightarrow> \<not> (\<exists>e. visibility c op = Inl e)"
    by (cases "visibility c op") (auto simp: authorize_def)
  then show ?thesis by (auto simp: visibility_iff)
qed

text \<open>Single rows of the role matrix.\<close>

lemma ratification_grants:
  "op \<in> {OpRatificationRead, OpRatificationReview, OpRatificationDecide} \<Longrightarrow>
     role_grant r op \<noteq> None \<longleftrightarrow> r = HumanRatifier"
  by (cases r) (auto simp: role_grant_def)

lemma administration_grants:
  "op \<in> {OpAuditRead, OpAuthorizationAdmin} \<Longrightarrow> role_grant r op \<noteq> None \<Longrightarrow> \<not> kind_allows ServiceAccount r"
  by (cases r) (auto simp: role_grant_def kind_allows_def)

lemma mutation_grants:
  "op \<in> {OpTaskCreate, OpTaskContinue, OpTaskCancel, OpPushCreate, OpPushDelete} \<Longrightarrow>
     role_grant r op = Some TenantScope \<Longrightarrow> \<not> kind_allows ServiceAccount r"
  by (cases r) (auto simp: role_grant_def kind_allows_def)

section \<open>Properties\<close>

text \<open>
  C37. Resolution is exact with respect to the accepted document: a principal obtains precisely the
  contexts of an enabled tenant, through a binding of exactly its issuer and subject, to a
  membership of the bound account that the selector names, or to the only membership when there is
  no selector. Everything else is denied.
\<close>

theorem resolve_exact:
  assumes "authz_from_json E parse encode bytes = Inr pol" and "parse bytes = Some d"
  shows "(resolve E pol p selector = Inr ctx \<longleftrightarrow>
      (\<exists>b \<in> set (zd_bindings d). \<exists>a \<in> set (zd_accounts d). \<exists>mb \<in> set (ad_memberships a).
         bd_issuer b = pr_issuer p \<and> bd_subject b = pr_subject p \<and> bd_account_id b = ad_id a \<and>
         selects selector a mb \<and> ctx = document_context E pol p a mb)) \<and>
    (resolve E pol p selector = Inr ctx \<longrightarrow>
      (\<exists>t \<in> set (zd_tenants d). td_id t = ax_tenant_id ctx \<and> td_enabled t)) \<and>
    (resolve E pol p selector = Inl e \<longrightarrow> e = AuthzDenied)"
proof (intro conjI impI)
  assume "resolve E pol p selector = Inr ctx"
  then show "\<exists>t \<in> set (zd_tenants d). td_id t = ax_tenant_id ctx \<and> td_enabled t"
    using enabled_membership(1) [OF assms] by (auto simp: resolve_document [OF assms] document_context_def)
next
  show "resolve E pol p selector = Inl e \<Longrightarrow> e = AuthzDenied"
    by (auto simp: resolve_def result_simps dest: select_tenant_Inl)
qed (rule resolve_document [OF assms])

text \<open>
  C38. Separation of duties in every context an accepted policy yields: only a human holding the
  ratifier role may read, review or decide ratifications; a service account never reads audits or
  administers authorization and every mutation it may perform is confined to its own tasks; the
  effective visibility is the widest scope any of the roles grants and does not depend on their order.
\<close>

theorem separation_of_duties:
  assumes "authz_from_json E parse encode bytes = Inr pol" and "resolve E pol p selector = Inr ctx"
  shows "(\<forall>op \<in> {OpRatificationRead, OpRatificationReview, OpRatificationDecide}.
      authorize ctx op = Inr () \<longleftrightarrow> HumanRatifier \<in> set (ax_roles ctx) \<and> is_human ctx) \<and>
    (\<not> is_human ctx \<longrightarrow>
      (\<forall>op \<in> {OpAuditRead, OpAuthorizationAdmin}. authorize ctx op = Inl AuthzDenied) \<and>
      (\<forall>op \<in> {OpTaskCreate, OpTaskContinue, OpTaskCancel, OpPushCreate, OpPushDelete}.
         visibility ctx op \<noteq> Inr TenantScope)) \<and>
    (\<forall>op. visibility ctx op =
      (if \<exists>r \<in> set (ax_roles ctx). role_grant r op = Some TenantScope then Inr TenantScope
       else if \<exists>r \<in> set (ax_roles ctx). role_grant r op = Some OwnScope then Inr OwnScope
       else Inl AuthzDenied))"
proof -
  obtain d where d: "parse bytes = Some d" using assms(1) by (auto elim: authz_from_json_Inr)
  have kinds: "kind_allows (ax_account_kind ctx) r" if "r \<in> set (ax_roles ctx)" for r
    using assms(2) that enabled_membership(4,5) [OF assms(1) d]
    by (auto simp: resolve_document [OF assms(1) d] document_context_def)
  have deny: "authorize ctx op = Inl AuthzDenied \<longleftrightarrow> authorize ctx op \<noteq> Inr ()" for op
    using visibility_iff(3) [of ctx op]
    by (cases "visibility ctx op") (auto simp: authorize_def)
  have human: "is_human ctx" if "r \<in> set (ax_roles ctx)" "\<not> kind_allows ServiceAccount r" for r
    using kinds [OF that(1)] that(2) by (cases "ax_account_kind ctx") (auto simp: is_human_def)
  show ?thesis
  proof (intro conjI ballI impI allI)
    fix op :: operation
    assume "op \<in> {OpRatificationRead, OpRatificationReview, OpRatificationDecide}"
    then show "authorize ctx op = Inr () \<longleftrightarrow> HumanRatifier \<in> set (ax_roles ctx) \<and> is_human ctx"
      unfolding authorize_iff using ratification_grants human [of HumanRatifier]
      by (auto simp: kind_allows_def)
  next
    fix op :: operation
    assume "\<not> is_human ctx" "op \<in> {OpAuditRead, OpAuthorizationAdmin}"
    then show "authorize ctx op = Inl AuthzDenied"
      unfolding deny authorize_iff using administration_grants human by blast
  next
    fix op :: operation
    assume "\<not> is_human ctx" "op \<in> {OpTaskCreate, OpTaskContinue, OpTaskCancel, OpPushCreate, OpPushDelete}"
    then show "visibility ctx op \<noteq> Inr TenantScope"
      unfolding visibility_iff using mutation_grants human by blast
  qed (simp add: visibility_def visibility_loop_eq ok_or_def)
qed

text \<open>
  The middleware fails closed: a request reaches the handler only with the context the policy
  resolves for its authenticated principal and its single, well-formed selector; every other request
  is answered 403, or 500 when the denial cannot be recorded, and with an audit store a 403 means the
  denial was recorded under the policy's identity.
\<close>

theorem middleware_fails_closed:
  "(authorize_request E to_str mw entropy values p = Forward ctx \<longrightarrow>
      (\<exists>pr selector. p = Some pr \<and> resolve E (mw_policy mw) pr selector = Inr ctx \<and>
         (case selector of None \<Rightarrow> values = []
          | Some t \<Rightarrow> \<exists>v. values = [v] \<and> to_str v = Some t \<and> CHR '','' \<notin> set t \<and> length t \<le> 64))) \<and>
   (authorize_request E to_str mw entropy values p = Respond st rec \<longrightarrow>
      (st = 403 \<or> st = 500 \<and> mw_audit_store mw \<noteq> None) \<and>
      (mw_audit_store mw \<noteq> None \<and> st = 403 \<longrightarrow>
        (\<exists>a port. rec = Some a \<and> mw_audit_store mw = Some port \<and> port_append_denied port a \<and>
           au_effect a = DenyEffect \<and> au_policy_digest a = az_digest (mw_policy mw) \<and>
           au_reason a \<in> {''malformed_selector'', ''ambiguous_selector'', ''missing_principal'', ''selector_denied''})))"
proof -
  have deny_Forward: "deny E mw entropy reason \<noteq> Forward ctx" for reason
    by (simp add: deny_def split: option.splits sum.splits)
  have deny_Respond: "(st = 403 \<or> st = 500 \<and> mw_audit_store mw \<noteq> None) \<and>
      (mw_audit_store mw \<noteq> None \<and> st = 403 \<longrightarrow>
        (\<exists>a port. rec = Some a \<and> mw_audit_store mw = Some port \<and> port_append_denied port a \<and>
           au_effect a = DenyEffect \<and> au_policy_digest a = az_digest (mw_policy mw) \<and> au_reason a = reason))"
    if "deny E mw entropy reason = Respond st rec" for reason
    using that by (auto simp: deny_def audit_input_new_def split: option.splits sum.splits if_splits)
  show ?thesis
  proof (intro conjI impI)
    assume "authorize_request E to_str mw entropy values p = Forward ctx"
    then show "\<exists>pr selector. p = Some pr \<and> resolve E (mw_policy mw) pr selector = Inr ctx \<and>
         (case selector of None \<Rightarrow> values = []
          | Some t \<Rightarrow> \<exists>v. values = [v] \<and> to_str v = Some t \<and> CHR '','' \<notin> set t \<and> length t \<le> 64)"
      by (auto simp: authorize_request_def Let_def deny_Forward split: list.splits option.splits sum.splits if_splits)
  next
    assume "authorize_request E to_str mw entropy values p = Respond st rec"
    then obtain reason where "deny E mw entropy reason = Respond st rec"
      and "reason \<in> {''malformed_selector'', ''ambiguous_selector'', ''missing_principal'', ''selector_denied''}"
      by (auto simp: authorize_request_def Let_def split: list.splits option.splits sum.splits if_splits)
    with deny_Respond show "st = 403 \<or> st = 500 \<and> mw_audit_store mw \<noteq> None"
      and "mw_audit_store mw \<noteq> None \<and> st = 403 \<Longrightarrow>
        \<exists>a port. rec = Some a \<and> mw_audit_store mw = Some port \<and> port_append_denied port a \<and>
           au_effect a = DenyEffect \<and> au_policy_digest a = az_digest (mw_policy mw) \<and>
           au_reason a \<in> {''malformed_selector'', ''ambiguous_selector'', ''missing_principal'', ''selector_denied''}"
      by metis+
  qed
qed

lemma principal_scope_inj:
  assumes "principal_scope_of E i s = principal_scope_of E j t"
    and "CHR 0x00 \<notin> set i" and "CHR 0x00 \<notin> set j"
  shows "(i = j \<and> s = t) \<or> (\<exists>x y. x \<noteq> y \<and> sha256 E x = sha256 E y)"
proof -
  let ?m = "\<lambda>i s. ascii (''quota-principal-v1'' @ [CHR 0x00] @ i @ [CHR 0x00] @ s)"
  from assms(1) have "sha256 E (?m i s) = sha256 E (?m j t)"
    by (simp add: principal_scope_of_def content_digest_def)
  moreover have "?m i s = ?m j t \<longleftrightarrow> i = j \<and> s = t"
    using separated_eq_iff [OF assms(2,3), of s t] by (simp add: ascii_eq_iff)
  ultimately show ?thesis by blast
qed


section \<open>Witnesses\<close>

definition sample_authz_document :: authz_document where
  "sample_authz_document =
     \<lparr>zd_schema_version = ''smesh-authz-policy/v1'', zd_policy_id = ''pol'', zd_revision = 1,
      zd_tenants = [\<lparr>td_id = ''acme'', td_enabled = True\<rparr>],
      zd_accounts = [\<lparr>ad_id = ''bot'', ad_kind = ServiceAccount,
        ad_memberships = [\<lparr>md_tenant_id = ''acme'', md_roles = [TaskAgent]\<rparr>]\<rparr>],
      zd_bindings = [\<lparr>bd_issuer = ''iss'', bd_subject = ''sub'', bd_account_id = ''bot''\<rparr>]\<rparr>"

definition sample_authz_policy :: authorization_policy where
  "sample_authz_policy =
     \<lparr>az_policy_id = ''pol'', az_revision = 1, az_digest = content_digest sample_policy_env [1],
      az_bindings = [((''iss'', ''sub''), ''bot'')],
      az_accounts = [(''bot'', \<lparr>ac_id = ''bot'', ac_kind = ServiceAccount,
        ac_memberships = [(''acme'', [TaskAgent])]\<rparr>)]\<rparr>"

definition sample_principal :: principal where
  "sample_principal = \<lparr>pr_issuer = ''iss'', pr_subject = ''sub'', pr_authentication = BearerJwt\<rparr>"

lemmas authz_eval = authz_from_json_def check_document_def load_tenants_def load_accounts_def load_account_def
  load_bindings_def membership_roles_def authz_valid_id_def insert_new_def btree_insert_def ensure_def ok_or_def
  kind_allows_def resolve_def select_tenant_def

lemma sample_authz_accepted:
  "authz_from_json sample_policy_env (\<lambda>_. Some sample_authz_document) (\<lambda>_. Some [1]) [1] = Inr sample_authz_policy"
  by (simp add: authz_eval sample_authz_document_def sample_authz_policy_def text_simps)

definition sample_context :: authorization_context where
  "sample_context =
     \<lparr>ax_account_id = ''bot'', ax_tenant_id = ''acme'',
      ax_principal_scope = principal_scope_of sample_policy_env ''iss'' ''sub'', ax_roles = [TaskAgent],
      ax_account_kind = ServiceAccount, ax_policy_id = ''pol'', ax_policy_revision = 1,
      ax_policy_digest = content_digest sample_policy_env [1], ax_authentication_method = BearerJwt\<rparr>"

lemma sample_resolve: "resolve sample_policy_env sample_authz_policy sample_principal None = Inr sample_context"
  by (simp add: authz_eval sample_authz_policy_def sample_principal_def sample_context_def)

theorem resolve_exact_witness:
  "\<exists>t \<in> set (zd_tenants sample_authz_document). td_id t = ax_tenant_id sample_context \<and> td_enabled t"
  using resolve_exact [OF sample_authz_accepted refl] sample_resolve by blast

theorem separation_of_duties_witness:
  "authorize sample_context OpRatificationDecide = Inl AuthzDenied \<and>
   authorize sample_context OpAuditRead = Inl AuthzDenied \<and>
   visibility sample_context OpTaskCreate = Inr OwnScope"
proof -
  note w = separation_of_duties [OF sample_authz_accepted sample_resolve]
  have "\<not> is_human sample_context" by (simp add: is_human_def sample_context_def)
  moreover from this w have "authorize sample_context OpRatificationDecide \<noteq> Inr ()"
    and v: "visibility sample_context op = (if \<exists>r \<in> set (ax_roles sample_context). role_grant r op = Some TenantScope then Inr TenantScope
       else if \<exists>r \<in> set (ax_roles sample_context). role_grant r op = Some OwnScope then Inr OwnScope
       else Inl AuthzDenied)" for op
    by simp_all
  ultimately show ?thesis
    using w by (simp add: authorize_def v role_grant_def sample_context_def)
qed

theorem middleware_witness:
  "\<exists>selector. resolve sample_policy_env sample_authz_policy sample_principal selector = Inr sample_context"
proof -
  have "authorize_request sample_policy_env Some
      \<lparr>mw_policy = sample_authz_policy, mw_audit_store = None, mw_now = 0\<rparr> [] [] (Some sample_principal)
    = Forward sample_context"
    by (simp add: authorize_request_def sample_resolve)
  with middleware_fails_closed [of sample_policy_env Some
      "\<lparr>mw_policy = sample_authz_policy, mw_audit_store = None, mw_now = 0\<rparr>" "[]" "[]" "Some sample_principal"
      sample_context 403 None]
  show ?thesis by auto
qed


end
