(* ===== verification/Quota_Policy.thy ===== *)
theory Quota_Policy
  imports Tenant_Authorization
begin

text \<open>
  The quota policy, \<^verbatim>\<open>src/quota.rs\<close>: the closed vocabulary of operations, dimensions,
  scopes and algorithms, the validation of a policy document, the limit in force at a time, the
  charges of an admission, an egress or a lease, the execution budget an intent carries and the
  plan that authorizes lowered limits.

  The JSON codec of the document is a parameter; \<open>u64\<close> values are natural numbers that no operation
  adds or multiplies, \<open>i64\<close> milliseconds are integers. Loading the file is not modelled.
\<close>

section \<open>Vocabulary\<close>

datatype quota_operation =
    QTaskCreate | QTaskContinue | QTaskCancel | QTaskGet | QTaskList | QSendStream | QSubscribe
  | QReconnect | QPublicEgress

fun quota_operation_str :: "quota_operation \<Rightarrow> string" where
  "quota_operation_str QTaskCreate = ''taskCreate''"
| "quota_operation_str QTaskContinue = ''taskContinue''"
| "quota_operation_str QTaskCancel = ''taskCancel''"
| "quota_operation_str QTaskGet = ''taskGet''"
| "quota_operation_str QTaskList = ''taskList''"
| "quota_operation_str QSendStream = ''sendStream''"
| "quota_operation_str QSubscribe = ''subscribe''"
| "quota_operation_str QReconnect = ''reconnect''"
| "quota_operation_str QPublicEgress = ''publicEgress''"

datatype quota_dimension =
    RequestCount | ConcurrentActiveWork | InputBytes | OutputBytes | EventCount | ConcurrentStreams
  | ConcurrentSubscriptions | ReconnectCount | RetainedAuthorityBytes

fun quota_dimension_str :: "quota_dimension \<Rightarrow> string" where
  "quota_dimension_str RequestCount = ''requestCount''"
| "quota_dimension_str ConcurrentActiveWork = ''concurrentActiveWork''"
| "quota_dimension_str InputBytes = ''inputBytes''"
| "quota_dimension_str OutputBytes = ''outputBytes''"
| "quota_dimension_str EventCount = ''eventCount''"
| "quota_dimension_str ConcurrentStreams = ''concurrentStreams''"
| "quota_dimension_str ConcurrentSubscriptions = ''concurrentSubscriptions''"
| "quota_dimension_str ReconnectCount = ''reconnectCount''"
| "quota_dimension_str RetainedAuthorityBytes = ''retainedAuthorityBytes''"

datatype quota_scope_kind = TenantKind | AccountKind | PrincipalKind

fun quota_scope_kind_str :: "quota_scope_kind \<Rightarrow> string" where
  "quota_scope_kind_str TenantKind = ''tenant''"
| "quota_scope_kind_str AccountKind = ''account''"
| "quota_scope_kind_str PrincipalKind = ''principal''"

datatype quota_algorithm = FixedWindow | TokenBucket | Gauge

fun quota_algorithm_str :: "quota_algorithm \<Rightarrow> string" where
  "quota_algorithm_str FixedWindow = ''fixedWindow''"
| "quota_algorithm_str TokenBucket = ''tokenBucket''"
| "quota_algorithm_str Gauge = ''gauge''"

datatype quota_lease_kind = MessageStream | TaskSubscription

fun quota_lease_kind_str :: "quota_lease_kind \<Rightarrow> string" where
  "quota_lease_kind_str MessageStream = ''messageStream''"
| "quota_lease_kind_str TaskSubscription = ''taskSubscription''"

fun lease_dimension :: "quota_lease_kind \<Rightarrow> quota_dimension" where
  "lease_dimension MessageStream = ConcurrentStreams"
| "lease_dimension TaskSubscription = ConcurrentSubscriptions"

text \<open>The derived orders are the orders of the enumerations.\<close>

fun dimension_rank :: "quota_dimension \<Rightarrow> nat" where
  "dimension_rank RequestCount = 0"
| "dimension_rank ConcurrentActiveWork = 1"
| "dimension_rank InputBytes = 2"
| "dimension_rank OutputBytes = 3"
| "dimension_rank EventCount = 4"
| "dimension_rank ConcurrentStreams = 5"
| "dimension_rank ConcurrentSubscriptions = 6"
| "dimension_rank ReconnectCount = 7"
| "dimension_rank RetainedAuthorityBytes = 8"

fun scope_rank :: "quota_scope_kind \<Rightarrow> nat" where
  "scope_rank TenantKind = 0"
| "scope_rank AccountKind = 1"
| "scope_rank PrincipalKind = 2"

lemma dimension_rank_inj: "dimension_rank a = dimension_rank b \<Longrightarrow> a = b"
  by (cases a; cases b) simp_all

lemma scope_rank_inj: "scope_rank a = scope_rank b \<Longrightarrow> a = b"
  by (cases a; cases b) simp_all

instantiation quota_dimension :: linorder
begin

definition less_eq_quota_dimension :: "quota_dimension \<Rightarrow> quota_dimension \<Rightarrow> bool" where
  "less_eq_quota_dimension a b \<longleftrightarrow> dimension_rank a \<le> dimension_rank b"

definition less_quota_dimension :: "quota_dimension \<Rightarrow> quota_dimension \<Rightarrow> bool" where
  "less_quota_dimension a b \<longleftrightarrow> dimension_rank a < dimension_rank b"

instance
  by standard (auto simp: less_eq_quota_dimension_def less_quota_dimension_def intro: dimension_rank_inj)

end

instantiation quota_scope_kind :: linorder
begin

definition less_eq_quota_scope_kind :: "quota_scope_kind \<Rightarrow> quota_scope_kind \<Rightarrow> bool" where
  "less_eq_quota_scope_kind a b \<longleftrightarrow> scope_rank a \<le> scope_rank b"

definition less_quota_scope_kind :: "quota_scope_kind \<Rightarrow> quota_scope_kind \<Rightarrow> bool" where
  "less_quota_scope_kind a b \<longleftrightarrow> scope_rank a < scope_rank b"

instance
  by standard (auto simp: less_eq_quota_scope_kind_def less_quota_scope_kind_def intro: scope_rank_inj)

end

datatype quota_policy_error = QuotaInvalid | QuotaUnavailable

section \<open>The policy document\<close>

definition max_rate_cap :: nat where "max_rate_cap = 1000000"
definition max_concurrency_cap :: nat where "max_concurrency_cap = 4096"
definition max_byte_cap :: nat where "max_byte_cap = 67108864"
definition max_event_cap :: nat where "max_event_cap = 1000000"
definition max_window_millis :: nat where "max_window_millis = 86400000"

record limit_pair =
  lp_tenant :: nat
  lp_account :: nat
  lp_principal :: nat

record quota_limits =
  ql_request_count :: limit_pair
  ql_concurrent_active_work :: limit_pair
  ql_input_bytes :: limit_pair
  ql_output_bytes :: limit_pair
  ql_event_count :: limit_pair
  ql_concurrent_streams :: limit_pair
  ql_concurrent_subscriptions :: limit_pair
  ql_reconnect_count :: limit_pair
  ql_retained_authority_bytes :: limit_pair

record override_document =
  ov_id :: string
  ov_actor :: string
  ov_reason :: string
  ov_scope_kind :: quota_scope_kind
  ov_scope_id :: string
  ov_operation :: quota_operation
  ov_dimension :: quota_dimension
  ov_old_limit :: nat
  ov_new_limit :: nat
  ov_effective_at :: int
  ov_expires_at :: int

record quota_document =
  qd_schema_version :: string
  qd_policy_id :: string
  qd_revision :: nat
  qd_request_window_millis :: nat
  qd_reconnect_window_millis :: nat
  qd_limits :: quota_limits
  qd_overrides :: "override_document list"

record quota_policy =
  qp_document :: quota_document
  qp_canonical_json :: string
  qp_digest :: string

definition quota_valid_id :: "string \<Rightarrow> nat \<Rightarrow> bool" where
  "quota_valid_id value n \<longleftrightarrow>
     value \<noteq> [] \<and> length value \<le> n \<and>
     list_all (\<lambda>c. is_ascii_alphanumeric c \<or> c \<in> set ''._:-'') value"

definition valid_visible_ascii :: "string \<Rightarrow> nat \<Rightarrow> bool" where
  "valid_visible_ascii value n \<longleftrightarrow>
     value \<noteq> [] \<and> length value \<le> n \<and> list_all (\<lambda>c. is_ascii_graphic c \<or> c = CHR '' '') value"

definition validate_pair :: "limit_pair \<Rightarrow> nat \<Rightarrow> quota_policy_error + unit" where
  "validate_pair p cap =
     ensure (\<not> (lp_tenant p = 0 \<or> lp_account p = 0 \<or> lp_principal p = 0 \<or>
       cap < lp_tenant p \<or> cap < lp_account p \<or> cap < lp_principal p \<or>
       lp_tenant p < lp_account p \<or> lp_account p < lp_principal p)) QuotaInvalid"

fun dimension_pair :: "quota_limits \<Rightarrow> quota_dimension \<Rightarrow> limit_pair" where
  "dimension_pair l RequestCount = ql_request_count l"
| "dimension_pair l ConcurrentActiveWork = ql_concurrent_active_work l"
| "dimension_pair l InputBytes = ql_input_bytes l"
| "dimension_pair l OutputBytes = ql_output_bytes l"
| "dimension_pair l EventCount = ql_event_count l"
| "dimension_pair l ConcurrentStreams = ql_concurrent_streams l"
| "dimension_pair l ConcurrentSubscriptions = ql_concurrent_subscriptions l"
| "dimension_pair l ReconnectCount = ql_reconnect_count l"
| "dimension_pair l RetainedAuthorityBytes = ql_retained_authority_bytes l"

fun scope_limit :: "limit_pair \<Rightarrow> quota_scope_kind \<Rightarrow> nat" where
  "scope_limit p TenantKind = lp_tenant p"
| "scope_limit p AccountKind = lp_account p"
| "scope_limit p PrincipalKind = lp_principal p"

definition limit_from_document :: "quota_document \<Rightarrow> quota_dimension \<Rightarrow> quota_scope_kind \<Rightarrow> nat" where
  "limit_from_document d dimension scope = scope_limit (dimension_pair (qd_limits d) dimension) scope"

fun dimension_cap :: "quota_dimension \<Rightarrow> nat" where
  "dimension_cap RequestCount = max_rate_cap"
| "dimension_cap ReconnectCount = max_rate_cap"
| "dimension_cap ConcurrentActiveWork = max_concurrency_cap"
| "dimension_cap ConcurrentStreams = max_concurrency_cap"
| "dimension_cap ConcurrentSubscriptions = max_concurrency_cap"
| "dimension_cap EventCount = max_event_cap"
| "dimension_cap InputBytes = max_byte_cap"
| "dimension_cap OutputBytes = max_byte_cap"
| "dimension_cap RetainedAuthorityBytes = max_byte_cap"

definition check_quota_document :: "quota_document \<Rightarrow> quota_policy_error + unit" where
  "check_quota_document d =
     and_then (ensure (qd_schema_version d = ''smesh-quota-policy/v1'' \<and>
       quota_valid_id (qd_policy_id d) 128 \<and> qd_revision d \<noteq> 0 \<and>
       1 \<le> qd_request_window_millis d \<and> qd_request_window_millis d \<le> max_window_millis \<and>
       1 \<le> qd_reconnect_window_millis d \<and> qd_reconnect_window_millis d \<le> max_window_millis) QuotaInvalid) (\<lambda>_.
     and_then (validate_pair (ql_request_count (qd_limits d)) max_rate_cap) (\<lambda>_.
     and_then (validate_pair (ql_concurrent_active_work (qd_limits d)) max_concurrency_cap) (\<lambda>_.
     and_then (validate_pair (ql_input_bytes (qd_limits d)) max_byte_cap) (\<lambda>_.
     and_then (validate_pair (ql_output_bytes (qd_limits d)) max_byte_cap) (\<lambda>_.
     and_then (validate_pair (ql_event_count (qd_limits d)) max_event_cap) (\<lambda>_.
     and_then (validate_pair (ql_concurrent_streams (qd_limits d)) max_concurrency_cap) (\<lambda>_.
     and_then (validate_pair (ql_concurrent_subscriptions (qd_limits d)) max_concurrency_cap) (\<lambda>_.
     and_then (validate_pair (ql_reconnect_count (qd_limits d)) max_rate_cap) (\<lambda>_.
     and_then (validate_pair (ql_retained_authority_bytes (qd_limits d)) max_byte_cap) (\<lambda>_.
       ensure (length (qd_overrides d) \<le> 1024) QuotaInvalid))))))))))"

definition check_override :: "quota_document \<Rightarrow> string set \<Rightarrow> override_document \<Rightarrow> quota_policy_error + string set" where
  "check_override d ids v =
     (let cap = dimension_cap (ov_dimension v);
          baseline = limit_from_document d (ov_dimension v) (ov_scope_kind v) in
      if \<not> quota_valid_id (ov_id v) 128 \<or> \<not> valid_visible_ascii (ov_actor v) 256 \<or>
         \<not> valid_visible_ascii (ov_reason v) 1024 \<or> \<not> quota_valid_id (ov_scope_id v) 256 \<or>
         ov_old_limit v = 0 \<or> ov_new_limit v = 0 \<or> cap < ov_old_limit v \<or> cap < ov_new_limit v \<or>
         ov_old_limit v \<noteq> baseline \<or> ov_effective_at v < 1 \<or> ov_expires_at v \<le> ov_effective_at v \<or>
         ov_id v \<in> ids
      then Inl QuotaInvalid else Inr (insert (ov_id v) ids))"

definition overrides_conflict :: "override_document \<Rightarrow> override_document \<Rightarrow> bool" where
  "overrides_conflict l r \<longleftrightarrow>
     ov_scope_kind l = ov_scope_kind r \<and> ov_scope_id l = ov_scope_id r \<and>
     ov_operation l = ov_operation r \<and> ov_dimension l = ov_dimension r \<and>
     ov_effective_at l < ov_expires_at r \<and> ov_effective_at r < ov_expires_at l"

fun overrides_disjoint :: "override_document list \<Rightarrow> bool" where
  "overrides_disjoint [] \<longleftrightarrow> True"
| "overrides_disjoint (v # vs) \<longleftrightarrow> \<not> list_ex (overrides_conflict v) vs \<and> overrides_disjoint vs"

definition quota_from_json :: "policy_env \<Rightarrow> (byte list \<Rightarrow> quota_document option)
    \<Rightarrow> (quota_document \<Rightarrow> string option) \<Rightarrow> byte list \<Rightarrow> quota_policy_error + quota_policy" where
  "quota_from_json E parse encode bytes =
     and_then (ensure (bytes \<noteq> [] \<and> length bytes \<le> 262144) QuotaInvalid) (\<lambda>_.
     and_then (ok_or (parse bytes) QuotaInvalid) (\<lambda>d.
     and_then (check_quota_document d) (\<lambda>_.
     and_then (try_for (check_override d) {} (qd_overrides d)) (\<lambda>_.
     and_then (ensure (overrides_disjoint (qd_overrides d)) QuotaInvalid) (\<lambda>_.
     and_then (ok_or (encode d) QuotaInvalid) (\<lambda>canonical.
       Inr \<lparr>qp_document = d, qp_canonical_json = canonical,
            qp_digest = content_digest E (ascii canonical)\<rparr>))))))"

section \<open>Limits\<close>

definition quota_limit :: "quota_policy \<Rightarrow> quota_dimension \<Rightarrow> quota_scope_kind \<Rightarrow> nat" where
  "quota_limit pol dimension scope = scope_limit (dimension_pair (qd_limits (qp_document pol)) dimension) scope"

definition execution_limit :: "quota_policy \<Rightarrow> quota_dimension \<Rightarrow> nat" where
  "execution_limit pol dimension =
     min (min (quota_limit pol dimension TenantKind) (quota_limit pol dimension AccountKind))
       (quota_limit pol dimension PrincipalKind)"

fun window_millis :: "quota_policy \<Rightarrow> quota_dimension \<Rightarrow> nat option" where
  "window_millis pol RequestCount = Some (qd_request_window_millis (qp_document pol))"
| "window_millis pol ReconnectCount = Some (qd_reconnect_window_millis (qp_document pol))"
| "window_millis pol _ = None"

definition override_applies :: "quota_scope_kind \<Rightarrow> string \<Rightarrow> quota_operation \<Rightarrow> quota_dimension \<Rightarrow> nat \<Rightarrow> int
    \<Rightarrow> override_document \<Rightarrow> bool" where
  "override_applies scope scope_id op dimension baseline now v \<longleftrightarrow>
     ov_scope_kind v = scope \<and> ov_scope_id v = scope_id \<and> ov_operation v = op \<and> ov_dimension v = dimension \<and>
     ov_old_limit v = baseline \<and> ov_effective_at v \<le> now \<and> now < ov_expires_at v"

definition limit_at :: "quota_policy \<Rightarrow> quota_scope_kind \<Rightarrow> string \<Rightarrow> quota_operation \<Rightarrow> quota_dimension
    \<Rightarrow> int \<Rightarrow> nat" where
  "limit_at pol scope scope_id op dimension now =
     (let baseline = quota_limit pol dimension scope in
      case find (override_applies scope scope_id op dimension baseline now) (qd_overrides (qp_document pol)) of
        Some v \<Rightarrow> ov_new_limit v | None \<Rightarrow> baseline)"

definition all_dimensions :: "quota_dimension list" where
  "all_dimensions = [RequestCount, ConcurrentActiveWork, InputBytes, OutputBytes, EventCount,
     ConcurrentStreams, ConcurrentSubscriptions, ReconnectCount, RetainedAuthorityBytes]"

definition lowered_limits_from :: "quota_policy \<Rightarrow> quota_policy \<Rightarrow> (quota_scope_kind \<times> quota_dimension) list" where
  "lowered_limits_from pol old =
     [(scope, dimension). scope \<leftarrow> [TenantKind, AccountKind, PrincipalKind], dimension \<leftarrow> all_dimensions,
        quota_limit pol dimension scope < quota_limit old dimension scope]"

section \<open>Reconciliation plans\<close>

record reconciliation_target =
  rt_tenant_scope :: string
  rt_scope_kind :: quota_scope_kind
  rt_dimension :: quota_dimension

definition reconciliation_target_new :: "string \<Rightarrow> quota_scope_kind \<Rightarrow> quota_dimension
    \<Rightarrow> quota_policy_error + reconciliation_target" where
  "reconciliation_target_new tenant scope dimension =
     (if \<not> valid_bounded_identity tenant then Inl QuotaInvalid
      else Inr \<lparr>rt_tenant_scope = tenant, rt_scope_kind = scope, rt_dimension = dimension\<rparr>)"

record reconciliation_plan =
  rp_old_policy_digest :: string
  rp_new_policy_digest :: string
  rp_actor :: string
  rp_reason :: string
  rp_effective_at :: int
  rp_targets :: "reconciliation_target list"

definition target_key :: "reconciliation_target \<Rightarrow> string \<times> quota_scope_kind \<times> quota_dimension" where
  "target_key t = (rt_tenant_scope t, rt_scope_kind t, rt_dimension t)"

definition drain :: "string \<Rightarrow> string \<Rightarrow> string \<Rightarrow> string \<Rightarrow> int \<Rightarrow> reconciliation_target list
    \<Rightarrow> quota_policy_error + reconciliation_plan" where
  "drain old_digest new_digest actor reason effective_at targets0 =
     (let targets = sort_key target_key targets0 in
      if length old_digest \<noteq> 71 \<or> length new_digest \<noteq> 71 \<or> old_digest = new_digest \<or>
         \<not> quota_valid_id actor 256 \<or> reason = [] \<or> 1024 < length reason \<or> \<not> is_ascii reason \<or>
         effective_at < 1 \<or> targets = [] \<or> adjacent_equal targets
      then Inl QuotaInvalid
      else Inr \<lparr>rp_old_policy_digest = old_digest, rp_new_policy_digest = new_digest, rp_actor = actor,
                rp_reason = reason, rp_effective_at = effective_at, rp_targets = targets\<rparr>)"

definition authorizes :: "reconciliation_plan \<Rightarrow> string \<Rightarrow> string \<Rightarrow> string \<Rightarrow> quota_scope_kind
    \<Rightarrow> quota_dimension \<Rightarrow> bool" where
  "authorizes plan tenant old_digest new_digest scope dimension \<longleftrightarrow>
     rp_old_policy_digest plan = old_digest \<and> rp_new_policy_digest plan = new_digest \<and>
     list_ex (\<lambda>t. rt_tenant_scope t = tenant \<and> rt_scope_kind t = scope \<and> rt_dimension t = dimension)
       (rp_targets plan)"

section \<open>Subjects, charges and intents\<close>

record quota_subject =
  qs_tenant_scope :: string
  qs_account_id :: string
  qs_principal_scope :: string

definition quota_subject_new :: "string \<Rightarrow> string \<Rightarrow> string \<Rightarrow> quota_policy_error + quota_subject" where
  "quota_subject_new tenant acc principal_scope =
     (if \<not> valid_bounded_identity tenant \<or> \<not> valid_bounded_identity acc \<or>
         principal_scope = [] \<or> 256 < length principal_scope \<or> \<not> is_ascii principal_scope
      then Inl QuotaInvalid
      else Inr \<lparr>qs_tenant_scope = tenant, qs_account_id = acc, qs_principal_scope = principal_scope\<rparr>)"

record quota_charge =
  ch_scope_kind :: quota_scope_kind
  ch_scope_id :: string
  ch_dimension :: quota_dimension
  ch_algorithm :: quota_algorithm
  ch_units :: nat
  ch_capacity :: nat
  ch_window_millis :: "nat option"

record quota_intent =
  qi_policy_id :: string
  qi_policy_revision :: nat
  qi_policy_digest :: string
  qi_tenant_scope :: string
  qi_account_id :: string
  qi_principal_scope :: string
  qi_operation :: quota_operation
  qi_semantic_id :: string
  qi_binding_digest :: string
  qi_charges :: "quota_charge list"

definition charge_key :: "quota_charge \<Rightarrow> quota_scope_kind \<times> string \<times> quota_dimension" where
  "charge_key c = (ch_scope_kind c, ch_scope_id c, ch_dimension c)"

definition subject_scopes :: "quota_subject \<Rightarrow> (quota_scope_kind \<times> string) list" where
  "subject_scopes s = [(TenantKind, qs_tenant_scope s), (AccountKind, qs_account_id s),
     (PrincipalKind, qs_principal_scope s)]"

definition operation_charges :: "quota_policy \<Rightarrow> quota_operation \<Rightarrow> nat
    \<Rightarrow> (quota_dimension \<times> quota_algorithm \<times> nat \<times> nat option) list" where
  "operation_charges pol op input_bytes =
     [(RequestCount, FixedWindow, 1, window_millis pol RequestCount)]
     @ (if op \<in> {QTaskCreate, QSendStream} then [(ConcurrentActiveWork, Gauge, 1, None)] else [])
     @ (if input_bytes \<noteq> 0 then [(InputBytes, FixedWindow, input_bytes, window_millis pol RequestCount)] else [])
     @ (if op \<in> {QTaskCreate, QTaskContinue, QSendStream}
        then [(OutputBytes, FixedWindow, execution_limit pol OutputBytes, window_millis pol RequestCount),
              (EventCount, FixedWindow, execution_limit pol EventCount, window_millis pol RequestCount)]
        else [])"

definition scope_charge :: "quota_policy \<Rightarrow> quota_scope_kind \<Rightarrow> string
    \<Rightarrow> quota_dimension \<times> quota_algorithm \<times> nat \<times> nat option \<Rightarrow> quota_charge" where
  "scope_charge pol kind scope_id = (\<lambda>(dimension, algorithm, units, window).
     \<lparr>ch_scope_kind = kind, ch_scope_id = scope_id, ch_dimension = dimension, ch_algorithm = algorithm,
      ch_units = units, ch_capacity = quota_limit pol dimension kind, ch_window_millis = window\<rparr>)"

definition scope_charges :: "quota_policy \<Rightarrow> quota_subject
    \<Rightarrow> (quota_dimension \<times> quota_algorithm \<times> nat \<times> nat option) list \<Rightarrow> quota_charge list" where
  "scope_charges pol s rows =
     sort_key charge_key (concat (map (\<lambda>(kind, scope_id). map (scope_charge pol kind scope_id) rows) (subject_scopes s)))"

fun nul_joined :: "string list \<Rightarrow> string" where
  "nul_joined [] = []"
| "nul_joined [x] = x"
| "nul_joined (x # xs) = x @ [CHR 0x00] @ nul_joined xs"

definition make_intent :: "policy_env \<Rightarrow> quota_policy \<Rightarrow> quota_subject \<Rightarrow> quota_operation \<Rightarrow> string
    \<Rightarrow> string list \<Rightarrow> quota_charge list \<Rightarrow> quota_intent" where
  "make_intent E pol s op semantic_id tail charges =
     \<lparr>qi_policy_id = qd_policy_id (qp_document pol), qi_policy_revision = qd_revision (qp_document pol),
      qi_policy_digest = qp_digest pol, qi_tenant_scope = qs_tenant_scope s, qi_account_id = qs_account_id s,
      qi_principal_scope = qs_principal_scope s, qi_operation = op, qi_semantic_id = semantic_id,
      qi_binding_digest = content_digest E (ascii (nul_joined ([qp_digest pol, qs_tenant_scope s,
        qs_account_id s, qs_principal_scope s, quota_operation_str op] @ tail))),
      qi_charges = charges\<rparr>"

definition operation_intent :: "policy_env \<Rightarrow> quota_policy \<Rightarrow> quota_subject \<Rightarrow> quota_operation \<Rightarrow> string \<Rightarrow> nat
    \<Rightarrow> quota_policy_error + quota_intent" where
  "operation_intent E pol s op semantic_id input_bytes =
     (if \<not> quota_valid_id semantic_id 256 \<or> max_byte_cap < input_bytes then Inl QuotaInvalid
      else Inr (make_intent E pol s op semantic_id [semantic_id]
             (scope_charges pol s (operation_charges pol op input_bytes))))"

definition admission_intent :: "policy_env \<Rightarrow> quota_policy \<Rightarrow> quota_subject \<Rightarrow> string \<Rightarrow> nat \<Rightarrow> bool
    \<Rightarrow> quota_policy_error + quota_intent" where
  "admission_intent E pol s semantic_id input_bytes streaming =
     operation_intent E pol s (if streaming then QSendStream else QTaskCreate) semantic_id input_bytes"

definition egress_intent :: "policy_env \<Rightarrow> quota_policy \<Rightarrow> quota_subject \<Rightarrow> string \<Rightarrow> nat \<Rightarrow> nat
    \<Rightarrow> quota_policy_error + quota_intent" where
  "egress_intent E pol s semantic_id output_bytes events =
     (if \<not> quota_valid_id semantic_id 256 \<or> output_bytes = 0 \<or> max_byte_cap < output_bytes \<or>
         events = 0 \<or> max_event_cap < events
      then Inl QuotaInvalid
      else Inr (make_intent E pol s QPublicEgress semantic_id [semantic_id]
             (scope_charges pol s [(OutputBytes, FixedWindow, output_bytes, window_millis pol RequestCount),
                (EventCount, FixedWindow, events, window_millis pol RequestCount)])))"

definition lease_operation :: "quota_lease_kind \<Rightarrow> bool \<Rightarrow> quota_operation" where
  "lease_operation kind reconnect =
     (if reconnect then QReconnect
      else case kind of MessageStream \<Rightarrow> QSendStream | TaskSubscription \<Rightarrow> QSubscribe)"

definition lease_intent :: "policy_env \<Rightarrow> quota_policy \<Rightarrow> quota_subject \<Rightarrow> quota_lease_kind \<Rightarrow> string \<Rightarrow> bool
    \<Rightarrow> quota_policy_error + quota_intent" where
  "lease_intent E pol s kind semantic_id reconnect =
     (if \<not> quota_valid_id semantic_id 256 then Inl QuotaInvalid
      else Inr (make_intent E pol s (lease_operation kind reconnect) semantic_id
             [quota_lease_kind_str kind, semantic_id]
             (scope_charges pol s
               ((if reconnect then [(ReconnectCount, TokenBucket, 1, window_millis pol ReconnectCount)] else [])
                @ [(lease_dimension kind, Gauge, 1, None)]))))"

section \<open>Execution budgets and errors\<close>

record execution_budget =
  bu_max_output_bytes :: nat
  bu_max_event_count :: nat

definition execution_budget_new :: "nat \<Rightarrow> nat \<Rightarrow> quota_policy_error + execution_budget" where
  "execution_budget_new output_bytes events =
     (if output_bytes = 0 \<or> max_byte_cap < output_bytes \<or> events = 0 \<or> max_event_cap < events
      then Inl QuotaInvalid
      else Inr \<lparr>bu_max_output_bytes = output_bytes, bu_max_event_count = events\<rparr>)"

definition minimum_units :: "quota_charge list \<Rightarrow> quota_dimension \<Rightarrow> nat option" where
  "minimum_units charges dimension =
     (let values = map ch_units (filter (\<lambda>c. ch_dimension c = dimension) charges) in
      if length values = 3 then Some (fold min (tl values) (hd values)) else None)"

definition intent_execution_budget :: "quota_intent \<Rightarrow> execution_budget option" where
  "intent_execution_budget i =
     (if qi_operation i \<notin> {QTaskCreate, QTaskContinue, QSendStream} then None
      else case (minimum_units (qi_charges i) OutputBytes, minimum_units (qi_charges i) EventCount) of
          (Some output_bytes, Some events) \<Rightarrow>
            (case execution_budget_new output_bytes events of Inr b \<Rightarrow> Some b | Inl _ \<Rightarrow> None)
        | _ \<Rightarrow> None)"

definition quota_exceeded_new :: "nat \<Rightarrow> nat" where
  "quota_exceeded_new seconds =
     (let clamped = (if seconds < 1 then 1 else if 3600 < seconds then 3600 else seconds)
      in if clamped < 65536 then clamped else 3600)"

definition quota_exceeded_error :: "nat \<Rightarrow> a2a_error" where
  "quota_exceeded_error retry_after_seconds =
     \<lparr>err_code = -32010, err_message = ''quota exceeded'',
      err_details = Some [\<lparr>type_url = ''type.googleapis.com/google.protobuf.Struct'',
        detail_value = [(''retryAfterSeconds'', JNumber (show_nat retry_after_seconds))]\<rparr>]\<rparr>"

definition quota_exceeded :: a2a_error where
  "quota_exceeded = quota_exceeded_error (quota_exceeded_new 1)"

definition quota_authority_unavailable :: a2a_error where
  "quota_authority_unavailable = new_error (-32011) ''quota authority unavailable''"

text \<open>The subject the durable handler charges: the one of the authorization context.\<close>

definition context_subject :: "authorization_context \<Rightarrow> a2a_error + quota_subject" where
  "context_subject c =
     map_err (\<lambda>_. quota_authority_unavailable)
       (quota_subject_new (ax_tenant_id c) (ax_account_id c) (ax_principal_scope c))"

section \<open>What an accepted document says\<close>

lemma quota_from_json_Inr:
  assumes "quota_from_json E parse encode bytes = Inr pol"
  obtains ids where "parse bytes = Some (qp_document pol)" and "check_quota_document (qp_document pol) = Inr ()"
    and "try_for (check_override (qp_document pol)) {} (qd_overrides (qp_document pol)) = Inr ids"
    and "overrides_disjoint (qd_overrides (qp_document pol))"
    and "encode (qp_document pol) = Some (qp_canonical_json pol)"
    and "qp_digest pol = content_digest E (ascii (qp_canonical_json pol))"
  using assms by (auto simp: quota_from_json_def result_simps)

definition pair_wf :: "limit_pair \<Rightarrow> nat \<Rightarrow> bool" where
  "pair_wf p cap \<longleftrightarrow> 1 \<le> lp_principal p \<and> lp_principal p \<le> lp_account p \<and> lp_account p \<le> lp_tenant p \<and> lp_tenant p \<le> cap"

lemma validate_pair_Inr [result_simps]: "validate_pair p cap = Inr u \<longleftrightarrow> pair_wf p cap"
  by (auto simp: validate_pair_def pair_wf_def result_simps)

lemma check_quota_document_limits:
  "check_quota_document d = Inr () \<Longrightarrow> pair_wf (dimension_pair (qd_limits d) dim) (dimension_cap dim)"
  by (cases dim) (simp_all add: check_quota_document_def result_simps)

lemma scope_limit_bounds:
  "pair_wf p cap \<Longrightarrow> 1 \<le> scope_limit p sc \<and> scope_limit p sc \<le> cap"
  "pair_wf p cap \<Longrightarrow> scope_limit p PrincipalKind \<le> scope_limit p sc"
  by (cases sc; auto simp: pair_wf_def)+

lemma check_override_Inr:
  "check_override d ids v = Inr ids' \<Longrightarrow>
     1 \<le> ov_new_limit v \<and> ov_new_limit v \<le> dimension_cap (ov_dimension v) \<and>
     ov_old_limit v = limit_from_document d (ov_dimension v) (ov_scope_kind v)"
  by (auto simp: check_override_def Let_def split: if_splits)

lemma overrides_disjoint_unique:
  assumes "overrides_disjoint vs" and "v \<in> set vs" and "w \<in> set vs"
    and "override_applies sc i op dim base now v" and "override_applies sc i op dim base now w"
  shows "v = w"
proof -
  have "overrides_conflict v w" "overrides_conflict w v"
    using assms(4,5) by (auto simp: overrides_conflict_def override_applies_def)
  with assms(1-3) show ?thesis
    by (induction vs) (auto simp: list_ex_iff)
qed

lemma limit_at_override:
  assumes "overrides_disjoint (qd_overrides (qp_document pol))" and "v \<in> set (qd_overrides (qp_document pol))"
    and "override_applies sc i op dim (quota_limit pol dim sc) now v"
  shows "limit_at pol sc i op dim now = ov_new_limit v"
proof (cases "find (override_applies sc i op dim (quota_limit pol dim sc) now) (qd_overrides (qp_document pol))")
  case None
  with assms(2,3) show ?thesis by (auto simp: find_None_iff)
next
  case (Some w)
  then have "w \<in> set (qd_overrides (qp_document pol))" "override_applies sc i op dim (quota_limit pol dim sc) now w"
    by (auto simp: find_Some_iff)
  with overrides_disjoint_unique [OF assms(1) assms(2) _ assms(3)] have "w = v" by blast
  with Some show ?thesis by (simp add: limit_at_def)
qed

lemma limit_at_baseline:
  assumes "\<And>v. v \<in> set (qd_overrides (qp_document pol)) \<Longrightarrow>
      \<not> override_applies sc i op dim (quota_limit pol dim sc) now v"
  shows "limit_at pol sc i op dim now = quota_limit pol dim sc"
proof -
  have "find (override_applies sc i op dim (quota_limit pol dim sc) now) (qd_overrides (qp_document pol)) = None"
    using assms by (auto simp: find_None_iff)
  then show ?thesis by (simp add: limit_at_def)
qed

lemma limit_at_cases:
  obtains (override) v where "v \<in> set (qd_overrides (qp_document pol))"
      and "override_applies sc i op dim (quota_limit pol dim sc) now v"
      and "limit_at pol sc i op dim now = ov_new_limit v"
  | (baseline) "limit_at pol sc i op dim now = quota_limit pol dim sc"
proof (cases "find (override_applies sc i op dim (quota_limit pol dim sc) now) (qd_overrides (qp_document pol))")
  case None
  then show ?thesis using baseline by (simp add: limit_at_def)
next
  case (Some w)
  then have "w \<in> set (qd_overrides (qp_document pol))" "override_applies sc i op dim (quota_limit pol dim sc) now w"
    by (auto simp: find_Some_iff)
  moreover have "limit_at pol sc i op dim now = ov_new_limit w"
    by (simp add: limit_at_def Some)
  ultimately show ?thesis by (rule override)
qed

lemma quota_limit_bounds:
  assumes "quota_from_json E parse encode bytes = Inr pol"
  shows "1 \<le> quota_limit pol dim sc" and "quota_limit pol dim sc \<le> dimension_cap dim"
    and "quota_limit pol dim PrincipalKind \<le> quota_limit pol dim sc"
    and "1 \<le> limit_at pol sc i op dim now" and "limit_at pol sc i op dim now \<le> dimension_cap dim"
proof -
  from assms obtain ids where
    d: "check_quota_document (qp_document pol) = Inr ()" and
    ov: "try_for (check_override (qp_document pol)) {} (qd_overrides (qp_document pol)) = Inr ids"
    by (auto elim: quota_from_json_Inr)
  note wf = check_quota_document_limits [OF d, of dim]
  from scope_limit_bounds [OF wf, of sc]
  show b: "1 \<le> quota_limit pol dim sc" "quota_limit pol dim sc \<le> dimension_cap dim"
    "quota_limit pol dim PrincipalKind \<le> quota_limit pol dim sc"
    by (simp_all add: quota_limit_def)
  have "1 \<le> limit_at pol sc i op dim now \<and> limit_at pol sc i op dim now \<le> dimension_cap dim"
  proof (cases rule: limit_at_cases [of pol sc i op dim now])
    case (override v)
    with try_for_each [OF ov override(1)] show ?thesis
      by (auto dest!: check_override_Inr simp: override_applies_def)
  next
    case baseline
    with b show ?thesis by simp
  qed
  then show "1 \<le> limit_at pol sc i op dim now" "limit_at pol sc i op dim now \<le> dimension_cap dim" by simp_all
qed

section \<open>Intents\<close>

lemma filter_key_unique:
  "distinct (map k xs) \<Longrightarrow> x \<in> set xs \<Longrightarrow> filter (\<lambda>y. k y = k x) xs = [x]"
proof (induction xs)
  case (Cons y ys)
  then show ?case
    by (cases "x = y") (auto simp: filter_empty_conv image_iff)
qed simp

lemma scope_charge_simps [simp]:
  "ch_scope_kind (scope_charge pol k i row) = k" "ch_scope_id (scope_charge pol k i row) = i"
  "ch_dimension (scope_charge pol k i row) = fst row" "ch_algorithm (scope_charge pol k i row) = fst (snd row)"
  "ch_units (scope_charge pol k i row) = fst (snd (snd row))"
  "ch_capacity (scope_charge pol k i row) = quota_limit pol (fst row) k"
  by (simp_all add: scope_charge_def case_prod_unfold)

lemma scope_order [simp]: "TenantKind < AccountKind" "TenantKind < PrincipalKind" "AccountKind < PrincipalKind"
  by (simp_all add: less_quota_scope_kind_def)

lemma filter_scope_charges:
  assumes "distinct (map fst rows)" and "row \<in> set rows"
  shows "filter (\<lambda>c. ch_dimension c = fst row) (scope_charges pol s rows) =
    [scope_charge pol TenantKind (qs_tenant_scope s) row, scope_charge pol AccountKind (qs_account_id s) row,
     scope_charge pol PrincipalKind (qs_principal_scope s) row]"
proof -
  have "filter (\<lambda>c. ch_dimension c = fst row) (map (scope_charge pol k i) rows) = [scope_charge pol k i row]" for k i
    using filter_key_unique [OF assms] by (simp add: filter_map comp_def)
  then show ?thesis
    by (simp add: scope_charges_def subject_scopes_def filter_sort charge_key_def)
qed

lemma minimum_units_scope_charges:
  "distinct (map fst rows) \<Longrightarrow> row \<in> set rows \<Longrightarrow>
     minimum_units (scope_charges pol s rows) (fst row) = Some (fst (snd (snd row)))"
  using filter_scope_charges [of rows row] by (simp add: minimum_units_def Let_def)

lemma set_scope_charges:
  "c \<in> set (scope_charges pol s rows) \<longleftrightarrow>
     (\<exists>row \<in> set rows. \<exists>(k, i) \<in> set (subject_scopes s). c = scope_charge pol k i row)"
  by (auto simp: scope_charges_def)

lemma sorted_scope_charges: "sorted (map charge_key (scope_charges pol s rows))"
  by (simp add: scope_charges_def)

lemma distinct_scope_charges:
  assumes "distinct (map fst rows)"
  shows "distinct (map charge_key (scope_charges pol s rows))"
proof -
  have "distinct (map charge_key (map (scope_charge pol k i) rows))" for k i
    using assms by (auto simp: distinct_map charge_key_def inj_on_def)
  then have "distinct (map charge_key (concat (map (\<lambda>(k, i). map (scope_charge pol k i) rows) (subject_scopes s))))"
    by (auto simp: subject_scopes_def charge_key_def)
  then show ?thesis
    by (simp only: scope_charges_def distinct_map distinct_sort set_sort)
qed

lemma operation_charges_distinct: "distinct (map fst (operation_charges pol op n))"
  by (cases op; cases "n = 0"; simp add: operation_charges_def)

lemma execution_limit_principal:
  assumes "quota_from_json E parse encode bytes = Inr pol"
  shows "execution_limit pol dim = quota_limit pol dim PrincipalKind"
  using quota_limit_bounds(3) [OF assms, of dim TenantKind] quota_limit_bounds(3) [OF assms, of dim AccountKind]
  by (auto simp: execution_limit_def min_def)

section \<open>The binding of an intent\<close>

definition nul_free :: "string \<Rightarrow> bool" where
  "nul_free x \<longleftrightarrow> CHR 0x00 \<notin> set x"

definition subject_nul_free :: "quota_subject \<Rightarrow> bool" where
  "subject_nul_free s \<longleftrightarrow> nul_free (qs_tenant_scope s) \<and> nul_free (qs_account_id s) \<and> nul_free (qs_principal_scope s)"

text \<open>The three ways the policy builds an intent.\<close>

definition intent_of :: "policy_env \<Rightarrow> quota_policy \<Rightarrow> quota_subject \<Rightarrow> quota_intent \<Rightarrow> bool" where
  "intent_of E pol s i \<longleftrightarrow>
     (\<exists>op semantic_id n. operation_intent E pol s op semantic_id n = Inr i) \<or>
     (\<exists>semantic_id n k. egress_intent E pol s semantic_id n k = Inr i) \<or>
     (\<exists>kind semantic_id r. lease_intent E pol s kind semantic_id r = Inr i)"

lemma nul_joined_Cons_eq:
  "nul_free x \<Longrightarrow> nul_free y \<Longrightarrow> xs \<noteq> [] \<Longrightarrow> ys \<noteq> [] \<Longrightarrow>
     nul_joined (x # xs) = nul_joined (y # ys) \<longleftrightarrow> x = y \<and> nul_joined xs = nul_joined ys"
  using separated_eq_iff [of "CHR 0x00" x y] by (cases xs; cases ys) (simp_all add: nul_free_def)

lemma nul_free_hex: "nul_free (hex_bytes bs)"
proof -
  have "\<not> is_hex_digit (CHR 0x00)" by (simp add: is_hex_digit_def text_simps)
  then show ?thesis
    using hex_bytes_digits [of bs] by (auto simp: nul_free_def list_all_iff)
qed

lemma nul_free_content_digest [simp]: "nul_free (content_digest E b)"
  using nul_free_hex by (simp add: content_digest_def sha256_text_def nul_free_def)

lemma nul_free_operation [simp]: "nul_free (quota_operation_str op)"
  by (cases op) (simp_all add: nul_free_def)

lemma nul_free_lease_kind [simp]: "nul_free (quota_lease_kind_str k)"
  by (cases k) (simp_all add: nul_free_def)

lemma quota_valid_id_nul_free: "quota_valid_id x n \<Longrightarrow> nul_free x"
  by (auto simp: quota_valid_id_def nul_free_def list_all_iff text_simps)

lemma authz_valid_id_nul_free:
  assumes "authz_valid_id x"
  shows "nul_free x"
proof -
  have "c \<noteq> CHR 0x00" if "(i, c) \<in> set (enumerate 0 x)" for i c
    using assms that by (auto simp: authz_valid_id_def list_all_iff text_simps)
  moreover have "set x = snd ` set (enumerate 0 x)"
    by (metis list.set_map map_snd_enumerate)
  ultimately show ?thesis unfolding nul_free_def by force
qed

lemma quota_operation_str_inj [simp]: "quota_operation_str a = quota_operation_str b \<longleftrightarrow> a = b"
  by (cases a; cases b) simp_all

lemma intent_ofE:
  assumes "intent_of E pol s i"
  obtains tail where "i = make_intent E pol s (qi_operation i) (qi_semantic_id i) tail (qi_charges i)"
    and "nul_free (qi_semantic_id i)"
    and "tail = [qi_semantic_id i] \<or> (\<exists>k. tail = [quota_lease_kind_str k, qi_semantic_id i])"
  using assms unfolding intent_of_def
proof (elim disjE exE)
  fix op semantic_id n
  assume "operation_intent E pol s op semantic_id n = Inr i"
  then show thesis
    by (intro that [of "[semantic_id]"])
      (auto simp: operation_intent_def make_intent_def split: if_splits dest: quota_valid_id_nul_free)
next
  fix semantic_id n k
  assume "egress_intent E pol s semantic_id n k = Inr i"
  then show thesis
    by (intro that [of "[semantic_id]"])
      (auto simp: egress_intent_def make_intent_def split: if_splits dest: quota_valid_id_nul_free)
next
  fix kind semantic_id r
  assume "lease_intent E pol s kind semantic_id r = Inr i"
  then show thesis
    by (intro that [of "[quota_lease_kind_str kind, semantic_id]"])
      (auto simp: lease_intent_def make_intent_def split: if_splits dest: quota_valid_id_nul_free)
qed

lemma lease_tail_eq:
  "quota_lease_kind_str k @ CHR 0x00 # x = quota_lease_kind_str k' @ CHR 0x00 # y \<Longrightarrow> x = y"
  using separated_eq_iff [of "CHR 0x00" "quota_lease_kind_str k" "quota_lease_kind_str k'" x y]
    nul_free_lease_kind [of k] nul_free_lease_kind [of k'] by (simp add: nul_free_def)

lemma nul_free_neq: "nul_free x \<Longrightarrow> a @ CHR 0x00 # y \<noteq> x \<and> x \<noteq> a @ CHR 0x00 # y"
  by (auto simp: nul_free_def)

lemma binding_fields:
  assumes "intent_of E pol s i" and "intent_of E pol' s' j" and "subject_nul_free s" and "subject_nul_free s'"
    and "nul_free (qp_digest pol)" and "nul_free (qp_digest pol')" and "qi_binding_digest i = qi_binding_digest j"
  shows "qp_digest pol = qp_digest pol' \<and> s = s' \<and> qi_operation i = qi_operation j \<and>
      qi_semantic_id i = qi_semantic_id j \<or> (\<exists>x y. x \<noteq> y \<and> sha256 E x = sha256 E y)"
proof -
  let ?m = "\<lambda>pol s i tail. nul_joined ([qp_digest pol, qs_tenant_scope s, qs_account_id s, qs_principal_scope s,
      quota_operation_str (qi_operation i)] @ tail)"
  obtain t where i: "i = make_intent E pol s (qi_operation i) (qi_semantic_id i) t (qi_charges i)"
    "nul_free (qi_semantic_id i)" "t = [qi_semantic_id i] \<or> (\<exists>k. t = [quota_lease_kind_str k, qi_semantic_id i])"
    using assms(1) by (rule intent_ofE)
  obtain u where j: "j = make_intent E pol' s' (qi_operation j) (qi_semantic_id j) u (qi_charges j)"
    "nul_free (qi_semantic_id j)" "u = [qi_semantic_id j] \<or> (\<exists>k. u = [quota_lease_kind_str k, qi_semantic_id j])"
    using assms(2) by (rule intent_ofE)
  have bi: "qi_binding_digest i = content_digest E (ascii (?m pol s i t))"
    by (subst i(1)) (simp add: make_intent_def)
  have bj: "qi_binding_digest j = content_digest E (ascii (?m pol' s' j u))"
    by (subst j(1)) (simp add: make_intent_def)
  show ?thesis
  proof (cases "?m pol s i t = ?m pol' s' j u")
    case True
    from i(3) j(3) have ne: "t \<noteq> []" "u \<noteq> []" by auto
    from True have eq: "qp_digest pol = qp_digest pol'" "qs_tenant_scope s = qs_tenant_scope s'"
      "qs_account_id s = qs_account_id s'" "qs_principal_scope s = qs_principal_scope s'"
      "qi_operation i = qi_operation j" and tails: "nul_joined t = nul_joined u"
      using assms(3-6) ne by (simp_all add: nul_joined_Cons_eq subject_nul_free_def del: nul_joined.simps)
    have "qi_semantic_id i = qi_semantic_id j"
      using i(2,3) j(2,3) tails
      by (auto dest!: lease_tail_eq simp: nul_free_neq)
    with eq show ?thesis by simp
  next
    case False
    then have "ascii (?m pol s i t) \<noteq> ascii (?m pol' s' j u)" by (simp only: ascii_eq_iff) simp
    moreover have "sha256 E (ascii (?m pol s i t)) = sha256 E (ascii (?m pol' s' j u))"
      using assms(7) bi bj by (simp add: content_digest_def)
    ultimately show ?thesis by blast
  qed
qed

lemma context_subject_nul_free:
  assumes "authz_from_json E parse encode bytes = Inr apol" and "resolve E apol p selector = Inr ctx"
    and "context_subject ctx = Inr s"
  shows "subject_nul_free s"
proof -
  obtain d where d: "parse bytes = Some d" using assms(1) by (auto elim: authz_from_json_Inr)
  from assms(2) have "authz_valid_id (ax_tenant_id ctx)" "authz_valid_id (ax_account_id ctx)"
    "nul_free (ax_principal_scope ctx)"
    using enabled_membership(2,3) [OF assms(1) d]
    by (auto simp: resolve_document [OF assms(1) d] document_context_def principal_scope_of_def)
  with assms(3) show ?thesis
    by (auto simp: context_subject_def quota_subject_new_def subject_nul_free_def result_simps
        authz_valid_id_nul_free split: if_splits)
qed

section \<open>Properties\<close>


text \<open>
  An admission charges every scope consistently: the charges are sorted with one charge per
  scope and dimension, each bears the capacity of its scope, all but the measured input are positive
  and within that capacity, and exactly the operations that start work carry an execution budget,
  which is the strictest of the three limits.
\<close>

theorem admission_charges:
  assumes "quota_from_json E parse encode bytes = Inr pol"
    and "operation_intent E pol s op semantic_id n = Inr i"
  shows "sorted (map charge_key (qi_charges i)) \<and> distinct (map charge_key (qi_charges i)) \<and>
    (\<forall>c \<in> set (qi_charges i). 1 \<le> ch_units c \<and> (ch_scope_kind c, ch_scope_id c) \<in> set (subject_scopes s) \<and>
       ch_capacity c = quota_limit pol (ch_dimension c) (ch_scope_kind c) \<and>
       (ch_dimension c \<noteq> InputBytes \<longrightarrow> ch_units c \<le> ch_capacity c)) \<and>
    intent_execution_budget i =
      (if op \<in> {QTaskCreate, QTaskContinue, QSendStream}
       then Some \<lparr>bu_max_output_bytes = quota_limit pol OutputBytes PrincipalKind,
                  bu_max_event_count = quota_limit pol EventCount PrincipalKind\<rparr>
       else None)"
proof -
  let ?rows = "operation_charges pol op n"
  from assms(2) have i: "qi_charges i = scope_charges pol s ?rows" "qi_operation i = op"
    by (auto simp: operation_intent_def make_intent_def split: if_splits)
  note b = quota_limit_bounds [OF assms(1)] and e = execution_limit_principal [OF assms(1)]
  have units: "1 \<le> fst (snd (snd row)) \<and> (fst row \<noteq> InputBytes \<longrightarrow> fst (snd (snd row)) \<le> quota_limit pol (fst row) k)"
    if "row \<in> set ?rows" for row k
    using that b(1) b(3) by (auto simp: operation_charges_def e split: if_splits)
  have "intent_execution_budget i =
      (if op \<in> {QTaskCreate, QTaskContinue, QSendStream}
       then Some \<lparr>bu_max_output_bytes = quota_limit pol OutputBytes PrincipalKind,
                  bu_max_event_count = quota_limit pol EventCount PrincipalKind\<rparr>
       else None)"
  proof (cases "op \<in> {QTaskCreate, QTaskContinue, QSendStream}")
    case True
    then have "(OutputBytes, FixedWindow, execution_limit pol OutputBytes, window_millis pol RequestCount) \<in> set ?rows"
      "(EventCount, FixedWindow, execution_limit pol EventCount, window_millis pol RequestCount) \<in> set ?rows"
      by (simp_all add: operation_charges_def)
    from this [THEN minimum_units_scope_charges [OF operation_charges_distinct]]
    have "minimum_units (qi_charges i) OutputBytes = Some (quota_limit pol OutputBytes PrincipalKind)"
      "minimum_units (qi_charges i) EventCount = Some (quota_limit pol EventCount PrincipalKind)"
      by (simp_all add: i e)
    moreover have "execution_budget_new (quota_limit pol OutputBytes PrincipalKind) (quota_limit pol EventCount PrincipalKind)
        = Inr \<lparr>bu_max_output_bytes = quota_limit pol OutputBytes PrincipalKind,
               bu_max_event_count = quota_limit pol EventCount PrincipalKind\<rparr>"
      using b(1,2) [of OutputBytes PrincipalKind] b(1,2) [of EventCount PrincipalKind]
      by (simp add: execution_budget_new_def)
    ultimately show ?thesis using True by (simp add: intent_execution_budget_def i)
  qed (simp add: intent_execution_budget_def i)
  moreover have "1 \<le> ch_units c \<and> (ch_scope_kind c, ch_scope_id c) \<in> set (subject_scopes s) \<and>
       ch_capacity c = quota_limit pol (ch_dimension c) (ch_scope_kind c) \<and>
       (ch_dimension c \<noteq> InputBytes \<longrightarrow> ch_units c \<le> ch_capacity c)" if "c \<in> set (qi_charges i)" for c
    using that units by (auto simp: i set_scope_charges)
  ultimately show ?thesis
    using sorted_scope_charges [of pol s ?rows] distinct_scope_charges [OF operation_charges_distinct, of pol s]
    unfolding i by blast
qed

text \<open>
  An intent is bound to exactly one request: for subjects that come from resolved authorization
  contexts, two intents of any kind share a binding digest only if they agree on the policy digest,
  the tenant, account and principal, the operation and the semantic identifier, or else a SHA-256
  collision is at hand.
\<close>

theorem intent_binding_separates:
  assumes "quota_from_json E parse encode bytes = Inr pol" and "quota_from_json E parse encode bytes' = Inr pol'"
    and "authz_from_json E aparse aencode abytes = Inr apol"
    and "resolve E apol p selector = Inr ctx" and "resolve E apol p' selector' = Inr ctx'"
    and "context_subject ctx = Inr s" and "context_subject ctx' = Inr s'"
    and "intent_of E pol s i" and "intent_of E pol' s' j" and "qi_binding_digest i = qi_binding_digest j"
  shows "(qp_digest pol = qp_digest pol' \<and> s = s' \<and> qi_operation i = qi_operation j \<and>
      qi_semantic_id i = qi_semantic_id j) \<or> (\<exists>x y. x \<noteq> y \<and> sha256 E x = sha256 E y)"
proof -
  have "nul_free (qp_digest pol)" "nul_free (qp_digest pol')"
    using assms(1,2) by (auto elim!: quota_from_json_Inr)
  with binding_fields [OF assms(8,9) _ _ _ _ assms(10)] context_subject_nul_free [OF assms(3,4,6)]
    context_subject_nul_free [OF assms(3,5,7)]
  show ?thesis by blast
qed

text \<open>
  The bounds of a subject do not exclude the separator: without the authorization policy two
  different subjects share every binding digest.
\<close>

lemma subject_binding_ambiguous:
  "\<exists>s t. quota_subject_new (''a'' @ [CHR 0x00] @ ''b'') ''c'' ''p'' = Inr s \<and>
     quota_subject_new ''a'' (''b'' @ [CHR 0x00] @ ''c'') ''p'' = Inr t \<and> s \<noteq> t \<and>
     (\<forall>E pol op tail charges. qi_binding_digest (make_intent E pol s op semantic_id tail charges) =
        qi_binding_digest (make_intent E pol t op semantic_id tail charges))"
  by (simp add: quota_subject_new_def valid_bounded_identity_def make_intent_def text_simps)

text \<open>
  Lowering limits is controlled exactly: the reported pairs are those whose baseline decreased,
  a plan authorizes exactly its listed targets between exactly its two policies, and its targets are
  the given ones without repetition, in order.
\<close>

theorem reconciliation_exact:
  assumes "drain old_digest new_digest actor reason at targets = Inr plan"
  shows "((sc, dim) \<in> set (lowered_limits_from pol old) \<longleftrightarrow> quota_limit pol dim sc < quota_limit old dim sc) \<and>
    (authorizes plan tenant d1 d2 sc dim \<longleftrightarrow>
       d1 = old_digest \<and> d2 = new_digest \<and>
       \<lparr>rt_tenant_scope = tenant, rt_scope_kind = sc, rt_dimension = dim\<rparr> \<in> set targets) \<and>
    old_digest \<noteq> new_digest \<and> distinct (rp_targets plan) \<and> mset (rp_targets plan) = mset targets \<and>
    sorted (map target_key (rp_targets plan))"
proof -
  have inj: "inj_on target_key A" for A
    by (auto simp: inj_on_def target_key_def intro: reconciliation_target.equality)
  from assms have plan: "rp_targets plan = sort_key target_key targets" "rp_old_policy_digest plan = old_digest"
    "rp_new_policy_digest plan = new_digest" "old_digest \<noteq> new_digest" "\<not> adjacent_equal (rp_targets plan)"
    by (auto simp: drain_def Let_def split: if_splits)
  have low: "(sc, dim) \<in> set (lowered_limits_from pol old) \<longleftrightarrow> quota_limit pol dim sc < quota_limit old dim sc"
    by (cases sc; cases dim; simp add: lowered_limits_from_def all_dimensions_def)
  have tgt: "rt_tenant_scope t = tenant \<and> rt_scope_kind t = sc \<and> rt_dimension t = dim \<longleftrightarrow>
      t = \<lparr>rt_tenant_scope = tenant, rt_scope_kind = sc, rt_dimension = dim\<rparr>" for t :: reconciliation_target
    by (cases t) auto
  have "distinct (rp_targets plan)"
    using adjacent_equal_sorted [of target_key "rp_targets plan"] plan(1,5) inj by simp
  with low plan show ?thesis
    by (auto simp: authorizes_def list_ex_iff tgt)
qed

section \<open>Witnesses\<close>

definition sample_pair :: limit_pair where
  "sample_pair = \<lparr>lp_tenant = 30, lp_account = 20, lp_principal = 10\<rparr>"

definition sample_override :: override_document where
  "sample_override =
     \<lparr>ov_id = ''o1'', ov_actor = ''ops'', ov_reason = ''launch'', ov_scope_kind = TenantKind, ov_scope_id = ''acme'',
      ov_operation = QTaskGet, ov_dimension = RequestCount, ov_old_limit = 30, ov_new_limit = 50,
      ov_effective_at = 100, ov_expires_at = 200\<rparr>"

definition sample_quota_document :: quota_document where
  "sample_quota_document =
     \<lparr>qd_schema_version = ''smesh-quota-policy/v1'', qd_policy_id = ''quota'', qd_revision = 1,
      qd_request_window_millis = 1000, qd_reconnect_window_millis = 1000,
      qd_limits = \<lparr>ql_request_count = sample_pair, ql_concurrent_active_work = sample_pair,
        ql_input_bytes = sample_pair, ql_output_bytes = sample_pair, ql_event_count = sample_pair,
        ql_concurrent_streams = sample_pair, ql_concurrent_subscriptions = sample_pair,
        ql_reconnect_count = sample_pair, ql_retained_authority_bytes = sample_pair\<rparr>,
      qd_overrides = [sample_override]\<rparr>"

definition sample_quota :: quota_policy where
  "sample_quota = \<lparr>qp_document = sample_quota_document, qp_canonical_json = ''doc'',
     qp_digest = content_digest sample_policy_env (ascii ''doc'')\<rparr>"

lemma sample_quota_accepted:
  "quota_from_json sample_policy_env (\<lambda>_. Some sample_quota_document) (\<lambda>_. Some ''doc'') [1] = Inr sample_quota"
  by (simp add: quota_from_json_def check_quota_document_def validate_pair_def sample_quota_document_def
      sample_pair_def sample_override_def check_override_def limit_from_document_def sample_quota_def
      ensure_def ok_or_def quota_valid_id_def valid_visible_ascii_def text_simps max_rate_cap_def
      max_concurrency_cap_def max_byte_cap_def max_event_cap_def max_window_millis_def)

definition sample_subject :: quota_subject where
  "sample_subject = \<lparr>qs_tenant_scope = ''acme'', qs_account_id = ''bot'',
     qs_principal_scope = ax_principal_scope sample_context\<rparr>"

lemma sample_context_subject: "context_subject sample_context = Inr sample_subject"
proof -
  have "is_ascii (sha256_text d)" for d
  proof -
    have "is_hex_digit c \<Longrightarrow> (of_char c :: nat) < 128" for c
      by (auto simp: is_hex_digit_def text_simps)
    then have "list_all (\<lambda>c. of_char c < (128::nat)) (hex_bytes d)"
      using hex_bytes_digits [of d] by (auto simp: list_all_iff)
    then show ?thesis by (simp add: sha256_text_def is_ascii_def)
  qed
  then show ?thesis
    by (simp add: context_subject_def quota_subject_new_def valid_bounded_identity_def sample_context_def
        sample_subject_def principal_scope_of_def content_digest_def map_err_def is_ascii_def [of "''acme''"]
        is_ascii_def [of "''bot''"] sha256_text_def sample_policy_env_def)
qed


theorem admission_charges_witness:
  "\<exists>i. operation_intent sample_policy_env sample_quota sample_subject QTaskCreate ''m1'' 5 = Inr i \<and>
     intent_execution_budget i = Some \<lparr>bu_max_output_bytes = 10, bu_max_event_count = 10\<rparr>"
proof -
  obtain i where i: "operation_intent sample_policy_env sample_quota sample_subject QTaskCreate ''m1'' 5 = Inr i"
    by (simp add: operation_intent_def quota_valid_id_def text_simps max_byte_cap_def)
  with admission_charges [OF sample_quota_accepted i] show ?thesis
    by (simp add: quota_limit_def sample_quota_def sample_quota_document_def sample_pair_def)
qed

theorem intent_binding_witness: "\<exists>x y. x \<noteq> y \<and> sha256 sample_policy_env x = sha256 sample_policy_env y"
proof -
  define i where "i op = make_intent sample_policy_env sample_quota sample_subject op ''m1'' [''m1'']
    (scope_charges sample_quota sample_subject (operation_charges sample_quota op 5))" for op
  have "operation_intent sample_policy_env sample_quota sample_subject op ''m1'' 5 = Inr (i op)" for op
    by (simp add: operation_intent_def i_def quota_valid_id_def text_simps max_byte_cap_def)
  then have built: "intent_of sample_policy_env sample_quota sample_subject (i op)" for op
    unfolding intent_of_def by blast
  have long: "32 \<le> length (qp_digest sample_quota)"
    by (simp add: sample_quota_def content_digest_def sha256_text_def sample_policy_env_def)
  have "sha256 sample_policy_env (ascii (a @ x)) = sha256 sample_policy_env (ascii (a @ y))"
    if "32 \<le> length a" for a x y
    using that by (simp add: sample_policy_env_def ascii_def)
  then have "qi_binding_digest (i QTaskGet) = qi_binding_digest (i QTaskList)"
    using long by (simp add: i_def make_intent_def content_digest_def)
  moreover have "qi_operation (i op) = op" for op
    by (simp add: i_def make_intent_def)
  ultimately show ?thesis
    using intent_binding_separates [OF sample_quota_accepted sample_quota_accepted sample_authz_accepted
        sample_resolve sample_resolve sample_context_subject sample_context_subject built built, of QTaskGet QTaskList]
    by auto
qed

theorem reconciliation_witness:
  "\<exists>plan. drain (replicate 71 (CHR ''a'')) (replicate 71 (CHR ''b'')) ''ops'' ''why'' 5
      [\<lparr>rt_tenant_scope = ''acme'', rt_scope_kind = TenantKind, rt_dimension = EventCount\<rparr>] = Inr plan \<and>
     authorizes plan ''acme'' (replicate 71 (CHR ''a'')) (replicate 71 (CHR ''b'')) TenantKind EventCount \<and>
     \<not> authorizes plan ''acme'' (replicate 71 (CHR ''a'')) (replicate 71 (CHR ''b'')) AccountKind EventCount"
proof -
  obtain plan where plan: "drain (replicate 71 (CHR ''a'')) (replicate 71 (CHR ''b'')) ''ops'' ''why'' 5
      [\<lparr>rt_tenant_scope = ''acme'', rt_scope_kind = TenantKind, rt_dimension = EventCount\<rparr>] = Inr plan"
    by (simp add: drain_def Let_def quota_valid_id_def text_simps)
  with reconciliation_exact [OF plan] show ?thesis by simp
qed

end
