(* ===== verification/Mesh_Executor.thy ===== *)
theory Mesh_Executor
  imports Mesh_Bridge Request_Guard Quota_Policy
begin

text \<open>
  The executor \<^verbatim>\<open>src/executor.rs\<close>: the translation of mesh events into A2A events, the
  event budget, the cancellation protocol and the completion under policy.

  One execution is the task spawned by \<open>execute\<close> together with the tasks spawned by calls of
  \<open>cancel\<close>. They share the atomic words and the mutex of \<open>ExecutionControl\<close>. The executor task
  is the function \<open>exec_step\<close>: its program counter \<open>exec_pc\<close> names the points between which other
  tasks can run, and \<open>exec_io\<close> is what the outside contributes to one step: which branches of
  \<open>select!\<close> are ready, whether the trace capture and the channel accept the event, the clock and
  the random identifiers. A step that has to wait returns \<open>None\<close>. The relation \<open>sys_step\<close>
  interleaves the executor with any number of cancellations.

  Time is not modelled: a deadline is a branch that may be ready at any step.
\<close>

section \<open>Limits and budget\<close>

record execution_limits =
  max_concurrent_tasks :: nat
  worker_idle_timeout :: nat
  task_timeout :: nat
  cancel_timeout :: nat
  max_events :: nat
  xl_max_artifacts :: nat
  max_output_bytes :: nat

definition default_execution_limits :: execution_limits where
  "default_execution_limits =
     \<lparr>max_concurrent_tasks = 64, worker_idle_timeout = 30000, task_timeout = 300000,
      cancel_timeout = 5000, max_events = 16, xl_max_artifacts = 16, max_output_bytes = 1048576\<rparr>"

definition with_execution_limits :: "execution_limits \<Rightarrow> execution_limits \<times> nat" where
  "with_execution_limits l =
     (if 16 < max_events l then l\<lparr>max_events := 16\<rparr> else l, max (max_concurrent_tasks l) 1)"

record event_budget =
  eb_events :: nat
  eb_artifacts :: nat
  eb_output_bytes :: nat

definition empty_budget :: event_budget where
  "empty_budget = \<lparr>eb_events = 0, eb_artifacts = 0, eb_output_bytes = 0\<rparr>"

fun is_artifact_event :: "mesh_event \<Rightarrow> bool" where
  "is_artifact_event (ArtifactEvent _ _ _) = True"
| "is_artifact_event _ = False"

definition observe :: "mesh_env \<Rightarrow> execution_limits \<Rightarrow> mesh_event \<Rightarrow> event_budget
    \<Rightarrow> (dispatch_error + unit) \<times> event_budget" where
  "observe M l ev b =
     (let b1 = b\<lparr>eb_events := sat_add (eb_events b) 1\<rparr> in
      if max_events l < eb_events b1
      then (Inl (DispatchMessage ''SMESH worker exceeded event budget''), b1)
      else
        let b2 = (if is_artifact_event ev then b1\<lparr>eb_artifacts := sat_add (eb_artifacts b1) 1\<rparr> else b1) in
        if is_artifact_event ev \<and> xl_max_artifacts l < eb_artifacts b2
        then (Inl (DispatchMessage ''SMESH worker exceeded artifact budget''), b2)
        else case event_to_vec M ev of
            Inl error \<Rightarrow> (Inl (DispatchMessage (''SMESH event serialization failed: '' @ error)), b2)
          | Inr bytes \<Rightarrow>
              let b3 = b2\<lparr>eb_output_bytes := sat_add (eb_output_bytes b2) (length bytes)\<rparr> in
              if max_output_bytes l < eb_output_bytes b3
              then (Inl (DispatchMessage ''SMESH worker exceeded output byte budget''), b3)
              else (Inr (), b3))"

section \<open>The shared control\<close>

datatype terminal_word = TerminalOpen | TerminalCancel | TerminalExecution

datatype cancel_outcome_word = OutcomePending | OutcomeCanceled | OutcomeFailed | OutcomeForcedAbort

datatype runtime_cancellation_outcome = CooperativeStop | ForcedAbort | CancellationFailed

record execution_control =
  ct_cancelled :: bool
  ct_terminal :: terminal_word
  ct_cancel_outcome :: cancel_outcome_word
  ct_terminal_published :: bool
  ct_emission_locked :: bool

definition new_control :: execution_control where
  "new_control = \<lparr>ct_cancelled = False, ct_terminal = TerminalOpen, ct_cancel_outcome = OutcomePending,
     ct_terminal_published = False, ct_emission_locked = False\<rparr>"

definition claim_execution :: "execution_control \<Rightarrow> bool \<times> execution_control" where
  "claim_execution c =
     (if ct_terminal c = TerminalOpen then (True, c\<lparr>ct_terminal := TerminalExecution\<rparr>) else (False, c))"

definition claim_cancel :: "execution_control \<Rightarrow> bool \<times> execution_control" where
  "claim_cancel c =
     (if ct_terminal c = TerminalOpen then (True, c\<lparr>ct_terminal := TerminalCancel\<rparr>) else (False, c))"

definition cancellation_terminal ::
    "cancel_outcome_word \<Rightarrow> task_state \<times> runtime_cancellation_outcome \<times> string" where
  "cancellation_terminal outcome =
     (case outcome of
        OutcomeCanceled \<Rightarrow> (Canceled, CooperativeStop, ''SMESH task canceled'')
      | OutcomeForcedAbort \<Rightarrow> (Failed, ForcedAbort,
          ''SMESH dispatcher reported a forced abort; external effect containment is unknown'')
      | _ \<Rightarrow> (Failed, CancellationFailed, ''SMESH cancellation failed''))"

section \<open>Messages and metadata\<close>

datatype next_poll = NextPending | NextIdle | NextEnd | NextItem "dispatch_error + mesh_event"

record exec_io =
  io_closed :: bool
  io_deadline :: bool
  io_next :: next_poll
  io_trace_ok :: bool
  io_send_ok :: bool
  io_now :: int
  io_message_id :: string
  io_artifact_id :: string

record exec_config =
  xc_policy_env :: policy_env
  xc_mesh_env :: mesh_env
  xc_codec :: record_codec
  xc_policy :: versioned_completion_policy
  xc_limits :: execution_limits
  xc_trace :: bool
  xc_task_id :: string
  xc_context_id :: string
  xc_history :: "message list"
  xc_request_digest :: string

definition agent_message :: "string \<Rightarrow> string \<Rightarrow> string \<Rightarrow> string \<Rightarrow> message" where
  "agent_message mid tid cid txt =
     \<lparr>message_id = mid, msg_context_id = Some cid, msg_task_id = Some tid, msg_role = Agent,
      msg_parts = [part_text txt], msg_metadata = None, msg_extensions = None,
      reference_task_ids = None\<rparr>"

definition status_update :: "exec_config \<Rightarrow> exec_io \<Rightarrow> task_state \<Rightarrow> string option \<Rightarrow> stream_response" where
  "status_update cfg io st txt =
     SR_StatusUpdate \<lparr>tsu_task_id = xc_task_id cfg, tsu_context_id = xc_context_id cfg,
       tsu_status = \<lparr>state = st,
         status_message = map_option (agent_message (io_message_id io) (xc_task_id cfg) (xc_context_id cfg)) txt,
         timestamp = Some (io_now io)\<rparr>,
       tsu_metadata = None\<rparr>"

definition task_response :: "exec_config \<Rightarrow> exec_io \<Rightarrow> task_state \<Rightarrow> string \<Rightarrow> artifact list option
    \<Rightarrow> (string \<times> json) list option \<Rightarrow> stream_response" where
  "task_response cfg io st txt arts md =
     SR_Task \<lparr>task_id = xc_task_id cfg, context_id = xc_context_id cfg,
       status = \<lparr>state = st,
         status_message = Some (agent_message (io_message_id io) (xc_task_id cfg) (xc_context_id cfg) txt),
         timestamp = Some (io_now io)\<rparr>,
       artifacts = arts, history = Some (xc_history cfg), metadata = md\<rparr>"

definition policy_metadata :: "string \<Rightarrow> string + json \<Rightarrow> string + (string \<times> json) list" where
  "policy_metadata st record_value =
     (case record_value of
        Inl error \<Rightarrow> Inl (''mesh dispatch failed: completion policy record encoding failed: '' @ error)
      | Inr v \<Rightarrow> Inr [(''smesh.completionPolicy'', JObject [(''record'', v), (''status'', JString st)])])"

fun reason_debug :: "policy_block_reason \<Rightarrow> string" where
  "reason_debug BlockingContradiction = ''BlockingContradiction''"
| "reason_debug FailedReview = ''FailedReview''"
| "reason_debug FailedTest = ''FailedTest''"
| "reason_debug InsufficientReviews = ''InsufficientReviews''"
| "reason_debug InsufficientTests = ''InsufficientTests''"
| "reason_debug InsufficientAttestations = ''InsufficientAttestations''"
| "reason_debug InsufficientContradictionClearances = ''InsufficientContradictionClearances''"
| "reason_debug InsufficientAssurance = ''InsufficientAssurance''"
| "reason_debug HumanRejected = ''HumanRejected''"

fun comma_separated :: "string list \<Rightarrow> string" where
  "comma_separated [] = []"
| "comma_separated [x] = x"
| "comma_separated (x # xs) = x @ '', '' @ comma_separated xs"

definition blocked_text :: "policy_block \<Rightarrow> string" where
  "blocked_text b =
     ''completion policy blocked the task: ['' @ comma_separated (map reason_debug (pb_reasons b)) @ '']''"

definition pending_ratification_request_digest :: "policy_env \<Rightarrow> record_codec \<Rightarrow> versioned_completion_policy
    \<Rightarrow> task option \<Rightarrow> string \<Rightarrow> string \<Rightarrow> a2a_error + string option" where
  "pending_ratification_request_digest E G pol stored tid cid =
     (case stored of
        None \<Rightarrow> Inr None
      | Some t \<Rightarrow>
          if state (status t) \<noteq> InputRequired then Inr None
          else and_then (ok_or (policy_record ''awaitingRatification'' t) invalid_agent_response) (\<lambda>v.
               and_then (ok_or (checkpoint_from_value G v) invalid_agent_response) (\<lambda>cp.
               and_then (ensure (verify_checkpoint E pol cp tid cid) invalid_agent_response) (\<lambda>_.
                 Inr (Some (cp_request_digest cp))))))"

section \<open>Admission\<close>

record executor_context =
  ec_task_id :: string
  ec_context_id :: string
  ec_message :: "message option"
  ec_stored_task :: "task option"

datatype admission =
    Refuse a2a_error
  | Reject string "message list" \<comment> \<open>a rejected task with this text and history\<close>
  | Admit mesh_request execution_budget string "message list" \<comment> \<open>request, budget, request digest, history\<close>

definition execution_history :: "executor_context \<Rightarrow> message \<Rightarrow> message list" where
  "execution_history ctx m =
     (let h = (case Option.bind (ec_stored_task ctx) history of Some h \<Rightarrow> h | None \<Rightarrow> [])
      in if h \<noteq> [] \<and> message_id (last h) = message_id m then h else h @ [m])"

definition dispatch_budget :: "execution_limits \<Rightarrow> quota_policy_error + execution_budget" where
  "dispatch_budget xl =
     execution_budget_new (max_output_bytes xl)
       (if max_events xl < 1 then 1 else if 16 < max_events xl then 16 else max_events xl)"

definition admit :: "policy_env \<Rightarrow> mesh_env \<Rightarrow> record_codec \<Rightarrow> versioned_completion_policy \<Rightarrow> input_limits
    \<Rightarrow> execution_limits \<Rightarrow> bool \<Rightarrow> executor_context \<Rightarrow> admission" where
  "admit E M G pol il xl permit_available ctx =
     (if (case ec_stored_task ctx of Some t \<Rightarrow> is_terminal (state (status t)) | None \<Rightarrow> False)
      then Refuse (unsupported_operation ''terminal tasks cannot accept additional messages'')
      else case ec_message ctx of
          None \<Rightarrow> Refuse (invalid_params ''message is required'')
        | Some m \<Rightarrow>
            (let h = execution_history ctx m in
             case from_a2a (ec_task_id ctx) (ec_context_id ctx) m il of
               Inl error \<Rightarrow> Reject (input_error_text error) h
             | Inr request \<Rightarrow>
                 (case request_to_vec M request of
                    Inl error \<Rightarrow>
                      Refuse (internal (''failed to encode completion request binding: '' @ error))
                  | Inr bytes \<Rightarrow>
                      (case pending_ratification_request_digest E G pol (ec_stored_task ctx)
                              (ec_task_id ctx) (ec_context_id ctx) of
                         Inl error \<Rightarrow> Refuse error
                       | Inr pending \<Rightarrow>
                           if \<not> permit_available then Reject ''gateway concurrency capacity reached'' h
                           else case dispatch_budget xl of
                               Inl _ \<Rightarrow> Refuse (internal ''invalid trusted execution budget'')
                             | Inr budget \<Rightarrow>
                                 Admit request budget
                                   (case pending of Some d \<Rightarrow> d | None \<Rightarrow> content_digest E bytes) h))))"

text \<open>
  The stream of a request that is not executed: one error, or the rejected task after its trace.
\<close>

definition refused_stream :: "exec_config \<Rightarrow> exec_io \<Rightarrow> admission \<Rightarrow> (a2a_error + stream_response) list" where
  "refused_stream cfg io a =
     (case a of
        Refuse error \<Rightarrow> [Inl error]
      | Reject txt h \<Rightarrow>
          if xc_trace cfg \<and> \<not> io_trace_ok io then [Inl (internal ''required runtime trace capture failed'')]
          else [Inr (task_response (cfg\<lparr>xc_history := h\<rparr>) io Rejected txt None None)]
      | Admit _ _ _ _ \<Rightarrow> [])"

section \<open>The execution task\<close>

text \<open>
  A terminal plan is what remains to be done once the execution holds the terminal word: record the
  trace, then publish one task. The numbers are the calls of \<open>request_dispatcher_cancel\<close> after a
  failed trace, a failed send and a successful send; each call is counted with the step before it.
\<close>

record terminal_plan =
  tp_state :: task_state
  tp_text :: string
  tp_artifacts :: "artifact list option"
  tp_metadata :: "(string \<times> json) list option"
  tp_digests :: "string list"
  tp_cancels_trace_failed :: nat
  tp_cancels_send_failed :: nat
  tp_cancels_sent :: nat

definition failure_plan :: "string \<Rightarrow> terminal_plan" where
  "failure_plan txt =
     \<lparr>tp_state = Failed, tp_text = txt, tp_artifacts = None, tp_metadata = None, tp_digests = [],
      tp_cancels_trace_failed = 1, tp_cancels_send_failed = 1, tp_cancels_sent = 1\<rparr>"

datatype trace_entry =
    TraceEvidence completion_evidence
  | TraceTerminal task_state "string list"
  | TraceCancellation task_state runtime_cancellation_outcome

datatype exec_pc =
    PcStart
  | PcLoop
  | PcHandle "dispatch_error + mesh_event"
  | PcTrace bool terminal_plan \<comment> \<open>the flag: raced against the task deadline\<close>
  | PcSend bool terminal_plan
  | PcEnded
  | PcPublishCancel
  | PcCleanup
  | PcDone

record exec_state =
  xs_pc :: exec_pc
  xs_control :: execution_control
  xs_budget :: event_budget
  xs_artifacts :: "artifact list"
  xs_manifests :: "artifact_manifest list"
  xs_evidence :: "completion_evidence list"
  xs_proposed :: bool
  xs_sent :: "stream_response list"
  xs_trace :: "trace_entry list"
  xs_registered :: bool
  xs_cancel_requests :: nat

definition initial_exec :: exec_state where
  "initial_exec =
     \<lparr>xs_pc = PcStart, xs_control = new_control, xs_budget = empty_budget, xs_artifacts = [], xs_manifests = [],
      xs_evidence = [], xs_proposed = False, xs_sent = [], xs_trace = [], xs_registered = True,
      xs_cancel_requests = 0\<rparr>"

definition request_dispatcher_cancel :: "nat \<Rightarrow> exec_state \<Rightarrow> exec_state" where
  "request_dispatcher_cancel n st = st\<lparr>xs_cancel_requests := xs_cancel_requests st + n\<rparr>"

definition leave_with_cancel :: "exec_state \<Rightarrow> exec_state" where
  "leave_with_cancel st = (request_dispatcher_cancel 1 st)\<lparr>xs_pc := PcCleanup\<rparr>"

definition working_task :: "exec_config \<Rightarrow> exec_io \<Rightarrow> stream_response" where
  "working_task cfg io =
     SR_Task \<lparr>task_id = xc_task_id cfg, context_id = xc_context_id cfg,
       status = \<lparr>state = Working, status_message = None, timestamp = Some (io_now io)\<rparr>,
       artifacts = None, history = Some (xc_history cfg), metadata = None\<rparr>"

text \<open>
  \<open>send_work_event\<close> waits for the emission lock; under it an event is sent only while the terminal
  word is open. The result is \<open>None\<close> while another task holds the lock.
\<close>

definition send_work_event :: "exec_io \<Rightarrow> stream_response \<Rightarrow> exec_state \<Rightarrow> (bool \<times> exec_state) option" where
  "send_work_event io ev st =
     (if ct_emission_locked (xs_control st) then None
      else if ct_terminal (xs_control st) \<noteq> TerminalOpen then Some (False, st)
      else if io_send_ok io then Some (True, st\<lparr>xs_sent := xs_sent st @ [ev]\<rparr>)
      else Some (False, st))"

definition claim_and_plan :: "bool \<Rightarrow> terminal_plan \<Rightarrow> exec_state \<Rightarrow> exec_state" where
  "claim_and_plan raced plan st =
     (case claim_execution (xs_control st) of
        (True, c) \<Rightarrow> st\<lparr>xs_control := c, xs_pc := PcTrace raced plan\<rparr>
      | (False, _) \<Rightarrow> leave_with_cancel st)"

definition claim_invalid_artifact :: "exec_state \<Rightarrow> exec_state" where
  "claim_invalid_artifact st =
     (case claim_execution (xs_control st) of
        (True, c) \<Rightarrow> st\<lparr>xs_control := c,
          xs_pc := PcTrace False (failure_plan ''SMESH worker emitted an undecodable artifact payload'')\<rparr>
      | (False, c) \<Rightarrow>
          if ct_terminal c = TerminalCancel then st\<lparr>xs_pc := PcPublishCancel\<rparr> else st\<lparr>xs_pc := PcCleanup\<rparr>)"

definition candidate_artifact :: "exec_io \<Rightarrow> string \<Rightarrow> part \<Rightarrow> artifact" where
  "candidate_artifact io name p =
     \<lparr>artifact_id = io_artifact_id io, artifact_name = Some name,
      description = Some ''Unpublished SMESH candidate output'', artifact_parts = [p],
      artifact_metadata = None, artifact_extensions = None\<rparr>"

definition add_artifact :: "artifact_manifest \<Rightarrow> artifact \<Rightarrow> exec_state \<Rightarrow> exec_state" where
  "add_artifact m a st =
     st\<lparr>xs_manifests := xs_manifests st @ [m], xs_artifacts := xs_artifacts st @ [a], xs_pc := PcLoop\<rparr>"

definition handle_artifact :: "exec_config \<Rightarrow> exec_io \<Rightarrow> string \<Rightarrow> string \<Rightarrow> string \<Rightarrow> exec_state \<Rightarrow> exec_state" where
  "handle_artifact cfg io name media content st =
     (let E = xc_policy_env cfg; M = xc_mesh_env cfg in
      case internal_artifact_payload M content of
        Some (Binary encoded) \<Rightarrow>
          (case base64_decode M encoded of
             None \<Rightarrow> claim_invalid_artifact st
           | Some bytes \<Rightarrow>
               add_artifact \<lparr>am_name = name, am_media_type = media, am_digest = content_digest E bytes\<rparr>
                 (candidate_artifact io name (with_media_type (part_raw bytes) media)) st)
      | Some (Published projection) \<Rightarrow>
          (case artifact_from_str M projection of
             None \<Rightarrow> claim_invalid_artifact st
           | Some a \<Rightarrow>
               add_artifact \<lparr>am_name = (case artifact_name a of Some n \<Rightarrow> n | None \<Rightarrow> ''artifact''),
                   am_media_type = ''application/vnd.smesh.artifact-manifest+json'',
                   am_digest = content_digest E (ascii projection)\<rparr> a st)
      | None \<Rightarrow>
          add_artifact \<lparr>am_name = name, am_media_type = media, am_digest = content_digest E (ascii content)\<rparr>
            (candidate_artifact io name (with_media_type (part_text content) media)) st)"

definition handle_event :: "exec_config \<Rightarrow> exec_io \<Rightarrow> dispatch_error + mesh_event \<Rightarrow> exec_state
    \<Rightarrow> exec_state option" where
  "handle_event cfg io ev st =
     (case ev of
        Inr (Progress _) \<Rightarrow>
          (case send_work_event io (status_update cfg io Working (Some ''SMESH worker reported progress'')) st of
             None \<Rightarrow> None
           | Some (True, st') \<Rightarrow> Some (st'\<lparr>xs_pc := PcLoop\<rparr>)
           | Some (False, st') \<Rightarrow> Some (leave_with_cancel st'))
      | Inr (Evidence e) \<Rightarrow>
          if xc_trace cfg \<and> \<not> io_trace_ok io
          then Some (leave_with_cancel (st\<lparr>xs_control := snd (claim_execution (xs_control st))\<rparr>))
          else Some (st\<lparr>xs_evidence := xs_evidence st @ [e], xs_pc := PcLoop,
                 xs_trace := xs_trace st @ (if xc_trace cfg then [TraceEvidence e] else [])\<rparr>)
      | Inr (ArtifactEvent name media content) \<Rightarrow> Some (handle_artifact cfg io name media content st)
      | Inr (CompletedEvent _) \<Rightarrow>
          if xs_proposed st
          then Some (claim_and_plan False (failure_plan ''worker emitted more than one completion proposal'') st)
          else Some (st\<lparr>xs_proposed := True, xs_pc := PcLoop\<rparr>)
      | Inl _ \<Rightarrow> Some (claim_and_plan False (failure_plan ''SMESH worker failed'') st))"

definition observe_event :: "exec_config \<Rightarrow> dispatch_error + mesh_event \<Rightarrow> exec_state \<Rightarrow> exec_state" where
  "observe_event cfg ev st =
     (case ev of
        Inl error \<Rightarrow> st\<lparr>xs_pc := PcHandle (Inl error)\<rparr>
      | Inr e \<Rightarrow>
          (case observe (xc_mesh_env cfg) (xc_limits cfg) e (xs_budget st) of
             (Inr _, b) \<Rightarrow> st\<lparr>xs_budget := b, xs_pc := PcHandle (Inr e)\<rparr>
           | (Inl error, b) \<Rightarrow> st\<lparr>xs_budget := b, xs_pc := PcHandle (Inl error)\<rparr>))"

text \<open>The biased \<open>select!\<close> of the loop; \<open>None\<close> while no branch is ready.\<close>

definition select_next :: "exec_config \<Rightarrow> exec_io \<Rightarrow> exec_state \<Rightarrow> exec_state option" where
  "select_next cfg io st =
     (if io_closed io then Some (leave_with_cancel st)
      else if ct_cancelled (xs_control st) then Some (st\<lparr>xs_pc := PcPublishCancel\<rparr>)
      else if io_deadline io
      then Some (observe_event cfg (Inl (DispatchMessage ''SMESH task deadline exceeded'')) st)
      else case io_next io of
          NextPending \<Rightarrow> None
        | NextIdle \<Rightarrow> Some (observe_event cfg (Inl (DispatchMessage ''SMESH worker inactivity timeout'')) st)
        | NextEnd \<Rightarrow> Some (st\<lparr>xs_pc := PcEnded\<rparr>)
        | NextItem r \<Rightarrow> Some (observe_event cfg r st))"

section \<open>Completion\<close>

definition policy_outcome_plan :: "string + json \<Rightarrow> task_state \<Rightarrow> string \<Rightarrow> string \<Rightarrow> nat \<Rightarrow> terminal_plan" where
  "policy_outcome_plan record_value st txt word after =
     (case policy_metadata word record_value of
        Inr md \<Rightarrow> \<lparr>tp_state = st, tp_text = txt, tp_artifacts = None, tp_metadata = Some md, tp_digests = [],
          tp_cancels_trace_failed = Suc after, tp_cancels_send_failed = after, tp_cancels_sent = after\<rparr>
      | Inl error \<Rightarrow> \<lparr>tp_state = Failed, tp_text = error, tp_artifacts = None, tp_metadata = None, tp_digests = [],
          tp_cancels_trace_failed = Suc after, tp_cancels_send_failed = after, tp_cancels_sent = after\<rparr>)"

definition publish_artifact :: "(string \<times> json) list \<Rightarrow> artifact \<Rightarrow> artifact" where
  "publish_artifact md a =
     a\<lparr>description := Some ''Policy-accepted SMESH output'', artifact_metadata := Some md\<rparr>"

definition completion_plan :: "exec_config \<Rightarrow> exec_state \<Rightarrow> policy_error + policy_decision \<Rightarrow> terminal_plan" where
  "completion_plan cfg st decision =
     (case decision of
        Inr (Accepted receipt) \<Rightarrow>
          (case policy_metadata ''accepted'' (receipt_to_value (xc_codec cfg) receipt) of
             Inl _ \<Rightarrow> failure_plan ''completion policy metadata encoding failed''
           | Inr md \<Rightarrow>
               \<lparr>tp_state = Completed, tp_text = ''SMESH task completed under completion policy'',
                tp_artifacts = Some (map (publish_artifact md) (xs_artifacts st)), tp_metadata = Some md,
                tp_digests = map am_digest (xs_manifests st),
                tp_cancels_trace_failed = 1, tp_cancels_send_failed = 1, tp_cancels_sent = 0\<rparr>)
      | Inr (AwaitingRatification checkpoint) \<Rightarrow>
          policy_outcome_plan (checkpoint_to_value (xc_codec cfg) checkpoint) InputRequired
            ''human ratification is required'' ''awaitingRatification'' 0
      | Inr (Blocked block) \<Rightarrow>
          policy_outcome_plan (block_to_value (xc_codec cfg) block) Failed (blocked_text block) ''blocked'' 1
      | Inl _ \<Rightarrow> failure_plan ''completion policy rejected malformed input'')"

definition completion_snapshot_of :: "exec_config \<Rightarrow> exec_state \<Rightarrow> completion_snapshot" where
  "completion_snapshot_of cfg st =
     \<lparr>sn_task_id = xc_task_id cfg, sn_context_id = xc_context_id cfg, sn_request_digest = xc_request_digest cfg,
      sn_artifacts = xs_manifests st, sn_evidence = xs_evidence st\<rparr>"

definition finalize_completion :: "exec_config \<Rightarrow> exec_state \<Rightarrow> exec_state" where
  "finalize_completion cfg st =
     (case claim_execution (xs_control st) of
        (True, c) \<Rightarrow>
          st\<lparr>xs_control := c, xs_pc := PcTrace True (completion_plan cfg st
            (evaluate (xc_policy_env cfg) (xc_policy cfg) (completion_snapshot_of cfg st)))\<rparr>
      | (False, _) \<Rightarrow> st\<lparr>xs_pc := PcCleanup\<rparr>)"

definition deadline_text :: string where
  "deadline_text = ''SMESH task deadline exceeded during completion policy evaluation''"

definition finish_stream :: "exec_config \<Rightarrow> exec_io \<Rightarrow> exec_state \<Rightarrow> exec_state" where
  "finish_stream cfg io st =
     (if xs_proposed st then
        if ct_cancelled (xs_control st) then st\<lparr>xs_pc := PcPublishCancel\<rparr>
        else if io_deadline io then claim_and_plan False (failure_plan deadline_text) st
        else finalize_completion cfg st
      else claim_and_plan False
        (failure_plan ''SMESH worker stream ended without a completion proposal'') st)"

text \<open>
  While the completion waits for the trace or for the channel, cancellation and the task deadline
  are polled first and drop it.
\<close>

definition preempted :: "bool \<Rightarrow> exec_io \<Rightarrow> exec_state \<Rightarrow> exec_state option" where
  "preempted raced io st =
     (if raced \<and> ct_cancelled (xs_control st) then Some (st\<lparr>xs_pc := PcPublishCancel\<rparr>)
      else if raced \<and> io_deadline io then Some (claim_and_plan False (failure_plan deadline_text) st)
      else None)"

definition record_terminal :: "exec_config \<Rightarrow> exec_io \<Rightarrow> bool \<Rightarrow> terminal_plan \<Rightarrow> exec_state \<Rightarrow> exec_state" where
  "record_terminal cfg io raced plan st =
     (if xc_trace cfg \<and> \<not> io_trace_ok io
      then (request_dispatcher_cancel (tp_cancels_trace_failed plan) st)\<lparr>xs_pc := PcCleanup\<rparr>
      else st\<lparr>xs_pc := PcSend raced plan,
        xs_trace := xs_trace st @ (if xc_trace cfg then [TraceTerminal (tp_state plan) (tp_digests plan)] else [])\<rparr>)"

definition send_terminal :: "exec_config \<Rightarrow> exec_io \<Rightarrow> terminal_plan \<Rightarrow> exec_state \<Rightarrow> exec_state" where
  "send_terminal cfg io plan st =
     (if io_send_ok io
      then (request_dispatcher_cancel (tp_cancels_sent plan) st)\<lparr>xs_pc := PcCleanup,
        xs_sent := xs_sent st @ [task_response cfg io (tp_state plan) (tp_text plan) (tp_artifacts plan) (tp_metadata plan)]\<rparr>
      else (request_dispatcher_cancel (tp_cancels_send_failed plan) st)\<lparr>xs_pc := PcCleanup\<rparr>)"

definition publish_cancellation_terminal :: "exec_config \<Rightarrow> exec_io \<Rightarrow> exec_state \<Rightarrow> exec_state option" where
  "publish_cancellation_terminal cfg io st =
     (if ct_cancel_outcome (xs_control st) = OutcomePending then None
      else case cancellation_terminal (ct_cancel_outcome (xs_control st)) of
        (s, outcome, txt) \<Rightarrow>
          Some (let traced = \<not> xc_trace cfg \<or> io_trace_ok io in
            st\<lparr>xs_pc := PcCleanup,
               xs_control := (xs_control st)\<lparr>ct_terminal_published := True\<rparr>,
               xs_trace := xs_trace st @ (if xc_trace cfg \<and> traced then [TraceCancellation s outcome] else []),
               xs_sent := xs_sent st @
                 (if traced \<and> io_send_ok io then [task_response cfg io s txt None None] else [])\<rparr>))"

definition exec_step :: "exec_config \<Rightarrow> exec_io \<Rightarrow> exec_state \<Rightarrow> exec_state option" where
  "exec_step cfg io st =
     (case xs_pc st of
        PcStart \<Rightarrow>
          (case send_work_event io (working_task cfg io) st of
             None \<Rightarrow> None
           | Some (True, st') \<Rightarrow> Some (st'\<lparr>xs_pc := PcLoop\<rparr>)
           | Some (False, st') \<Rightarrow> Some (leave_with_cancel st'))
      | PcLoop \<Rightarrow> select_next cfg io st
      | PcHandle ev \<Rightarrow> handle_event cfg io ev st
      | PcTrace raced plan \<Rightarrow>
          (case preempted raced io st of Some st' \<Rightarrow> Some st' | None \<Rightarrow> Some (record_terminal cfg io raced plan st))
      | PcSend raced plan \<Rightarrow>
          (case preempted raced io st of Some st' \<Rightarrow> Some st' | None \<Rightarrow> Some (send_terminal cfg io plan st))
      | PcEnded \<Rightarrow> Some (finish_stream cfg io st)
      | PcPublishCancel \<Rightarrow> publish_cancellation_terminal cfg io st
      | PcCleanup \<Rightarrow> Some (st\<lparr>xs_registered := False, xs_pc := PcDone\<rparr>)
      | PcDone \<Rightarrow> None)"

section \<open>Cancellations\<close>

text \<open>
  A call of \<open>cancel\<close> spawns a task: it looks the control up, takes the emission lock, claims the
  terminal word, sets the token and releases the lock, asks the dispatcher, stores the outcome and
  waits for the publication or its timeout.
\<close>

datatype cancel_pc =
    CancelStart
  | CancelFound
  | CancelHolding
  | CancelWaiting
  | CancelStored
  | CancelRefused a2a_error
  | CancelDone

record exec_system =
  sys_exec :: exec_state
  sys_cancels :: "cancel_pc list"

definition initial_system :: exec_system where
  "initial_system = \<lparr>sys_exec = initial_exec, sys_cancels = []\<rparr>"

definition set_cancel :: "nat \<Rightarrow> cancel_pc \<Rightarrow> exec_system \<Rightarrow> exec_system" where
  "set_cancel i pc s = s\<lparr>sys_cancels := (sys_cancels s)[i := pc]\<rparr>"

definition set_control :: "execution_control \<Rightarrow> exec_system \<Rightarrow> exec_system" where
  "set_control c s = s\<lparr>sys_exec := (sys_exec s)\<lparr>xs_control := c\<rparr>\<rparr>"

definition dispatcher_outcome :: "(dispatch_error + unit) option \<Rightarrow> cancel_outcome_word" where
  "dispatcher_outcome r =
     (case r of
        Some (Inr _) \<Rightarrow> OutcomeCanceled
      | Some (Inl CancellationForcedAbort) \<Rightarrow> OutcomeForcedAbort
      | _ \<Rightarrow> OutcomeFailed)"

definition cancel_step :: "string \<Rightarrow> (dispatch_error + unit) option \<Rightarrow> nat \<Rightarrow> exec_system \<Rightarrow> exec_system option" where
  "cancel_step tid reply i s =
     (let c = xs_control (sys_exec s) in
      case sys_cancels s ! i of
        CancelStart \<Rightarrow>
          Some (set_cancel i (if xs_registered (sys_exec s) then CancelFound
            else CancelRefused (task_not_cancelable tid)) s)
      | CancelFound \<Rightarrow>
          if ct_emission_locked c then None
          else (case claim_cancel c of
                 (True, c') \<Rightarrow> Some (set_cancel i CancelHolding (set_control (c'\<lparr>ct_emission_locked := True\<rparr>) s))
               | (False, _) \<Rightarrow> Some (set_cancel i (CancelRefused (task_not_cancelable tid)) s))
      | CancelHolding \<Rightarrow>
          Some (set_cancel i CancelWaiting (set_control (c\<lparr>ct_cancelled := True, ct_emission_locked := False\<rparr>) s))
      | CancelWaiting \<Rightarrow>
          Some (set_cancel i CancelStored (set_control (c\<lparr>ct_cancel_outcome := dispatcher_outcome reply\<rparr>) s))
      | CancelStored \<Rightarrow> Some (set_cancel i CancelDone s)
      | CancelRefused _ \<Rightarrow> None
      | CancelDone \<Rightarrow> None)"

text \<open>
  \<open>env\<close> restricts what the outside may contribute to a step of the executor; \<open>\<lambda>_. True\<close> is no
  restriction.
\<close>

inductive sys_step :: "exec_config \<Rightarrow> (exec_io \<Rightarrow> bool) \<Rightarrow> exec_system \<Rightarrow> exec_system \<Rightarrow> bool" for cfg env where
  execute: "env io \<Longrightarrow> exec_step cfg io (sys_exec s) = Some st \<Longrightarrow> sys_step cfg env s (s\<lparr>sys_exec := st\<rparr>)"
| spawn: "sys_step cfg env s (s\<lparr>sys_cancels := sys_cancels s @ [CancelStart]\<rparr>)"
| cancel: "i < length (sys_cancels s) \<Longrightarrow> cancel_step (xc_task_id cfg) reply i s = Some s' \<Longrightarrow> sys_step cfg env s s'"

inductive sys_reachable :: "exec_config \<Rightarrow> (exec_io \<Rightarrow> bool) \<Rightarrow> exec_system \<Rightarrow> bool" for cfg env where
  start: "sys_reachable cfg env initial_system"
| step: "sys_reachable cfg env s \<Longrightarrow> sys_step cfg env s t \<Longrightarrow> sys_reachable cfg env t"

inductive_cases sys_stepE: "sys_step cfg env s t"

text \<open>The executor alone: a step that waits leaves the state as it is.\<close>

fun exec_run :: "exec_config \<Rightarrow> exec_io list \<Rightarrow> exec_state \<Rightarrow> exec_state" where
  "exec_run cfg [] st = st"
| "exec_run cfg (io # ios) st =
     exec_run cfg ios (case exec_step cfg io st of Some st' \<Rightarrow> st' | None \<Rightarrow> st)"

end
