(* ===== verification/Executor_Runs.thy ===== *)
theory Executor_Runs
  imports Mesh_Executor
begin

text \<open>
  What every interleaving of an execution with its cancellations keeps: one owner of the terminal
  word, at most one final event and nothing after it, completion only under an accepting policy
  decision, the budgets, and the bound on the number of steps.
\<close>

section \<open>The steps of the executor, by kind\<close>

text \<open>
  The invariants only need to know how a step changes the parts of the state. The lemmas of this
  section collapse the handlers to these kinds.
\<close>

definition final_event :: "stream_response \<Rightarrow> bool" where
  "final_event ev = (case ev of SR_Task t \<Rightarrow> state (status t) \<noteq> Working | _ \<Rightarrow> False)"

definition work_event :: "exec_config \<Rightarrow> stream_response \<Rightarrow> bool" where
  "work_event cfg ev \<longleftrightarrow>
     (\<exists>io. ev = working_task cfg io \<or> ev = status_update cfg io Working (Some ''SMESH worker reported progress''))"

lemma work_working_task [simp]: "work_event cfg (working_task cfg io)"
  by (auto simp: work_event_def)

lemma work_status_update [simp]:
  "work_event cfg (status_update cfg io Working (Some ''SMESH worker reported progress''))"
  by (auto simp: work_event_def)

lemma work_not_final: "work_event cfg ev \<Longrightarrow> \<not> final_event ev"
  by (auto simp: work_event_def final_event_def working_task_def status_update_def)

lemma final_task_response [simp]: "final_event (task_response cfg io s txt arts md) \<longleftrightarrow> s \<noteq> Working"
  by (simp add: final_event_def task_response_def)

definition left_loop :: "exec_pc \<Rightarrow> bool" where
  "left_loop pc \<longleftrightarrow> pc = PcCleanup \<or> pc = PcDone"

fun planning :: "exec_pc \<Rightarrow> terminal_plan option" where
  "planning (PcTrace _ plan) = Some plan"
| "planning (PcSend _ plan) = Some plan"
| "planning _ = None"

text \<open>A decision of the policy on what the worker produced backs a plan.\<close>

definition plan_ok :: "exec_config \<Rightarrow> exec_state \<Rightarrow> terminal_plan \<Rightarrow> bool" where
  "plan_ok cfg st plan \<longleftrightarrow>
     tp_state plan = Failed \<and> tp_artifacts plan = None
       \<and> (tp_metadata plan = None \<or> (\<exists>block md. tp_metadata plan = Some md
            \<and> policy_metadata ''blocked'' (block_to_value (xc_codec cfg) block) = Inr md))
     \<or> xs_proposed st \<and>
       (let decision = evaluate (xc_policy_env cfg) (xc_policy cfg) (completion_snapshot_of cfg st) in
        tp_state plan = Completed \<and> (\<exists>receipt md. decision = Inr (Accepted receipt)
          \<and> policy_metadata ''accepted'' (receipt_to_value (xc_codec cfg) receipt) = Inr md
          \<and> tp_metadata plan = Some md
          \<and> tp_artifacts plan = Some (map (publish_artifact md) (xs_artifacts st)))
        \<or> tp_state plan = InputRequired \<and> (\<exists>checkpoint md. decision = Inr (AwaitingRatification checkpoint)
          \<and> policy_metadata ''awaitingRatification'' (checkpoint_to_value (xc_codec cfg) checkpoint) = Inr md
          \<and> tp_metadata plan = Some md \<and> tp_artifacts plan = None))"

lemma plan_ok_failure [simp]: "plan_ok cfg st (failure_plan txt)"
  by (simp add: plan_ok_def failure_plan_def)

lemma plan_ok_completion:
  assumes "xs_proposed st"
  shows "plan_ok cfg st (completion_plan cfg st
    (evaluate (xc_policy_env cfg) (xc_policy cfg) (completion_snapshot_of cfg st)))"
  using assms
  by (auto simp: plan_ok_def completion_plan_def policy_outcome_plan_def failure_plan_def Let_def
      split: sum.splits policy_decision.splits)

lemma claim_execution_cases:
  obtains (won) "ct_terminal c = TerminalOpen" "claim_execution c = (True, c\<lparr>ct_terminal := TerminalExecution\<rparr>)"
  | (lost) "ct_terminal c \<noteq> TerminalOpen" "claim_execution c = (False, c)"
  by (cases "ct_terminal c = TerminalOpen") (auto simp: claim_execution_def)

section \<open>One owner of the terminal word\<close>

fun winning :: "cancel_pc \<Rightarrow> bool" where
  "winning CancelHolding = True"
| "winning CancelWaiting = True"
| "winning CancelStored = True"
| "winning CancelDone = True"
| "winning _ = False"

text \<open>
  The control as a function of the cancellation that won the terminal word: locked while it holds
  the mutex, cancelled once it has set the token, an outcome once the dispatcher has answered.
\<close>

definition control_follows :: "cancel_pc \<Rightarrow> execution_control \<Rightarrow> bool" where
  "control_follows pc c \<longleftrightarrow>
     (ct_emission_locked c \<longleftrightarrow> pc = CancelHolding)
     \<and> (ct_cancelled c \<longleftrightarrow> pc \<noteq> CancelHolding)
     \<and> (ct_cancel_outcome c \<noteq> OutcomePending \<longleftrightarrow> pc = CancelStored \<or> pc = CancelDone)"

definition owner_inv :: "exec_system \<Rightarrow> bool" where
  "owner_inv s \<longleftrightarrow>
     (let c = xs_control (sys_exec s); cs = sys_cancels s in
      if ct_terminal c = TerminalCancel
      then (\<exists>i<length cs. winning (cs ! i) \<and> control_follows (cs ! i) c
             \<and> (\<forall>j<length cs. winning (cs ! j) \<longrightarrow> j = i))
      else (\<forall>j<length cs. \<not> winning (cs ! j)) \<and> \<not> ct_emission_locked c \<and> \<not> ct_cancelled c
             \<and> ct_cancel_outcome c = OutcomePending)"

text \<open>What a step of the executor may do to the control.\<close>

definition control_step :: "execution_control \<Rightarrow> execution_control \<Rightarrow> bool" where
  "control_step c c' \<longleftrightarrow>
     (ct_terminal c' = ct_terminal c \<or> ct_terminal c = TerminalOpen \<and> ct_terminal c' = TerminalExecution)
     \<and> ct_emission_locked c' = ct_emission_locked c \<and> ct_cancelled c' = ct_cancelled c
     \<and> ct_cancel_outcome c' = ct_cancel_outcome c"

lemma control_step_refl [simp]: "control_step c c"
  by (simp add: control_step_def)

lemma control_step_claim [simp]: "control_step c (snd (claim_execution c))"
  by (cases c rule: claim_execution_cases) (simp_all add: control_step_def)

lemmas handler_defs = leave_with_cancel_def request_dispatcher_cancel_def claim_and_plan_def
  claim_invalid_artifact_def add_artifact_def finalize_completion_def record_terminal_def send_terminal_def

text \<open>
  The executor as a coarser machine: an event is sent, data is collected, the terminal word is
  claimed, or the task leaves with at most one final event. Every step is one of these kinds.
\<close>

definition same_work :: "exec_state \<Rightarrow> exec_state \<Rightarrow> bool" where
  "same_work st st' \<longleftrightarrow> xs_artifacts st' = xs_artifacts st \<and> xs_manifests st' = xs_manifests st
     \<and> xs_evidence st' = xs_evidence st \<and> xs_proposed st' = xs_proposed st"

inductive exec_kind :: "exec_config \<Rightarrow> exec_state \<Rightarrow> exec_state \<Rightarrow> bool" for cfg st st' where
  progress: "planning (xs_pc st) = None \<Longrightarrow> \<not> left_loop (xs_pc st) \<Longrightarrow> xs_pc st \<notin> {PcPublishCancel, PcEnded}
     \<Longrightarrow> xs_pc st' \<in> {PcLoop, PcEnded} \<union> range PcHandle
     \<Longrightarrow> xs_control st' = xs_control st \<Longrightarrow> xs_sent st' = xs_sent st @ ws
     \<Longrightarrow> ws = [] \<or> \<not> ct_emission_locked (xs_control st) \<and> ct_terminal (xs_control st) = TerminalOpen
     \<Longrightarrow> \<forall>e\<in>set ws. work_event cfg e \<Longrightarrow> exec_kind cfg st st'"
| claimed: "\<not> left_loop (xs_pc st) \<Longrightarrow> ct_terminal (xs_control st) = TerminalOpen
     \<Longrightarrow> xs_control st' = (xs_control st)\<lparr>ct_terminal := TerminalExecution\<rparr> \<Longrightarrow> planning (xs_pc st') = Some plan
     \<Longrightarrow> plan_ok cfg st plan \<Longrightarrow> xs_sent st' = xs_sent st \<Longrightarrow> same_work st st' \<Longrightarrow> exec_kind cfg st st'"
| traced: "planning (xs_pc st) = Some plan \<Longrightarrow> planning (xs_pc st') = Some plan
     \<Longrightarrow> xs_control st' = xs_control st \<Longrightarrow> xs_sent st' = xs_sent st \<Longrightarrow> same_work st st' \<Longrightarrow> exec_kind cfg st st'"
| published: "planning (xs_pc st) = Some plan \<Longrightarrow> xs_pc st' = PcCleanup \<Longrightarrow> xs_control st' = xs_control st
     \<Longrightarrow> xs_sent st' = xs_sent st @ [task_response cfg io (tp_state plan) (tp_text plan) (tp_artifacts plan) (tp_metadata plan)]
     \<Longrightarrow> same_work st st' \<Longrightarrow> exec_kind cfg st st'"
| cancelling: "\<not> left_loop (xs_pc st) \<Longrightarrow> xs_pc st' = PcPublishCancel
     \<Longrightarrow> ct_cancelled (xs_control st) \<or> ct_terminal (xs_control st) = TerminalCancel
     \<Longrightarrow> xs_control st' = xs_control st \<Longrightarrow> xs_sent st' = xs_sent st \<Longrightarrow> same_work st st' \<Longrightarrow> exec_kind cfg st st'"
| canceled: "xs_pc st = PcPublishCancel \<Longrightarrow> xs_pc st' = PcCleanup
     \<Longrightarrow> ct_cancel_outcome (xs_control st) \<noteq> OutcomePending
     \<Longrightarrow> cancellation_terminal (ct_cancel_outcome (xs_control st)) = (s, outcome, txt)
     \<Longrightarrow> xs_control st' = (xs_control st)\<lparr>ct_terminal_published := True\<rparr>
     \<Longrightarrow> xs_sent st' = xs_sent st @ fs \<Longrightarrow> fs = [] \<or> fs = [task_response cfg io s txt None None]
     \<Longrightarrow> same_work st st' \<Longrightarrow> exec_kind cfg st st'"
| left: "\<not> left_loop (xs_pc st) \<or> xs_pc st = PcCleanup \<and> xs_control st' = xs_control st \<Longrightarrow> left_loop (xs_pc st')
     \<Longrightarrow> control_step (xs_control st) (xs_control st')
     \<Longrightarrow> xs_sent st' = xs_sent st \<Longrightarrow> same_work st st' \<Longrightarrow> exec_kind cfg st st'"

lemma kind_leave [intro]: "\<not> left_loop (xs_pc st) \<Longrightarrow> exec_kind cfg st (leave_with_cancel st)"
  by (rule exec_kind.left) (simp_all add: left_loop_def handler_defs same_work_def)

lemma kind_claim:
  assumes "\<not> left_loop (xs_pc st)" "plan_ok cfg st plan"
  shows "exec_kind cfg st (claim_and_plan raced plan st)"
proof (cases "xs_control st" rule: claim_execution_cases)
  case won
  then show ?thesis using assms
    by (intro exec_kind.claimed[where plan = plan]) (simp_all add: claim_and_plan_def same_work_def)
next
  case lost
  then show ?thesis using assms by (simp add: claim_and_plan_def kind_leave)
qed

lemma kind_invalid_artifact:
  assumes "\<not> left_loop (xs_pc st)"
  shows "exec_kind cfg st (claim_invalid_artifact st)"
proof (cases "xs_control st" rule: claim_execution_cases)
  case won
  then show ?thesis using assms
    by (intro exec_kind.claimed[where plan = "failure_plan ''SMESH worker emitted an undecodable artifact payload''"])
      (simp_all add: claim_invalid_artifact_def same_work_def)
next
  case lost
  show ?thesis
  proof (cases "ct_terminal (xs_control st) = TerminalCancel")
    case True
    with lost assms show ?thesis
      by (intro exec_kind.cancelling) (simp_all add: claim_invalid_artifact_def same_work_def)
  next
    case False
    with lost assms show ?thesis
      by (intro exec_kind.left) (simp_all add: claim_invalid_artifact_def same_work_def left_loop_def)
  qed
qed

lemma kind_finalize:
  assumes "\<not> left_loop (xs_pc st)" "xs_proposed st"
  shows "exec_kind cfg st (finalize_completion cfg st)"
proof (cases "xs_control st" rule: claim_execution_cases)
  case won
  then show ?thesis using assms
    by (intro exec_kind.claimed[OF _ _ _ _ plan_ok_completion]) (simp_all add: finalize_completion_def same_work_def)
next
  case lost
  then show ?thesis using assms
    by (intro exec_kind.left) (simp_all add: finalize_completion_def same_work_def left_loop_def)
qed

lemma kind_progress:
  assumes "planning (xs_pc st) = None" "\<not> left_loop (xs_pc st)" "xs_pc st \<notin> {PcPublishCancel, PcEnded}"
    "xs_pc st' \<in> {PcLoop, PcEnded} \<union> range PcHandle"
    "xs_control st' = xs_control st" "xs_sent st' = xs_sent st"
  shows "exec_kind cfg st st'"
  using assms by (intro exec_kind.progress[where ws = "[]"]) simp_all

lemma kind_send_work:
  assumes "send_work_event io ev st = Some (b, st1)" "work_event cfg ev"
    "planning (xs_pc st) = None" "\<not> left_loop (xs_pc st)" "xs_pc st \<notin> {PcPublishCancel, PcEnded}"
  shows "exec_kind cfg st (if b then st1\<lparr>xs_pc := PcLoop\<rparr> else leave_with_cancel st1)"
proof (cases b)
  case True
  with assms show ?thesis
    by (intro exec_kind.progress[where ws = "[ev]"]) (auto simp: send_work_event_def split: if_splits)
next
  case False
  with assms have "st1 = st" by (auto simp: send_work_event_def split: if_splits)
  with False assms show ?thesis by auto
qed

lemma kind_handle:
  assumes "handle_event cfg io ev st = Some st'" "xs_pc st = PcHandle ev"
  shows "exec_kind cfg st st'"
proof -
  have pc: "\<not> left_loop (xs_pc st)" "planning (xs_pc st) = None" "xs_pc st \<notin> {PcPublishCancel, PcEnded}"
    using assms(2) by (simp_all add: left_loop_def)
  consider (progress) t where "ev = Inr (Progress t)" | (evidence) e where "ev = Inr (Evidence e)"
    | (artifact) n m c where "ev = Inr (ArtifactEvent n m c)" | (completed) t where "ev = Inr (CompletedEvent t)"
    | (failed) x where "ev = Inl x"
    by (metis mesh_event.exhaust sum.exhaust)
  then show ?thesis
  proof cases
    case progress
    with assms(1) obtain b st1 where
      "send_work_event io (status_update cfg io Working (Some ''SMESH worker reported progress'')) st = Some (b, st1)"
      "st' = (if b then st1\<lparr>xs_pc := PcLoop\<rparr> else leave_with_cancel st1)"
      by (auto simp: handle_event_def split: option.splits bool.splits prod.splits)
    then show ?thesis using kind_send_work[OF _ work_status_update pc(2,1,3)] by simp
  next
    case evidence
    show ?thesis
    proof (cases "xc_trace cfg \<and> \<not> io_trace_ok io")
      case True
      with evidence assms(1) pc show ?thesis
        by (intro exec_kind.left)
          (auto simp: handle_event_def left_loop_def leave_with_cancel_def request_dispatcher_cancel_def same_work_def)
    next
      case False
      with evidence assms(1) pc show ?thesis
        by (intro kind_progress) (auto simp: handle_event_def split: if_splits)
    qed
  next
    case artifact
    with assms(1) show ?thesis using pc
      by (auto simp: handle_event_def handle_artifact_def Let_def add_artifact_def
          split: option.splits internal_artifact_payload.splits
          intro: kind_invalid_artifact kind_progress)
  next
    case completed
    with assms(1) show ?thesis using pc
      by (auto simp: handle_event_def split: if_splits intro!: kind_claim kind_progress)
  next
    case failed
    with assms(1) show ?thesis using pc by (auto simp: handle_event_def intro!: kind_claim)
  qed
qed

lemma kind_observe:
  assumes "xs_pc st = PcLoop"
  shows "exec_kind cfg st (observe_event cfg ev st)"
proof (rule kind_progress)
  show "xs_pc (observe_event cfg ev st) \<in> {PcLoop, PcEnded} \<union> range PcHandle"
    by (auto simp: observe_event_def split: sum.splits prod.splits)
qed (use assms in \<open>auto simp: observe_event_def left_loop_def split: sum.splits prod.splits\<close>)

lemma kind_cancelled:
  assumes "ct_cancelled (xs_control st)" "\<not> left_loop (xs_pc st)"
  shows "exec_kind cfg st (st\<lparr>xs_pc := PcPublishCancel\<rparr>)"
  using assms by (intro exec_kind.cancelling) (simp_all add: same_work_def)

lemma kind_select:
  assumes "select_next cfg io st = Some st'" "xs_pc st = PcLoop"
  shows "exec_kind cfg st st'"
proof -
  have "exec_kind cfg st (st\<lparr>xs_pc := PcEnded\<rparr>)"
    using assms(2) by (intro kind_progress) (simp_all add: left_loop_def)
  with assms show ?thesis
    by (auto simp: select_next_def left_loop_def split: if_splits next_poll.splits
        intro: kind_leave kind_observe kind_cancelled)
qed

lemma kind_finish:
  assumes "xs_pc st = PcEnded"
  shows "exec_kind cfg st (finish_stream cfg io st)"
  using assms
  by (auto simp: finish_stream_def left_loop_def intro: kind_cancelled kind_claim kind_finalize)

lemma kind_preempted:
  assumes "preempted raced io st = Some st'" "\<not> left_loop (xs_pc st)"
  shows "exec_kind cfg st st'"
  using assms by (auto simp: preempted_def split: if_splits intro: kind_cancelled kind_claim)

lemma kind_record:
  assumes "xs_pc st = PcTrace raced plan"
  shows "exec_kind cfg st (record_terminal cfg io raced plan st)"
proof (cases "xc_trace cfg \<and> \<not> io_trace_ok io")
  case True
  with assms show ?thesis
    by (intro exec_kind.left) (auto simp: handler_defs left_loop_def same_work_def)
next
  case False
  then have "record_terminal cfg io raced plan st = st\<lparr>xs_pc := PcSend raced plan,
      xs_trace := xs_trace st @ (if xc_trace cfg then [TraceTerminal (tp_state plan) (tp_digests plan)] else [])\<rparr>"
    by (simp only: record_terminal_def if_False)
  with assms show ?thesis
    by (intro exec_kind.traced[where plan = plan]) (simp_all add: same_work_def)
qed

lemma kind_send:
  assumes "xs_pc st = PcSend raced plan"
  shows "exec_kind cfg st (send_terminal cfg io plan st)"
proof (cases "io_send_ok io")
  case True
  with assms show ?thesis
    by (intro exec_kind.published[where plan = plan]) (simp_all add: handler_defs same_work_def)
next
  case False
  with assms show ?thesis
    by (intro exec_kind.left) (simp_all add: handler_defs left_loop_def same_work_def)
qed

lemma kind_publish_cancel:
  assumes "publish_cancellation_terminal cfg io st = Some st'" "xs_pc st = PcPublishCancel"
  shows "exec_kind cfg st st'"
proof -
  obtain s outcome words where t: "cancellation_terminal (ct_cancel_outcome (xs_control st)) = (s, outcome, words)"
    by (metis prod_cases3)
  have p: "ct_cancel_outcome (xs_control st) \<noteq> OutcomePending"
    using assms(1) by (auto simp: publish_cancellation_terminal_def)
  show ?thesis using assms p t
    by (intro exec_kind.canceled[where fs = "if (\<not> xc_trace cfg \<or> io_trace_ok io) \<and> io_send_ok io
          then [task_response cfg io s words None None] else []", OF _ _ p t])
      (auto simp: publish_cancellation_terminal_def Let_def same_work_def)
qed

lemma exec_step_kind:
  assumes "exec_step cfg io st = Some st'"
  shows "exec_kind cfg st st'"
proof (cases "xs_pc st")
  case PcStart
  with assms obtain b st1 where
    "send_work_event io (working_task cfg io) st = Some (b, st1)"
    "st' = (if b then st1\<lparr>xs_pc := PcLoop\<rparr> else leave_with_cancel st1)"
    by (auto simp: exec_step_def split: option.splits bool.splits prod.splits)
  then show ?thesis
    using PcStart kind_send_work[OF _ work_working_task] by (simp add: left_loop_def)
next
  case PcCleanup
  with assms show ?thesis
    by (intro exec_kind.left) (auto simp: exec_step_def left_loop_def same_work_def)
qed (use assms in \<open>auto simp: exec_step_def left_loop_def split: option.splits
    intro: kind_select kind_handle kind_preempted kind_record kind_send kind_finish kind_publish_cancel\<close>)

section \<open>The invariant\<close>

text \<open>The two ways to publish a final event: as the owner of the terminal word or for a cancellation.\<close>

definition published_by_execution :: "exec_config \<Rightarrow> exec_state \<Rightarrow> stream_response \<Rightarrow> bool" where
  "published_by_execution cfg st ev \<longleftrightarrow>
     ct_terminal (xs_control st) = TerminalExecution \<and>
     (\<exists>io plan. plan_ok cfg st plan
        \<and> ev = task_response cfg io (tp_state plan) (tp_text plan) (tp_artifacts plan) (tp_metadata plan))"

definition published_by_cancellation :: "exec_config \<Rightarrow> exec_state \<Rightarrow> stream_response \<Rightarrow> bool" where
  "published_by_cancellation cfg st ev \<longleftrightarrow>
     ct_terminal (xs_control st) = TerminalCancel \<and> ct_cancel_outcome (xs_control st) \<noteq> OutcomePending \<and>
     (\<exists>io s outcome words. cancellation_terminal (ct_cancel_outcome (xs_control st)) = (s, outcome, words)
        \<and> ev = task_response cfg io s words None None)"

definition sent_ok :: "exec_config \<Rightarrow> exec_state \<Rightarrow> bool" where
  "sent_ok cfg st \<longleftrightarrow>
     (\<exists>ws fs. xs_sent st = ws @ fs \<and> (\<forall>e\<in>set ws. work_event cfg e)
        \<and> (fs = [] \<or> left_loop (xs_pc st) \<and>
             (\<exists>ev. fs = [ev] \<and> (published_by_execution cfg st ev \<or> published_by_cancellation cfg st ev))))"

definition exec_inv :: "exec_config \<Rightarrow> exec_state \<Rightarrow> bool" where
  "exec_inv cfg st \<longleftrightarrow>
     sent_ok cfg st
     \<and> (\<forall>plan. planning (xs_pc st) = Some plan \<longrightarrow>
          ct_terminal (xs_control st) = TerminalExecution \<and> plan_ok cfg st plan)
     \<and> (xs_pc st = PcPublishCancel \<longrightarrow> ct_terminal (xs_control st) = TerminalCancel)"

lemma plan_ok_same_work: "same_work st st' \<Longrightarrow> plan_ok cfg st' plan \<longleftrightarrow> plan_ok cfg st plan"
  by (simp add: same_work_def plan_ok_def completion_snapshot_of_def)

lemma published_same_work:
  assumes "same_work st st'" "ct_terminal (xs_control st') = ct_terminal (xs_control st)"
    "ct_cancel_outcome (xs_control st') = ct_cancel_outcome (xs_control st)"
  shows "published_by_execution cfg st' ev \<longleftrightarrow> published_by_execution cfg st ev"
    "published_by_cancellation cfg st' ev \<longleftrightarrow> published_by_cancellation cfg st ev"
  using assms by (simp_all add: published_by_execution_def published_by_cancellation_def plan_ok_same_work)

lemma work_only:
  assumes "sent_ok cfg st" "\<not> left_loop (xs_pc st)"
  shows "\<forall>e\<in>set (xs_sent st). work_event cfg e"
  using assms by (auto simp: sent_ok_def)

lemma sent_ok_work: "\<forall>e\<in>set (xs_sent st). work_event cfg e \<Longrightarrow> sent_ok cfg st"
  unfolding sent_ok_def by (rule exI[of _ "xs_sent st"], rule exI[of _ "[]"]) simp

lemma sent_ok_final:
  assumes "\<forall>e\<in>set (xs_sent st). work_event cfg e" "xs_sent st' = xs_sent st @ [ev]" "left_loop (xs_pc st')"
    "published_by_execution cfg st' ev \<or> published_by_cancellation cfg st' ev"
  shows "sent_ok cfg st'"
  unfolding sent_ok_def
  by (rule exI[of _ "xs_sent st"], rule exI[of _ "[ev]"]) (use assms in auto)

lemma exec_inv_kind:
  assumes "exec_kind cfg st st'" "exec_inv cfg st"
    "ct_cancelled (xs_control st) \<longrightarrow> ct_terminal (xs_control st) = TerminalCancel"
  shows "exec_inv cfg st'"
  using assms(1)
proof cases
  case (progress ws)
  have "\<forall>e\<in>set (xs_sent st'). work_event cfg e"
    using progress work_only[of cfg st] assms(2) by (auto simp: exec_inv_def)
  then show ?thesis using progress by (auto simp: exec_inv_def sent_ok_work)
next
  case (claimed plan)
  have "\<forall>e\<in>set (xs_sent st'). work_event cfg e"
    using claimed work_only[of cfg st] assms(2) by (auto simp: exec_inv_def)
  then show ?thesis using claimed by (auto simp: exec_inv_def sent_ok_work plan_ok_same_work)
next
  case (traced plan)
  have "\<not> left_loop (xs_pc st)" using traced by (auto simp: left_loop_def)
  then have "\<forall>e\<in>set (xs_sent st'). work_event cfg e"
    using traced work_only[of cfg st] assms(2) by (auto simp: exec_inv_def)
  then show ?thesis using traced assms(2) by (auto simp: exec_inv_def sent_ok_work plan_ok_same_work)
next
  case (published plan io)
  have "\<not> left_loop (xs_pc st)" using published by (auto simp: left_loop_def)
  then have work: "\<forall>e\<in>set (xs_sent st). work_event cfg e"
    using work_only[of cfg st] assms(2) by (auto simp: exec_inv_def)
  have "published_by_execution cfg st' (task_response cfg io (tp_state plan) (tp_text plan) (tp_artifacts plan) (tp_metadata plan))"
    using published assms(2) by (auto simp: published_by_execution_def exec_inv_def plan_ok_same_work)
  with published show ?thesis
    using sent_ok_final[OF work] by (auto simp: exec_inv_def left_loop_def)
next
  case cancelling
  have "\<forall>e\<in>set (xs_sent st'). work_event cfg e"
    using cancelling work_only[of cfg st] assms(2) by (auto simp: exec_inv_def)
  then show ?thesis using cancelling assms(3) by (auto simp: exec_inv_def sent_ok_work)
next
  case (canceled s outcome words fs io)
  have work: "\<forall>e\<in>set (xs_sent st). work_event cfg e"
    using canceled work_only[of cfg st] assms(2) by (auto simp: exec_inv_def left_loop_def)
  have "published_by_cancellation cfg st' (task_response cfg io s words None None)"
    using canceled assms(2) by (auto simp: published_by_cancellation_def exec_inv_def)
  with canceled work show ?thesis
    using sent_ok_final[OF work] sent_ok_work[of st'] by (auto simp: exec_inv_def left_loop_def)
next
  case left
  have "sent_ok cfg st'"
  proof (cases "left_loop (xs_pc st)")
    case True
    with left assms(2) show ?thesis
      by (auto simp: exec_inv_def sent_ok_def published_same_work[OF left(5)])
  next
    case False
    with left assms(2) show ?thesis using work_only[of cfg st] by (auto simp: exec_inv_def intro: sent_ok_work)
  qed
  with left show ?thesis by (auto simp: exec_inv_def left_loop_def)
qed

section \<open>Preservation by every step of the system\<close>

lemma kind_control: "exec_kind cfg st st' \<Longrightarrow> control_step (xs_control st) (xs_control st')"
  by (cases rule: exec_kind.cases) (auto simp: control_step_def)

lemma owner_inv_execute:
  assumes "owner_inv s" "control_step (xs_control (sys_exec s)) (xs_control st)"
  shows "owner_inv (s\<lparr>sys_exec := st\<rparr>)"
  using assms by (auto simp: owner_inv_def control_step_def control_follows_def Let_def split: if_splits)

lemma owner_inv_spawn: "owner_inv s \<Longrightarrow> owner_inv (s\<lparr>sys_cancels := sys_cancels s @ [CancelStart]\<rparr>)"
  by (auto simp: owner_inv_def Let_def nth_append less_Suc_eq split: if_splits)

lemma owner_cancelled: "owner_inv s \<Longrightarrow> ct_cancelled (xs_control (sys_exec s)) \<longrightarrow> ct_terminal (xs_control (sys_exec s)) = TerminalCancel"
  by (auto simp: owner_inv_def Let_def split: if_splits)

lemma winner_unique:
  assumes "owner_inv s" "i < length (sys_cancels s)" "winning (sys_cancels s ! i)"
  shows "ct_terminal (xs_control (sys_exec s)) = TerminalCancel"
    "control_follows (sys_cancels s ! i) (xs_control (sys_exec s))"
    "\<forall>j<length (sys_cancels s). winning (sys_cancels s ! j) \<longrightarrow> j = i"
  using assms by (auto simp: owner_inv_def Let_def split: if_splits)

lemma set_simps [simp]:
  "sys_exec (set_cancel i pc s) = sys_exec s" "sys_cancels (set_cancel i pc s) = (sys_cancels s)[i := pc]"
  "sys_exec (set_control c s) = (sys_exec s)\<lparr>xs_control := c\<rparr>" "sys_cancels (set_control c s) = sys_cancels s"
  by (simp_all add: set_cancel_def set_control_def)

lemma owner_invI:
  assumes "ct_terminal (xs_control (sys_exec s)) = TerminalCancel" "i < length (sys_cancels s)"
    "winning (sys_cancels s ! i)" "control_follows (sys_cancels s ! i) (xs_control (sys_exec s))"
    "\<And>j. j < length (sys_cancels s) \<Longrightarrow> winning (sys_cancels s ! j) \<Longrightarrow> j = i"
  shows "owner_inv s"
proof -
  let ?cs = "sys_cancels s"
  have "\<exists>i<length ?cs. winning (?cs ! i) \<and> control_follows (?cs ! i) (xs_control (sys_exec s))
      \<and> (\<forall>j<length ?cs. winning (?cs ! j) \<longrightarrow> j = i)"
    using assms(2-) by blast
  with assms(1) show ?thesis by (simp add: owner_inv_def Let_def)
qed

lemma owner_inv_open:
  assumes "ct_terminal (xs_control (sys_exec s)) \<noteq> TerminalCancel"
  shows "owner_inv s \<longleftrightarrow> (\<forall>j<length (sys_cancels s). \<not> winning (sys_cancels s ! j))
    \<and> \<not> ct_emission_locked (xs_control (sys_exec s)) \<and> \<not> ct_cancelled (xs_control (sys_exec s))
    \<and> ct_cancel_outcome (xs_control (sys_exec s)) = OutcomePending"
  using assms by (simp add: owner_inv_def Let_def)

lemma owner_inv_losing:
  assumes "owner_inv s" "i < length (sys_cancels s)" "\<not> winning (sys_cancels s ! i)" "\<not> winning pc"
  shows "owner_inv (set_cancel i pc s)"
proof (cases "ct_terminal (xs_control (sys_exec s)) = TerminalCancel")
  case True
  with assms(1) obtain k where k: "k < length (sys_cancels s)" "winning (sys_cancels s ! k)"
    by (auto simp: owner_inv_def Let_def)
  with assms(3) have "k \<noteq> i" by auto
  note unique = winner_unique[OF assms(1) k]
  show ?thesis
  proof (rule owner_invI[of _ k])
    show "\<And>j. j < length (sys_cancels (set_cancel i pc s)) \<Longrightarrow> winning (sys_cancels (set_cancel i pc s) ! j) \<Longrightarrow> j = k"
      using unique(3) assms(4) by (metis length_list_update nth_list_update_eq nth_list_update_neq set_simps(2))
  qed (use k \<open>k \<noteq> i\<close> unique(1,2) in simp_all)
next
  case False
  with assms show ?thesis by (simp add: owner_inv_open nth_list_update)
qed

lemma owner_inv_advance:
  assumes "owner_inv s" "i < length (sys_cancels s)" "winning (sys_cancels s ! i)" "winning pc"
    "ct_terminal c = TerminalCancel" "control_follows pc c"
  shows "owner_inv (set_cancel i pc (set_control c s))"
proof (rule owner_invI[of _ i])
  show "\<And>j. j < length (sys_cancels (set_cancel i pc (set_control c s)))
      \<Longrightarrow> winning (sys_cancels (set_cancel i pc (set_control c s)) ! j) \<Longrightarrow> j = i"
    using winner_unique(3)[OF assms(1-3)] by (metis length_list_update nth_list_update_neq set_simps(2,4))
qed (use assms in simp_all)

lemma owner_inv_claim:
  assumes "owner_inv s" "i < length (sys_cancels s)" "winning pc"
    "ct_terminal (xs_control (sys_exec s)) = TerminalOpen" "ct_terminal c = TerminalCancel" "control_follows pc c"
  shows "owner_inv (set_cancel i pc (set_control c s))"
proof (rule owner_invI[of _ i])
  have "\<forall>j<length (sys_cancels s). \<not> winning (sys_cancels s ! j)"
    using assms(1,4) by (simp add: owner_inv_open)
  then show "\<And>j. j < length (sys_cancels (set_cancel i pc (set_control c s)))
      \<Longrightarrow> winning (sys_cancels (set_cancel i pc (set_control c s)) ! j) \<Longrightarrow> j = i"
    by (metis length_list_update nth_list_update_neq set_simps(2,4))
qed (use assms in simp_all)

lemma exec_inv_control:
  assumes "exec_inv cfg st"
    "ct_terminal c = ct_terminal (xs_control st) \<and> ct_cancel_outcome c = ct_cancel_outcome (xs_control st)
     \<or> ct_terminal (xs_control st) = TerminalOpen
     \<or> ct_terminal (xs_control st) = TerminalCancel \<and> ct_terminal c = TerminalCancel
       \<and> ct_cancel_outcome (xs_control st) = OutcomePending"
  shows "exec_inv cfg (st\<lparr>xs_control := c\<rparr>)"
proof (cases "ct_terminal c = ct_terminal (xs_control st) \<and> ct_cancel_outcome c = ct_cancel_outcome (xs_control st)")
  case True
  moreover have "same_work st (st\<lparr>xs_control := c\<rparr>)" by (simp add: same_work_def)
  ultimately show ?thesis
    using assms(1) published_same_work[of st "st\<lparr>xs_control := c\<rparr>"]
    by (auto simp: exec_inv_def sent_ok_def plan_ok_same_work)
next
  case False
  have "\<forall>e\<in>set (xs_sent st). work_event cfg e"
    using False assms
    by (auto simp: exec_inv_def sent_ok_def published_by_execution_def published_by_cancellation_def)
  moreover have "planning (xs_pc st) = None"
    using False assms by (cases "planning (xs_pc st)") (auto simp: exec_inv_def)
  ultimately show ?thesis
    using False assms by (auto simp: exec_inv_def intro: sent_ok_work)
qed

lemma cancel_step_cases:
  assumes "cancel_step tid reply i s = Some s'"
  obtains (lookup) pc where "sys_cancels s ! i = CancelStart" "\<not> winning pc" "s' = set_cancel i pc s"
  | (lost) e where "sys_cancels s ! i = CancelFound" "s' = set_cancel i (CancelRefused e) s"
      "ct_terminal (xs_control (sys_exec s)) \<noteq> TerminalOpen"
  | (won) "sys_cancels s ! i = CancelFound" "ct_terminal (xs_control (sys_exec s)) = TerminalOpen"
      "s' = set_cancel i CancelHolding (set_control ((xs_control (sys_exec s))\<lparr>ct_terminal := TerminalCancel, ct_emission_locked := True\<rparr>) s)"
  | (token) "sys_cancels s ! i = CancelHolding"
      "s' = set_cancel i CancelWaiting (set_control ((xs_control (sys_exec s))\<lparr>ct_cancelled := True, ct_emission_locked := False\<rparr>) s)"
  | (outcome) "sys_cancels s ! i = CancelWaiting"
      "s' = set_cancel i CancelStored (set_control ((xs_control (sys_exec s))\<lparr>ct_cancel_outcome := dispatcher_outcome reply\<rparr>) s)"
  | (finished) "sys_cancels s ! i = CancelStored" "s' = set_cancel i CancelDone s"
proof (cases "sys_cancels s ! i")
  case CancelStart
  with assms lookup[of "if xs_registered (sys_exec s) then CancelFound else CancelRefused (task_not_cancelable tid)"]
  show thesis by (simp add: cancel_step_def split: if_splits)
qed (use assms in \<open>auto simp: cancel_step_def Let_def claim_cancel_def split: if_splits
      intro: lost won token outcome finished\<close>)

lemma dispatcher_outcome_stored [simp]: "dispatcher_outcome reply \<noteq> OutcomePending"
  by (auto simp: dispatcher_outcome_def split: option.splits sum.splits dispatch_error.splits)

definition sys_inv :: "exec_config \<Rightarrow> exec_system \<Rightarrow> bool" where
  "sys_inv cfg s \<longleftrightarrow> owner_inv s \<and> exec_inv cfg (sys_exec s)"

lemma sys_inv_cancel:
  assumes "cancel_step tid reply i s = Some s'" "sys_inv cfg s" "i < length (sys_cancels s)"
  shows "sys_inv cfg s'"
proof -
  let ?c = "xs_control (sys_exec s)"
  have own: "owner_inv s" and inv: "exec_inv cfg (sys_exec s)" using assms(2) by (simp_all add: sys_inv_def)
  note winner = winner_unique[OF own assms(3)]
  from assms(1) show ?thesis
  proof (cases rule: cancel_step_cases)
    case (lookup pc)
    with owner_inv_losing[OF own assms(3)] inv show ?thesis by (simp add: sys_inv_def)
  next
    case (lost e)
    with owner_inv_losing[OF own assms(3)] inv show ?thesis by (simp add: sys_inv_def)
  next
    case won
    have "control_follows CancelHolding (?c\<lparr>ct_terminal := TerminalCancel, ct_emission_locked := True\<rparr>)"
      using own won by (simp add: owner_inv_def control_follows_def Let_def)
    with won owner_inv_claim[OF own assms(3)] exec_inv_control[OF inv] show ?thesis by (simp add: sys_inv_def)
  next
    case token
    then have "control_follows CancelWaiting (?c\<lparr>ct_cancelled := True, ct_emission_locked := False\<rparr>)"
      using winner by (simp add: control_follows_def)
    with token winner owner_inv_advance[OF own assms(3)] exec_inv_control[OF inv] show ?thesis
      by (simp add: sys_inv_def)
  next
    case outcome
    then have "control_follows CancelStored (?c\<lparr>ct_cancel_outcome := dispatcher_outcome reply\<rparr>)"
      using winner by (simp add: control_follows_def)
    moreover have "ct_cancel_outcome ?c = OutcomePending"
      using winner outcome by (simp add: control_follows_def)
    ultimately show ?thesis
      using outcome winner owner_inv_advance[OF own assms(3)] exec_inv_control[OF inv] by (simp add: sys_inv_def)
  next
    case finished
    then have "control_follows CancelDone ?c" using winner by (simp add: control_follows_def)
    with finished winner owner_inv_advance[OF own assms(3), of CancelDone ?c] inv show ?thesis
      by (simp add: sys_inv_def set_control_def)
  qed
qed

lemma sys_inv_step:
  assumes "sys_step cfg env s t" "sys_inv cfg s"
  shows "sys_inv cfg t"
  using assms(1)
proof (cases rule: sys_step.cases)
  case (execute io st)
  note kind = exec_step_kind[OF execute(3)]
  show ?thesis
    using assms(2) execute exec_inv_kind[OF kind] owner_inv_execute[OF _ kind_control[OF kind]] owner_cancelled[of s]
    by (simp add: sys_inv_def)
next
  case spawn
  with assms(2) owner_inv_spawn show ?thesis by (simp add: sys_inv_def)
next
  case (cancel i reply)
  with sys_inv_cancel assms(2) show ?thesis by blast
qed

lemma sys_inv_initial: "sys_inv cfg initial_system"
  by (simp add: sys_inv_def initial_system_def initial_exec_def new_control_def owner_inv_def exec_inv_def sent_ok_def)

lemma sys_inv_reachable: "sys_reachable cfg env s \<Longrightarrow> sys_inv cfg s"
  by (induction rule: sys_reachable.induct) (auto intro: sys_inv_initial sys_inv_step)

section \<open>Artifacts and their manifests\<close>

definition manifest_media :: string where
  "manifest_media = ''application/vnd.smesh.artifact-manifest+json''"

text \<open>A manifest binds what is published: the bytes of the only part or the projection it was read from.\<close>

definition output_bound :: "exec_config \<Rightarrow> artifact_manifest \<Rightarrow> artifact \<Rightarrow> bool" where
  "output_bound cfg m a \<longleftrightarrow>
     manifest_of_artifact (xc_policy_env cfg) a = Inr m
     \<or> (\<exists>p bytes. artifact_parts a = [p] \<and> part_content p = Raw bytes \<and> am_digest m = content_digest (xc_policy_env cfg) bytes)
     \<or> (\<exists>projection. artifact_from_str (xc_mesh_env cfg) projection = Some a \<and> am_media_type m = manifest_media
          \<and> am_digest m = content_digest (xc_policy_env cfg) (ascii projection))"

inductive output_step :: "exec_config \<Rightarrow> exec_state \<Rightarrow> exec_state \<Rightarrow> bool" for cfg st st' where
  same: "xs_manifests st' = xs_manifests st \<Longrightarrow> xs_artifacts st' = xs_artifacts st \<Longrightarrow> output_step cfg st st'"
| add: "xs_manifests st' = xs_manifests st @ [m] \<Longrightarrow> xs_artifacts st' = xs_artifacts st @ [a] \<Longrightarrow> output_bound cfg m a
    \<Longrightarrow> output_step cfg st st'"

lemma output_same [intro]: "xs_manifests st' = xs_manifests st \<Longrightarrow> xs_artifacts st' = xs_artifacts st \<Longrightarrow> output_step cfg st st'"
  by (rule output_step.same)

lemma output_handle_artifact: "output_step cfg st (handle_artifact cfg io name media content st)"
proof -
  have same: "output_step cfg st (claim_invalid_artifact st)"
    by (rule output_step.same) (simp_all add: claim_invalid_artifact_def split: prod.splits bool.splits)
  have add: "output_step cfg st (add_artifact m a st)" if "output_bound cfg m a" for m a
    using that by (intro output_step.add[of _ _ m a]) (simp_all add: add_artifact_def)
  show ?thesis
    unfolding handle_artifact_def Let_def
    by (auto split: option.splits internal_artifact_payload.splits intro!: same add
        simp: output_bound_def candidate_artifact_def manifest_of_artifact_def part_text_def part_raw_def
          with_media_type_def manifest_media_def ok_or_def result_simps)
qed

lemma output_send_work: "send_work_event io ev st = Some (b, st1) \<Longrightarrow> xs_manifests st1 = xs_manifests st \<and> xs_artifacts st1 = xs_artifacts st"
  by (auto simp: send_work_event_def split: if_splits)

lemma same_work_claim [simp]: "same_work st (claim_and_plan raced plan st)"
  by (cases "xs_control st" rule: claim_execution_cases) (simp_all add: handler_defs same_work_def)

lemma kind_same_outputs:
  assumes "exec_kind cfg st st'" "planning (xs_pc st') \<noteq> None \<or> left_loop (xs_pc st') \<or> xs_pc st' = PcPublishCancel"
  shows "output_step cfg st st'"
  using assms by cases (auto simp: same_work_def left_loop_def intro!: output_step.same)

lemma output_claim: "output_step cfg st (claim_and_plan raced plan st)"
  using same_work_claim[of st raced plan] by (intro output_step.same) (simp_all add: same_work_def)

lemma output_handle:
  assumes "handle_event cfg io ev st = Some st'"
  shows "output_step cfg st st'"
proof (cases "\<exists>n m c. ev = Inr (ArtifactEvent n m c)")
  case True
  with assms output_handle_artifact show ?thesis by (auto simp: handle_event_def)
next
  case False
  with assms show ?thesis
    by (auto simp: handle_event_def leave_with_cancel_def request_dispatcher_cancel_def
        split: sum.splits mesh_event.splits option.splits prod.splits bool.splits if_splits
        dest!: output_send_work intro: output_claim)
qed

lemma output_exec_step:
  assumes "exec_step cfg io st = Some st'"
  shows "output_step cfg st st'"
proof (cases "planning (xs_pc st') \<noteq> None \<or> left_loop (xs_pc st') \<or> xs_pc st' = PcPublishCancel")
  case True
  with kind_same_outputs[OF exec_step_kind[OF assms]] show ?thesis by blast
next
  case False
  note kind = exec_step_kind[OF assms]
  show ?thesis
  proof (cases "xs_pc st")
    case PcStart
    with assms show ?thesis using output_send_work
      by (auto simp: exec_step_def leave_with_cancel_def request_dispatcher_cancel_def
        split: option.splits prod.splits bool.splits)
  next
    case PcLoop
    with assms False show ?thesis
      by (auto simp: exec_step_def select_next_def observe_event_def leave_with_cancel_def left_loop_def
        split: if_splits next_poll.splits sum.splits prod.splits)
  next
    case (PcHandle ev)
    with assms output_handle show ?thesis by (auto simp: exec_step_def)
  qed (use kind False in \<open>auto elim!: exec_kind.cases simp: left_loop_def same_work_def\<close>)
qed

section \<open>Termination\<close>

definition pc_rank :: "nat \<Rightarrow> exec_pc \<Rightarrow> nat" where
  "pc_rank left pc =
     (case pc of
        PcStart \<Rightarrow> 2 * left + 10
      | PcLoop \<Rightarrow> 2 * left + 9
      | PcHandle (Inr _) \<Rightarrow> 2 * left + 10
      | PcHandle (Inl _) \<Rightarrow> 8
      | PcEnded \<Rightarrow> 7
      | PcTrace raced _ \<Rightarrow> if raced then 6 else 4
      | PcSend raced _ \<Rightarrow> if raced then 5 else 3
      | PcPublishCancel \<Rightarrow> 2
      | PcCleanup \<Rightarrow> 1
      | PcDone \<Rightarrow> 0)"

text \<open>The number of events the budget still allows, one more for the one that exceeds it, and the program counter.\<close>

definition exec_rank :: "exec_config \<Rightarrow> exec_state \<Rightarrow> nat" where
  "exec_rank cfg st = pc_rank (Suc (max_events (xc_limits cfg)) - eb_events (xs_budget st)) (xs_pc st)"

lemma claim_pc:
  "xs_pc (claim_and_plan raced plan st) = PcTrace raced plan \<or> xs_pc (claim_and_plan raced plan st) = PcCleanup"
  "xs_pc (claim_invalid_artifact st) \<in> {PcPublishCancel, PcCleanup} \<or> (\<exists>p. xs_pc (claim_invalid_artifact st) = PcTrace False p)"
  "xs_pc (finalize_completion cfg st) = PcCleanup \<or> (\<exists>p. xs_pc (finalize_completion cfg st) = PcTrace True p)"
  by (cases "xs_control st" rule: claim_execution_cases; simp add: handler_defs)+

lemma claim_leaves:
  "planning (xs_pc (claim_and_plan raced plan st)) = None \<Longrightarrow> xs_pc (claim_and_plan raced plan st) = PcCleanup"
  "planning (xs_pc (claim_invalid_artifact st)) = None
    \<Longrightarrow> xs_pc (claim_invalid_artifact st) = PcPublishCancel \<or> xs_pc (claim_invalid_artifact st) = PcCleanup"
  using claim_pc(1)[of raced plan st] claim_pc(2)[of st] by auto

lemma rank_claim: "exec_rank cfg (claim_and_plan raced plan st) \<le> (if raced then 6 else 4)"
  using claim_pc(1)[of raced plan st] by (auto simp: exec_rank_def pc_rank_def)

lemma rank_leave [simp]: "exec_rank cfg (leave_with_cancel st) = 1"
  by (simp add: exec_rank_def pc_rank_def handler_defs)

lemma rank_pc: "xs_pc st' = PcLoop \<Longrightarrow> xs_budget st' = xs_budget st \<Longrightarrow> xs_pc st = PcStart \<or> (\<exists>e. xs_pc st = PcHandle (Inr e))
    \<Longrightarrow> exec_rank cfg st' < exec_rank cfg st"
  by (auto simp: exec_rank_def pc_rank_def)

lemma rank_send_work:
  assumes "send_work_event io ev st = Some (b, st1)" "xs_pc st = PcStart \<or> (\<exists>e. xs_pc st = PcHandle (Inr e))"
  shows "exec_rank cfg (if b then st1\<lparr>xs_pc := PcLoop\<rparr> else leave_with_cancel st1) < exec_rank cfg st"
proof (cases b)
  case True
  with assms show ?thesis by (auto simp: send_work_event_def split: if_splits intro!: rank_pc)
next
  case False
  with assms(2) show ?thesis by (auto simp: exec_rank_def[of _ st] pc_rank_def)
qed

lemma rank_handle_artifact:
  assumes "xs_pc st = PcHandle (Inr ev)"
  shows "exec_rank cfg (handle_artifact cfg io name media content st) < exec_rank cfg st"
proof -
  have "exec_rank cfg (add_artifact m a st) < exec_rank cfg st" for m a
    using assms by (intro rank_pc) (auto simp: add_artifact_def)
  moreover have "exec_rank cfg (claim_invalid_artifact st) < exec_rank cfg st"
    using assms claim_pc(2)[of st] by (auto simp: exec_rank_def pc_rank_def)
  ultimately show ?thesis
    by (simp add: handle_artifact_def Let_def split: option.splits internal_artifact_payload.splits)
qed

lemma rank_handle:
  assumes "handle_event cfg io ev st = Some st'" "xs_pc st = PcHandle ev"
  shows "exec_rank cfg st' < exec_rank cfg st"
proof (cases ev)
  case (Inl e)
  with assms rank_claim[of cfg False "failure_plan ''SMESH worker failed''" st] show ?thesis
    by (auto simp: handle_event_def exec_rank_def[of cfg st] pc_rank_def)
next
  case (Inr me)
  have r: "10 \<le> exec_rank cfg st" using assms(2) Inr by (simp add: exec_rank_def pc_rank_def)
  show ?thesis
  proof (cases me)
    case (Progress t)
    with assms(1) Inr obtain b st1 where
      "send_work_event io (status_update cfg io Working (Some ''SMESH worker reported progress'')) st = Some (b, st1)"
      "st' = (if b then st1\<lparr>xs_pc := PcLoop\<rparr> else leave_with_cancel st1)"
      by (auto simp: handle_event_def split: option.splits bool.splits prod.splits)
    then show ?thesis using rank_send_work assms(2) Inr by blast
  next
    case (Evidence e)
    with assms Inr r show ?thesis by (auto simp: handle_event_def split: if_splits intro: rank_pc)
  next
    case (ArtifactEvent n m c)
    with assms Inr show ?thesis using rank_handle_artifact by (auto simp: handle_event_def)
  next
    case (CompletedEvent t)
    with assms Inr r rank_claim[of cfg False "failure_plan ''worker emitted more than one completion proposal''" st]
    show ?thesis by (auto simp: handle_event_def split: if_splits intro: rank_pc)
  qed
qed

lemma observe_counts:
  assumes "observe M l ev b = (r, b')"
  shows "eb_events b' = sat_add (eb_events b) 1" "r = Inr () \<Longrightarrow> eb_events b' \<le> max_events l"
  using assms by (auto simp: observe_def Let_def split: if_splits sum.splits)

lemma sat_add_small: "sat_add a 1 \<le> n \<Longrightarrow> n \<le> 16 \<Longrightarrow> sat_add a 1 = Suc a"
  by (auto simp: sat_add_def usize_max_def min_def split: if_splits)

lemma rank_observe:
  assumes "xs_pc st = PcLoop" "max_events (xc_limits cfg) \<le> 16"
  shows "exec_rank cfg (observe_event cfg ev st) < exec_rank cfg st"
proof (cases ev)
  case (Inl e)
  with assms(1) show ?thesis by (simp add: observe_event_def exec_rank_def pc_rank_def)
next
  case (Inr e)
  obtain r b where o: "observe (xc_mesh_env cfg) (xc_limits cfg) e (xs_budget st) = (r, b)" by fastforce
  show ?thesis
  proof (cases r)
    case (Inl x)
    with o assms(1) \<open>ev = Inr e\<close> show ?thesis by (simp add: observe_event_def exec_rank_def pc_rank_def)
  next
    case (Inr u)
    with observe_counts[OF o] assms(2) have "eb_events b = Suc (eb_events (xs_budget st))" "eb_events b \<le> max_events (xc_limits cfg)"
      using sat_add_small[of "eb_events (xs_budget st)" "max_events (xc_limits cfg)"] by auto
    with Inr o assms(1) \<open>ev = Inr e\<close> show ?thesis by (simp add: observe_event_def exec_rank_def pc_rank_def)
  qed
qed

lemma rank_step:
  assumes "exec_step cfg io st = Some st'" "max_events (xc_limits cfg) \<le> 16"
  shows "exec_rank cfg st' < exec_rank cfg st"
proof (cases "xs_pc st")
  case PcStart
  with assms obtain b st1 where
    "send_work_event io (working_task cfg io) st = Some (b, st1)"
    "st' = (if b then st1\<lparr>xs_pc := PcLoop\<rparr> else leave_with_cancel st1)"
    by (auto simp: exec_step_def split: option.splits bool.splits prod.splits)
  then show ?thesis using rank_send_work PcStart by blast
next
  case PcLoop
  have "9 \<le> exec_rank cfg st" using PcLoop by (simp add: exec_rank_def pc_rank_def)
  moreover have "exec_rank cfg (st\<lparr>xs_pc := PcEnded\<rparr>) = 7" "exec_rank cfg (st\<lparr>xs_pc := PcPublishCancel\<rparr>) = 2"
    by (simp_all add: exec_rank_def pc_rank_def)
  ultimately show ?thesis using assms PcLoop rank_observe[OF PcLoop assms(2)]
    by (auto simp: exec_step_def select_next_def split: if_splits next_poll.splits)
next
  case (PcHandle ev)
  with assms rank_handle show ?thesis by (auto simp: exec_step_def)
next
  case (PcTrace raced plan)
  with assms claim_pc(1)[of False "failure_plan deadline_text" st] show ?thesis
    by (auto simp: exec_step_def preempted_def record_terminal_def request_dispatcher_cancel_def exec_rank_def
        pc_rank_def split: if_splits option.splits)
next
  case (PcSend raced plan)
  with assms claim_pc(1)[of False "failure_plan deadline_text" st] show ?thesis
    by (auto simp: exec_step_def preempted_def send_terminal_def request_dispatcher_cancel_def exec_rank_def
        pc_rank_def split: if_splits option.splits)
next
  case PcEnded
  have "exec_rank cfg (finalize_completion cfg st) < 7"
    using claim_pc(3)[of cfg st] by (auto simp: exec_rank_def pc_rank_def)
  moreover have "exec_rank cfg (claim_and_plan False plan st) < 7" for plan
    using rank_claim[of cfg False plan st] by simp
  moreover have "exec_rank cfg (st\<lparr>xs_pc := PcPublishCancel\<rparr>) < 7" "exec_rank cfg st = 7"
    using PcEnded by (simp_all add: exec_rank_def pc_rank_def)
  ultimately show ?thesis
    using assms PcEnded by (auto simp: exec_step_def finish_stream_def split: if_splits)
next
  case PcPublishCancel
  with assms show ?thesis
    by (auto simp: exec_step_def publish_cancellation_terminal_def exec_rank_def pc_rank_def Let_def
        split: if_splits prod.splits)
qed (use assms in \<open>auto simp: exec_step_def exec_rank_def pc_rank_def\<close>)

section \<open>Budgets\<close>

text \<open>Everything the worker produced that the executor kept or forwarded.\<close>

definition produced :: "exec_state \<Rightarrow> nat" where
  "produced st = length (xs_sent st) + length (xs_artifacts st) + length (xs_evidence st)"

definition within_limits :: "exec_config \<Rightarrow> exec_state \<Rightarrow> bool" where
  "within_limits cfg st \<longleftrightarrow>
     eb_events (xs_budget st) \<le> max_events (xc_limits cfg) \<and> length (xs_artifacts st) \<le> eb_artifacts (xs_budget st)
     \<and> eb_artifacts (xs_budget st) \<le> eb_events (xs_budget st) \<and> eb_artifacts (xs_budget st) \<le> xl_max_artifacts (xc_limits cfg)
     \<and> eb_output_bytes (xs_budget st) \<le> max_output_bytes (xc_limits cfg)"

definition budget_inv :: "exec_config \<Rightarrow> exec_state \<Rightarrow> bool" where
  "budget_inv cfg st \<longleftrightarrow>
     length (xs_artifacts st) \<le> xl_max_artifacts (xc_limits cfg) \<and>
     (case xs_pc st of
        PcStart \<Rightarrow> within_limits cfg st \<and> produced st = 0
      | PcLoop \<Rightarrow> within_limits cfg st \<and> produced st \<le> Suc (eb_events (xs_budget st))
      | PcEnded \<Rightarrow> within_limits cfg st \<and> produced st \<le> Suc (eb_events (xs_budget st))
      | PcHandle (Inr ev) \<Rightarrow> within_limits cfg st \<and> produced st \<le> eb_events (xs_budget st)
          \<and> (is_artifact_event ev \<longrightarrow> length (xs_artifacts st) < eb_artifacts (xs_budget st))
      | PcCleanup \<Rightarrow> produced st \<le> Suc (Suc (max_events (xc_limits cfg)))
      | PcDone \<Rightarrow> produced st \<le> Suc (Suc (max_events (xc_limits cfg)))
      | _ \<Rightarrow> produced st \<le> Suc (max_events (xc_limits cfg)))"

lemma observe_Inr:
  assumes "observe M l ev b = (Inr u, b')" "max_events l \<le> 16" "eb_artifacts b \<le> eb_events b"
    "eb_artifacts b \<le> xl_max_artifacts l"
  shows "eb_events b' = Suc (eb_events b)" "eb_events b' \<le> max_events l"
    "eb_artifacts b' = (if is_artifact_event ev then Suc (eb_artifacts b) else eb_artifacts b)"
    "eb_artifacts b' \<le> xl_max_artifacts l" "eb_output_bytes b' \<le> max_output_bytes l"
proof -
  show e: "eb_events b' = Suc (eb_events b)" "eb_events b' \<le> max_events l"
    using observe_counts[OF assms(1)] sat_add_small[of "eb_events b" "max_events l"] assms(2) by auto
  have "sat_add (eb_artifacts b) 1 = Suc (eb_artifacts b)"
    using e assms(2,3) by (simp add: sat_add_def usize_max_def)
  then show "eb_artifacts b' = (if is_artifact_event ev then Suc (eb_artifacts b) else eb_artifacts b)"
    "eb_artifacts b' \<le> xl_max_artifacts l" "eb_output_bytes b' \<le> max_output_bytes l"
    using assms(1,4) by (auto simp: observe_def Let_def split: if_splits sum.splits)
qed

lemma budget_observe:
  assumes "budget_inv cfg st" "xs_pc st = PcLoop" "max_events (xc_limits cfg) \<le> 16"
  shows "budget_inv cfg (observe_event cfg ev st)"
proof (cases "\<exists>e u b. ev = Inr e \<and> observe (xc_mesh_env cfg) (xc_limits cfg) e (xs_budget st) = (Inr u, b)")
  case True
  then obtain e u b where "ev = Inr e" and o: "observe (xc_mesh_env cfg) (xc_limits cfg) e (xs_budget st) = (Inr u, b)"
    by blast
  moreover have w: "within_limits cfg st" using assms by (simp add: budget_inv_def)
  ultimately show ?thesis
    using observe_Inr[OF o] assms
    by (auto simp: observe_event_def budget_inv_def within_limits_def produced_def)
next
  case False
  have "\<exists>x b. observe_event cfg ev st = st\<lparr>xs_budget := b, xs_pc := PcHandle (Inl x)\<rparr>"
  proof (cases ev)
    case (Inl x)
    then show ?thesis by (intro exI[of _ x] exI[of _ "xs_budget st"]) (simp add: observe_event_def)
  next
    case (Inr e)
    with False obtain x b where "observe (xc_mesh_env cfg) (xc_limits cfg) e (xs_budget st) = (Inl x, b)"
      by (metis old.sum.exhaust surj_pair)
    with Inr show ?thesis by (auto simp: observe_event_def)
  qed
  with assms(1,2) show ?thesis by (auto simp: budget_inv_def within_limits_def produced_def)
qed

lemma budget_leave:
  assumes "budget_inv cfg st" "\<not> left_loop (xs_pc st)" "same_work st st'" "xs_sent st' = xs_sent st"
    "xs_pc st' \<in> {PcCleanup, PcPublishCancel} \<or> planning (xs_pc st') \<noteq> None"
  shows "budget_inv cfg st'"
proof -
  have "produced st' = produced st" "xs_artifacts st' = xs_artifacts st"
    using assms(3,4) by (simp_all add: produced_def same_work_def)
  moreover have "produced st \<le> Suc (max_events (xc_limits cfg))"
    using assms(1,2) by (auto simp: budget_inv_def within_limits_def left_loop_def split: exec_pc.splits sum.splits)
  ultimately show ?thesis
    using assms(1,5) by (cases "xs_pc st'") (auto simp: budget_inv_def)
qed

lemma budget_terminal_kind:
  assumes "exec_kind cfg st st'" "budget_inv cfg st"
    "planning (xs_pc st') \<noteq> None \<or> left_loop (xs_pc st') \<or> xs_pc st' = PcPublishCancel"
  shows "budget_inv cfg st'"
proof (cases "left_loop (xs_pc st)")
  case True
  with assms(1) have "left_loop (xs_pc st')" "produced st' = produced st" "xs_artifacts st' = xs_artifacts st"
    by (auto elim!: exec_kind.cases simp: left_loop_def same_work_def produced_def)
  with assms(2) True show ?thesis by (auto simp: budget_inv_def left_loop_def)
next
  case False
  then have "produced st \<le> Suc (max_events (xc_limits cfg))" "length (xs_artifacts st) \<le> xl_max_artifacts (xc_limits cfg)"
    using assms(2) by (auto simp: budget_inv_def within_limits_def left_loop_def split: exec_pc.splits sum.splits)
  moreover have "xs_artifacts st' = xs_artifacts st"
    "produced st' \<le> produced st + (if left_loop (xs_pc st') then 1 else 0)"
    using assms(1,3) by (auto elim!: exec_kind.cases simp: left_loop_def same_work_def produced_def)
  ultimately show ?thesis
    using assms(3) by (cases "xs_pc st'") (auto simp: budget_inv_def left_loop_def)
qed

lemma budget_send_work:
  assumes "send_work_event io ev st = Some (True, st1)" "budget_inv cfg st"
    "xs_pc st = PcStart \<or> (\<exists>e. xs_pc st = PcHandle (Inr e))"
  shows "budget_inv cfg (st1\<lparr>xs_pc := PcLoop\<rparr>)"
proof -
  have "st1 = st\<lparr>xs_sent := xs_sent st @ [ev]\<rparr>" using assms(1) by (auto simp: send_work_event_def split: if_splits)
  with assms(2,3) show ?thesis by (auto simp: budget_inv_def within_limits_def produced_def)
qed

lemma budget_handle:
  assumes "handle_event cfg io ev st = Some st'" "xs_pc st = PcHandle ev" "budget_inv cfg st" "xs_pc st' = PcLoop"
  shows "budget_inv cfg st'"
proof (cases ev)
  case (Inl e)
  with assms(1,4) claim_pc(1)[of False "failure_plan ''SMESH worker failed''" st] show ?thesis
    by (auto simp: handle_event_def)
next
  case (Inr me)
  show ?thesis
  proof (cases me)
    case (Progress t)
    with assms Inr budget_send_work[OF _ assms(3)] show ?thesis
      by (auto simp: handle_event_def leave_with_cancel_def split: option.splits prod.splits bool.splits)
  next
    case (Evidence e)
    with assms Inr show ?thesis
      by (auto simp: handle_event_def budget_inv_def within_limits_def produced_def leave_with_cancel_def split: if_splits)
  next
    case (ArtifactEvent n m c)
    have "\<exists>m a. st' = add_artifact m a st"
      using assms(1,4) Inr ArtifactEvent claim_pc(2)[of st]
      by (auto simp: handle_event_def handle_artifact_def Let_def split: option.splits internal_artifact_payload.splits)
    with assms(2,3) Inr ArtifactEvent show ?thesis
      by (auto simp: add_artifact_def budget_inv_def within_limits_def produced_def)
  next
    case (CompletedEvent t)
    with assms Inr claim_pc(1)[of False "failure_plan ''worker emitted more than one completion proposal''" st]
    show ?thesis
      by (auto simp: handle_event_def budget_inv_def within_limits_def produced_def split: if_splits)
  qed
qed

lemma budget_step:
  assumes "exec_step cfg io st = Some st'" "budget_inv cfg st" "max_events (xc_limits cfg) \<le> 16"
  shows "budget_inv cfg st'"
proof (cases "planning (xs_pc st') \<noteq> None \<or> left_loop (xs_pc st') \<or> xs_pc st' = PcPublishCancel")
  case True
  with budget_terminal_kind[OF exec_step_kind[OF assms(1)] assms(2)] show ?thesis by blast
next
  case False
  note kind = exec_step_kind[OF assms(1)]
  show ?thesis
  proof (cases "xs_pc st")
    case PcStart
    with assms False budget_send_work[OF _ assms(2)] show ?thesis
      by (auto simp: exec_step_def leave_with_cancel_def left_loop_def split: option.splits prod.splits bool.splits)
  next
    case PcLoop
    have "budget_inv cfg (st\<lparr>xs_pc := PcEnded\<rparr>)"
      using assms(2) PcLoop by (simp add: budget_inv_def within_limits_def produced_def)
    with assms PcLoop False budget_observe[OF assms(2) PcLoop assms(3)] show ?thesis
      by (auto simp: exec_step_def select_next_def leave_with_cancel_def left_loop_def
        split: if_splits next_poll.splits)
  next
    case (PcHandle ev)
    have "xs_pc st' = PcLoop"
      using False assms(1) PcHandle
      by (auto dest: claim_leaves simp: exec_step_def handle_event_def handle_artifact_def add_artifact_def Let_def leave_with_cancel_def left_loop_def
        split: sum.splits mesh_event.splits option.splits prod.splits bool.splits if_splits internal_artifact_payload.splits)
    with assms PcHandle budget_handle show ?thesis by (auto simp: exec_step_def)
  qed (use kind False in \<open>auto elim!: exec_kind.cases simp: left_loop_def\<close>)
qed

end
