(* ===== verification/Executor_Guarantees.thy ===== *)
theory Executor_Guarantees
  imports Executor_Runs
begin

text \<open>
  What clients of the executor can rely on, from the invariants of \<open>Executor_Runs\<close>: the shape of
  the event stream, the race of completion and cancellation, the policy behind a completed task,
  the budgets, termination, and that the request guard lets the published events through.
\<close>

section \<open>Shared facts\<close>

lemma work_events_not_final [simp]:
  "\<not> final_event (working_task cfg io)"
  "\<not> final_event (status_update cfg io Working (Some ''SMESH worker reported progress''))"
  by (rule work_not_final, rule work_working_task) (rule work_not_final, rule work_status_update)

lemma reachable_owner: "sys_reachable cfg env s \<Longrightarrow> owner_inv s"
  using sys_inv_reachable by (auto simp: sys_inv_def)

lemma reachable_exec: "sys_reachable cfg env s \<Longrightarrow> exec_inv cfg (sys_exec s)"
  using sys_inv_reachable by (auto simp: sys_inv_def)

lemma cancellation_terminal_state: "cancellation_terminal outcome = (s, r, words) \<Longrightarrow> s = Canceled \<or> s = Failed"
  by (auto simp: cancellation_terminal_def split: cancel_outcome_word.splits)

lemma plan_ok_state: "plan_ok cfg st plan \<Longrightarrow> tp_state plan \<in> {Completed, InputRequired, Failed}"
  by (auto simp: plan_ok_def Let_def)

lemma published_final:
  "published_by_execution cfg st ev \<Longrightarrow> final_event ev" "published_by_cancellation cfg st ev \<Longrightarrow> final_event ev"
  by (auto simp: published_by_execution_def published_by_cancellation_def dest!: plan_ok_state cancellation_terminal_state)

lemma sent_cases:
  assumes "exec_inv cfg st"
  obtains ws fs where "xs_sent st = ws @ fs" "\<forall>e\<in>set ws. work_event cfg e" "\<forall>e\<in>set fs. final_event e" "length fs \<le> 1"
    "fs \<noteq> [] \<Longrightarrow> left_loop (xs_pc st)"
    "\<forall>e\<in>set fs. published_by_execution cfg st e \<or> published_by_cancellation cfg st e"
proof -
  from assms obtain ws fs where ws: "xs_sent st = ws @ fs" "\<forall>e\<in>set ws. work_event cfg e" and
    fs: "fs = [] \<or> left_loop (xs_pc st) \<and>
      (\<exists>ev. fs = [ev] \<and> (published_by_execution cfg st ev \<or> published_by_cancellation cfg st ev))"
    by (auto simp: exec_inv_def sent_ok_def)
  from fs have "\<forall>e\<in>set fs. published_by_execution cfg st e \<or> published_by_cancellation cfg st e" "length fs \<le> 1"
    "fs \<noteq> [] \<Longrightarrow> left_loop (xs_pc st)" by auto
  moreover from this(1) have "\<forall>e\<in>set fs. final_event e" using published_final by blast
  ultimately show thesis using ws that by blast
qed

lemma final_published:
  assumes "exec_inv cfg st" "ev \<in> set (xs_sent st)" "final_event ev"
  shows "published_by_execution cfg st ev \<or> published_by_cancellation cfg st ev"
  using assms(1) by (rule sent_cases) (use assms(2,3) work_not_final in auto)

lemma left_loop_silent:
  assumes "sys_step cfg env s t" "left_loop (xs_pc (sys_exec s))"
  shows "xs_sent (sys_exec t) = xs_sent (sys_exec s)"
  using assms(1)
proof (cases rule: sys_step.cases)
  case (execute io st)
  with assms(2) show ?thesis by (auto simp: exec_step_def left_loop_def)
next
  case (cancel i reply)
  from cancel(2) show ?thesis by (cases rule: cancel_step_cases) simp_all
qed simp

section \<open>Schedules\<close>

text \<open>A schedule is a list of turns; a task that has to wait lets its turn pass.\<close>

datatype turn = Executor exec_io | NewCancel | Canceler nat "(dispatch_error + unit) option"

fun take_turn :: "exec_config \<Rightarrow> turn \<Rightarrow> exec_system \<Rightarrow> exec_system" where
  "take_turn cfg (Executor io) s =
     (case exec_step cfg io (sys_exec s) of Some st \<Rightarrow> s\<lparr>sys_exec := st\<rparr> | None \<Rightarrow> s)"
| "take_turn cfg NewCancel s = s\<lparr>sys_cancels := sys_cancels s @ [CancelStart]\<rparr>"
| "take_turn cfg (Canceler i reply) s =
     (if i < length (sys_cancels s)
      then case cancel_step (xc_task_id cfg) reply i s of Some s' \<Rightarrow> s' | None \<Rightarrow> s else s)"

definition run_schedule :: "exec_config \<Rightarrow> turn list \<Rightarrow> exec_system" where
  "run_schedule cfg turns = fold (take_turn cfg) turns initial_system"

fun turn_allowed :: "(exec_io \<Rightarrow> bool) \<Rightarrow> turn \<Rightarrow> bool" where
  "turn_allowed env (Executor io) = env io"
| "turn_allowed env _ = True"

lemma schedule_reachable:
  assumes "list_all (turn_allowed env) turns"
  shows "sys_reachable cfg env (run_schedule cfg turns)"
proof -
  have "sys_reachable cfg env s \<Longrightarrow> sys_reachable cfg env (fold (take_turn cfg) turns s)" for s
    using assms
  proof (induction turns arbitrary: s)
    case (Cons t turns)
    have "sys_reachable cfg env (take_turn cfg t s)"
      using Cons.prems
      by (cases t) (auto split: option.splits intro: sys_reachable.step[OF Cons.prems(1)] sys_step.intros)
    with Cons show ?case by simp
  qed simp
  then show ?thesis by (simp add: run_schedule_def sys_reachable.start)
qed

lemma run_schedule_executor:
  "run_schedule cfg (map Executor ios) = \<lparr>sys_exec = exec_run cfg ios initial_exec, sys_cancels = []\<rparr>"
proof -
  have "fold (take_turn cfg) (map Executor ios) \<lparr>sys_exec = st, sys_cancels = cs\<rparr> = \<lparr>sys_exec = exec_run cfg ios st, sys_cancels = cs\<rparr>"
    for st cs
    by (induction ios arbitrary: st) (auto split: option.split)
  then show ?thesis by (simp add: run_schedule_def initial_system_def)
qed

section \<open>The event stream\<close>

text \<open>
  C7. A stream consists of the working task and progress updates and carries at most one final
  event; it is the last one and nothing is sent after it, in every interleaving of the execution with
  any number of cancellations.
\<close>

theorem single_final_event:
  assumes "sys_reachable cfg env s"
  shows "\<exists>ws fs. xs_sent (sys_exec s) = ws @ fs \<and> (\<forall>e\<in>set ws. work_event cfg e) \<and> (\<forall>e\<in>set fs. final_event e)
    \<and> length fs \<le> 1
    \<and> (fs \<noteq> [] \<longrightarrow> (\<forall>t. sys_step cfg env s t \<longrightarrow> xs_sent (sys_exec t) = xs_sent (sys_exec s)))"
  using reachable_exec[OF assms]
proof (rule sent_cases)
  fix ws fs
  assume "xs_sent (sys_exec s) = ws @ fs" "\<forall>e\<in>set ws. work_event cfg e" "\<forall>e\<in>set fs. final_event e" "length fs \<le> 1"
    "fs \<noteq> [] \<Longrightarrow> left_loop (xs_pc (sys_exec s))"
  then show ?thesis using left_loop_silent by (intro exI[of _ ws] exI[of _ fs]) blast
qed

text \<open>
  C6. Completion and cancellation exclude each other: at most one cancellation takes the terminal
  word, and once one has, the only final event a client can see is the one of that cancellation,
  with the state and the text of the dispatcher's answer.
\<close>

theorem cancellation_wins_once:
  assumes "sys_reachable cfg env s" "i < length (sys_cancels s)" "winning (sys_cancels s ! i)"
  shows "(\<forall>j<length (sys_cancels s). winning (sys_cancels s ! j) \<longrightarrow> j = i)
    \<and> (\<forall>ev\<in>set (xs_sent (sys_exec s)). final_event ev \<longrightarrow>
         ct_cancel_outcome (xs_control (sys_exec s)) \<noteq> OutcomePending
         \<and> (\<exists>io st r words. cancellation_terminal (ct_cancel_outcome (xs_control (sys_exec s))) = (st, r, words)
              \<and> ev = task_response cfg io st words None None))"
proof -
  note w = winner_unique[OF reachable_owner[OF assms(1)] assms(2,3)]
  have "\<forall>ev\<in>set (xs_sent (sys_exec s)). final_event ev \<longrightarrow> published_by_cancellation cfg (sys_exec s) ev"
    using final_published[OF reachable_exec[OF assms(1)]] w(1) by (auto simp: published_by_execution_def)
  with w(3) show ?thesis by (simp add: published_by_cancellation_def)
qed

section \<open>Completion under policy\<close>

lemma outputs_bound_reachable:
  "sys_reachable cfg env s \<Longrightarrow> list_all2 (output_bound cfg) (xs_manifests (sys_exec s)) (xs_artifacts (sys_exec s))"
proof (induction rule: sys_reachable.induct)
  case start
  then show ?case by (simp add: initial_system_def initial_exec_def)
next
  case (step s t)
  from step.hyps(2) show ?case
  proof (cases rule: sys_step.cases)
    case (execute io st)
    from output_exec_step[OF execute(3)] step.IH show ?thesis
      by cases (auto simp: execute(1) intro: list_all2_appendI)
  next
    case (cancel i reply)
    from cancel(2) step.IH show ?thesis by (cases rule: cancel_step_cases) simp_all
  qed (use step.IH in simp_all)
qed

text \<open>
  C4. A completed task is only published for a proposed completion that the policy accepts on
  exactly the collected evidence and manifests, and never once a cancellation holds the terminal
  word. The task carries the receipt of that decision and the collected artifacts with only their
  description and metadata replaced, and every manifest that was evaluated is bound by its digest to
  the content of the artifact at its position.
\<close>

theorem completed_only_under_policy:
  assumes "sys_reachable cfg env s" "SR_Task t \<in> set (xs_sent (sys_exec s))" "state (status t) = Completed"
  shows "\<exists>receipt md. evaluate (xc_policy_env cfg) (xc_policy cfg) (completion_snapshot_of cfg (sys_exec s)) = Inr (Accepted receipt)
    \<and> xs_proposed (sys_exec s) \<and> list_all (\<lambda>pc. \<not> winning pc) (sys_cancels s)
    \<and> policy_metadata ''accepted'' (receipt_to_value (xc_codec cfg) receipt) = Inr md \<and> metadata t = Some md
    \<and> artifacts t = Some (map (publish_artifact md) (xs_artifacts (sys_exec s)))
    \<and> list_all2 (output_bound cfg) (xs_manifests (sys_exec s)) (xs_artifacts (sys_exec s))"
proof -
  have "final_event (SR_Task t)" using assms(3) by (simp add: final_event_def)
  then have "published_by_execution cfg (sys_exec s) (SR_Task t)"
    using final_published[OF reachable_exec[OF assms(1)] assms(2)] assms(3)
    by (auto simp: published_by_cancellation_def task_response_def dest!: cancellation_terminal_state)
  moreover from this have "ct_terminal (xs_control (sys_exec s)) = TerminalExecution"
    by (simp add: published_by_execution_def)
  then have "list_all (\<lambda>pc. \<not> winning pc) (sys_cancels s)"
    using reachable_owner[OF assms(1)] by (simp add: owner_inv_open list_all_length)
  ultimately show ?thesis
    using outputs_bound_reachable[OF assms(1)] assms(3)
    by (auto simp: published_by_execution_def plan_ok_def Let_def task_response_def)
qed

section \<open>Budgets and termination\<close>

lemma reachable_step_invariant:
  assumes "sys_reachable cfg env s" "P initial_exec"
    "\<And>io st st'. exec_step cfg io st = Some st' \<Longrightarrow> P st \<Longrightarrow> P st'"
    "\<And>st c. P st \<Longrightarrow> P (st\<lparr>xs_control := c\<rparr>)"
  shows "P (sys_exec s)"
  using assms(1)
proof (induction rule: sys_reachable.induct)
  case (step s t)
  from step.hyps(2) show ?case
  proof (cases rule: sys_step.cases)
    case (cancel i reply)
    from cancel(2) step.IH assms(4) show ?thesis by (cases rule: cancel_step_cases) simp_all
  qed (use step.IH assms(3) in auto)
qed (simp add: assms(2) initial_system_def)

lemma limits_clamped: "max_events (fst (with_execution_limits l)) \<le> 16"
  by (simp add: with_execution_limits_def)

lemma budget_control [simp]: "budget_inv cfg (st\<lparr>xs_control := c\<rparr>) = budget_inv cfg st"
  by (cases "xs_pc st") (simp_all add: budget_inv_def within_limits_def produced_def split: sum.split)

lemma budget_reachable:
  assumes "sys_reachable cfg env s" "max_events (xc_limits cfg) \<le> 16"
  shows "budget_inv cfg (sys_exec s)"
  using assms(1)
proof (rule reachable_step_invariant)
  show "budget_inv cfg initial_exec"
    by (simp add: budget_inv_def within_limits_def produced_def initial_exec_def empty_budget_def)
qed (use budget_step assms(2) in auto)


lemma rank_control [simp]: "exec_rank cfg (st\<lparr>xs_control := c\<rparr>) = exec_rank cfg st"
  by (simp add: exec_rank_def)

lemma executor_waits:
  assumes "owner_inv s" "exec_inv cfg (sys_exec s)" "exec_step cfg io (sys_exec s) = None" "xs_pc (sys_exec s) \<noteq> PcDone"
  shows "xs_pc (sys_exec s) = PcLoop \<and> io_next io = NextPending \<and> \<not> io_closed io \<and> \<not> io_deadline io
    \<or> (\<exists>i<length (sys_cancels s). sys_cancels s ! i \<in> {CancelHolding, CancelWaiting})"
proof -
  let ?c = "xs_control (sys_exec s)"
  have "xs_pc (sys_exec s) = PcLoop \<and> io_next io = NextPending \<and> \<not> io_closed io \<and> \<not> io_deadline io
    \<or> ct_emission_locked ?c \<or> xs_pc (sys_exec s) = PcPublishCancel \<and> ct_cancel_outcome ?c = OutcomePending"
    using assms(3,4)
    by (auto simp: exec_step_def select_next_def send_work_event_def handle_event_def publish_cancellation_terminal_def
        split: exec_pc.splits if_splits next_poll.splits option.splits sum.splits mesh_event.splits prod.splits)
  moreover have "\<exists>i<length (sys_cancels s). sys_cancels s ! i \<in> {CancelHolding, CancelWaiting}"
    if "ct_emission_locked ?c \<or> xs_pc (sys_exec s) = PcPublishCancel \<and> ct_cancel_outcome ?c = OutcomePending"
  proof -
    have t: "ct_terminal ?c = TerminalCancel"
      using that assms(1,2) by (auto simp: owner_inv_def exec_inv_def Let_def split: if_splits)
    with assms(1) obtain i where i: "i < length (sys_cancels s)" "winning (sys_cancels s ! i)"
      "control_follows (sys_cancels s ! i) ?c"
      by (auto simp: owner_inv_def Let_def)
    then have "sys_cancels s ! i \<in> {CancelHolding, CancelWaiting}"
      using that by (cases "sys_cancels s ! i") (auto simp: control_follows_def)
    with i show ?thesis by blast
  qed
  ultimately show ?thesis by blast
qed


section \<open>The undisturbed execution\<close>

text \<open>A client that reads, a trace that records, a worker that answers and a deadline that is not reached.\<close>

definition cooperative :: "exec_io \<Rightarrow> bool" where
  "cooperative io \<longleftrightarrow> \<not> io_closed io \<and> \<not> io_deadline io \<and> io_trace_ok io \<and> io_send_ok io \<and> io_next io \<noteq> NextPending"

definition quiet :: "exec_state \<Rightarrow> bool" where
  "quiet st \<longleftrightarrow>
     \<not> ct_cancelled (xs_control st) \<and> \<not> ct_emission_locked (xs_control st) \<and> xs_pc st \<noteq> PcPublishCancel
     \<and> (xs_pc st = PcDone \<longrightarrow> \<not> xs_registered st)
     \<and> (left_loop (xs_pc st) \<longrightarrow> length (filter final_event (xs_sent st)) = 1)
     \<and> (\<not> left_loop (xs_pc st) \<longrightarrow> filter final_event (xs_sent st) = [])
     \<and> (case planning (xs_pc st) of
          Some plan \<Rightarrow> tp_state plan \<noteq> Working
        | None \<Rightarrow> \<not> left_loop (xs_pc st) \<longrightarrow> ct_terminal (xs_control st) = TerminalOpen)"

lemma quiet_claim:
  assumes "quiet st" "planning (xs_pc st) = None" "\<not> left_loop (xs_pc st)"
  shows "tp_state plan \<noteq> Working \<Longrightarrow> quiet (claim_and_plan raced plan st)"
    "quiet (claim_invalid_artifact st)" "xs_proposed st \<Longrightarrow> quiet (finalize_completion cfg st)"
proof -
  have c: "claim_execution (xs_control st) = (True, (xs_control st)\<lparr>ct_terminal := TerminalExecution\<rparr>)"
    using assms by (simp add: quiet_def claim_execution_def)
  show "quiet (claim_and_plan raced plan st)" if "tp_state plan \<noteq> Working"
    using assms that by (simp add: claim_and_plan_def c quiet_def left_loop_def)
  show "quiet (claim_invalid_artifact st)"
    using assms by (simp add: claim_invalid_artifact_def c quiet_def left_loop_def failure_plan_def)
  assume "xs_proposed st"
  from plan_ok_state[OF plan_ok_completion[OF this, of cfg]] show "quiet (finalize_completion cfg st)"
    using assms by (auto simp: finalize_completion_def c quiet_def left_loop_def)
qed

lemma quiet_loop:
  assumes "quiet st" "planning (xs_pc st) = None" "\<not> left_loop (xs_pc st)" "xs_control st' = xs_control st"
    "filter final_event (xs_sent st') = filter final_event (xs_sent st)" "xs_pc st' \<in> {PcLoop, PcEnded} \<union> range PcHandle"
  shows "quiet st'"
  using assms by (auto simp: quiet_def left_loop_def)

lemma quiet_send_work:
  assumes "quiet st" "planning (xs_pc st) = None" "\<not> left_loop (xs_pc st)" "cooperative io"
  shows "send_work_event io ev st = Some (True, st\<lparr>xs_sent := xs_sent st @ [ev]\<rparr>)"
  using assms by (simp add: send_work_event_def quiet_def cooperative_def)

lemma quiet_handle_artifact:
  assumes "quiet st" "xs_pc st = PcHandle ev"
  shows "quiet (handle_artifact cfg io name media content st)"
proof -
  have pc: "planning (xs_pc st) = None" "\<not> left_loop (xs_pc st)" using assms(2) by (simp_all add: left_loop_def)
  have "quiet (add_artifact m a st)" for m a
    using quiet_loop[OF assms(1) pc] by (simp add: add_artifact_def)
  then show ?thesis
    using quiet_claim(2)[OF assms(1) pc]
    by (simp add: handle_artifact_def Let_def split: option.split internal_artifact_payload.split)
qed

lemma quiet_handle:
  assumes "quiet st" "xs_pc st = PcHandle ev" "cooperative io"
  shows "\<exists>st'. handle_event cfg io ev st = Some st' \<and> quiet st'"
proof -
  have pc: "planning (xs_pc st) = None" "\<not> left_loop (xs_pc st)" using assms(2) by (simp_all add: left_loop_def)
  have fail: "quiet (claim_and_plan False (failure_plan w) st)" for w
    by (rule quiet_claim(1)[OF assms(1) pc]) (simp add: failure_plan_def)
  show ?thesis
  proof (cases ev)
    case (Inl e)
    with fail show ?thesis by (simp add: handle_event_def)
  next
    case (Inr me)
    show ?thesis
    proof (cases me)
      case (ArtifactEvent n m c)
      with Inr quiet_handle_artifact[OF assms(1,2)] show ?thesis by (simp add: handle_event_def)
    qed (use Inr fail assms(3) quiet_loop[OF assms(1) pc] quiet_send_work[OF assms(1) pc assms(3)]
        in \<open>auto simp: handle_event_def cooperative_def\<close>)
  qed
qed

lemma quiet_observe: "quiet st \<Longrightarrow> xs_pc st = PcLoop \<Longrightarrow> quiet (observe_event cfg ev st)"
  by (rule quiet_loop[of st]) (auto simp: observe_event_def left_loop_def split: sum.splits prod.splits)

lemma quiet_step:
  assumes "quiet st" "cooperative io" "xs_pc st \<noteq> PcDone"
  shows "\<exists>st'. exec_step cfg io st = Some st' \<and> quiet st'"
proof (cases "xs_pc st")
  case PcStart
  then have pc: "planning (xs_pc st) = None" "\<not> left_loop (xs_pc st)" by (simp_all add: left_loop_def)
  show ?thesis
    using PcStart quiet_send_work[OF assms(1) pc assms(2)] quiet_loop[OF assms(1) pc] by (simp add: exec_step_def)
next
  case PcLoop
  then have pc: "planning (xs_pc st) = None" "\<not> left_loop (xs_pc st)" by (simp_all add: left_loop_def)
  have "quiet (st\<lparr>xs_pc := PcEnded\<rparr>)" using quiet_loop[OF assms(1) pc] by simp
  with PcLoop assms quiet_observe[OF assms(1) PcLoop] show ?thesis
    by (auto simp: exec_step_def select_next_def cooperative_def quiet_def[of st] split: next_poll.splits)
next
  case (PcHandle ev)
  with quiet_handle[OF assms(1) PcHandle assms(2)] show ?thesis by (simp add: exec_step_def)
next
  case PcEnded
  then have pc: "planning (xs_pc st) = None" "\<not> left_loop (xs_pc st)" by (simp_all add: left_loop_def)
  have "quiet (claim_and_plan False (failure_plan w) st)" for w
    by (rule quiet_claim(1)[OF assms(1) pc]) (simp add: failure_plan_def)
  with PcEnded assms quiet_claim(3)[OF assms(1) pc] show ?thesis
    by (auto simp: exec_step_def finish_stream_def cooperative_def quiet_def[of st])
next
  case (PcSend raced plan)
  with assms have "xs_pc (send_terminal cfg io plan st) = PcCleanup" "quiet (send_terminal cfg io plan st)"
    by (auto simp: send_terminal_def request_dispatcher_cancel_def quiet_def cooperative_def left_loop_def)
  with PcSend assms show ?thesis by (auto simp: exec_step_def preempted_def cooperative_def quiet_def[of st])
qed (use assms in \<open>auto simp: exec_step_def preempted_def cooperative_def quiet_def left_loop_def record_terminal_def\<close>)

lemma exec_run_done: "xs_pc st = PcDone \<Longrightarrow> exec_run cfg ios st = st"
  by (induction ios) (simp_all add: exec_step_def)

lemma quiet_run:
  assumes "quiet st" "\<forall>io\<in>set ios. cooperative io" "max_events (xc_limits cfg) \<le> 16" "exec_rank cfg st \<le> length ios"
  shows "xs_pc (exec_run cfg ios st) = PcDone \<and> quiet (exec_run cfg ios st)"
  using assms
proof (induction ios arbitrary: st)
  case Nil
  then have "xs_pc st = PcDone" by (cases "xs_pc st") (auto simp: exec_rank_def pc_rank_def split: sum.splits if_splits)
  with Nil show ?case by simp
next
  case (Cons io ios)
  show ?case
  proof (cases "xs_pc st = PcDone")
    case True
    with Cons.prems(1) exec_run_done[OF True, of cfg "io # ios"] show ?thesis by simp
  next
    case False
    with quiet_step[of st io cfg] Cons.prems obtain st' where st': "exec_step cfg io st = Some st'" "quiet st'" by auto
    with Cons.IH[OF st'(2)] Cons.prems rank_step[OF st'(1)] show ?thesis by simp
  qed
qed

text \<open>
  C9. An execution nobody disturbs is answered: after at most 44 steps with a cooperating
  environment and whatever worker, the executor has ended, has removed itself from the table of
  cancellations, and the client has received exactly one final event.
\<close>

theorem undisturbed_execution_answers:
  assumes "xc_limits cfg = fst (with_execution_limits l)" "\<forall>io\<in>set ios. cooperative io" "44 \<le> length ios"
  shows "xs_pc (exec_run cfg ios initial_exec) = PcDone \<and> \<not> xs_registered (exec_run cfg ios initial_exec)
    \<and> length (filter final_event (xs_sent (exec_run cfg ios initial_exec))) = 1"
proof -
  have m: "max_events (xc_limits cfg) \<le> 16" using assms(1) limits_clamped by simp
  have "quiet initial_exec" by (simp add: quiet_def initial_exec_def new_control_def left_loop_def)
  moreover have "exec_rank cfg initial_exec \<le> length ios"
    using m assms(3) by (simp add: exec_rank_def pc_rank_def initial_exec_def)
  ultimately show ?thesis
    using quiet_run[OF _ assms(2) m, of initial_exec] by (auto simp: quiet_def left_loop_def)
qed

section \<open>A cancellation without an answer\<close>

lemmas schedule_eval = exec_step_def select_next_def observe_event_def handle_event_def send_work_event_def
  claim_and_plan_def claim_execution_def claim_cancel_def leave_with_cancel_def request_dispatcher_cancel_def
  cancel_step_def set_cancel_def set_control_def dispatcher_outcome_def initial_system_def initial_exec_def new_control_def
  publish_cancellation_terminal_def Let_def

text \<open>
  C11. The race of a cancellation that holds the terminal word but has not yet set its token with an
  executor that is about to claim the word ends the stream without a final event, although client,
  trace and worker cooperate: the executor leaves because the word is taken, and nobody publishes
  the outcome the cancellation stores afterwards. Every configuration has such a run.
\<close>

theorem cancellation_may_be_unanswered:
  "\<exists>s. sys_reachable cfg cooperative s \<and> xs_pc (sys_exec s) = PcDone \<and> sys_cancels s = [CancelDone]
    \<and> ct_cancel_outcome (xs_control (sys_exec s)) = OutcomeCanceled
    \<and> filter final_event (xs_sent (sys_exec s)) = []"
proof -
  define io where "io = \<lparr>io_closed = False, io_deadline = False, io_next = NextIdle, io_trace_ok = True, io_send_ok = True,
    io_now = 0, io_message_id = [], io_artifact_id = []\<rparr>"
  define s where "s = run_schedule cfg
    ([Executor io, NewCancel, Canceler 0 None, Canceler 0 None] @ replicate 3 (Executor io) @ replicate 3 (Canceler 0 (Some (Inr ()))))"
  have "sys_reachable cfg cooperative s"
    unfolding s_def by (rule schedule_reachable) (simp add: io_def cooperative_def list_all_iff)
  moreover have "xs_pc (sys_exec s) = PcDone \<and> sys_cancels s = [CancelDone]
    \<and> ct_cancel_outcome (xs_control (sys_exec s)) = OutcomeCanceled \<and> filter final_event (xs_sent (sys_exec s)) = []"
    by (simp add: s_def run_schedule_def io_def schedule_eval numeral_eq_Suc)
  ultimately show ?thesis by blast
qed

section \<open>The executor behind the guard\<close>

lemma policy_metadata_Inr:
  "policy_metadata st v = Inr md \<longleftrightarrow> (\<exists>r. v = Inr r \<and> md = [(''smesh.completionPolicy'', JObject [(''record'', r), (''status'', JString st)])])"
  by (auto simp: policy_metadata_def split: sum.splits)

lemma policy_record_published:
  assumes "policy_metadata st v = Inr md" "metadata t = Some md"
  shows "\<exists>r. v = Inr r \<and> policy_record st t = Some r \<and> status_is st' (the (completion_metadata t)) = (st' = st)
    \<and> completion_metadata t \<noteq> None"
  using assms by (auto simp: policy_metadata_Inr policy_record_def completion_metadata_def status_is_def)

lemma work_event_passes: "work_event cfg ev \<Longrightarrow> validate_stream_item E G pol (Inr ev) = Inr ev"
  by (auto simp: work_event_def validate_stream_item_def working_task_def status_update_def validate_task_with_policy_def
      validate_task_with_policy_projection_def validate_open_task_def completion_metadata_def ensure_def)

lemma open_task_passes:
  assumes "artifacts t = None" "state (status t) \<noteq> Completed" "state (status t) \<noteq> InputRequired"
    "metadata t = None \<or> state (status t) = Failed \<and> (\<exists>md v. metadata t = Some md \<and> policy_metadata ''blocked'' v = Inr md)"
  shows "validate_stream_item E G pol (Inr (SR_Task t)) = Inr (SR_Task t)"
  using assms
  by (auto simp: validate_stream_item_def validate_task_with_policy_def validate_task_with_policy_projection_def
      validate_open_task_def completion_metadata_def ensure_def policy_metadata_Inr status_is_def)

definition text_output :: "artifact \<Rightarrow> bool" where
  "text_output a \<longleftrightarrow> (case artifact_parts a of [p] \<Rightarrow> (case part_content p of Text _ \<Rightarrow> True | _ \<Rightarrow> False) | _ \<Rightarrow> False)"

lemma publish_manifest [simp]: "manifest_of_artifact E (publish_artifact md a) = manifest_of_artifact E a"
  by (simp add: manifest_of_artifact_def publish_artifact_def)

lemma text_manifests:
  assumes "list_all2 (output_bound cfg) ms as" "list_all text_output as" "list_all (\<lambda>m. am_media_type m \<noteq> manifest_media) ms"
  shows "collect_res (manifest_of_artifact (xc_policy_env cfg)) (map (publish_artifact md) as) = Inr ms"
  using assms
proof (induction rule: list_all2_induct)
  case (Cons m ms a as)
  then have "manifest_of_artifact (xc_policy_env cfg) a = Inr m"
    by (auto simp: output_bound_def text_output_def)
  with Cons show ?case by (simp add: result_simps)
qed simp

lemma policy_outcome_passes:
  assumes sizes: "\<And>m. length (sha256 (xc_policy_env cfg) m) = 32" "\<And>k m. length (hmac_sha256 (xc_policy_env cfg) k m) = 32"
    and checkpoints: "\<And>c v. checkpoint_to_value (xc_codec cfg) c = Inr v \<Longrightarrow> checkpoint_from_value (xc_codec cfg) v = Some c"
    and dec: "evaluate (xc_policy_env cfg) (xc_policy cfg) (completion_snapshot_of cfg st) = Inr (AwaitingRatification c)"
    and md: "policy_metadata ''awaitingRatification'' (checkpoint_to_value (xc_codec cfg) c) = Inr md"
  shows "validate_stream_item (xc_policy_env cfg) (xc_codec cfg) (xc_policy cfg)
      (Inr (task_response cfg io InputRequired words None (Some md))) = Inr (task_response cfg io InputRequired words None (Some md))"
  using decision_verifies[OF sizes dec] checkpoints md
  by (auto simp: validate_stream_item_def task_response_def validate_task_with_policy_def validate_task_with_policy_projection_def
      validate_open_task_def policy_record_def completion_metadata_def status_is_def policy_metadata_Inr
      completion_snapshot_of_def ensure_def ok_or_def result_simps)

lemma completed_task_passes:
  assumes sizes: "\<And>m. length (sha256 (xc_policy_env cfg) m) = 32" "\<And>k m. length (hmac_sha256 (xc_policy_env cfg) k m) = 32"
    and receipts: "\<And>r v. receipt_to_value (xc_codec cfg) r = Inr v \<Longrightarrow> receipt_from_value (xc_codec cfg) v = Some r"
    and dec: "evaluate (xc_policy_env cfg) (xc_policy cfg) (completion_snapshot_of cfg st) = Inr (Accepted r)"
    and md: "policy_metadata ''accepted'' (receipt_to_value (xc_codec cfg) r) = Inr md"
    and ms: "collect_res (manifest_of_artifact (xc_policy_env cfg)) as = Inr (xs_manifests st)"
  shows "validate_stream_item (xc_policy_env cfg) (xc_codec cfg) (xc_policy cfg)
      (Inr (task_response cfg io Completed words (Some as) (Some md))) = Inr (task_response cfg io Completed words (Some as) (Some md))"
proof -
  have "artifact_set_digest (xc_policy_env cfg) (xs_manifests st) = Inr (cr_artifact_set_digest r)"
    using accepted_artifact_digest[OF dec] by (simp add: completion_snapshot_of_def)
  with decision_verifies[OF sizes dec] receipts md ms show ?thesis
    by (auto simp: validate_stream_item_def task_response_def validate_task_with_policy_def validate_task_with_policy_projection_def
        validate_completed_task_def policy_record_def completion_metadata_def status_is_def policy_metadata_Inr
        completion_snapshot_of_def ensure_def ok_or_def map_err_def verify_receipt_def)
qed

text \<open>
  C5. The guard in front of the executor is transparent for text outputs: when the worker produced
  text artifacts, every event the executor sends, in every interleaving, passes the validation of the
  guard unchanged. Receipts and checkpoints are assumed to survive their JSON encoding, SHA-256 and
  HMAC-SHA-256 to give 32 bytes.
\<close>

theorem executor_events_pass_guard:
  assumes "sys_reachable cfg env s" "ev \<in> set (xs_sent (sys_exec s))"
    and "\<And>m. length (sha256 (xc_policy_env cfg) m) = 32" "\<And>k m. length (hmac_sha256 (xc_policy_env cfg) k m) = 32"
    and "\<And>r v. receipt_to_value (xc_codec cfg) r = Inr v \<Longrightarrow> receipt_from_value (xc_codec cfg) v = Some r"
    and "\<And>c v. checkpoint_to_value (xc_codec cfg) c = Inr v \<Longrightarrow> checkpoint_from_value (xc_codec cfg) v = Some c"
    and "list_all text_output (xs_artifacts (sys_exec s))"
    and "list_all (\<lambda>m. am_media_type m \<noteq> manifest_media) (xs_manifests (sys_exec s))"
  shows "validate_stream_item (xc_policy_env cfg) (xc_codec cfg) (xc_policy cfg) (Inr ev) = Inr ev"
proof (cases "final_event ev")
  case False
  with reachable_exec[OF assms(1)] assms(2) have "work_event cfg ev" by (elim sent_cases) auto
  then show ?thesis by (rule work_event_passes)
next
  case True
  with final_published[OF reachable_exec[OF assms(1)] assms(2)] consider
    (canceled) io st r words where "cancellation_terminal (ct_cancel_outcome (xs_control (sys_exec s))) = (st, r, words)"
      "ev = task_response cfg io st words None None"
  | (planned) io plan where "plan_ok cfg (sys_exec s) plan"
      "ev = task_response cfg io (tp_state plan) (tp_text plan) (tp_artifacts plan) (tp_metadata plan)"
    by (auto simp: published_by_execution_def published_by_cancellation_def)
  then show ?thesis
  proof cases
    case canceled
    with cancellation_terminal_state[OF canceled(1)] show ?thesis
      by (auto simp: task_response_def intro!: open_task_passes)
  next
    case planned
    have ms: "collect_res (manifest_of_artifact (xc_policy_env cfg)) (map (publish_artifact md) (xs_artifacts (sys_exec s)))
        = Inr (xs_manifests (sys_exec s))" for md
      by (rule text_manifests[OF outputs_bound_reachable[OF assms(1)] assms(7,8)])
    show ?thesis
      using planned completed_task_passes[OF assms(3,4,5) _ _ ms] policy_outcome_passes[OF assms(3,4,6)]
      by (auto simp: plan_ok_def Let_def) (auto simp: task_response_def intro!: open_task_passes)
  qed
qed

section \<open>The loopback worker end to end\<close>

text \<open>Each event is taken by the loop in one step and handled in the next; then the worker's stream ends.\<close>

fun event_feed :: "exec_io \<Rightarrow> mesh_event list \<Rightarrow> exec_io list" where
  "event_feed io [] = []"
| "event_feed io (e # es) = io\<lparr>io_next := NextItem (Inr e)\<rparr> # io # event_feed io es"

definition worker_feed :: "exec_io \<Rightarrow> mesh_event list \<Rightarrow> exec_io list" where
  "worker_feed io es = io # event_feed io es @ replicate 5 (io\<lparr>io_next := NextEnd\<rparr>)"

lemma exec_run_append: "exec_run cfg (xs @ ys) st = exec_run cfg ys (exec_run cfg xs st)"
  by (induction xs arbitrary: st) simp_all

definition spent :: "nat \<Rightarrow> event_budget \<Rightarrow> bool" where
  "spent n b \<longleftrightarrow> eb_events b = n \<and> eb_artifacts b \<le> n \<and> eb_output_bytes b \<le> n * 100000"

lemma observe_within:
  assumes "event_to_vec M ev = Inr bytes" "length bytes \<le> 100000" "spent n b" "n < 10"
  shows "\<exists>b'. observe M default_execution_limits ev b = (Inr (), b') \<and> spent (Suc n) b'"
proof -
  have "n * 100000 \<le> 9 * 100000" using assms(4) by (intro mult_right_mono) simp_all
  with assms show ?thesis
    by (auto simp: observe_def spent_def default_execution_limits_def Let_def sat_add_def usize_max_def)
qed

lemma feed_event:
  assumes "xs_pc st = PcLoop" "\<not> ct_cancelled (xs_control st)" "cooperative io" "xc_limits cfg = default_execution_limits"
    "\<And>e. \<exists>b. event_to_vec (xc_mesh_env cfg) e = Inr b \<and> length b \<le> 100000" "spent n (xs_budget st)" "n < 10"
  shows "\<exists>b. spent (Suc n) b \<and> exec_run cfg [io\<lparr>io_next := NextItem (Inr e)\<rparr>, io] st =
    (let st1 = st\<lparr>xs_budget := b, xs_pc := PcHandle (Inr e)\<rparr>
     in case handle_event cfg io (Inr e) st1 of Some st' \<Rightarrow> st' | None \<Rightarrow> st1)"
proof -
  from assms(5)[of e] obtain bytes where "event_to_vec (xc_mesh_env cfg) e = Inr bytes" "length bytes \<le> 100000" by blast
  from observe_within[OF this assms(6,7)] obtain b where
    b: "observe (xc_mesh_env cfg) default_execution_limits e (xs_budget st) = (Inr (), b)" "spent (Suc n) b" by blast
  have "exec_step cfg (io\<lparr>io_next := NextItem (Inr e)\<rparr>) st = Some (st\<lparr>xs_budget := b, xs_pc := PcHandle (Inr e)\<rparr>)"
    using assms(1-4) b(1) by (simp add: exec_step_def select_next_def observe_event_def cooperative_def)
  with b(2) show ?thesis by (intro exI[of _ b]) (simp add: exec_step_def Let_def)
qed

text \<open>The states of the loop while the loopback worker is heard.\<close>

definition hearing :: "nat \<Rightarrow> exec_state \<Rightarrow> bool" where
  "hearing n st \<longleftrightarrow> xs_pc st = PcLoop \<and> xs_control st = new_control \<and> spent n (xs_budget st)"

lemma new_control_open [simp]:
  "\<not> ct_cancelled new_control" "\<not> ct_emission_locked new_control" "ct_terminal new_control = TerminalOpen"
  "ct_cancel_outcome new_control = OutcomePending"
  by (simp_all add: new_control_def)

definition absorb :: "exec_config \<Rightarrow> exec_io \<Rightarrow> mesh_event \<Rightarrow> exec_state \<Rightarrow> exec_state" where
  "absorb cfg io e st =
     (case e of
        Progress _ \<Rightarrow> st\<lparr>xs_sent := xs_sent st @ [status_update cfg io Working (Some ''SMESH worker reported progress'')]\<rparr>
      | Evidence x \<Rightarrow> st\<lparr>xs_evidence := xs_evidence st @ [x],
          xs_trace := xs_trace st @ (if xc_trace cfg then [TraceEvidence x] else [])\<rparr>
      | ArtifactEvent n m c \<Rightarrow>
          st\<lparr>xs_manifests := xs_manifests st @ [\<lparr>am_name = n, am_media_type = m, am_digest = content_digest (xc_policy_env cfg) (ascii c)\<rparr>],
             xs_artifacts := xs_artifacts st @ [candidate_artifact io n (with_media_type (part_text c) m)]\<rparr>
      | CompletedEvent _ \<Rightarrow> st\<lparr>xs_proposed := True\<rparr>)"

fun plain_event :: "exec_config \<Rightarrow> mesh_event \<Rightarrow> bool" where
  "plain_event cfg (ArtifactEvent n m c) \<longleftrightarrow> internal_artifact_payload (xc_mesh_env cfg) c = None"
| "plain_event cfg _ \<longleftrightarrow> True"

lemma absorb_budget [simp]: "absorb cfg io e (st\<lparr>xs_budget := b\<rparr>) = (absorb cfg io e st)\<lparr>xs_budget := b\<rparr>"
  "xs_pc (absorb cfg io e st) = xs_pc st" "xs_control (absorb cfg io e st) = xs_control st"
  by (cases e; simp add: absorb_def)+

lemma hear_event:
  assumes "hearing n st" "n < 10" "cooperative io" "xc_limits cfg = default_execution_limits"
    "\<And>e. \<exists>b. event_to_vec (xc_mesh_env cfg) e = Inr b \<and> length b \<le> 100000"
    "plain_event cfg e" "\<not> xs_proposed st"
  shows "\<exists>b. spent (Suc n) b \<and> exec_run cfg [io\<lparr>io_next := NextItem (Inr e)\<rparr>, io] st = (absorb cfg io e st)\<lparr>xs_budget := b\<rparr>"
proof -
  have "\<exists>b. spent (Suc n) b \<and> exec_run cfg [io\<lparr>io_next := NextItem (Inr e)\<rparr>, io] st =
    (let st1 = st\<lparr>xs_budget := b, xs_pc := PcHandle (Inr e)\<rparr>
     in case handle_event cfg io (Inr e) st1 of Some st' \<Rightarrow> st' | None \<Rightarrow> st1)"
    by (rule feed_event) (use assms in \<open>simp_all add: hearing_def\<close>)
  then obtain b where b: "spent (Suc n) b" and run: "exec_run cfg [io\<lparr>io_next := NextItem (Inr e)\<rparr>, io] st =
    (let st1 = st\<lparr>xs_budget := b, xs_pc := PcHandle (Inr e)\<rparr>
     in case handle_event cfg io (Inr e) st1 of Some st' \<Rightarrow> st' | None \<Rightarrow> st1)" by blast
  have "handle_event cfg io (Inr e) (st\<lparr>xs_budget := b, xs_pc := PcHandle (Inr e)\<rparr>) = Some ((absorb cfg io e st)\<lparr>xs_budget := b\<rparr>)"
    using assms(1,3,6,7)
    by (cases e) (auto simp: handle_event_def absorb_def hearing_def cooperative_def send_work_event_def handle_artifact_def
        add_artifact_def Let_def)
  with b run show ?thesis by (intro exI[of _ b]) (simp del: exec_run.simps)
qed

lemma hear_events:
  assumes "hearing n st" "n + length es \<le> 10" "cooperative io" "xc_limits cfg = default_execution_limits"
    "\<And>e. \<exists>b. event_to_vec (xc_mesh_env cfg) e = Inr b \<and> length b \<le> 100000"
    "list_all (plain_event cfg) es" "\<not> xs_proposed st" "\<forall>t. CompletedEvent t \<notin> set (butlast es)"
  shows "\<exists>b. spent (n + length es) b \<and> exec_run cfg (event_feed io es) st = (fold (absorb cfg io) es st)\<lparr>xs_budget := b\<rparr>"
  using assms(1,2,6-8)
proof (induction es arbitrary: n st)
  case Nil
  then show ?case by (intro exI[of _ "xs_budget st"]) (simp add: hearing_def)
next
  case (Cons e es)
  have "\<exists>b. spent (Suc n) b \<and> exec_run cfg [io\<lparr>io_next := NextItem (Inr e)\<rparr>, io] st = (absorb cfg io e st)\<lparr>xs_budget := b\<rparr>"
    by (rule hear_event) (use Cons.prems assms(3-5) in simp_all)
  then obtain b where b: "spent (Suc n) b"
    "exec_run cfg [io\<lparr>io_next := NextItem (Inr e)\<rparr>, io] st = (absorb cfg io e st)\<lparr>xs_budget := b\<rparr>" by blast
  let ?st = "(absorb cfg io e st)\<lparr>xs_budget := b\<rparr>"
  have split: "exec_run cfg (event_feed io (e # es)) st = exec_run cfg (event_feed io es) ?st"
    using exec_run_append[of cfg "[io\<lparr>io_next := NextItem (Inr e)\<rparr>, io]" "event_feed io es" st] b(2) by simp
  show ?case
  proof (cases es)
    case Nil
    with split b(1) show ?thesis by (intro exI[of _ b]) simp
  next
    case (Cons e' es')
    have "\<not> xs_proposed ?st" "\<forall>t. CompletedEvent t \<notin> set (butlast es)"
      using Cons Cons.prems(4,5) by (cases e; auto simp: absorb_def)+
    with Cons.IH[of "Suc n" ?st] Cons.prems b(1) have
      "\<exists>b'. spent (Suc n + length es) b' \<and> exec_run cfg (event_feed io es) ?st = (fold (absorb cfg io) es ?st)\<lparr>xs_budget := b'\<rparr>"
      by (simp add: hearing_def)
    moreover have "(fold (absorb cfg io) es (x\<lparr>xs_budget := b\<rparr>))\<lparr>xs_budget := b'\<rparr> = (fold (absorb cfg io) es x)\<lparr>xs_budget := b'\<rparr>" for es x b b'
      by (induction es arbitrary: x) simp_all
    ultimately show ?thesis using split by simp
  qed
qed

lemma finish_run:
  assumes "xs_pc st = PcLoop" "xs_control st = new_control" "xs_proposed st" "cooperative io" "io_next io = NextEnd"
    "completion_plan cfg st (evaluate (xc_policy_env cfg) (xc_policy cfg) (completion_snapshot_of cfg st)) = plan"
  shows "xs_pc (exec_run cfg (replicate 5 io) st) = PcDone
    \<and> xs_sent (exec_run cfg (replicate 5 io) st)
        = xs_sent st @ [task_response cfg io (tp_state plan) (tp_text plan) (tp_artifacts plan) (tp_metadata plan)]
    \<and> xs_artifacts (exec_run cfg (replicate 5 io) st) = xs_artifacts st
    \<and> xs_manifests (exec_run cfg (replicate 5 io) st) = xs_manifests st"
proof -
  have f: "finalize_completion cfg (st\<lparr>xs_pc := PcEnded\<rparr>)
      = st\<lparr>xs_control := new_control\<lparr>ct_terminal := TerminalExecution\<rparr>, xs_pc := PcTrace True plan\<rparr>"
    using assms(2,6) by (simp add: finalize_completion_def claim_execution_def completion_plan_def completion_snapshot_of_def
        cong: sum.case_cong policy_decision.case_cong)
  have steps: "replicate 5 io = [io, io, io, io, io]" by (simp add: numeral_eq_Suc)
  show ?thesis
    using assms(1-5) f unfolding steps
    by (simp add: exec_step_def select_next_def finish_stream_def preempted_def record_terminal_def send_terminal_def
        request_dispatcher_cancel_def cooperative_def)
qed

lemma loopback_run:
  assumes "\<And>m. length (sha256 (xc_policy_env cfg) m) = 32" and "\<And>j. \<exists>b. json_to_vec (xc_policy_env cfg) j = Inr b"
    and "distinct [sha256 (xc_policy_env cfg) review_fixture, sha256 (xc_policy_env cfg) test_fixture,
      sha256 (xc_policy_env cfg) clearance_fixture]"
    and "new_with_receipt_key (xc_policy_env cfg) development key = Inr (xc_policy cfg)"
    and "validate_text ''taskId'' (xc_task_id cfg) = Inr ()" "validate_text ''contextId'' (xc_context_id cfg) = Inr ()"
    and "valid_digest (xc_request_digest cfg)" "mr_task_id r = xc_task_id cfg" "mr_context_id r = xc_context_id cfg"
    and "xc_limits cfg = default_execution_limits" "cooperative io"
    and "\<And>e. \<exists>b. event_to_vec (xc_mesh_env cfg) e = Inr b \<and> length b \<le> 100000"
    and "\<And>kvs. \<exists>rest. json_to_string (xc_mesh_env cfg) (JObject kvs) = CHR ''{'' # rest"
    and "\<And>receipt. \<exists>v. receipt_to_value (xc_codec cfg) receipt = Inr v"
  shows "\<exists>es receipt md. loopback_dispatch (xc_policy_env cfg) (xc_mesh_env cfg) se r = map Inr es
    \<and> policy_metadata ''accepted'' (receipt_to_value (xc_codec cfg) receipt) = Inr md
    \<and> xs_pc (exec_run cfg (worker_feed io es) initial_exec) = PcDone
    \<and> xs_sent (exec_run cfg (worker_feed io es) initial_exec) =
       [working_task cfg io, status_update cfg io Working (Some ''SMESH worker reported progress''),
        task_response cfg (io\<lparr>io_next := NextEnd\<rparr>) Completed ''SMESH task completed under completion policy''
          (Some [publish_artifact md (candidate_artifact io ''smesh-result.json''
             (with_media_type (part_text (loopback_content (xc_mesh_env cfg) r)) ''application/json''))]) (Some md)]
    \<and> xs_artifacts (exec_run cfg (worker_feed io es) initial_exec) = [candidate_artifact io ''smesh-result.json''
         (with_media_type (part_text (loopback_content (xc_mesh_env cfg) r)) ''application/json'')]
    \<and> xs_manifests (exec_run cfg (worker_feed io es) initial_exec) = [loopback_manifest (xc_policy_env cfg) (xc_mesh_env cfg) r]"
proof -
  let ?E = "xc_policy_env cfg" and ?M = "xc_mesh_env cfg" and ?final = "io\<lparr>io_next := NextEnd\<rparr>"
  from loopback_accepted[OF assms(1-4), of r "xc_request_digest cfg" ?M se] assms(5-9) obtain subject receipt where
    d: "loopback_dispatch ?E ?M se r =
      [Inr (Progress ''task claimed by the loopback SMESH worker'')]
      @ map (\<lambda>e. Inr (Evidence e)) (loopback_evidence ?E subject)
      @ [Inr (ArtifactEvent ''smesh-result.json'' ''application/json'' (loopback_content ?M r)),
         Inr (CompletedEvent ''SMESH swarm completed the task'')]"
    and ev: "evaluate ?E (xc_policy cfg) \<lparr>sn_task_id = xc_task_id cfg, sn_context_id = xc_context_id cfg,
       sn_request_digest = xc_request_digest cfg, sn_artifacts = [loopback_manifest ?E ?M r],
       sn_evidence = loopback_evidence ?E subject\<rparr> = Inr (Accepted receipt)"
    by auto
  define es where "es = [Progress ''task claimed by the loopback SMESH worker''] @ map Evidence (loopback_evidence ?E subject)
      @ [ArtifactEvent ''smesh-result.json'' ''application/json'' (loopback_content ?M r), CompletedEvent ''SMESH swarm completed the task'']"
  obtain v where v: "receipt_to_value (xc_codec cfg) receipt = Inr v" using assms(14) by blast
  define md where "md = [(''smesh.completionPolicy'', JObject [(''record'', v), (''status'', JString ''accepted'')])]"
  have md: "policy_metadata ''accepted'' (receipt_to_value (xc_codec cfg) receipt) = Inr md"
    by (simp add: policy_metadata_def v md_def)
  define st0 where "st0 = initial_exec\<lparr>xs_sent := [working_task cfg io], xs_pc := PcLoop\<rparr>"
  have start: "exec_step cfg io initial_exec = Some st0"
    using assms(11) by (simp add: exec_step_def initial_exec_def send_work_event_def cooperative_def st0_def)
  have "internal_artifact_payload ?M (loopback_content ?M r) = None"
  proof -
    obtain rest where "loopback_content ?M r = CHR ''{'' # rest" using assms(13) by (auto simp: loopback_content_def)
    then show ?thesis by (simp add: internal_artifact_payload_def internal_artifact_prefix_def)
  qed
  then have "\<exists>b. spent (0 + length es) b \<and> exec_run cfg (event_feed io es) st0 = (fold (absorb cfg io) es st0)\<lparr>xs_budget := b\<rparr>"
    by (intro hear_events) (use assms(10-12) in \<open>auto simp: es_def loopback_evidence_def st0_def initial_exec_def hearing_def
      spent_def empty_budget_def\<close>)
  then obtain b where b: "exec_run cfg (event_feed io es) st0 = (fold (absorb cfg io) es st0)\<lparr>xs_budget := b\<rparr>" by blast
  define st1 where "st1 = (fold (absorb cfg io) es st0)\<lparr>xs_budget := b\<rparr>"
  have st1: "xs_pc st1 = PcLoop" "xs_control st1 = new_control" "xs_proposed st1"
    "xs_sent st1 = [working_task cfg io, status_update cfg io Working (Some ''SMESH worker reported progress'')]"
    "xs_artifacts st1 = [candidate_artifact io ''smesh-result.json''
       (with_media_type (part_text (loopback_content ?M r)) ''application/json'')]"
    "xs_manifests st1 = [loopback_manifest ?E ?M r]"
    "completion_snapshot_of cfg st1 = \<lparr>sn_task_id = xc_task_id cfg, sn_context_id = xc_context_id cfg,
       sn_request_digest = xc_request_digest cfg, sn_artifacts = [loopback_manifest ?E ?M r],
       sn_evidence = loopback_evidence ?E subject\<rparr>"
    by (simp_all add: st1_def es_def loopback_evidence_def absorb_def st0_def initial_exec_def completion_snapshot_of_def
        loopback_manifest_def)
  have "exec_run cfg (worker_feed io es) initial_exec = exec_run cfg (replicate 5 ?final) st1"
    using start b by (simp add: worker_feed_def exec_run_append st1_def)
  moreover have "cooperative ?final" using assms(11) by (simp add: cooperative_def)
  ultimately show ?thesis
    using finish_run[OF st1(1-3), of ?final cfg] ev md d
    by (intro exI[of _ es] exI[of _ receipt] exI[of _ md])
      (simp add: st1(4-7) completion_plan_def es_def loopback_evidence_def)
qed

text \<open>
  A request that reaches the loopback worker is completed: the executor sends the working task,
  one progress update and then the completed task with the receipt of the development policy and the
  one artifact of the worker, and ends. The hash is assumed to give 32 bytes and to separate the three
  fixed fixtures, the encoders to be total, JSON objects to start with a brace, and the six events to
  be below 100000 bytes each.
\<close>

theorem loopback_request_completes:
  assumes "\<And>m. length (sha256 (xc_policy_env cfg) m) = 32" and "\<And>j. \<exists>b. json_to_vec (xc_policy_env cfg) j = Inr b"
    and "distinct [sha256 (xc_policy_env cfg) review_fixture, sha256 (xc_policy_env cfg) test_fixture,
      sha256 (xc_policy_env cfg) clearance_fixture]"
    and "new_with_receipt_key (xc_policy_env cfg) development key = Inr (xc_policy cfg)"
    and "validate_text ''taskId'' (xc_task_id cfg) = Inr ()" "validate_text ''contextId'' (xc_context_id cfg) = Inr ()"
    and "valid_digest (xc_request_digest cfg)" "mr_task_id r = xc_task_id cfg" "mr_context_id r = xc_context_id cfg"
    and "xc_limits cfg = default_execution_limits" "cooperative io"
    and "\<And>e. \<exists>b. event_to_vec (xc_mesh_env cfg) e = Inr b \<and> length b \<le> 100000"
    and "\<And>kvs. \<exists>rest. json_to_string (xc_mesh_env cfg) (JObject kvs) = CHR ''{'' # rest"
    and "\<And>receipt. \<exists>v. receipt_to_value (xc_codec cfg) receipt = Inr v"
  shows "\<exists>es receipt md. loopback_dispatch (xc_policy_env cfg) (xc_mesh_env cfg) se r = map Inr es
    \<and> policy_metadata ''accepted'' (receipt_to_value (xc_codec cfg) receipt) = Inr md
    \<and> xs_pc (exec_run cfg (worker_feed io es) initial_exec) = PcDone
    \<and> xs_sent (exec_run cfg (worker_feed io es) initial_exec) =
       [working_task cfg io, status_update cfg io Working (Some ''SMESH worker reported progress''),
        task_response cfg (io\<lparr>io_next := NextEnd\<rparr>) Completed ''SMESH task completed under completion policy''
          (Some [publish_artifact md (candidate_artifact io ''smesh-result.json''
             (with_media_type (part_text (loopback_content (xc_mesh_env cfg) r)) ''application/json''))]) (Some md)]"
  using loopback_run[OF assms, where se = se] by (elim exE conjE) (intro exI conjI; assumption)

section \<open>Witnesses\<close>

definition read_nat :: "string \<Rightarrow> nat" where
  "read_nat = foldl (\<lambda>n c. 10 * n + (of_char c - 48)) 0"

lemma read_show [simp]: "read_nat (show_nat n) = n"
  unfolding read_nat_def by (rule show_nat_digits)

text \<open>A lossless JSON encoding of receipts and checkpoints: an array of texts.\<close>

definition texts_value :: "string list \<Rightarrow> string list \<Rightarrow> json" where
  "texts_value fs hs = JArray (map JString (show_nat (length fs) # fs @ hs))"

definition value_texts :: "json \<Rightarrow> string list \<times> string list" where
  "value_texts v =
     (case v of
        JArray (n # xs) \<Rightarrow>
          (let ts = map (\<lambda>x. the (json_as_str x)) xs; k = read_nat (the (json_as_str n)) in (take k ts, drop k ts))
      | _ \<Rightarrow> ([], []))"

lemma value_texts_inverse [simp]: "value_texts (texts_value fs hs) = (fs, hs)"
  by (simp add: value_texts_def texts_value_def Let_def comp_def)

definition receipt_value :: "completion_receipt \<Rightarrow> json" where
  "receipt_value r = texts_value
     ([cr_task_id r, cr_context_id r, cr_request_digest r, cr_policy_id r, show_nat (cr_policy_version r), cr_policy_hash r,
       cr_evidence_snapshot_hash r, cr_artifact_set_digest r, show_nat (cr_assurance_bps r), cr_seal r]
      @ (case cr_ratification_receipt_hash r of None \<Rightarrow> [] | Some h \<Rightarrow> [h])) (cr_evidence_hashes r)"

definition value_receipt :: "json \<Rightarrow> completion_receipt" where
  "value_receipt v =
     (case value_texts v of (fs, hs) \<Rightarrow>
        \<lparr>cr_task_id = fs ! 0, cr_context_id = fs ! 1, cr_request_digest = fs ! 2, cr_policy_id = fs ! 3,
         cr_policy_version = read_nat (fs ! 4), cr_policy_hash = fs ! 5, cr_evidence_snapshot_hash = fs ! 6,
         cr_artifact_set_digest = fs ! 7, cr_evidence_hashes = hs, cr_assurance_bps = read_nat (fs ! 8),
         cr_ratification_receipt_hash = (if length fs = 10 then None else Some (fs ! 10)), cr_seal = fs ! 9\<rparr>)"

lemma value_receipt_inverse [simp]: "value_receipt (receipt_value r) = r"
  by (cases r) (auto simp: value_receipt_def receipt_value_def numeral_eq_Suc split: option.splits)

definition checkpoint_value :: "policy_checkpoint \<Rightarrow> json" where
  "checkpoint_value c = texts_value
     [cp_task_id c, cp_context_id c, cp_request_digest c, cp_policy_id c, show_nat (cp_policy_version c), cp_policy_hash c,
      cp_evidence_snapshot_hash c, cp_artifact_set_digest c, show_nat (cp_assurance_bps c), cp_seal c] (cp_evidence_hashes c)"

definition value_checkpoint :: "json \<Rightarrow> policy_checkpoint" where
  "value_checkpoint v =
     (case value_texts v of (fs, hs) \<Rightarrow>
        \<lparr>cp_task_id = fs ! 0, cp_context_id = fs ! 1, cp_request_digest = fs ! 2, cp_policy_id = fs ! 3,
         cp_policy_version = read_nat (fs ! 4), cp_policy_hash = fs ! 5, cp_evidence_snapshot_hash = fs ! 6,
         cp_artifact_set_digest = fs ! 7, cp_evidence_hashes = hs, cp_assurance_bps = read_nat (fs ! 8), cp_seal = fs ! 9\<rparr>)"

lemma value_checkpoint_inverse [simp]: "value_checkpoint (checkpoint_value c) = c"
  by (cases c) (auto simp: value_checkpoint_def checkpoint_value_def numeral_eq_Suc)

definition lossless_codec :: record_codec where
  "lossless_codec =
     \<lparr>receipt_from_value = (\<lambda>v. Some (value_receipt v)), checkpoint_from_value = (\<lambda>v. Some (value_checkpoint v)),
      receipt_to_value = (\<lambda>r. Inr (receipt_value r)), checkpoint_to_value = (\<lambda>c. Inr (checkpoint_value c)),
      block_to_value = (\<lambda>b. Inr JNull)\<rparr>"

definition sample_exec_config :: exec_config where
  "sample_exec_config =
     \<lparr>xc_policy_env = sample_policy_env, xc_mesh_env = sample_mesh_env, xc_codec = lossless_codec, xc_policy = sample_policy,
      xc_limits = default_execution_limits, xc_trace = True, xc_task_id = ''t'', xc_context_id = ''c'', xc_history = [],
      xc_request_digest = sample_digest\<rparr>"

definition sample_io :: exec_io where
  "sample_io = \<lparr>io_closed = False, io_deadline = False, io_next = NextIdle, io_trace_ok = True, io_send_ok = True,
     io_now = 0, io_message_id = ''m'', io_artifact_id = ''x''\<rparr>"

definition sample_events :: "mesh_event list" where
  "sample_events = map projr (loopback_dispatch sample_policy_env sample_mesh_env (\<lambda>_. []) sample_request)"

text \<open>A completed execution, and one that a cancellation wins.\<close>

definition sample_completed :: exec_system where
  "sample_completed = run_schedule sample_exec_config (map Executor (worker_feed sample_io sample_events))"

definition sample_canceled :: exec_system where
  "sample_canceled = run_schedule sample_exec_config
     ([Executor sample_io, NewCancel] @ replicate 4 (Canceler 0 (Some (Inr ()))) @ [Executor sample_io, Executor sample_io])"

lemma sample_io_cooperative [simp]: "cooperative sample_io"
  by (simp add: sample_io_def cooperative_def)

lemma sample_limits: "xc_limits sample_exec_config = fst (with_execution_limits default_execution_limits)"
  by (simp add: sample_exec_config_def with_execution_limits_def default_execution_limits_def)

lemma sample_fixtures: "distinct [sha256 sample_policy_env review_fixture, sha256 sample_policy_env test_fixture,
    sha256 sample_policy_env clearance_fixture]"
  by (simp add: sample_policy_env_def review_fixture_def test_fixture_def clearance_fixture_def ascii_def byte_of_char_def)

lemma sample_config_simps [simp]:
  "xc_policy_env sample_exec_config = sample_policy_env" "xc_mesh_env sample_exec_config = sample_mesh_env"
  "xc_codec sample_exec_config = lossless_codec" "xc_policy sample_exec_config = sample_policy"
  "xc_task_id sample_exec_config = ''t''" "xc_context_id sample_exec_config = ''c''"
  "xc_request_digest sample_exec_config = sample_digest" "xc_limits sample_exec_config = default_execution_limits"
  by (simp_all add: sample_exec_config_def)

lemma sample_completed_reachable: "sys_reachable sample_exec_config cooperative sample_completed"
  unfolding sample_completed_def
proof (rule schedule_reachable)
  have "list_all (turn_allowed cooperative) (map Executor (event_feed sample_io es))" for es
    by (induction es) (simp_all add: cooperative_def sample_io_def)
  then show "list_all (turn_allowed cooperative) (map Executor (worker_feed sample_io sample_events))"
    by (simp add: worker_feed_def list_all_iff cooperative_def sample_io_def)
qed

lemma sample_canceled_reachable: "sys_reachable sample_exec_config cooperative sample_canceled"
  unfolding sample_canceled_def by (rule schedule_reachable) (simp add: list_all_iff)

lemma sample_canceled_state:
  "sys_cancels sample_canceled = [CancelStored]"
  "xs_sent (sys_exec sample_canceled) = [working_task sample_exec_config sample_io,
     task_response sample_exec_config sample_io Canceled ''SMESH task canceled'' None None]"
  by (simp_all add: sample_canceled_def run_schedule_def schedule_eval numeral_eq_Suc sample_io_def cancellation_terminal_def)

definition sample_artifact :: artifact where
  "sample_artifact = candidate_artifact sample_io ''smesh-result.json''
     (with_media_type (part_text (loopback_content sample_mesh_env sample_request)) ''application/json'')"

lemma sample_mesh_simps:
  "\<exists>b. event_to_vec sample_mesh_env e = Inr b \<and> length b \<le> 100000"
  "\<exists>rest. json_to_string sample_mesh_env (JObject kvs) = CHR ''{'' # rest"
  "\<exists>v. receipt_to_value lossless_codec receipt = Inr v"
  by (simp_all add: sample_mesh_env_def lossless_codec_def)

lemma sample_json_total: "\<exists>b. json_to_vec sample_policy_env j = Inr b"
  by (simp add: sample_policy_env_def)

lemma sample_hash_size: "length (sha256 sample_policy_env m) = 32" "length (hmac_sha256 sample_policy_env k m) = 32"
  by (simp_all add: sample_policy_env_def)

lemma sample_completed_sent:
  "\<exists>md. xs_artifacts (sys_exec sample_completed) = [sample_artifact]
    \<and> xs_manifests (sys_exec sample_completed) = [loopback_manifest sample_policy_env sample_mesh_env sample_request]
    \<and> xs_sent (sys_exec sample_completed) =
     [working_task sample_exec_config sample_io,
      status_update sample_exec_config sample_io Working (Some ''SMESH worker reported progress''),
      task_response sample_exec_config (sample_io\<lparr>io_next := NextEnd\<rparr>) Completed
        ''SMESH task completed under completion policy'' (Some [publish_artifact md sample_artifact]) (Some md)]"
proof -
  from loopback_run[of sample_exec_config "[1]" sample_request sample_io "\<lambda>_. []"] obtain es md where
    "loopback_dispatch sample_policy_env sample_mesh_env (\<lambda>_. []) sample_request = map Inr es"
    "xs_artifacts (exec_run sample_exec_config (worker_feed sample_io es) initial_exec) = [sample_artifact]"
    "xs_manifests (exec_run sample_exec_config (worker_feed sample_io es) initial_exec)
      = [loopback_manifest sample_policy_env sample_mesh_env sample_request]"
    "xs_sent (exec_run sample_exec_config (worker_feed sample_io es) initial_exec) =
     [working_task sample_exec_config sample_io,
      status_update sample_exec_config sample_io Working (Some ''SMESH worker reported progress''),
      task_response sample_exec_config (sample_io\<lparr>io_next := NextEnd\<rparr>) Completed
        ''SMESH task completed under completion policy'' (Some [publish_artifact md sample_artifact]) (Some md)]"
    using sample_hash_size sample_json_total sample_fixtures sample_policy_new sample_mesh_simps
    by (auto simp: sample_request_def sample_artifact_def)
  moreover from this(1) have "sample_events = es" by (simp add: sample_events_def comp_def)
  ultimately show ?thesis by (auto simp: sample_completed_def run_schedule_executor)
qed

theorem loopback_request_witness:
  "\<exists>md. length (xs_sent (exec_run sample_exec_config (worker_feed sample_io sample_events) initial_exec)) = 3
    \<and> xs_sent (exec_run sample_exec_config (worker_feed sample_io sample_events) initial_exec) ! 2 =
      task_response sample_exec_config (sample_io\<lparr>io_next := NextEnd\<rparr>) Completed
        ''SMESH task completed under completion policy'' (Some [publish_artifact md sample_artifact]) (Some md)"
proof -
  from loopback_request_completes[of sample_exec_config "[1]" sample_request sample_io "\<lambda>_. []"] obtain es md where
    d: "loopback_dispatch sample_policy_env sample_mesh_env (\<lambda>_. []) sample_request = map Inr es"
    and x: "xs_sent (exec_run sample_exec_config (worker_feed sample_io es) initial_exec) =
     [working_task sample_exec_config sample_io,
      status_update sample_exec_config sample_io Working (Some ''SMESH worker reported progress''),
      task_response sample_exec_config (sample_io\<lparr>io_next := NextEnd\<rparr>) Completed
        ''SMESH task completed under completion policy'' (Some [publish_artifact md sample_artifact]) (Some md)]"
    using sample_hash_size sample_json_total sample_fixtures sample_policy_new sample_mesh_simps
    by (auto simp: sample_request_def sample_artifact_def)
  from d have "sample_events = es" by (simp add: sample_events_def comp_def)
  with x show ?thesis by auto
qed

theorem single_final_witness:
  "\<exists>ws fs. xs_sent (sys_exec sample_canceled) = ws @ fs \<and> list_all (work_event sample_exec_config) ws
    \<and> list_all final_event fs \<and> length fs = 1"
proof -
  from single_final_event[OF sample_canceled_reachable] obtain ws fs where
    x: "xs_sent (sys_exec sample_canceled) = ws @ fs" "\<forall>e\<in>set ws. work_event sample_exec_config e" "\<forall>e\<in>set fs. final_event e"
      "length fs \<le> 1" by blast
  have "fs \<noteq> []"
  proof
    assume "fs = []"
    with x(1,2) have "work_event sample_exec_config (task_response sample_exec_config sample_io Canceled ''SMESH task canceled'' None None)"
      by (auto simp: sample_canceled_state)
    from work_not_final[OF this] show False by simp
  qed
  with x(4) have "length fs = 1" by (cases fs) auto
  with x show ?thesis by (auto simp: list_all_iff)
qed

theorem cancellation_wins_witness:
  "\<exists>io st r words. cancellation_terminal (ct_cancel_outcome (xs_control (sys_exec sample_canceled))) = (st, r, words)
    \<and> last (xs_sent (sys_exec sample_canceled)) = task_response sample_exec_config io st words None None"
proof -
  have "winning (sys_cancels sample_canceled ! 0)" "0 < length (sys_cancels sample_canceled)"
    by (simp_all add: sample_canceled_state)
  from cancellation_wins_once[OF sample_canceled_reachable this(2,1)] show ?thesis
    by (auto simp: sample_canceled_state(2))
qed

lemma task_response_task: "ev = task_response cfg io s words arts md \<Longrightarrow> \<exists>t. ev = SR_Task t \<and> state (status t) = s"
  by (simp add: task_response_def)

theorem completed_under_policy_witness:
  "\<exists>receipt. evaluate sample_policy_env sample_policy (completion_snapshot_of sample_exec_config (sys_exec sample_completed))
     = Inr (Accepted receipt) \<and> list_all2 (output_bound sample_exec_config) (xs_manifests (sys_exec sample_completed))
       (xs_artifacts (sys_exec sample_completed))"
proof -
  obtain md where sent: "last (xs_sent (sys_exec sample_completed)) = task_response sample_exec_config (sample_io\<lparr>io_next := NextEnd\<rparr>)
      Completed ''SMESH task completed under completion policy'' (Some [publish_artifact md sample_artifact]) (Some md)"
    "xs_sent (sys_exec sample_completed) \<noteq> []"
    using sample_completed_sent by auto
  from task_response_task[OF sent(1)] last_in_set[OF sent(2)] obtain t where
    "SR_Task t \<in> set (xs_sent (sys_exec sample_completed))" "state (status t) = Completed"
    by metis
  from completed_only_under_policy[OF sample_completed_reachable this] show ?thesis by auto
qed



theorem undisturbed_execution_witness:
  "xs_pc (exec_run sample_exec_config (replicate 44 sample_io) initial_exec) = PcDone
    \<and> length (filter final_event (xs_sent (exec_run sample_exec_config (replicate 44 sample_io) initial_exec))) = 1"
  using undisturbed_execution_answers[OF sample_limits, of "replicate 44 sample_io"] by simp

theorem executor_events_witness:
  "\<exists>md. validate_stream_item sample_policy_env lossless_codec sample_policy
     (Inr (task_response sample_exec_config (sample_io\<lparr>io_next := NextEnd\<rparr>) Completed
        ''SMESH task completed under completion policy'' (Some [publish_artifact md sample_artifact]) (Some md)))
   = Inr (task_response sample_exec_config (sample_io\<lparr>io_next := NextEnd\<rparr>) Completed
        ''SMESH task completed under completion policy'' (Some [publish_artifact md sample_artifact]) (Some md))"
proof -
  from sample_completed_sent obtain md where
    outs: "xs_artifacts (sys_exec sample_completed) = [sample_artifact]"
      "xs_manifests (sys_exec sample_completed) = [loopback_manifest sample_policy_env sample_mesh_env sample_request]" and
    sent: "xs_sent (sys_exec sample_completed) =
     [working_task sample_exec_config sample_io,
      status_update sample_exec_config sample_io Working (Some ''SMESH worker reported progress''),
      task_response sample_exec_config (sample_io\<lparr>io_next := NextEnd\<rparr>) Completed
        ''SMESH task completed under completion policy'' (Some [publish_artifact md sample_artifact]) (Some md)]"
    by blast
  have sent: "task_response sample_exec_config (sample_io\<lparr>io_next := NextEnd\<rparr>) Completed
      ''SMESH task completed under completion policy'' (Some [publish_artifact md sample_artifact]) (Some md)
      \<in> set (xs_sent (sys_exec sample_completed))"
    by (simp add: sent)
  have "list_all text_output (xs_artifacts (sys_exec sample_completed))"
    "list_all (\<lambda>m. am_media_type m \<noteq> manifest_media) (xs_manifests (sys_exec sample_completed))"
    by (simp_all add: outs text_output_def sample_artifact_def candidate_artifact_def part_text_def with_media_type_def manifest_media_def)
  from executor_events_pass_guard[OF sample_completed_reachable sent _ _ _ _ this] show ?thesis
    using sample_hash_size by (auto simp: lossless_codec_def)
qed

end
