(* ===== verification/Wire_Encoding.thy ===== *)
theory Wire_Encoding
  imports Policy_Decisions
begin

text \<open>
  Encodings that several components share: big-endian integers, length-prefixed fields, the
  decimal texts that \<open>str::parse\<close> reads, and \<open>str::split\<close> on one character. The lemmas are the
  injectivity facts that the signature and identity properties rest on.
\<close>

section \<open>Big-endian integers\<close>

definition be_bytes :: "nat \<Rightarrow> nat \<Rightarrow> byte list" where
  "be_bytes k n = map (\<lambda>i. word_of_nat (n div 256 ^ (k - 1 - i))) [0..<k]"

definition be_value :: "byte list \<Rightarrow> nat" where
  "be_value = foldl (\<lambda>a b. a * 256 + unat b) 0"

lemma length_be_bytes [simp]: "length (be_bytes k n) = k"
  by (simp add: be_bytes_def)

lemma be64_be_bytes: "be64 n = be_bytes 8 n"
  by (simp add: be64_def be_bytes_def)

lemma be_bytes_Suc: "be_bytes (Suc k) n = be_bytes k (n div 256) @ [word_of_nat n]"
proof -
  have "map (\<lambda>i. word_of_nat (n div 256 ^ (k - i)) :: byte) [0..<k]
      = map (\<lambda>i. word_of_nat (n div 256 div 256 ^ (k - 1 - i))) [0..<k]"
  proof (rule map_cong)
    fix i assume "i \<in> set [0..<k]"
    then have "k - i = Suc (k - 1 - i)" by auto
    then show "(word_of_nat (n div 256 ^ (k - i)) :: byte) = word_of_nat (n div 256 div 256 ^ (k - 1 - i))"
      by (simp add: div_mult2_eq)
  qed simp
  then show ?thesis by (simp add: be_bytes_def)
qed

lemma be_value_be_bytes: "be_value (be_bytes k n) = n mod 256 ^ k"
proof (induction k arbitrary: n)
  case 0
  then show ?case by (simp add: be_bytes_def be_value_def)
next
  case (Suc k)
  have "be_value (be_bytes (Suc k) n) = n div 256 mod 256 ^ k * 256 + n mod 256"
    using Suc by (simp add: be_bytes_Suc be_value_def unat_of_nat)
  also have "\<dots> = n mod 256 ^ Suc k"
    by (simp add: mod_mult2_eq)
  finally show ?case .
qed

lemma be_bytes_inj: "n < 256 ^ k \<Longrightarrow> m < 256 ^ k \<Longrightarrow> be_bytes k n = be_bytes k m \<longleftrightarrow> n = m"
  by (metis be_value_be_bytes mod_less)

section \<open>Length-prefixed fields\<close>

definition len_field :: "byte list \<Rightarrow> byte list" where
  "len_field bs = be_bytes 8 (length bs) @ bs"

lemma len_field_eq:
  assumes "length a < 256 ^ 8" "length b < 256 ^ 8"
  shows "len_field a @ x = len_field b @ y \<longleftrightarrow> a = b \<and> x = y"
proof
  assume eq: "len_field a @ x = len_field b @ y"
  then have "be_bytes 8 (length a) @ a @ x = be_bytes 8 (length b) @ b @ y"
    by (simp add: len_field_def)
  then have "be_bytes 8 (length a) = be_bytes 8 (length b)" "a @ x = b @ y"
    by (simp_all add: append_eq_append_conv)
  moreover from this(1) have "length a = length b" using assms be_bytes_inj by blast
  ultimately show "a = b \<and> x = y" by (simp add: append_eq_append_conv)
qed simp

lemma len_field_inj: "length a < 256 ^ 8 \<Longrightarrow> length b < 256 ^ 8 \<Longrightarrow> len_field a = len_field b \<longleftrightarrow> a = b"
  using len_field_eq[of a b "[]" "[]"] by simp

lemma ascii_inj [simp]: "ascii a = ascii b \<longleftrightarrow> a = b"
  by (auto simp: ascii_def inj_map_eq_map inj_def)

lemma length_ascii [simp]: "length (ascii s) = length s"
  by (simp add: ascii_def)

section \<open>Decimal text\<close>

text \<open>\<open>str::parse\<close> of an unsigned integer type with the given maximum: an optional plus sign and digits.\<close>

definition digits_value :: "string \<Rightarrow> nat" where
  "digits_value = foldl (\<lambda>n c. 10 * n + (of_char c - 48)) 0"

definition parse_unsigned :: "nat \<Rightarrow> string \<Rightarrow> nat option" where
  "parse_unsigned maximum s =
     (let ds = (case s of CHR ''+'' # r \<Rightarrow> r | _ \<Rightarrow> s) in
      if ds \<noteq> [] \<and> list_all is_ascii_digit ds \<and> digits_value ds \<le> maximum then Some (digits_value ds) else None)"

lemma parse_unsigned_Some: "parse_unsigned m s = Some n \<Longrightarrow> n \<le> m"
  by (auto simp: parse_unsigned_def Let_def split: if_splits)

text \<open>\<open>str::parse::<i64>\<close>: an optional sign and digits, within the range.\<close>

definition parse_i64 :: "string \<Rightarrow> int option" where
  "parse_i64 s =
     (let negative = (case s of CHR ''-'' # _ \<Rightarrow> True | _ \<Rightarrow> False);
          ds = (case s of CHR ''-'' # r \<Rightarrow> r | CHR ''+'' # r \<Rightarrow> r | _ \<Rightarrow> s);
          v = (if negative then - int (digits_value ds) else int (digits_value ds)) in
      if ds \<noteq> [] \<and> list_all is_ascii_digit ds \<and> - 9223372036854775808 \<le> v \<and> v \<le> 9223372036854775807 then Some v else None)"

section \<open>Splitting text\<close>

fun split_on :: "char \<Rightarrow> string \<Rightarrow> string list" where
  "split_on d [] = [[]]"
| "split_on d (c # cs) =
     (if c = d then [] # split_on d cs
      else case split_on d cs of [] \<Rightarrow> [[c]] | s # ss \<Rightarrow> (c # s) # ss)"

lemma split_on_not_Nil [simp]: "split_on d s \<noteq> []"
  by (induction s) (auto split: list.splits)

lemma split_on_no_sep: "seg \<in> set (split_on d s) \<Longrightarrow> d \<notin> set seg"
proof (induction s arbitrary: seg)
  case (Cons c cs)
  then show ?case by (cases "split_on d cs") (auto split: if_splits)
qed simp

lemma split_on_chars: "set s \<subseteq> insert d (\<Union> (set ` set (split_on d s)))"
proof (induction s)
  case (Cons c cs)
  then show ?case by (cases "split_on d cs") auto
qed simp

lemma show_nat_chars: "list_all is_ascii_digit (show_nat n)"
proof (induction n rule: show_nat.induct)
  case (1 n)
  have "is_ascii_digit (char_of (48 + m))" if "m < 10" for m :: nat
    using that by (simp add: is_ascii_digit_def in_range_def)
  with 1 show ?case by (subst show_nat.simps) simp
qed

definition starts_with :: "string \<Rightarrow> string \<Rightarrow> bool" where
  "starts_with p s \<longleftrightarrow> take (length p) s = p"

definition ends_with :: "string \<Rightarrow> string \<Rightarrow> bool" where
  "ends_with p s \<longleftrightarrow> length p \<le> length s \<and> drop (length s - length p) s = p"

definition to_ascii_lowercase :: "string \<Rightarrow> string" where
  "to_ascii_lowercase = map (\<lambda>c. if in_range (CHR ''A'') (CHR ''Z'') c then char_of (of_char c + (32::nat)) else c)"

definition is_ascii_control :: "char \<Rightarrow> bool" where
  "is_ascii_control c \<longleftrightarrow> (of_char c :: nat) < 32 \<or> (of_char c :: nat) = 127"

declare is_ascii_control_def [text_simps] starts_with_def [text_simps] ends_with_def [text_simps]
  to_ascii_lowercase_def [text_simps]

end
