(* ===== verification/Callback_Address.thy ===== *)
theory Callback_Address
  imports Wire_Encoding
begin

text \<open>
  Where callbacks may go, from \<^verbatim>\<open>src/push.rs\<close>: the canonical callback URL, the public address
  check and the validation of DNS answers. IPv4 and IPv6 addresses are \<open>32 word\<close> and \<open>128 word\<close>.
  The URL parser of the \<open>url\<close> package is an argument. Slicing a text out of range panics in Rust;
  the parser of callback URLs returns \<open>None\<close> there.
\<close>

section \<open>Addresses\<close>

datatype ip_addr = V4 "32 word" | V6 "128 word"

datatype push_security_error =
    InvalidPushPolicy | EnrollmentDenied | InvalidDestination | InvalidSecret | UnsafeDns | DnsUnavailable
  | TransportUnavailable

definition v4_octets :: "nat \<Rightarrow> nat \<Rightarrow> nat \<Rightarrow> nat \<Rightarrow> nat" where
  "v4_octets a b c d = a * 16777216 + b * 65536 + c * 256 + d"

definition v4_in :: "32 word \<Rightarrow> 32 word \<Rightarrow> nat \<Rightarrow> bool" where
  "v4_in ip base prefix \<longleftrightarrow>
     (let m = (if prefix = 0 then 0 else push_bit (32 - prefix) (- 1)) in ip AND m = base AND m)"

definition v4_blocked :: "((nat \<times> nat \<times> nat \<times> nat) \<times> nat) list" where
  "v4_blocked =
     [((0, 0, 0, 0), 8), ((10, 0, 0, 0), 8), ((100, 64, 0, 0), 10), ((127, 0, 0, 0), 8), ((169, 254, 0, 0), 16),
      ((172, 16, 0, 0), 12), ((192, 0, 0, 0), 24), ((192, 0, 2, 0), 24), ((192, 31, 196, 0), 24),
      ((192, 52, 193, 0), 24), ((192, 88, 99, 0), 24), ((192, 168, 0, 0), 16), ((192, 175, 48, 0), 24),
      ((198, 18, 0, 0), 15), ((198, 51, 100, 0), 24), ((203, 0, 113, 0), 24), ((224, 0, 0, 0), 4), ((240, 0, 0, 0), 4)]"

definition is_public_v4 :: "32 word \<Rightarrow> bool" where
  "is_public_v4 ip \<longleftrightarrow>
     \<not> list_ex (\<lambda>((a, b, c, d), prefix). v4_in ip (word_of_nat (v4_octets a b c d)) prefix) v4_blocked"

definition v6_in :: "128 word \<Rightarrow> 128 word \<Rightarrow> nat \<Rightarrow> bool" where
  "v6_in ip base prefix \<longleftrightarrow>
     (let m = (if prefix = 0 then 0 else push_bit (128 - prefix) (- 1)) in ip AND m = base AND m)"

definition v6_blocked :: "(128 word \<times> nat) list" where
  "v6_blocked =
     [(push_bit 112 0x2001, 23), (push_bit 96 0x20010002, 48), (push_bit 96 0x20010db8, 32), (push_bit 112 0x2002, 16),
      (push_bit 112 0x3fff, 20)]"

definition is_public_v6 :: "128 word \<Rightarrow> bool" where
  "is_public_v6 ip \<longleftrightarrow>
     v6_in ip (push_bit 112 0x2000) 3 \<and> \<not> list_ex (\<lambda>(base, prefix). v6_in ip base prefix) v6_blocked"

text \<open>\<open>Ipv6Addr::to_ipv4_mapped\<close>: the addresses \<open>::ffff:a.b.c.d\<close>.\<close>

definition to_ipv4_mapped :: "128 word \<Rightarrow> (32 word) option" where
  "to_ipv4_mapped ip = (if drop_bit 32 ip = 0xffff then Some (ucast ip) else None)"

definition is_public_callback_ip :: "ip_addr \<Rightarrow> bool" where
  "is_public_callback_ip ip =
     (case ip of
        V4 a \<Rightarrow> is_public_v4 a
      | V6 a \<Rightarrow> (case to_ipv4_mapped a of Some mapped \<Rightarrow> is_public_v4 mapped | None \<Rightarrow> is_public_v6 a))"

definition normalize_ip :: "ip_addr \<Rightarrow> ip_addr" where
  "normalize_ip ip =
     (case ip of V6 a \<Rightarrow> (case to_ipv4_mapped a of Some mapped \<Rightarrow> V4 mapped | None \<Rightarrow> ip) | V4 _ \<Rightarrow> ip)"

definition push_unique :: "ip_addr list \<Rightarrow> ip_addr \<Rightarrow> ip_addr list" where
  "push_unique acc ip = (if normalize_ip ip \<in> set acc then acc else acc @ [normalize_ip ip])"

definition validate_dns_answers :: "ip_addr list \<Rightarrow> nat \<Rightarrow> push_security_error + ip_addr list" where
  "validate_dns_answers answers max_answers =
     (if answers = [] \<or> max_answers < length answers \<or> max_answers = 0
         \<or> list_ex (\<lambda>a. \<not> is_public_callback_ip a) answers
      then Inl UnsafeDns
      else Inr (foldl push_unique [] answers))"

section \<open>Callback URLs\<close>

record parsed_url =
  up_scheme :: string
  up_username :: string
  up_password :: "string option"
  up_query :: "string option"
  up_fragment :: "string option"
  up_host :: "string option"
  up_path :: string
  up_port :: "nat option" \<comment> \<open>\<open>port_or_known_default\<close>\<close>

record callback_url =
  cu_canonical :: string
  cu_host :: string
  cu_port :: nat
  cu_path :: string

text \<open>
  \<open>IpAddr::from_str\<close> on a text without colons reads a dotted IPv4 address; a text with a colon
  is refused below as a host label in any case.
\<close>

definition v4_octet_text :: "string \<Rightarrow> bool" where
  "v4_octet_text s \<longleftrightarrow>
     s \<noteq> [] \<and> length s \<le> 3 \<and> list_all is_ascii_digit s \<and> digits_value s \<le> 255
     \<and> (hd s = CHR ''0'' \<longrightarrow> s = ''0'')"

definition is_ipv4_text :: "string \<Rightarrow> bool" where
  "is_ipv4_text s \<longleftrightarrow> (let os = split_on (CHR ''.'') s in length os = 4 \<and> list_all v4_octet_text os)"

definition label_ok :: "string \<Rightarrow> bool" where
  "label_ok l \<longleftrightarrow>
     l \<noteq> [] \<and> length l \<le> 63 \<and> \<not> starts_with ''-'' l \<and> \<not> ends_with ''-'' l
     \<and> list_all (\<lambda>c. is_ascii_lowercase c \<or> is_ascii_digit c \<or> c = CHR ''-'') l"

definition host_ok :: "string \<Rightarrow> bool" where
  "host_ok h \<longleftrightarrow>
     h \<noteq> [] \<and> length h \<le> 253 \<and> \<not> ends_with ''.'' h \<and> CHR ''*'' \<notin> set h \<and> h = to_ascii_lowercase h
     \<and> \<not> is_ipv4_text h \<and> list_all label_ok (split_on (CHR ''.'') h)"

definition path_ok :: "string \<Rightarrow> bool" where
  "path_ok p \<longleftrightarrow>
     p \<noteq> [] \<and> length p \<le> 1024 \<and> starts_with ''/'' p \<and> \<not> starts_with ''//'' p
     \<and> list_all (\<lambda>s. s \<noteq> ''.'' \<and> s \<noteq> ''..'') (split_on (CHR ''/'') p)"

definition url_text_ok :: "string \<Rightarrow> bool" where
  "url_text_ok s \<longleftrightarrow>
     s \<noteq> [] \<and> length s \<le> 2048 \<and> is_ascii s \<and> list_all (\<lambda>c. \<not> is_ascii_control c \<and> c \<noteq> CHR 0x5C) s
     \<and> CHR ''%'' \<notin> set s"

definition https_only :: "parsed_url \<Rightarrow> bool" where
  "https_only p \<longleftrightarrow>
     up_scheme p = ''https'' \<and> up_username p = [] \<and> up_password p = None \<and> up_query p = None \<and> up_fragment p = None"

definition rebuild_url :: "string \<Rightarrow> parsed_url \<Rightarrow> string \<Rightarrow> push_security_error + callback_url" where
  "rebuild_url input p host =
     (let rest = drop 8 input in
      if CHR ''/'' \<notin> set rest then Inl InvalidDestination
      else
        let authority = takeWhile (\<lambda>c. c \<noteq> CHR ''/'') rest in
        and_then (ok_or (Option.bind (strip_prefix host authority) (strip_prefix '':'')) InvalidDestination) (\<lambda>port_text.
        and_then (ok_or (Option.bind (parse_unsigned 65535 port_text) (\<lambda>n. if n = 0 then None else Some n)) InvalidDestination) (\<lambda>port.
        and_then (ensure (path_ok (up_path p)) InvalidDestination) (\<lambda>_.
          let canonical = ''https://'' @ host @ '':'' @ show_nat port @ up_path p in
          and_then (ensure (canonical = input) InvalidDestination) (\<lambda>_.
            Inr \<lparr>cu_canonical = canonical, cu_host = host, cu_port = port, cu_path = up_path p\<rparr>)))))"

definition callback_url_parse :: "(string \<Rightarrow> parsed_url option) \<Rightarrow> string
    \<Rightarrow> (push_security_error + callback_url) option" where
  "callback_url_parse url_parse input =
     (if \<not> url_text_ok input then Some (Inl InvalidDestination)
      else case url_parse input of
          None \<Rightarrow> Some (Inl InvalidDestination)
        | Some p \<Rightarrow>
            if \<not> https_only p then Some (Inl InvalidDestination)
            else case up_host p of
                None \<Rightarrow> Some (Inl InvalidDestination)
              | Some host \<Rightarrow>
                  if \<not> host_ok host then Some (Inl InvalidDestination)
                  else if length input < 8 then None \<comment> \<open>the slice past the scheme panics\<close>
                  else Some (rebuild_url input p host))"

section \<open>Address blocks as intervals\<close>

text \<open>
  The reference: an address block is an interval of numbers, given by its first and last address.
\<close>

definition v4_special :: "(nat \<times> nat) list" where
  "v4_special =
     [(v4_octets 0 0 0 0, v4_octets 0 255 255 255), (v4_octets 10 0 0 0, v4_octets 10 255 255 255),
      (v4_octets 100 64 0 0, v4_octets 100 127 255 255), (v4_octets 127 0 0 0, v4_octets 127 255 255 255),
      (v4_octets 169 254 0 0, v4_octets 169 254 255 255), (v4_octets 172 16 0 0, v4_octets 172 31 255 255),
      (v4_octets 192 0 0 0, v4_octets 192 0 0 255), (v4_octets 192 0 2 0, v4_octets 192 0 2 255),
      (v4_octets 192 31 196 0, v4_octets 192 31 196 255), (v4_octets 192 52 193 0, v4_octets 192 52 193 255),
      (v4_octets 192 88 99 0, v4_octets 192 88 99 255), (v4_octets 192 168 0 0, v4_octets 192 168 255 255),
      (v4_octets 192 175 48 0, v4_octets 192 175 48 255), (v4_octets 198 18 0 0, v4_octets 198 19 255 255),
      (v4_octets 198 51 100 0, v4_octets 198 51 100 255), (v4_octets 203 0 113 0, v4_octets 203 0 113 255),
      (v4_octets 224 0 0 0, v4_octets 239 255 255 255), (v4_octets 240 0 0 0, v4_octets 255 255 255 255)]"

definition v6_special :: "(nat \<times> nat) list" where
  "v6_special =
     [(0x20010000 * 2 ^ 96, 0x20010200 * 2 ^ 96 - 1), (0x200100020000 * 2 ^ 80, 0x200100020001 * 2 ^ 80 - 1), (0x20010db8 * 2 ^ 96, 0x20010db9 * 2 ^ 96 - 1),
      (0x2002 * 2 ^ 112, 0x2003 * 2 ^ 112 - 1), (0x3fff0 * 2 ^ 108, 0x3fff1 * 2 ^ 108 - 1)]"

lemma and_mask_eq:
  fixes x y :: "'a::len word"
  shows "x AND push_bit n (- 1) = y AND push_bit n (- 1) \<longleftrightarrow> drop_bit n x = drop_bit n y"
proof -
  have *: "z AND push_bit n (- 1) = push_bit n (drop_bit n z)" for z :: "'a word"
    by (rule bit_eqI) (auto simp: bit_simps)
  show ?thesis
  proof
    assume "x AND push_bit n (- 1) = y AND push_bit n (- 1)"
    then have "drop_bit n (push_bit n (drop_bit n x)) = drop_bit n (push_bit n (drop_bit n y))"
      by (simp only: *)
    moreover have "drop_bit n (push_bit n (drop_bit n z)) = drop_bit n z" for z :: "'a word"
      by (rule bit_eqI) (auto simp: bit_simps dest: bit_imp_le_length)
    ultimately show "drop_bit n x = drop_bit n y" by simp
  qed (simp only: *)
qed

lemma block_interval:
  fixes x y :: "'a::len word"
  shows "x AND push_bit n (- 1) = y AND push_bit n (- 1) \<longleftrightarrow> unat x div 2 ^ n = unat y div 2 ^ n"
proof -
  have "unat (drop_bit n z) = unat z div 2 ^ n" for z :: "'a word"
    by (simp only: unat_drop_bit_eq) (simp only: drop_bit_eq_div)
  then show ?thesis by (metis and_mask_eq word_unat_eq_iff)
qed


definition outside :: "nat \<Rightarrow> (nat \<times> nat) list \<Rightarrow> bool" where
  "outside n ranges \<longleftrightarrow> list_all (\<lambda>(lo, hi). n < lo \<or> hi < n) ranges"

lemma div_interval: "0 < k \<Longrightarrow> (n::nat) div k = q \<longleftrightarrow> q * k \<le> n \<and> n < q * k + k"
  by (metis add.commute div_nat_eqI dividend_less_div_times div_times_less_eq_dividend mult.commute mult_Suc)

lemma prefix_block:
  fixes x :: "'a::len word"
  assumes "b < 2 ^ LENGTH('a)" "b = q * 2 ^ n"
  shows "x AND push_bit n (- 1) = word_of_nat b AND push_bit n (- 1) \<longleftrightarrow> b \<le> unat x \<and> unat x < b + 2 ^ n"
proof -
  have "unat (word_of_nat b :: 'a word) = b" using assms(1) by (simp add: unat_of_nat)
  then have "x AND push_bit n (- 1) = word_of_nat b AND push_bit n (- 1) \<longleftrightarrow> unat x div 2 ^ n = q"
    by (simp only: block_interval) (simp add: assms(2))
  also have "\<dots> \<longleftrightarrow> b \<le> unat x \<and> unat x < b + 2 ^ n"
    unfolding assms(2) by (rule div_interval) simp
  finally show ?thesis .
qed

definition block_ok :: "nat \<Rightarrow> nat \<times> nat \<Rightarrow> bool" where
  "block_ok w = (\<lambda>(b, p). 0 < p \<and> b < 2 ^ w \<and> b mod 2 ^ (w - p) = 0)"

definition block_range :: "nat \<Rightarrow> nat \<times> nat \<Rightarrow> nat \<times> nat" where
  "block_range w = (\<lambda>(b, p). (b, b + (2 ^ (w - p) - 1)))"

definition v4_numbers :: "(nat \<times> nat) list" where
  "v4_numbers = map (\<lambda>((a, b, c, d), p). (v4_octets a b c d, p)) v4_blocked"

definition v6_numbers :: "(nat \<times> nat) list" where
  "v6_numbers = map (\<lambda>(b, p). (unat b, p)) v6_blocked"

lemma block_outside:
  assumes "list_all (block_ok w) blocks" "w = LENGTH('a)"
  shows "\<not> list_ex (\<lambda>(b, p). (x :: 'a::len word) AND push_bit (w - p) (- 1) = word_of_nat b AND push_bit (w - p) (- 1)) blocks
    \<longleftrightarrow> outside (unat x) (map (block_range w) blocks)"
proof -
  have "x AND push_bit (w - p) (- 1) = word_of_nat b AND push_bit (w - p) (- 1)
      \<longleftrightarrow> \<not> (unat x < b \<or> b + (2 ^ (w - p) - 1) < unat x)" if "(b, p) \<in> set blocks" for b p
  proof -
    have b: "b < 2 ^ LENGTH('a)" "b = b div 2 ^ (w - p) * 2 ^ (w - p)"
      using that assms by (auto simp: block_ok_def list_all_iff)
    have "(1::nat) \<le> 2 ^ (w - p)" by simp
    then show ?thesis by (subst prefix_block[OF b]) linarith
  qed
  then show ?thesis by (auto simp: outside_def block_range_def list_all_iff list_ex_iff)
qed

lemma v4_blocks: "list_all (block_ok 32) v4_numbers" "map (block_range 32) v4_numbers = v4_special"
  by (simp_all add: v4_numbers_def v4_blocked_def v4_special_def block_ok_def block_range_def v4_octets_def)

lemma v6_numbers_eq: "v6_numbers = [(0x20010000 * 2 ^ 96, 23), (0x200100020000 * 2 ^ 80, 48), (0x20010db8 * 2 ^ 96, 32),
    (0x2002 * 2 ^ 112, 16), (0x3fff0 * 2 ^ 108, 20)]"
  by (simp add: v6_numbers_def v6_blocked_def push_bit_eq_mult)

lemma v6_blocks: "list_all (block_ok 128) v6_numbers" "map (block_range 128) v6_numbers = v6_special"
  by (simp_all add: v6_numbers_eq v6_special_def block_ok_def block_range_def)

lemma v4_positive: "((a, b, c, d), p) \<in> set v4_blocked \<Longrightarrow> p \<noteq> 0"
  by (auto simp: v4_blocked_def)

lemma v6_positive: "(b, p) \<in> set v6_blocked \<Longrightarrow> p \<noteq> 0"
  by (auto simp: v6_blocked_def)

lemma word_of_unat: "word_of_nat (unat w) = (w :: 'a::len word)"
  by simp

lemma len32: "32 = LENGTH(32)" by simp

lemma len128: "128 = LENGTH(128)" by simp

lemma is_public_v4_iff: "is_public_v4 ip \<longleftrightarrow> outside (unat ip) v4_special"
proof -
  have "is_public_v4 ip \<longleftrightarrow> \<not> list_ex (\<lambda>(b, p). ip AND push_bit (32 - p) (- 1) = word_of_nat b AND push_bit (32 - p) (- 1)) v4_numbers"
    unfolding is_public_v4_def v4_numbers_def list_ex_iff set_map
    using v4_positive by (force simp only: v4_in_def Let_def if_False split_beta fst_conv snd_conv bex_simps image_iff
        prod.case prod.collapse)
  also have "\<dots> \<longleftrightarrow> outside (unat ip) v4_special"
    using block_outside[OF v4_blocks(1) len32, of ip] by (simp only: v4_blocks(2))
  finally show ?thesis .
qed

lemma is_public_v6_iff:
  "is_public_v6 ip \<longleftrightarrow> 2 ^ 125 \<le> unat ip \<and> unat ip < 2 ^ 126 \<and> outside (unat ip) v6_special"
proof -
  have "\<not> list_ex (\<lambda>(base, prefix). v6_in ip base prefix) v6_blocked
      \<longleftrightarrow> \<not> list_ex (\<lambda>(b, p). ip AND push_bit (128 - p) (- 1) = word_of_nat b AND push_bit (128 - p) (- 1)) v6_numbers"
    unfolding v6_numbers_def list_ex_iff set_map
    using v6_positive by (force simp only: v6_in_def Let_def if_False split_beta fst_conv snd_conv bex_simps image_iff
        prod.case prod.collapse word_of_unat)
  then have "\<not> list_ex (\<lambda>(base, prefix). v6_in ip base prefix) v6_blocked \<longleftrightarrow> outside (unat ip) v6_special"
    using block_outside[OF v6_blocks(1) len128, of ip] by (simp only: v6_blocks(2))
  moreover have "v6_in ip (push_bit 112 0x2000) 3 \<longleftrightarrow> 2 ^ 125 \<le> unat ip \<and> unat ip < 2 ^ 126"
  proof -
    have w: "push_bit 112 0x2000 = (word_of_nat (2 ^ 125) :: 128 word)" by (simp add: push_bit_eq_mult)
    have "v6_in ip (push_bit 112 0x2000) 3 \<longleftrightarrow> ip AND push_bit 125 (- 1) = word_of_nat (2 ^ 125) AND push_bit 125 (- 1)"
      by (simp only: v6_in_def Let_def w) simp
    also have "\<dots> \<longleftrightarrow> 2 ^ 125 \<le> unat ip \<and> unat ip < 2 ^ 125 + 2 ^ 125"
      by (rule prefix_block[where q = 1]) simp_all
    finally show ?thesis by simp
  qed
  ultimately show ?thesis by (simp only: is_public_v6_def) blast
qed

lemma mapped_address:
  "to_ipv4_mapped (word_of_nat (0xffff00000000 + unat a)) = Some (a :: 32 word)"
proof -
  let ?w = "word_of_nat (0xffff00000000 + unat a) :: 128 word"
  have a: "unat a < 2 ^ 32" using unsigned_less[of a] by simp
  then have u: "unat ?w = 0xffff00000000 + unat a" by (simp only: unat_of_nat) simp
  have "unat (drop_bit 32 ?w) = 0xffff"
    using a by (simp only: unat_drop_bit_eq u) (simp add: drop_bit_eq_div)
  then have "drop_bit 32 ?w = 0xffff" by (simp only: word_unat_eq_iff) simp
  moreover have "unat (ucast ?w :: 32 word) = unat a"
  proof -
    have "(65535 * 2 ^ 32 + unat a) mod 2 ^ 32 = unat a" using a by (simp only: mod_mult_self3 mod_less)
    then show ?thesis by (simp only: unsigned_ucast_eq u take_bit_eq_mod) simp
  qed
  then have "(ucast ?w :: 32 word) = a" by (simp only: word_unat_eq_iff)
  ultimately show ?thesis by (simp only: to_ipv4_mapped_def if_True refl)
qed


section \<open>DNS answers\<close>

lemma push_unique_fold:
  "distinct acc \<Longrightarrow> distinct (foldl push_unique acc xs) \<and> set (foldl push_unique acc xs) = set acc \<union> normalize_ip ` set xs
    \<and> length (foldl push_unique acc xs) \<le> length acc + length xs"
proof (induction xs arbitrary: acc)
  case (Cons x xs)
  have "distinct (push_unique acc x)" using Cons.prems by (simp add: push_unique_def)
  from Cons.IH[OF this] show ?case by (auto simp: push_unique_def split: if_splits)
qed simp

lemma normalize_public: "is_public_callback_ip a \<Longrightarrow> is_public_callback_ip (normalize_ip a) \<and> normalize_ip (normalize_ip a) = normalize_ip a"
  by (cases a) (auto simp: is_public_callback_ip_def normalize_ip_def split: option.splits)

lemma validated_answers:
  assumes "validate_dns_answers answers m = Inr xs"
  shows "xs \<noteq> []" "distinct xs" "length xs \<le> m" "set xs = normalize_ip ` set answers"
    "list_all is_public_callback_ip xs" "list_all (\<lambda>a. normalize_ip a = a) xs"
    "answers \<noteq> []" "length answers \<le> m" "list_all is_public_callback_ip answers"
proof -
  have a: "answers \<noteq> []" "length answers \<le> m" "\<forall>a\<in>set answers. is_public_callback_ip a"
    and xs: "xs = foldl push_unique [] answers"
    using assms by (auto simp: validate_dns_answers_def list_ex_iff split: if_splits)
  have f: "distinct xs" "set xs = normalize_ip ` set answers" "length xs \<le> length answers"
    using push_unique_fold[of "[]" answers] by (simp_all add: xs)
  show "xs \<noteq> []" using f(2) a(1) by auto
  show "list_all is_public_callback_ip xs" "list_all (\<lambda>a. normalize_ip a = a) xs"
    unfolding list_all_iff f(2) using a(3) normalize_public by blast+
  show "list_all is_public_callback_ip answers" unfolding list_all_iff using a(3) .
  show "distinct xs" "length xs \<le> m" "set xs = normalize_ip ` set answers" "answers \<noteq> []" "length answers \<le> m"
    using a f by simp_all
qed

text \<open>
  A resolver snapshot is used as a whole or not at all: it is accepted exactly when it is not
  empty, within the limit and every answer is public; the accepted addresses are then the
  normalized answers, each once, none of them IPv4-mapped, and all of them public.
\<close>

theorem dns_answers_all_or_nothing:
  "(validate_dns_answers answers m = Inl UnsafeDns \<longleftrightarrow>
      answers = [] \<or> m < length answers \<or> \<not> list_all is_public_callback_ip answers)
   \<and> (\<forall>xs. validate_dns_answers answers m = Inr xs \<longrightarrow>
        xs \<noteq> [] \<and> distinct xs \<and> length xs \<le> m \<and> set xs = normalize_ip ` set answers
        \<and> list_all is_public_callback_ip xs \<and> list_all (\<lambda>a. normalize_ip a = a) xs)"
proof -
  have "validate_dns_answers answers m = Inl UnsafeDns \<longleftrightarrow>
      answers = [] \<or> m < length answers \<or> \<not> list_all is_public_callback_ip answers"
    by (cases answers) (auto simp: validate_dns_answers_def list_ex_iff list_all_iff)
  then show ?thesis using validated_answers[of answers m] by blast
qed

section \<open>Canonical URLs\<close>

lemma rebuild_url_Inr:
  assumes "rebuild_url input p host = Inr u"
  shows "input = ''https://'' @ cu_host u @ '':'' @ show_nat (cu_port u) @ cu_path u" "cu_canonical u = input"
    "cu_host u = host" "0 < cu_port u" "cu_port u \<le> 65535" "path_ok (cu_path u)"
proof -
  obtain t n where n: "parse_unsigned 65535 t = Some n" "n \<noteq> 0"
    and p: "path_ok (up_path p)" "''https://'' @ host @ '':'' @ show_nat n @ up_path p = input"
    and u: "u = \<lparr>cu_canonical = input, cu_host = host, cu_port = n, cu_path = up_path p\<rparr>"
    using assms unfolding rebuild_url_def Let_def
    by (fastforce simp only: result_simps Option.bind_eq_Some_conv option.simps sum.simps split: if_split_asm)
  show "input = ''https://'' @ cu_host u @ '':'' @ show_nat (cu_port u) @ cu_path u" "cu_canonical u = input"
    "cu_host u = host" "0 < cu_port u" "cu_port u \<le> 65535" "path_ok (cu_path u)"
    using n p parse_unsigned_Some[OF n(1)] by (simp_all add: u)
qed

lemma callback_url_parse_Inr:
  "callback_url_parse U input = Some (Inr u) \<longleftrightarrow>
     url_text_ok input \<and> 8 \<le> length input \<and>
     (\<exists>p host. U input = Some p \<and> https_only p \<and> up_host p = Some host \<and> host_ok host \<and> rebuild_url input p host = Inr u)"
  by (auto simp: callback_url_parse_def not_less split: option.splits)

lemma host_ok_chars: "host_ok h \<Longrightarrow> CHR '':'' \<notin> set h"
proof
  assume "host_ok h" "CHR '':'' \<in> set h"
  then obtain l where l: "l \<in> set (split_on (CHR ''.'') h)" "CHR '':'' \<in> set l" "label_ok l"
    using split_on_chars[of h "CHR ''.''"] by (auto simp: host_ok_def list_all_iff)
  then have "is_ascii_lowercase (CHR '':'') \<or> is_ascii_digit (CHR '':'')" by (auto simp: label_ok_def list_all_iff)
  then show False by (simp add: text_simps)
qed

lemma url_text_unique:
  assumes "h @ '':'' @ show_nat a @ p = h' @ '':'' @ show_nat a' @ p'" "host_ok h" "host_ok h'" "path_ok p" "path_ok p'"
  shows "h = h'" "a = a'" "p = p'"
proof -
  from assms(1) have h: "h = h' \<and> show_nat a @ p = show_nat a' @ p'"
    using separated_eq_iff[of "CHR '':''" h h'] host_ok_chars[OF assms(2)] host_ok_chars[OF assms(3)] by simp
  obtain q q' where q: "p = CHR ''/'' # q" "p' = CHR ''/'' # q'"
    using assms(4,5) by (cases p; cases p') (auto simp: path_ok_def starts_with_def)
  have "CHR ''/'' \<notin> set (show_nat n)" for n
    using show_nat_chars[of n] by (auto simp: list_all_iff text_simps)
  with h q separated_eq_iff[of "CHR ''/''" "show_nat a" "show_nat a'"] show "h = h'" "a = a'" "p = p'" by auto
qed

text \<open>
  C21. A callback URL is accepted only in its canonical text: scheme, host, explicit port and path
  spell the input byte for byte, the host is a DNS name and not an address, the path has no dot
  segments, and which host, port and path are taken does not depend on the URL parser. The parser
  does not return at all exactly on an input shorter than \<open>https://\<close> that the URL parser still
  accepts as an HTTPS URL.
\<close>

theorem callback_url_canonical:
  "(callback_url_parse U input = Some (Inr u) \<longrightarrow>
      input = ''https://'' @ cu_host u @ '':'' @ show_nat (cu_port u) @ cu_path u \<and> cu_canonical u = input
      \<and> host_ok (cu_host u) \<and> 0 < cu_port u \<and> cu_port u \<le> 65535 \<and> path_ok (cu_path u))
   \<and> (callback_url_parse U input = Some (Inr u) \<and> callback_url_parse U' input = Some (Inr u') \<longrightarrow> u = u')
   \<and> (callback_url_parse U input = None \<longleftrightarrow>
        url_text_ok input \<and> length input < 8
        \<and> (\<exists>p host. U input = Some p \<and> https_only p \<and> up_host p = Some host \<and> host_ok host))"
proof -
  have facts: "input = ''https://'' @ cu_host v @ '':'' @ show_nat (cu_port v) @ cu_path v \<and> cu_canonical v = input
      \<and> host_ok (cu_host v) \<and> 0 < cu_port v \<and> cu_port v \<le> 65535 \<and> path_ok (cu_path v)"
    if "callback_url_parse W input = Some (Inr v)" for W v
  proof -
    from that obtain p host where h: "host_ok host" and r: "rebuild_url input p host = Inr v"
      unfolding callback_url_parse_Inr by blast
    show ?thesis using h rebuild_url_Inr(1,2,4-6)[OF r] by (simp only: rebuild_url_Inr(3)[OF r] simp_thms)
  qed
  have same: "u = u'"
    if u: "callback_url_parse U input = Some (Inr u)" and u': "callback_url_parse U' input = Some (Inr u')"
  proof -
    have "cu_host u @ '':'' @ show_nat (cu_port u) @ cu_path u = cu_host u' @ '':'' @ show_nat (cu_port u') @ cu_path u'"
      using conjunct1[OF facts[OF u]] conjunct1[OF facts[OF u']] by (simp only: append.simps list.inject simp_thms)
    from url_text_unique[OF this] facts[OF u] facts[OF u']
    have "cu_host u = cu_host u'" "cu_port u = cu_port u'" "cu_path u = cu_path u'" "cu_canonical u = cu_canonical u'"
      by (simp_all only: simp_thms)
    then show ?thesis by simp
  qed
  have panics: "callback_url_parse U input = None \<longleftrightarrow> url_text_ok input \<and> length input < 8
        \<and> (\<exists>p host. U input = Some p \<and> https_only p \<and> up_host p = Some host \<and> host_ok host)"
    by (auto simp: callback_url_parse_def split: option.splits)
  show ?thesis using facts[of U u] same panics by (intro conjI impI) (simp_all only: simp_thms)
qed

section \<open>Witnesses\<close>

definition sample_url_parse :: "string \<Rightarrow> parsed_url option" where
  "sample_url_parse s =
     (if s = ''https:a'' then
        Some \<lparr>up_scheme = ''https'', up_username = [], up_password = None, up_query = None, up_fragment = None,
          up_host = Some ''a'', up_path = ''/'', up_port = Some 443\<rparr>
      else if s = ''https://a:443/x'' then
        Some \<lparr>up_scheme = ''https'', up_username = [], up_password = None, up_query = None, up_fragment = None,
          up_host = Some ''a'', up_path = ''/x'', up_port = Some 443\<rparr>
      else None)"

lemma sample_host [simp]: "host_ok ''a''"
  by (simp add: host_ok_def label_ok_def is_ipv4_text_def text_simps)

lemma sample_port: "show_nat 443 = ''443''"
  by code_simp

lemma sample_url_accepted:
  "callback_url_parse sample_url_parse ''https://a:443/x'' =
     Some (Inr \<lparr>cu_canonical = ''https://a:443/x'', cu_host = ''a'', cu_port = 443, cu_path = ''/x''\<rparr>)"
  by (simp add: callback_url_parse_def sample_url_parse_def url_text_ok_def https_only_def rebuild_url_def path_ok_def
      parse_unsigned_def digits_value_def sample_port ensure_def ok_or_def text_simps)

lemma sample_url_panics:
  "url_text_ok ''https:a'' \<and> length ''https:a'' < 8
   \<and> (\<exists>p host. sample_url_parse ''https:a'' = Some p \<and> https_only p \<and> up_host p = Some host \<and> host_ok host)"
  by (simp add: sample_url_parse_def url_text_ok_def https_only_def text_simps)

theorem callback_url_witness:
  "callback_url_parse sample_url_parse ''https:a'' = None
   \<and> callback_url_parse sample_url_parse ''https://a:443/x'' =
       Some (Inr \<lparr>cu_canonical = ''https://a:443/x'', cu_host = ''a'', cu_port = 443, cu_path = ''/x''\<rparr>)
   \<and> path_ok ''/x''"
proof -
  have "callback_url_parse sample_url_parse ''https:a'' = None"
    by (rule iffD2[OF conjunct2[OF conjunct2[OF callback_url_canonical[of sample_url_parse "''https:a''"]]] sample_url_panics])
  moreover have "path_ok ''/x''"
    using callback_url_canonical[of sample_url_parse "''https://a:443/x''"] sample_url_accepted by (metis callback_url.select_convs(4))
  ultimately show ?thesis using sample_url_accepted by blast
qed


lemma sample_addresses: "is_public_callback_ip (V4 0x08080808)" "\<not> is_public_callback_ip (V4 0x7f000001)"
  by (simp_all add: is_public_callback_ip_def is_public_v4_iff v4_special_def outside_def v4_octets_def)

theorem dns_answers_witness:
  "validate_dns_answers [V4 0x08080808, V4 0x08080808] 8 = Inr [V4 0x08080808]
   \<and> list_all is_public_callback_ip [V4 0x08080808]
   \<and> validate_dns_answers [V4 0x08080808, V4 0x7f000001] 8 = Inl UnsafeDns"
proof -
  have "validate_dns_answers [V4 0x08080808, V4 0x08080808] 8 = Inr [V4 0x08080808]"
    using sample_addresses by (simp add: validate_dns_answers_def push_unique_def normalize_ip_def)
  moreover have "\<not> list_all is_public_callback_ip [V4 0x08080808, V4 0x7f000001]"
    using sample_addresses by simp
  ultimately show ?thesis
    using dns_answers_all_or_nothing[of "[V4 0x08080808, V4 0x08080808]" 8]
      dns_answers_all_or_nothing[of "[V4 0x08080808, V4 0x7f000001]" 8]
    by metis
qed

end
