(* ===== verification/Callback_Push.thy ===== *)
theory Callback_Push
  imports Callback_Address
begin

text \<open>
  The policy half of \<open>src/push.rs\<close>: the request signer and the event identity, the retry policy,
  the reading of \<open>Retry-After\<close>, the operator's enrollment policy, and the files it is read from.
  A panic is the outer \<^term>\<open>None\<close>. The cryptographic primitives, base64, the URL, TOML, PEM and HTTP
  date parsers and the operating system's files are fields of \<open>push_env\<close>.
\<close>

section \<open>What the module calls\<close>

record file_meta =
  fm_is_file :: bool
  fm_uid :: nat
  fm_mode :: nat
  fm_len :: nat

record opened_file =
  of_metadata :: "file_meta option"
  of_content :: "byte list option"

record push_env =
  pu_sha256 :: "byte list \<Rightarrow> byte list"
  pu_hmac :: "byte list \<Rightarrow> byte list \<Rightarrow> byte list"
  pu_base64_url :: "byte list \<Rightarrow> string"
  pu_base64_url_decode :: "string \<Rightarrow> byte list option"
  pu_base64 :: "byte list \<Rightarrow> string"
  pu_url_parse :: "string \<Rightarrow> parsed_url option"
  pu_http_date :: "string \<Rightarrow> int option"
  pu_utf8 :: "byte list \<Rightarrow> string option"
  pu_open :: "string \<Rightarrow> opened_file option"
  pu_getuid :: nat
  pu_pem_certificates :: "byte list \<Rightarrow> byte list list option"
  pu_pem_keys :: "byte list \<Rightarrow> byte list list option"
  pu_certificate_ok :: "byte list \<Rightarrow> bool"
  pu_identity_ok :: "byte list \<Rightarrow> bool"

section \<open>Signatures and event identities\<close>

definition callback_signer_new :: "byte list \<Rightarrow> push_security_error + byte list" where
  "callback_signer_new secret = (if \<not> (32 \<le> length secret \<and> length secret \<le> 4096) then Inl InvalidSecret else Inr secret)"

definition signing_input :: "push_env \<Rightarrow> string \<Rightarrow> string \<Rightarrow> string \<Rightarrow> nat \<Rightarrow> nat \<Rightarrow> string \<Rightarrow> byte list \<Rightarrow> byte list" where
  "signing_input E target endpoint event stamp attempt generation body =
     ascii ''smesh-callback-signature/v1''
     @ concat (map len_field [ascii ''POST'', ascii target, ascii endpoint, ascii event])
     @ be_bytes 8 stamp @ be_bytes 4 attempt @ len_field (ascii generation) @ pu_sha256 E body"

definition signer_sign :: "push_env \<Rightarrow> byte list \<Rightarrow> string \<Rightarrow> string \<Rightarrow> string \<Rightarrow> nat \<Rightarrow> nat \<Rightarrow> string \<Rightarrow> byte list \<Rightarrow> string" where
  "signer_sign E key target endpoint event stamp attempt generation body =
     ''v1,hmac-sha256='' @ pu_base64_url E (pu_hmac E key
        (signing_input E target endpoint event stamp attempt generation body))"

definition signer_verify :: "push_env \<Rightarrow> byte list \<Rightarrow> string \<Rightarrow> string \<Rightarrow> string \<Rightarrow> nat \<Rightarrow> nat \<Rightarrow> string \<Rightarrow> byte list
    \<Rightarrow> string \<Rightarrow> bool" where
  "signer_verify E key target endpoint event stamp attempt generation body candidate \<longleftrightarrow>
     signer_sign E key target endpoint event stamp attempt generation body = candidate"

definition content_digest_header :: "push_env \<Rightarrow> byte list \<Rightarrow> string" where
  "content_digest_header E body = ''sha-256=:'' @ pu_base64 E (pu_sha256 E body) @ '':''"

definition event_input :: "string \<Rightarrow> string \<Rightarrow> nat \<Rightarrow> nat \<Rightarrow> string \<Rightarrow> nat \<Rightarrow> byte list" where
  "event_input tenant task event_sequence task_revision config config_generation =
     ascii ''smesh-callback/v1'' @ concat (map len_field [ascii tenant, ascii task, ascii config])
     @ be_bytes 8 event_sequence @ be_bytes 8 task_revision @ be_bytes 8 config_generation"

definition delivery_event_id :: "push_env \<Rightarrow> string \<Rightarrow> string \<Rightarrow> nat \<Rightarrow> nat \<Rightarrow> string \<Rightarrow> nat \<Rightarrow> string" where
  "delivery_event_id E tenant task event_sequence task_revision config config_generation =
     hex_bytes (pu_sha256 E (event_input tenant task event_sequence task_revision config config_generation))"

section \<open>Retry\<close>

record retry_policy =
  ry_max_attempts :: nat
  ry_base_ms :: nat
  ry_max_ms :: nat
  ry_max_age_ms :: nat

definition retry_policy_new :: "nat \<Rightarrow> nat \<Rightarrow> nat \<Rightarrow> nat \<Rightarrow> push_security_error + retry_policy" where
  "retry_policy_new max_attempts base_ms max_ms max_age_ms =
     (if max_attempts = 0 \<or> 32 < max_attempts \<or> base_ms = 0 \<or> max_ms < base_ms \<or> max_age_ms < max_ms
      then Inl InvalidPushPolicy
      else Inr \<lparr>ry_max_attempts = max_attempts, ry_base_ms = base_ms, ry_max_ms = max_ms, ry_max_age_ms = max_age_ms\<rparr>)"

definition can_attempt :: "retry_policy \<Rightarrow> nat \<Rightarrow> nat \<Rightarrow> bool" where
  "can_attempt r attempt age_ms \<longleftrightarrow> 0 < attempt \<and> attempt \<le> ry_max_attempts r \<and> age_ms < ry_max_age_ms r"

text \<open>\<open>u64::saturating_mul\<close> and \<open>u64::checked_shl\<close>; \<^const>\<open>usize_max\<close> is the maximum of both types.\<close>

definition sat_mul :: "nat \<Rightarrow> nat \<Rightarrow> nat" where
  "sat_mul a b = min (a * b) usize_max"

definition full_jitter_ms :: "retry_policy \<Rightarrow> nat \<Rightarrow> nat \<Rightarrow> nat option" where
  "full_jitter_ms r attempt sample =
     (if \<not> can_attempt r attempt 0 then None
      else
        let exponent = min (attempt - 1) 63;
            ceiling = min (sat_mul (ry_base_ms r) (if exponent < 64 then 2 ^ exponent else usize_max)) (ry_max_ms r)
        in Some (sample mod sat_add ceiling 1))"

definition clamp :: "nat \<Rightarrow> nat \<Rightarrow> nat \<Rightarrow> nat" where
  "clamp lo hi n = (if n < lo then lo else if hi < n then hi else n)"

definition clamp_delay_ms :: "retry_policy \<Rightarrow> nat option \<Rightarrow> nat \<Rightarrow> nat \<Rightarrow> nat option" where
  "clamp_delay_ms r requested attempt sample =
     map_option (clamp (ry_base_ms r) (ry_max_ms r))
       (case requested of Some ms \<Rightarrow> Some ms | None \<Rightarrow> full_jitter_ms r attempt sample)"

datatype delivery_disposition = Delivered | Retry | Permanent

definition classify_status :: "nat \<Rightarrow> delivery_disposition" where
  "classify_status code =
     (if 200 \<le> code \<and> code \<le> 299 then Delivered
      else if code \<in> {408, 425, 429, 500, 502, 503, 504} then Retry
      else Permanent)"

definition retry_after_seconds_at :: "push_env \<Rightarrow> nat \<Rightarrow> string list \<Rightarrow> nat \<Rightarrow> nat \<Rightarrow> nat \<Rightarrow> nat option" where
  "retry_after_seconds_at E code values now minimum maximum =
     (if code \<notin> {429, 503} \<or> length values \<noteq> 1 \<or> maximum < minimum then None
      else
        map_option (clamp minimum maximum)
          (case parse_unsigned usize_max (hd values) of
             Some delta \<Rightarrow> Some delta
           | None \<Rightarrow>
               (case pu_http_date E (hd values) of
                  None \<Rightarrow> None
                | Some deadline \<Rightarrow>
                    if deadline < 0 then None
                    else if nat deadline \<le> now then None
                    else Some (nat deadline - now))))"

definition retry_after_seconds :: "push_env \<Rightarrow> nat option \<Rightarrow> nat \<Rightarrow> string list \<Rightarrow> nat \<Rightarrow> nat \<Rightarrow> nat option" where
  "retry_after_seconds E clock code values minimum maximum =
     (case clock of None \<Rightarrow> None | Some now \<Rightarrow> retry_after_seconds_at E code values now minimum maximum)"

section \<open>The enrollment policy\<close>

record raw_enrollment =
  ren_tenant :: string
  ren_endpoint_id :: string
  ren_url :: string
  ren_event :: string
  ren_auth :: string
  ren_key_generation :: string
  ren_secret_file :: string
  ren_ca_file :: "string option"
  ren_mtls_cert_file :: "string option"
  ren_mtls_key_file :: "string option"

record push_limits =
  pl_max_pending :: nat
  pl_max_configs_per_task :: nat
  pl_max_configs_per_tenant :: nat
  pl_worker_count :: nat
  pl_claim_batch :: nat
  pl_claim_lease_ms :: nat
  pl_dns_timeout_ms :: nat
  pl_max_dns_answers :: nat
  pl_connect_timeout_ms :: nat
  pl_request_timeout_ms :: nat
  pl_max_response_bytes :: nat
  pl_max_attempts :: nat
  pl_base_retry_ms :: nat
  pl_max_retry_ms :: nat
  pl_max_delivery_age_ms :: nat

record raw_policy =
  rpo_schema :: string
  rpo_enabled :: bool
  rpo_policy_id :: string
  rpo_policy_revision :: nat
  rpo_policy_digest :: string
  rpo_limits :: push_limits
  rpo_enrollments :: "raw_enrollment list"

record push_enrollment =
  enr_tenant :: string
  enr_endpoint_id :: string
  enr_url :: callback_url
  enr_key_generation :: string
  enr_secret_file :: string
  enr_ca_file :: "string option"
  enr_mtls_cert_file :: "string option"
  enr_mtls_key_file :: "string option"

record push_policy =
  ppo_enabled :: bool
  ppo_policy_id :: string
  ppo_policy_revision :: nat
  ppo_policy_digest :: string
  ppo_limits :: push_limits
  ppo_enrollments :: "push_enrollment list"

definition bounded_id :: "string \<Rightarrow> bool" where
  "bounded_id s \<longleftrightarrow>
     s \<noteq> [] \<and> length s \<le> 128 \<and> list_all (\<lambda>c. is_ascii_alphanumeric c \<or> c \<in> {CHR ''-'', CHR ''_'', CHR ''.''}) s"

definition limits_ok :: "push_limits \<Rightarrow> bool" where
  "limits_ok l \<longleftrightarrow>
     0 < pl_max_pending l \<and> pl_max_pending l \<le> 1000000
     \<and> 1 \<le> pl_max_configs_per_task l \<and> pl_max_configs_per_task l \<le> 32
     \<and> 0 < pl_max_configs_per_tenant l \<and> pl_max_configs_per_tenant l \<le> pl_max_pending l
     \<and> 1 \<le> pl_worker_count l \<and> pl_worker_count l \<le> 64
     \<and> 0 < pl_claim_batch l \<and> pl_claim_batch l \<le> 1000
     \<and> 1000 \<le> pl_claim_lease_ms l \<and> pl_claim_lease_ms l \<le> 300000
     \<and> 10 \<le> pl_dns_timeout_ms l \<and> pl_dns_timeout_ms l \<le> 30000
     \<and> 1 \<le> pl_max_dns_answers l \<and> pl_max_dns_answers l \<le> 32
     \<and> 10 \<le> pl_connect_timeout_ms l \<and> pl_connect_timeout_ms l \<le> 30000
     \<and> pl_connect_timeout_ms l \<le> pl_request_timeout_ms l \<and> pl_request_timeout_ms l \<le> 120000
     \<and> 1 \<le> pl_max_response_bytes l \<and> pl_max_response_bytes l \<le> 65536
     \<and> 1 \<le> pl_max_attempts l \<and> pl_max_attempts l \<le> 32
     \<and> 0 < pl_base_retry_ms l \<and> pl_base_retry_ms l \<le> pl_max_retry_ms l \<and> pl_max_retry_ms l \<le> 3600000
     \<and> pl_max_retry_ms l \<le> pl_max_delivery_age_ms l \<and> pl_max_delivery_age_ms l \<le> 604800000"

definition raw_policy_ok :: "raw_policy \<Rightarrow> bool" where
  "raw_policy_ok raw \<longleftrightarrow>
     rpo_schema raw = ''smesh-push/1'' \<and> bounded_id (rpo_policy_id raw) \<and> 0 < rpo_policy_revision raw
     \<and> length (rpo_policy_digest raw) = 71 \<and> starts_with ''sha256:'' (rpo_policy_digest raw)
     \<and> list_all is_hex_digit (drop 7 (rpo_policy_digest raw))
     \<and> limits_ok (rpo_limits raw)
     \<and> \<not> (rpo_enabled raw \<and> rpo_enrollments raw = []) \<and> length (rpo_enrollments raw) \<le> 10000"

text \<open>\<open>Path::is_absolute\<close> on Unix.\<close>

definition path_is_absolute :: "string \<Rightarrow> bool" where
  "path_is_absolute p \<longleftrightarrow> starts_with ''/'' p"

definition raw_enrollment_ok :: "raw_enrollment \<Rightarrow> bool" where
  "raw_enrollment_ok e \<longleftrightarrow>
     bounded_id (ren_tenant e) \<and> bounded_id (ren_endpoint_id e) \<and> bounded_id (ren_key_generation e)
     \<and> ren_event e = ''terminal'' \<and> ren_auth e = ''hmac-sha256''
     \<and> path_is_absolute (ren_secret_file e)
     \<and> pred_option path_is_absolute (ren_ca_file e)
     \<and> pred_option path_is_absolute (ren_mtls_cert_file e)
     \<and> pred_option path_is_absolute (ren_mtls_key_file e)
     \<and> (ren_mtls_cert_file e = None \<longleftrightarrow> ren_mtls_key_file e = None)"

definition enroll :: "raw_enrollment \<Rightarrow> callback_url \<Rightarrow> push_enrollment" where
  "enroll e url =
     \<lparr>enr_tenant = ren_tenant e, enr_endpoint_id = ren_endpoint_id e, enr_url = url,
      enr_key_generation = ren_key_generation e, enr_secret_file = ren_secret_file e, enr_ca_file = ren_ca_file e,
      enr_mtls_cert_file = ren_mtls_cert_file e, enr_mtls_key_file = ren_mtls_key_file e\<rparr>"

fun enroll_all :: "(string \<Rightarrow> parsed_url option) \<Rightarrow> raw_enrollment list \<Rightarrow> (string \<times> string) list
    \<Rightarrow> (string \<times> callback_url) list \<Rightarrow> (push_security_error + push_enrollment list) option" where
  "enroll_all U [] identities origins = Some (Inr [])"
| "enroll_all U (e # es) identities origins =
     (if \<not> raw_enrollment_ok e then Some (Inl InvalidPushPolicy)
      else case callback_url_parse U (ren_url e) of
          None \<Rightarrow> None
        | Some (Inl err) \<Rightarrow> Some (Inl err)
        | Some (Inr url) \<Rightarrow>
            if (ren_tenant e, ren_endpoint_id e) \<in> set identities \<or> (ren_tenant e, url) \<in> set origins
            then Some (Inl InvalidPushPolicy)
            else map_option (\<lambda>rest. and_then rest (\<lambda>ens. Inr (enroll e url # ens)))
              (enroll_all U es ((ren_tenant e, ren_endpoint_id e) # identities) ((ren_tenant e, url) # origins)))"

definition validate_raw_policy :: "push_env \<Rightarrow> raw_policy \<Rightarrow> (push_security_error + push_policy) option" where
  "validate_raw_policy E raw =
     (if \<not> raw_policy_ok raw then Some (Inl InvalidPushPolicy)
      else map_option (\<lambda>r. and_then r (\<lambda>ens.
        Inr \<lparr>ppo_enabled = rpo_enabled raw, ppo_policy_id = rpo_policy_id raw,
             ppo_policy_revision = rpo_policy_revision raw, ppo_policy_digest = rpo_policy_digest raw,
             ppo_limits = rpo_limits raw, ppo_enrollments = ens\<rparr>))
        (enroll_all (pu_url_parse E) (rpo_enrollments raw) [] []))"

definition policy_parse_bytes :: "push_env \<Rightarrow> (string \<Rightarrow> raw_policy option) \<Rightarrow> byte list
    \<Rightarrow> (push_security_error + push_policy) option" where
  "policy_parse_bytes E toml bytes =
     (if bytes = [] \<or> 256 * 1024 < length bytes then Some (Inl InvalidPushPolicy)
      else case pu_utf8 E bytes of
          None \<Rightarrow> Some (Inl InvalidPushPolicy)
        | Some text \<Rightarrow>
            (case toml text of
               None \<Rightarrow> Some (Inl InvalidPushPolicy)
             | Some raw \<Rightarrow> validate_raw_policy E raw))"

definition policy_retry_policy :: "push_policy \<Rightarrow> retry_policy option" where
  "policy_retry_policy p =
     (case retry_policy_new (pl_max_attempts (ppo_limits p)) (pl_base_retry_ms (ppo_limits p))
             (pl_max_retry_ms (ppo_limits p)) (pl_max_delivery_age_ms (ppo_limits p)) of
        Inl _ \<Rightarrow> None
      | Inr r \<Rightarrow> Some r)"

definition policy_enrollment :: "push_env \<Rightarrow> push_policy \<Rightarrow> string \<Rightarrow> string \<Rightarrow> string
    \<Rightarrow> (push_security_error + push_enrollment) option" where
  "policy_enrollment E p tenant endpoint exact_url =
     map_option (\<lambda>r. and_then r (\<lambda>requested.
       ok_or (find (\<lambda>e. enr_tenant e = tenant \<and> enr_endpoint_id e = endpoint \<and> enr_url e = requested)
         (ppo_enrollments p)) EnrollmentDenied))
       (callback_url_parse (pu_url_parse E) exact_url)"

definition resolve_push_config_path :: "string option \<Rightarrow> string option \<Rightarrow> push_security_error + string option" where
  "resolve_push_config_path canonical alias =
     (if canonical = Some [] \<or> alias = Some [] \<or> (canonical \<noteq> None \<and> alias \<noteq> None) then Inl InvalidPushPolicy
      else Inr (case canonical of Some p \<Rightarrow> Some p | None \<Rightarrow> alias))"

section \<open>Private files\<close>

definition read_private_file :: "push_env \<Rightarrow> string \<Rightarrow> nat \<Rightarrow> push_security_error + byte list" where
  "read_private_file E path maximum =
     and_then (ensure (path_is_absolute path) InvalidSecret) (\<lambda>_.
     and_then (ok_or (pu_open E path) InvalidSecret) (\<lambda>file.
     and_then (ok_or (of_metadata file) InvalidSecret) (\<lambda>meta.
     and_then (ensure (fm_is_file meta \<and> fm_uid meta = pu_getuid E \<and> fm_mode meta mod 64 = 0 \<and> fm_len meta \<le> maximum)
       InvalidSecret) (\<lambda>_.
     and_then (ok_or (of_content file) InvalidSecret) (\<lambda>content.
     let bytes = take (maximum + 1) content in
     and_then (ensure (length bytes \<le> maximum) InvalidSecret) (\<lambda>_. Inr bytes))))))"

definition parse_certificates :: "push_env \<Rightarrow> byte list \<Rightarrow> push_security_error + byte list list" where
  "parse_certificates E bytes =
     and_then (ok_or (pu_pem_certificates E bytes) InvalidSecret) (\<lambda>certs.
     and_then (ensure (certs \<noteq> []) InvalidSecret) (\<lambda>_. Inr certs))"

definition validate_identity_material :: "push_env \<Rightarrow> byte list \<Rightarrow> byte list \<Rightarrow> push_security_error + unit" where
  "validate_identity_material E cert_bytes key_bytes =
     and_then (parse_certificates E cert_bytes) (\<lambda>_.
     and_then (ok_or (pu_pem_keys E key_bytes) InvalidSecret) (\<lambda>keys.
     ensure (length keys = 1) InvalidSecret))"

definition load_signer :: "push_env \<Rightarrow> push_enrollment \<Rightarrow> push_security_error + byte list" where
  "load_signer E e = and_then (read_private_file E (enr_secret_file e) 4096) callback_signer_new"

definition mtls_files :: "push_enrollment \<Rightarrow> (string \<times> string) option" where
  "mtls_files e =
     (case (enr_mtls_cert_file e, enr_mtls_key_file e) of (Some c, Some k) \<Rightarrow> Some (c, k) | _ \<Rightarrow> None)"

definition validate_ca :: "push_env \<Rightarrow> push_enrollment \<Rightarrow> push_security_error + unit" where
  "validate_ca E e =
     (case enr_ca_file e of
        None \<Rightarrow> Inr ()
      | Some path \<Rightarrow>
          and_then (read_private_file E path (256 * 1024)) (\<lambda>bytes. and_then (parse_certificates E bytes) (\<lambda>_. Inr ())))"

definition validate_mtls :: "push_env \<Rightarrow> push_enrollment \<Rightarrow> push_security_error + unit" where
  "validate_mtls E e =
     (case mtls_files e of
        None \<Rightarrow> Inr ()
      | Some (cert_path, key_path) \<Rightarrow>
          and_then (read_private_file E cert_path (256 * 1024)) (\<lambda>cert_bytes.
          and_then (read_private_file E key_path (64 * 1024)) (\<lambda>key_bytes.
          and_then (validate_identity_material E cert_bytes key_bytes) (\<lambda>_.
          ensure (pu_identity_ok E (cert_bytes @ key_bytes)) InvalidSecret))))"

definition validate_material :: "push_env \<Rightarrow> push_policy \<Rightarrow> push_security_error + unit" where
  "validate_material E p =
     try_for (\<lambda>_ e. and_then (load_signer E e) (\<lambda>_. and_then (validate_ca E e) (\<lambda>_. validate_mtls E e)))
       () (ppo_enrollments p)"

definition policy_load :: "push_env \<Rightarrow> (string \<Rightarrow> raw_policy option) \<Rightarrow> string \<Rightarrow> (push_security_error + push_policy) option" where
  "policy_load E toml path =
     (case read_private_file E path (256 * 1024) of
        Inl err \<Rightarrow> Some (Inl err)
      | Inr bytes \<Rightarrow>
          map_option (\<lambda>r. and_then r (\<lambda>p. and_then (validate_material E p) (\<lambda>_. Inr p))) (policy_parse_bytes E toml bytes))"

section \<open>What a signature and an event identity bind\<close>

lemma signing_input_inj:
  assumes "length target < 2 ^ 64" "length target' < 2 ^ 64" "length endpoint < 2 ^ 64" "length endpoint' < 2 ^ 64"
    "length event < 2 ^ 64" "length event' < 2 ^ 64" "length gen < 2 ^ 64" "length gen' < 2 ^ 64"
    "ts < 2 ^ 64" "ts' < 2 ^ 64" "attempt < 2 ^ 32" "attempt' < 2 ^ 32"
  shows "signing_input E target endpoint event ts attempt gen body = signing_input E target' endpoint' event' ts' attempt' gen' body'
     \<longleftrightarrow> target = target' \<and> endpoint = endpoint' \<and> event = event' \<and> ts = ts' \<and> attempt = attempt' \<and> gen = gen'
       \<and> pu_sha256 E body = pu_sha256 E body'"
  using assms by (simp add: signing_input_def len_field_eq be_bytes_inj)

lemma event_input_inj:
  assumes "length tenant < 2 ^ 64" "length tenant' < 2 ^ 64" "length task < 2 ^ 64" "length task' < 2 ^ 64"
    "length config < 2 ^ 64" "length config' < 2 ^ 64" "a < 2 ^ 64" "a' < 2 ^ 64" "b < 2 ^ 64" "b' < 2 ^ 64"
    "c < 2 ^ 64" "c' < 2 ^ 64"
  shows "event_input tenant task a b config c = event_input tenant' task' a' b' config' c'
     \<longleftrightarrow> tenant = tenant' \<and> task = task' \<and> a = a' \<and> b = b' \<and> config = config' \<and> c = c'"
  using assms by (auto simp: event_input_def len_field_eq len_field_inj be_bytes_inj)


section \<open>The retry schedule\<close>

lemma clamp_bounds: "lo \<le> hi \<Longrightarrow> lo \<le> clamp lo hi n \<and> clamp lo hi n \<le> hi"
  by (auto simp: clamp_def)

lemma clamp_id: "lo \<le> n \<Longrightarrow> n \<le> hi \<Longrightarrow> clamp lo hi n = n"
  by (auto simp: clamp_def)

lemma jitter_ceiling:
  assumes "retry_policy_new m base mx age = Inr r" "mx < usize_max"
  shows "full_jitter_ms r attempt sample =
     (if 0 < attempt \<and> attempt \<le> m then Some (sample mod (min (base * 2 ^ (attempt - 1)) mx + 1)) else None)"
proof -
  have r: "r = \<lparr>ry_max_attempts = m, ry_base_ms = base, ry_max_ms = mx, ry_max_age_ms = age\<rparr>"
    and m: "m \<le> 32" "0 < base" "base \<le> mx" "mx \<le> age"
    using assms(1) by (auto simp: retry_policy_new_def split: if_splits)
  have "min (sat_mul base k) mx = min (base * k) mx" for k using assms(2) by (auto simp: sat_mul_def)
  moreover have "sat_add (min k mx) 1 = min k mx + 1" for k using assms(2) by (auto simp: sat_add_def)
  moreover have "attempt \<le> m \<Longrightarrow> min (attempt - 1) 63 = attempt - 1" using m by auto
  ultimately show ?thesis using m by (auto simp: full_jitter_ms_def can_attempt_def r Let_def)
qed

text \<open>
  The delay before a retry stays inside the policy. A delay is refused only without a peer's
  request and outside the allowed attempts; otherwise it lies between the base and the maximum, and
  a peer's request inside that interval is taken as it is. The jitter of an attempt ranges over
  exactly the numbers up to the doubled base, capped by the maximum, and a \<open>Retry-After\<close> value
  counts only when it is single, on the two statuses that allow it, and clamped.
\<close>

theorem retry_schedule_bounded:
  assumes "retry_policy_new m base mx age = Inr r" "mx < usize_max"
  shows "(clamp_delay_ms r requested attempt sample = None \<longleftrightarrow> requested = None \<and> \<not> (0 < attempt \<and> attempt \<le> m))
     \<and> (clamp_delay_ms r requested attempt sample = Some d \<longrightarrow> base \<le> d \<and> d \<le> mx)
     \<and> (base \<le> q \<and> q \<le> mx \<longrightarrow> clamp_delay_ms r (Some q) attempt sample = Some q)
     \<and> (0 < attempt \<and> attempt \<le> m \<longrightarrow>
          ((\<exists>sample. full_jitter_ms r attempt sample = Some j) \<longleftrightarrow> j \<le> base * 2 ^ (attempt - 1) \<and> j \<le> mx))
     \<and> (retry_after_seconds_at E code values now lo hi = Some s \<longrightarrow>
          (code = 429 \<or> code = 503) \<and> length values = 1 \<and> lo \<le> s \<and> s \<le> hi \<and> classify_status code = Retry)"
proof -
  have r: "ry_base_ms r = base" "ry_max_ms r = mx" "base \<le> mx"
    using assms(1) by (auto simp: retry_policy_new_def split: if_splits)
  note jitter = jitter_ceiling[OF assms]
  have "clamp_delay_ms r requested attempt sample = None \<longleftrightarrow> requested = None \<and> \<not> (0 < attempt \<and> attempt \<le> m)"
    by (auto simp: clamp_delay_ms_def jitter split: option.splits)
  moreover have "base \<le> d \<and> d \<le> mx" if "clamp_delay_ms r requested attempt sample = Some d"
    using that clamp_bounds[OF r(3)] by (auto simp: clamp_delay_ms_def r)
  moreover have "clamp_delay_ms r (Some q) attempt sample = Some q" if "base \<le> q \<and> q \<le> mx"
    using that clamp_id by (simp add: clamp_delay_ms_def r)
  moreover have "(\<exists>sample. full_jitter_ms r attempt sample = Some j) \<longleftrightarrow> j \<le> base * 2 ^ (attempt - 1) \<and> j \<le> mx"
    if "0 < attempt \<and> attempt \<le> m"
  proof -
    have "(\<exists>sample. sample mod (k + 1) = j) \<longleftrightarrow> j \<le> k" for k :: nat
      by (metis add.commute le_imp_less_Suc mod_less mod_Suc_le_divisor plus_1_eq_Suc)
    then show ?thesis using that by (simp add: jitter)
  qed
  moreover have "(code = 429 \<or> code = 503) \<and> length values = 1 \<and> lo \<le> s \<and> s \<le> hi \<and> classify_status code = Retry"
    if "retry_after_seconds_at E code values now lo hi = Some s"
    using that clamp_bounds[of lo hi]
    by (auto simp: retry_after_seconds_at_def classify_status_def split: if_splits)
  ultimately show ?thesis by blast
qed

section \<open>Enrollments\<close>

lemma enroll_all_Inr:
  "enroll_all U es ids orgs = Some (Inr ens) \<Longrightarrow>
     length ens = length es
     \<and> distinct (map (\<lambda>e. (enr_tenant e, enr_endpoint_id e)) ens) \<and> distinct (map (\<lambda>e. (enr_tenant e, enr_url e)) ens)
     \<and> (\<forall>e\<in>set ens. (enr_tenant e, enr_endpoint_id e) \<notin> set ids \<and> (enr_tenant e, enr_url e) \<notin> set orgs
          \<and> (\<exists>raw\<in>set es. raw_enrollment_ok raw \<and> callback_url_parse U (ren_url raw) = Some (Inr (enr_url e)) \<and> e = enroll raw (enr_url e)))"
proof (induction es arbitrary: ids orgs ens)
  case (Cons x xs)
  obtain url rest where x: "raw_enrollment_ok x" "callback_url_parse U (ren_url x) = Some (Inr url)"
      "(ren_tenant x, ren_endpoint_id x) \<notin> set ids" "(ren_tenant x, url) \<notin> set orgs"
    and rest: "enroll_all U xs ((ren_tenant x, ren_endpoint_id x) # ids) ((ren_tenant x, url) # orgs) = Some (Inr rest)"
    and ens: "ens = enroll x url # rest"
    using Cons.prems by (auto simp: result_simps split: if_splits option.splits sum.splits)
  have e: "enr_tenant (enroll x url) = ren_tenant x" "enr_endpoint_id (enroll x url) = ren_endpoint_id x" "enr_url (enroll x url) = url"
    by (simp_all add: enroll_def)
  show ?case using Cons.IH[OF rest] x by (auto simp: ens e image_iff)
qed simp

lemma canonical_reparse: "callback_url_parse U input = Some (Inr u) \<Longrightarrow> cu_canonical u = input"
  using rebuild_url_Inr(2) unfolding callback_url_parse_Inr by blast

lemma policy_enrollment_Inr:
  "policy_enrollment E p tenant endpoint x = Some (Inr e) \<Longrightarrow>
     e \<in> set (ppo_enrollments p) \<and> enr_tenant e = tenant \<and> enr_endpoint_id e = endpoint \<and> cu_canonical (enr_url e) = x"
  using canonical_reparse[of "pu_url_parse E" x]
  by (auto simp: policy_enrollment_def result_simps find_Some_iff)

text \<open>
  An accepted push policy can be used without a panic and its enrollments are unambiguous: the
  retry policy exists, no tenant enrolls an endpoint or a URL twice, every enrolled URL is canonical,
  and a lookup by tenant, endpoint and exact URL text returns an enrollment exactly when that
  enrollment is in the policy.
\<close>

theorem push_policy_enrolls_exactly:
  assumes "validate_raw_policy E raw = Some (Inr p)"
  shows "policy_retry_policy p \<noteq> None \<and> limits_ok (ppo_limits p)
     \<and> distinct (map (\<lambda>e. (enr_tenant e, enr_endpoint_id e)) (ppo_enrollments p))
     \<and> distinct (map (\<lambda>e. (enr_tenant e, enr_url e)) (ppo_enrollments p))
     \<and> length (ppo_enrollments p) = length (rpo_enrollments raw)
     \<and> (policy_enrollment E p tenant endpoint x = Some (Inr e) \<longleftrightarrow>
          e \<in> set (ppo_enrollments p) \<and> enr_tenant e = tenant \<and> enr_endpoint_id e = endpoint \<and> cu_canonical (enr_url e) = x)"
proof -
  obtain ens where ok: "raw_policy_ok raw"
    and ens: "enroll_all (pu_url_parse E) (rpo_enrollments raw) [] [] = Some (Inr ens)"
    and p: "ppo_limits p = rpo_limits raw" "ppo_enrollments p = ens"
    using assms by (auto simp: validate_raw_policy_def result_simps split: if_splits)
  note all = enroll_all_Inr[OF ens]
  have "limits_ok (ppo_limits p)" using ok by (simp add: p raw_policy_ok_def)
  moreover from this have "policy_retry_policy p \<noteq> None"
    by (auto simp: policy_retry_policy_def retry_policy_new_def limits_ok_def)
  moreover have "policy_enrollment E p tenant endpoint x = Some (Inr e)"
    if e: "e \<in> set ens" "enr_tenant e = tenant" "enr_endpoint_id e = endpoint" "cu_canonical (enr_url e) = x"
  proof -
    from all e(1) obtain u where "callback_url_parse (pu_url_parse E) u = Some (Inr (enr_url e))" by blast
    with e(4) canonical_reparse have url: "callback_url_parse (pu_url_parse E) x = Some (Inr (enr_url e))" by blast
    have "find (\<lambda>f. enr_tenant f = tenant \<and> enr_endpoint_id f = endpoint \<and> enr_url f = enr_url e) ens = Some e"
    proof -
      obtain f where f: "find (\<lambda>f. enr_tenant f = tenant \<and> enr_endpoint_id f = endpoint \<and> enr_url f = enr_url e) ens = Some f"
        using e by (cases "find (\<lambda>f. enr_tenant f = tenant \<and> enr_endpoint_id f = endpoint \<and> enr_url f = enr_url e) ens")
          (auto simp: find_None_iff)
      then have "f \<in> set ens" "enr_tenant f = tenant" "enr_endpoint_id f = endpoint"
        by (auto simp: find_Some_iff)
      moreover have "inj_on (\<lambda>e. (enr_tenant e, enr_endpoint_id e)) (set ens)" using all by (simp add: distinct_map)
      ultimately have "f = e" using e by (simp add: inj_on_def)
      with f show ?thesis by simp
    qed
    then show ?thesis by (simp add: policy_enrollment_def url p result_simps)
  qed
  ultimately show ?thesis
    using conjunct1[OF all] conjunct1[OF conjunct2[OF all]] conjunct1[OF conjunct2[OF conjunct2[OF all]]]
      policy_enrollment_Inr[of E p tenant endpoint x e]
    unfolding p by blast
qed

section \<open>Witnesses\<close>

text \<open>
  An environment with transparent stand-ins: digest and MAC return their input with the key in front,
  base64 is the identity on characters, and one owner-private file holds 32 zero bytes.
\<close>

definition sample_env :: push_env where
  "sample_env =
     \<lparr>pu_sha256 = id, pu_hmac = (@), pu_base64_url = map (\<lambda>b. char_of (unat b)),
      pu_base64_url_decode = (\<lambda>s. Some (ascii s)), pu_base64 = map (\<lambda>b. char_of (unat b)),
      pu_url_parse = sample_url_parse, pu_http_date = (\<lambda>_. Some 1000), pu_utf8 = (\<lambda>bs. Some (map (\<lambda>b. char_of (unat b)) bs)),
      pu_open = (\<lambda>path. if path = ''/key''
        then Some \<lparr>of_metadata = Some \<lparr>fm_is_file = True, fm_uid = 7, fm_mode = 384, fm_len = 32\<rparr>, of_content = Some (replicate 32 0)\<rparr>
        else None),
      pu_getuid = 7, pu_pem_certificates = (\<lambda>_. None), pu_pem_keys = (\<lambda>_. None), pu_certificate_ok = (\<lambda>_. False),
      pu_identity_ok = (\<lambda>_. False)\<rparr>"

definition sample_limits :: push_limits where
  "sample_limits =
     \<lparr>pl_max_pending = 100, pl_max_configs_per_task = 4, pl_max_configs_per_tenant = 10, pl_worker_count = 2, pl_claim_batch = 8,
      pl_claim_lease_ms = 1000, pl_dns_timeout_ms = 100, pl_max_dns_answers = 8, pl_connect_timeout_ms = 100,
      pl_request_timeout_ms = 1000, pl_max_response_bytes = 64, pl_max_attempts = 5, pl_base_retry_ms = 10,
      pl_max_retry_ms = 100, pl_max_delivery_age_ms = 1000\<rparr>"

definition sample_url :: callback_url where
  "sample_url = \<lparr>cu_canonical = ''https://a:443/x'', cu_host = ''a'', cu_port = 443, cu_path = ''/x''\<rparr>"

definition sample_raw_enrollment :: raw_enrollment where
  "sample_raw_enrollment =
     \<lparr>ren_tenant = ''t'', ren_endpoint_id = ''e'', ren_url = ''https://a:443/x'', ren_event = ''terminal'', ren_auth = ''hmac-sha256'',
      ren_key_generation = ''k'', ren_secret_file = ''/key'', ren_ca_file = None, ren_mtls_cert_file = None, ren_mtls_key_file = None\<rparr>"

definition sample_enrollment :: push_enrollment where
  "sample_enrollment = enroll sample_raw_enrollment sample_url"

definition sample_raw_policy :: raw_policy where
  "sample_raw_policy =
     \<lparr>rpo_schema = ''smesh-push/1'', rpo_enabled = True, rpo_policy_id = ''p'', rpo_policy_revision = 1,
      rpo_policy_digest = ''sha256:'' @ replicate 64 (CHR ''0''), rpo_limits = sample_limits, rpo_enrollments = [sample_raw_enrollment]\<rparr>"

definition sample_push_policy :: push_policy where
  "sample_push_policy =
     \<lparr>ppo_enabled = True, ppo_policy_id = ''p'', ppo_policy_revision = 1,
      ppo_policy_digest = ''sha256:'' @ replicate 64 (CHR ''0''), ppo_limits = sample_limits, ppo_enrollments = [sample_enrollment]\<rparr>"

lemma sample_policy_accepted: "validate_raw_policy sample_env sample_raw_policy = Some (Inr sample_push_policy)"
proof -
  have "raw_policy_ok sample_raw_policy"
    by (simp add: raw_policy_ok_def sample_raw_policy_def bounded_id_def limits_ok_def sample_limits_def starts_with_def
        is_hex_digit_def text_simps list_all_iff)
  moreover have "raw_enrollment_ok sample_raw_enrollment"
    by (simp add: raw_enrollment_ok_def sample_raw_enrollment_def bounded_id_def path_is_absolute_def starts_with_def text_simps)
  moreover have "callback_url_parse sample_url_parse (ren_url sample_raw_enrollment) = Some (Inr sample_url)"
    by (simp add: sample_raw_enrollment_def sample_url_accepted sample_url_def)
  ultimately show ?thesis
    by (simp add: validate_raw_policy_def sample_env_def sample_push_policy_def sample_enrollment_def)
      (simp add: sample_raw_policy_def)
qed

lemma sample_enrolled:
  "sample_enrollment \<in> set (ppo_enrollments sample_push_policy) \<and> enr_tenant sample_enrollment = ''t''
   \<and> enr_endpoint_id sample_enrollment = ''e'' \<and> cu_canonical (enr_url sample_enrollment) = ''https://a:443/x''"
  by (simp add: sample_push_policy_def sample_enrollment_def sample_raw_enrollment_def enroll_def sample_url_def)

theorem push_policy_witness:
  "policy_enrollment sample_env sample_push_policy ''t'' ''e'' ''https://a:443/x'' = Some (Inr sample_enrollment)
   \<and> policy_retry_policy sample_push_policy \<noteq> None"
  using push_policy_enrolls_exactly[OF sample_policy_accepted, of "''t''" "''e''" "''https://a:443/x''" sample_enrollment] sample_enrolled
  by blast

theorem retry_schedule_witness:
  "retry_policy_new 5 10 100 1000 = Inr \<lparr>ry_max_attempts = 5, ry_base_ms = 10, ry_max_ms = 100, ry_max_age_ms = 1000\<rparr>
   \<and> (\<exists>sample. full_jitter_ms \<lparr>ry_max_attempts = 5, ry_base_ms = 10, ry_max_ms = 100, ry_max_age_ms = 1000\<rparr> 3 sample = Some 40)"
proof -
  have new: "retry_policy_new 5 10 100 1000 = Inr \<lparr>ry_max_attempts = 5, ry_base_ms = 10, ry_max_ms = 100, ry_max_age_ms = 1000\<rparr>"
    by (simp add: retry_policy_new_def)
  moreover have "(100::nat) < usize_max" by (simp add: usize_max_def)
  ultimately show ?thesis using retry_schedule_bounded[OF new, where attempt = 3 and j = 40] by simp
qed

lemma sample_base64_inj: "inj (pu_base64_url sample_env)"
proof -
  have "inj (\<lambda>b :: byte. char_of (unat b))"
  proof
    fix a b :: byte
    assume "char_of (unat a) = char_of (unat b)"
    then have "unat a mod 256 = unat b mod 256" by (metis of_char_of)
    moreover have "unat a < 256" "unat b < 256" using unsigned_less[of a] unsigned_less[of b] by simp_all
    ultimately show "a = b" by (simp add: word_unat_eq_iff)
  qed
  then show ?thesis by (simp add: sample_env_def)
qed


end
