(* ===== verification/Callback_Transport.thy ===== *)
theory Callback_Transport
  imports Callback_Push
begin

text \<open>
  The network half of \<open>src/push.rs\<close>: one delivery attempt over a fresh resolver snapshot, and the
  bounds on what a peer may answer. An attempt returns the
  resolver and network effects it had, in order, beside its result; the resolver's answers (or its
  timeout) and the HTTP client are arguments. The model is the release build: the connector map of the
  debug build, which only tests set, is left out.
\<close>

section \<open>Transport\<close>

datatype callback_transport_error =
    DnsUnsafe | TransportDnsUnavailable | Tls | Configuration | Connect | Timeout | Reset | ResponseTooLarge

record callback_response =
  cr_status :: nat
  cr_disposition :: delivery_disposition
  cr_retry_after_seconds :: "nat option"

record callback_transport =
  ct_max_answers :: nat
  ct_dns_timeout_ms :: nat
  ct_connect_timeout_ms :: nat
  ct_request_timeout_ms :: nat
  ct_test_loopback_pinning :: bool

text \<open>A \<open>reqwest::Error\<close>: its flags and, for each error of its source chain, whether it is a \<open>rustls::Error\<close> and its text.\<close>

record client_error =
  ce_is_timeout :: bool
  ce_is_connect :: bool
  ce_chain :: "(bool \<times> string) list"

record outgoing =
  og_host :: string
  og_socket :: "ip_addr \<times> nat"
  og_url :: string
  og_headers :: "(string \<times> string) list"
  og_body :: "byte list"
  og_roots :: "byte list list option"
  og_identity :: "byte list option"
  og_connect_timeout_ms :: nat
  og_request_timeout_ms :: nat

record incoming =
  ic_status :: nat
  ic_headers :: "(string \<times> byte list) list"
  ic_chunks :: "(client_error + byte list) list"

datatype attempt_effect = Resolved string | Sent outgoing

record attempt_io =
  io_resolve :: "string \<Rightarrow> (push_security_error + ip_addr list) option"
  io_client_builds :: "outgoing \<Rightarrow> bool"
  io_post :: "outgoing \<Rightarrow> client_error + incoming"
  io_header_text :: "byte list \<Rightarrow> string option"
  io_clock :: "nat option"

definition transport_new :: "nat \<Rightarrow> push_security_error + callback_transport" where
  "transport_new max_answers =
     (if \<not> (1 \<le> max_answers \<and> max_answers \<le> 32) then Inl InvalidPushPolicy
      else Inr \<lparr>ct_max_answers = max_answers, ct_dns_timeout_ms = 2000, ct_connect_timeout_ms = 3000,
             ct_request_timeout_ms = 10000, ct_test_loopback_pinning = False\<rparr>)"

definition from_policy_system :: "bool \<Rightarrow> push_policy \<Rightarrow> push_security_error + callback_transport" where
  "from_policy_system test_map_set p =
     (if test_map_set then Inl InvalidPushPolicy
      else Inr \<lparr>ct_max_answers = pl_max_dns_answers (ppo_limits p), ct_dns_timeout_ms = pl_dns_timeout_ms (ppo_limits p),
             ct_connect_timeout_ms = pl_connect_timeout_ms (ppo_limits p),
             ct_request_timeout_ms = pl_request_timeout_ms (ppo_limits p), ct_test_loopback_pinning = False\<rparr>)"

text \<open>\<open>IpAddr::is_loopback\<close>: \<open>127.0.0.0/8\<close> and \<open>::1\<close>.\<close>

definition is_loopback :: "ip_addr \<Rightarrow> bool" where
  "is_loopback a = (case a of V4 x \<Rightarrow> drop_bit 24 x = 127 | V6 x \<Rightarrow> x = 1)"

definition resolve_attempt :: "attempt_io \<Rightarrow> callback_transport \<Rightarrow> callback_url \<Rightarrow> push_security_error + (ip_addr \<times> nat)" where
  "resolve_attempt io tr target =
     (case io_resolve io (cu_host target) of
        None \<Rightarrow> Inl DnsUnavailable
      | Some (Inl err) \<Rightarrow> Inl err
      | Some (Inr answers) \<Rightarrow>
          and_then
            (if ct_test_loopback_pinning tr \<and> answers \<noteq> [] \<and> length answers \<le> ct_max_answers tr \<and> list_all is_loopback answers
             then Inr answers
             else validate_dns_answers answers (ct_max_answers tr))
            (\<lambda>validated. Inr (hd validated, cu_port target)))"

definition callback_headers :: "push_env \<Rightarrow> string \<Rightarrow> string \<Rightarrow> nat \<Rightarrow> nat \<Rightarrow> string \<Rightarrow> string \<Rightarrow> byte list \<Rightarrow> (string \<times> string) list" where
  "callback_headers E endpoint event stamp attempt generation signature body =
     [(''Content-Type'', ''application/a2a+json''), (''Content-Digest'', content_digest_header E body),
      (''X-Smesh-Callback-Version'', ''1''), (''X-Smesh-Callback-Event-Id'', event),
      (''X-Smesh-Callback-Endpoint-Id'', endpoint), (''X-Smesh-Callback-Timestamp'', show_nat stamp),
      (''X-Smesh-Callback-Attempt'', show_nat attempt), (''X-Smesh-Callback-Key-Generation'', generation),
      (''X-Smesh-Callback-Signature'', signature), (''Idempotency-Key'', event)]"

definition send_callback :: "push_env \<Rightarrow> attempt_io \<Rightarrow> callback_transport \<Rightarrow> callback_url \<Rightarrow> string \<Rightarrow> string \<Rightarrow> nat \<Rightarrow> nat
    \<Rightarrow> string \<Rightarrow> byte list \<Rightarrow> byte list \<Rightarrow> attempt_effect list \<times> (push_security_error + delivery_disposition)" where
  "send_callback E io tr target endpoint event stamp attempt generation signer body =
     (if 256 * 1024 < length body \<or> attempt = 0 then ([], Inl InvalidPushPolicy)
      else case resolve_attempt io tr target of
          Inl err \<Rightarrow> ([Resolved (cu_host target)], Inl err)
        | Inr pinned \<Rightarrow>
            let signature = signer_sign E signer (cu_canonical target) endpoint event stamp attempt generation body;
                request = \<lparr>og_host = cu_host target, og_socket = pinned, og_url = cu_canonical target,
                  og_headers = callback_headers E endpoint event stamp attempt generation signature body, og_body = body,
                  og_roots = None, og_identity = None, og_connect_timeout_ms = ct_connect_timeout_ms tr,
                  og_request_timeout_ms = ct_request_timeout_ms tr\<rparr>
            in if \<not> io_client_builds io request then ([Resolved (cu_host target)], Inl InvalidPushPolicy)
               else ([Resolved (cu_host target), Sent request],
                 (case io_post io request of
                    Inl _ \<Rightarrow> Inl TransportUnavailable
                  | Inr response \<Rightarrow> Inr (classify_status (ic_status response)))))"

section \<open>Failures\<close>

text \<open>\<open>str::contains\<close> and the closed list of TLS texts.\<close>

fun contains_text :: "string \<Rightarrow> string \<Rightarrow> bool" where
  "contains_text needle [] \<longleftrightarrow> needle = []"
| "contains_text needle (c # cs) \<longleftrightarrow> starts_with needle (c # cs) \<or> contains_text needle cs"

fun error_chain_contains_rustls :: "(bool \<times> string) list \<Rightarrow> bool" where
  "error_chain_contains_rustls [] \<longleftrightarrow> False"
| "error_chain_contains_rustls ((is_rustls, message) # sources) \<longleftrightarrow>
     (is_rustls
      \<or> list_ex (\<lambda>t. contains_text t (to_ascii_lowercase message))
          [''certificate'', ''tls alert'', ''unknown issuer'', ''not valid for name'']
      \<or> error_chain_contains_rustls sources)"

definition classify_reqwest_error :: "client_error \<Rightarrow> callback_transport_error" where
  "classify_reqwest_error e =
     (if ce_is_timeout e then Timeout
      else if error_chain_contains_rustls (ce_chain e) then Tls
      else if ce_is_connect e then Connect
      else Reset)"

definition resolve_error :: "push_security_error \<Rightarrow> callback_transport_error" where
  "resolve_error e =
     (case e of UnsafeDns \<Rightarrow> DnsUnsafe | DnsUnavailable \<Rightarrow> TransportDnsUnavailable | _ \<Rightarrow> Configuration)"

section \<open>Local material\<close>

definition load_roots :: "push_env \<Rightarrow> push_enrollment \<Rightarrow> callback_transport_error + byte list list option" where
  "load_roots E e =
     (case enr_ca_file e of
        None \<Rightarrow> Inr None
      | Some path \<Rightarrow>
          and_then (map_err (\<lambda>_. Configuration) (read_private_file E path (256 * 1024))) (\<lambda>bytes.
          and_then (map_err (\<lambda>_. Configuration) (parse_certificates E bytes)) (\<lambda>certs.
          and_then (collect_res (\<lambda>der. and_then (ensure (pu_certificate_ok E der) Configuration) (\<lambda>_. Inr der)) certs)
            (\<lambda>certs. Inr (Some certs)))))"

definition load_identity :: "push_env \<Rightarrow> push_enrollment \<Rightarrow> callback_transport_error + byte list option" where
  "load_identity E e =
     (case mtls_files e of
        None \<Rightarrow> Inr None
      | Some (cert_path, key_path) \<Rightarrow>
          and_then (map_err (\<lambda>_. Configuration) (read_private_file E cert_path (256 * 1024))) (\<lambda>cert_bytes.
          and_then (map_err (\<lambda>_. Configuration) (read_private_file E key_path (64 * 1024))) (\<lambda>key_bytes.
          and_then (map_err (\<lambda>_. Configuration) (validate_identity_material E cert_bytes key_bytes)) (\<lambda>_.
          and_then (ensure (pu_identity_ok E (cert_bytes @ key_bytes)) Configuration) (\<lambda>_.
            Inr (Some (cert_bytes @ key_bytes)))))))"

section \<open>Responses\<close>

definition bounded_add :: "nat \<Rightarrow> nat \<Rightarrow> nat \<Rightarrow> callback_transport_error + nat" where
  "bounded_add maximum a b =
     ok_or (Option.bind (checked_add a b) (\<lambda>n. if n \<le> maximum then Some n else None)) ResponseTooLarge"

definition header_bytes :: "nat \<Rightarrow> (string \<times> byte list) list \<Rightarrow> callback_transport_error + nat" where
  "header_bytes maximum headers =
     try_for (\<lambda>so_far (name, v).
       ok_or (Option.bind (Option.bind (checked_add so_far (length name)) (\<lambda>n. checked_add n (length v)))
         (\<lambda>n. if n \<le> maximum then Some n else None)) ResponseTooLarge) 0 headers"

definition body_bytes :: "nat \<Rightarrow> nat \<Rightarrow> (client_error + byte list) list \<Rightarrow> callback_transport_error + nat" where
  "body_bytes maximum received chunks =
     try_for (\<lambda>received chunk.
       and_then (map_err classify_reqwest_error chunk) (\<lambda>bytes. bounded_add maximum received (length bytes))) received chunks"

definition retry_after_of :: "push_env \<Rightarrow> attempt_io \<Rightarrow> incoming \<Rightarrow> nat option" where
  "retry_after_of E io response =
     (let values = map snd (filter (\<lambda>(name, _). name = ''retry-after'') (ic_headers response)) in
      if list_all (\<lambda>v. io_header_text io v \<noteq> None) values
      then retry_after_seconds E (io_clock io) (ic_status response) (List.map_filter (io_header_text io) values) 0
        (usize_max div 1000)
      else None)"

definition read_response :: "push_env \<Rightarrow> attempt_io \<Rightarrow> nat \<Rightarrow> incoming \<Rightarrow> callback_transport_error + callback_response" where
  "read_response E io maximum response =
     and_then (header_bytes maximum (ic_headers response)) (\<lambda>headers.
     and_then (body_bytes maximum headers (ic_chunks response)) (\<lambda>_.
       Inr \<lparr>cr_status = ic_status response, cr_disposition = classify_status (ic_status response),
            cr_retry_after_seconds = retry_after_of E io response\<rparr>))"

section \<open>One attempt\<close>

definition local_material :: "push_env \<Rightarrow> push_enrollment \<Rightarrow> nat \<Rightarrow> byte list \<Rightarrow> nat
    \<Rightarrow> callback_transport_error + (byte list \<times> byte list list option \<times> byte list option)" where
  "local_material E e attempt body max_response_bytes =
     and_then (ensure (body \<noteq> [] \<and> length body \<le> 256 * 1024 \<and> attempt \<noteq> 0 \<and> max_response_bytes \<noteq> 0) Configuration) (\<lambda>_.
     and_then (map_err (\<lambda>_. Configuration) (load_signer E e)) (\<lambda>signer.
     and_then (load_roots E e) (\<lambda>roots.
     and_then (load_identity E e) (\<lambda>identity. Inr (signer, roots, identity)))))"

definition send_enrollment :: "push_env \<Rightarrow> attempt_io \<Rightarrow> callback_transport \<Rightarrow> push_enrollment \<Rightarrow> string \<Rightarrow> nat \<Rightarrow> nat
    \<Rightarrow> byte list \<Rightarrow> nat \<Rightarrow> attempt_effect list \<times> (callback_transport_error + callback_response)" where
  "send_enrollment E io tr e event stamp attempt body max_response_bytes =
     (case local_material E e attempt body max_response_bytes of
        Inl err \<Rightarrow> ([], Inl err)
      | Inr (signer, roots, identity) \<Rightarrow>
          let target = enr_url e in
          (case resolve_attempt io tr target of
             Inl err \<Rightarrow> ([Resolved (cu_host target)], Inl (resolve_error err))
           | Inr pinned \<Rightarrow>
               let signature = signer_sign E signer (cu_canonical target) (enr_endpoint_id e) event stamp attempt
                     (enr_key_generation e) body;
                   request = \<lparr>og_host = cu_host target, og_socket = pinned, og_url = cu_canonical target,
                     og_headers = callback_headers E (enr_endpoint_id e) event stamp attempt (enr_key_generation e)
                       signature body, og_body = body, og_roots = roots, og_identity = identity,
                     og_connect_timeout_ms = ct_connect_timeout_ms tr, og_request_timeout_ms = ct_request_timeout_ms tr\<rparr>
               in if \<not> io_client_builds io request then ([Resolved (cu_host target)], Inl Configuration)
                  else ([Resolved (cu_host target), Sent request],
                    (case io_post io request of
                       Inl err \<Rightarrow>
                         (let classified = classify_reqwest_error err in
                          Inl (if classified = Reset \<and> mtls_files e \<noteq> None then Tls else classified))
                     | Inr response \<Rightarrow> read_response E io max_response_bytes response))))"

section \<open>What an attempt can reach\<close>

lemma resolve_attempt_Inr:
  assumes "resolve_attempt io tr target = Inr pinned" "\<not> ct_test_loopback_pinning tr"
  shows "\<exists>answers. io_resolve io (cu_host target) = Some (Inr answers) \<and> answers \<noteq> [] \<and> length answers \<le> ct_max_answers tr
       \<and> list_all is_public_callback_ip answers \<and> fst pinned \<in> normalize_ip ` set answers"
    and "snd pinned = cu_port target" "is_public_callback_ip (fst pinned)"
proof -
  obtain answers v where a: "io_resolve io (cu_host target) = Some (Inr answers)"
    "validate_dns_answers answers (ct_max_answers tr) = Inr v" "pinned = (hd v, cu_port target)"
    using assms by (auto simp: resolve_attempt_def result_simps split: option.splits sum.splits)
  note v = validated_answers[OF a(2)]
  have "hd v \<in> set v" using v(1) by simp
  then have hd: "hd v \<in> normalize_ip ` set answers" "is_public_callback_ip (hd v)"
    using v(4,5) unfolding list_all_iff by blast+
  show "\<exists>answers. io_resolve io (cu_host target) = Some (Inr answers) \<and> answers \<noteq> [] \<and> length answers \<le> ct_max_answers tr
       \<and> list_all is_public_callback_ip answers \<and> fst pinned \<in> normalize_ip ` set answers"
    using a hd v by auto
  show "snd pinned = cu_port target" "is_public_callback_ip (fst pinned)" using a hd by simp_all
qed

lemma send_enrollment_cases:
  obtains (local) err where "local_material E e attempt body mx = Inl err"
      "send_enrollment E io tr e event ts attempt body mx = ([], Inl err)"
  | (unsent) err m where "local_material E e attempt body mx = Inr m"
      "send_enrollment E io tr e event ts attempt body mx = ([Resolved (cu_host (enr_url e))], Inl err)"
  | (sent) key roots identity pinned request where
      "local_material E e attempt body mx = Inr (key, roots, identity)" "resolve_attempt io tr (enr_url e) = Inr pinned"
      "request = \<lparr>og_host = cu_host (enr_url e), og_socket = pinned, og_url = cu_canonical (enr_url e),
         og_headers = callback_headers E (enr_endpoint_id e) event ts attempt (enr_key_generation e)
           (signer_sign E key (cu_canonical (enr_url e)) (enr_endpoint_id e) event ts attempt (enr_key_generation e) body) body,
         og_body = body, og_roots = roots, og_identity = identity,
         og_connect_timeout_ms = ct_connect_timeout_ms tr, og_request_timeout_ms = ct_request_timeout_ms tr\<rparr>"
      "fst (send_enrollment E io tr e event ts attempt body mx) = [Resolved (cu_host (enr_url e)), Sent request]"
      "\<And>r. snd (send_enrollment E io tr e event ts attempt body mx) = Inr r \<Longrightarrow>
         \<exists>response. io_post io request = Inr response \<and> read_response E io mx response = Inr r"
proof (cases "local_material E e attempt body mx")
  case (Inl err)
  then show thesis by (intro local[of err]) (simp_all add: send_enrollment_def)
next
  case mat: (Inr m)
  obtain key roots identity where m: "m = (key, roots, identity)" by (cases m)
  show thesis
  proof (cases "resolve_attempt io tr (enr_url e)")
    case (Inl err)
    then show thesis by (intro unsent[OF mat]) (simp add: send_enrollment_def mat m)
  next
    case (Inr pinned)
    let ?request = "\<lparr>og_host = cu_host (enr_url e), og_socket = pinned, og_url = cu_canonical (enr_url e),
         og_headers = callback_headers E (enr_endpoint_id e) event ts attempt (enr_key_generation e)
           (signer_sign E key (cu_canonical (enr_url e)) (enr_endpoint_id e) event ts attempt (enr_key_generation e) body) body,
         og_body = body, og_roots = roots, og_identity = identity,
         og_connect_timeout_ms = ct_connect_timeout_ms tr, og_request_timeout_ms = ct_request_timeout_ms tr\<rparr>"
    show thesis
    proof (cases "io_client_builds io ?request")
      case False
      with Inr mat m show thesis by (intro unsent[OF mat]) (simp add: send_enrollment_def Let_def)
    next
      case True
      with Inr mat m show thesis
        by (intro sent[of key roots identity pinned ?request])
          (auto simp: send_enrollment_def Let_def split: sum.splits)
    qed
  qed
qed

lemma local_material_Inr:
  assumes "local_material E e attempt body mx = Inr (key, roots, identity)"
  shows "load_signer E e = Inr key" "32 \<le> length key" "length key \<le> 4096" "enr_ca_file e \<noteq> None \<longleftrightarrow> roots \<noteq> None"
    "mtls_files e \<noteq> None \<longleftrightarrow> identity \<noteq> None" "body \<noteq> []" "length body \<le> 262144" "attempt \<noteq> 0"
  using assms
  by (auto simp: local_material_def result_simps load_signer_def callback_signer_new_def load_roots_def load_identity_def
      split: if_splits option.splits prod.splits)

section \<open>Response bounds\<close>

fun chunks_size :: "('e + 'a list) list \<Rightarrow> nat option" where
  "chunks_size [] = Some 0"
| "chunks_size (Inl _ # _) = None"
| "chunks_size (Inr bs # rest) = map_option ((+) (length bs)) (chunks_size rest)"

lemma header_bytes_loop:
  assumes "mx \<le> usize_max" "n \<le> mx"
  shows "try_for (\<lambda>so_far (name, v).
       ok_or (Option.bind (Option.bind (checked_add so_far (length name)) (\<lambda>n. checked_add n (length v)))
         (\<lambda>n. if n \<le> mx then Some n else None)) ResponseTooLarge) n headers =
     (let total_bytes = n + sum_list (map (\<lambda>(name, v). length name + length v) headers) in
      if total_bytes \<le> mx then Inr total_bytes else Inl ResponseTooLarge)"
  using assms
proof (induction headers arbitrary: n)
  case (Cons h hs)
  then show ?case
    by (cases h) (auto simp: checked_add_def ok_or_def Let_def)
qed simp

lemma body_bytes_loop:
  assumes "mx \<le> usize_max" "n \<le> mx"
  shows "(\<exists>k. body_bytes mx n chunks = Inr k) \<longleftrightarrow> (\<exists>b. chunks_size chunks = Some b \<and> n + b \<le> mx)"
  using assms unfolding body_bytes_def
proof (induction chunks arbitrary: n)
  case (Cons c cs)
  show ?case
  proof (cases c)
    case (Inr bs)
    show ?thesis
    proof (cases "n + length bs \<le> mx")
      case True
      then show ?thesis
        using Cons.IH[of "n + length bs"] Cons.prems Inr
        by (auto simp: bounded_add_def checked_add_def ok_or_def map_err_def add.assoc)
    next
      case False
      then show ?thesis by (auto simp: Inr bounded_add_def checked_add_def ok_or_def map_err_def)
    qed
  qed (simp add: map_err_def)
qed simp

lemma read_response_iff:
  assumes "mx \<le> usize_max"
  shows "read_response E io mx response = Inr r \<longleftrightarrow>
     (\<exists>b. chunks_size (ic_chunks response) = Some b
        \<and> sum_list (map (\<lambda>(name, v). length name + length v) (ic_headers response)) + b \<le> mx)
     \<and> r = \<lparr>cr_status = ic_status response, cr_disposition = classify_status (ic_status response),
            cr_retry_after_seconds = retry_after_of E io response\<rparr>"
proof -
  have h: "header_bytes mx (ic_headers response) =
     (let total_bytes = sum_list (map (\<lambda>(name, v). length name + length v) (ic_headers response)) in
      if total_bytes \<le> mx then Inr total_bytes else Inl ResponseTooLarge)"
    using header_bytes_loop[OF assms, of 0] by (simp add: header_bytes_def)
  show ?thesis
    using body_bytes_loop[OF assms, of "sum_list (map (\<lambda>(name, v). length name + length v) (ic_headers response))" "ic_chunks response"]
    by (auto simp: read_response_def h Let_def result_simps)
qed

text \<open>
  C18. An attempt with an enrollment has one of three traces: no effect at all when the request or any
  local key, certificate or identity is unusable; one name lookup; or one lookup followed by one
  request. That request goes to the enrolled canonical URL, is pinned to a public address that the
  lookup just returned, beside only public answers, on the enrolled port; it carries the body, a
  signature that verifies under the enrollment's secret, and the enrolled trust roots and identity
  when they are configured. A result is reported only for a response whose headers and body are
  within the bound, with the class of its status.
\<close>

theorem attempt_is_contained:
  assumes "\<not> ct_test_loopback_pinning tr" "mx \<le> usize_max"
  shows "(case send_enrollment E io tr e event ts attempt body mx of (effects, result) \<Rightarrow>
     (effects = [] \<or> effects = [Resolved (cu_host (enr_url e))]
       \<or> (\<exists>request. effects = [Resolved (cu_host (enr_url e)), Sent request]))
     \<and> (\<forall>err. local_material E e attempt body mx = Inl err \<longrightarrow> effects = [] \<and> result = Inl err)
     \<and> (\<forall>request. Sent request \<in> set effects \<longrightarrow>
          og_url request = cu_canonical (enr_url e) \<and> og_host request = cu_host (enr_url e) \<and> og_body request = body
          \<and> snd (og_socket request) = cu_port (enr_url e) \<and> is_public_callback_ip (fst (og_socket request))
          \<and> (\<exists>answers. io_resolve io (cu_host (enr_url e)) = Some (Inr answers) \<and> list_all is_public_callback_ip answers
               \<and> fst (og_socket request) \<in> normalize_ip ` set answers)
          \<and> (\<exists>key signature. load_signer E e = Inr key \<and> 32 \<le> length key
               \<and> (''X-Smesh-Callback-Signature'', signature) \<in> set (og_headers request)
               \<and> signer_verify E key (og_url request) (enr_endpoint_id e) event ts attempt (enr_key_generation e) body signature)
          \<and> (enr_ca_file e \<noteq> None \<longleftrightarrow> og_roots request \<noteq> None) \<and> (mtls_files e \<noteq> None \<longleftrightarrow> og_identity request \<noteq> None))
     \<and> (\<forall>r. result = Inr r \<longrightarrow> (\<exists>request response b. Sent request \<in> set effects \<and> io_post io request = Inr response
          \<and> chunks_size (ic_chunks response) = Some b
          \<and> sum_list (map (\<lambda>(name, v). length name + length v) (ic_headers response)) + b \<le> mx
          \<and> cr_status r = ic_status response \<and> cr_disposition r = classify_status (ic_status response))))"
proof (cases rule: send_enrollment_cases[where E = E and io = io and tr = tr and e = e and event = event and ts = ts
      and attempt = attempt and body = body and mx = mx])
  case (sent key roots identity pinned request)
  note pin = resolve_attempt_Inr[OF sent(2) assms(1)]
  note mat = local_material_Inr[OF sent(1)]
  obtain result where s: "send_enrollment E io tr e event ts attempt body mx = ([Resolved (cu_host (enr_url e)), Sent request], result)"
    using sent(4) by (metis prod.collapse)
  have req: "og_url request = cu_canonical (enr_url e)" "og_host request = cu_host (enr_url e)" "og_body request = body"
    "og_socket request = pinned" "og_roots request = roots" "og_identity request = identity"
    "(''X-Smesh-Callback-Signature'', signer_sign E key (cu_canonical (enr_url e)) (enr_endpoint_id e) event ts attempt
       (enr_key_generation e) body) \<in> set (og_headers request)"
    by (simp_all add: sent(3) callback_headers_def)
  have "\<exists>response b. io_post io request = Inr response
          \<and> chunks_size (ic_chunks response) = Some b
          \<and> sum_list (map (\<lambda>(name, v). length name + length v) (ic_headers response)) + b \<le> mx
          \<and> cr_status r = ic_status response \<and> cr_disposition r = classify_status (ic_status response)"
    if "result = Inr r" for r
  proof -
    from sent(5)[of r] s that obtain response where p: "io_post io request = Inr response" "read_response E io mx response = Inr r"
      by auto
    then show ?thesis using read_response_iff[OF assms(2), of E io response r] by fastforce
  qed
  moreover have "\<exists>answers. io_resolve io (cu_host (enr_url e)) = Some (Inr answers) \<and> list_all is_public_callback_ip answers
               \<and> fst pinned \<in> normalize_ip ` set answers" using pin(1) by blast
  moreover have "\<exists>k signature. load_signer E e = Inr k \<and> 32 \<le> length k
               \<and> (''X-Smesh-Callback-Signature'', signature) \<in> set (og_headers request)
               \<and> signer_verify E k (cu_canonical (enr_url e)) (enr_endpoint_id e) event ts attempt (enr_key_generation e) body signature"
    using mat(1,2) req(7) by (auto simp: signer_verify_def)
  ultimately show ?thesis using pin(2,3) mat(4,5) sent(1) by (simp add: s req)
qed simp_all

definition sample_io :: attempt_io where
  "sample_io =
     \<lparr>io_resolve = (\<lambda>_. Some (Inr [V4 0x08080808])), io_client_builds = (\<lambda>_. True),
      io_post = (\<lambda>_. Inr \<lparr>ic_status = 503, ic_headers = [(''retry-after'', [53])], ic_chunks = [Inr [1, 2]]\<rparr>),
      io_header_text = (\<lambda>_. Some ''5''), io_clock = Some 0\<rparr>"

definition sample_transport :: callback_transport where
  "sample_transport =
     \<lparr>ct_max_answers = 8, ct_dns_timeout_ms = 100, ct_connect_timeout_ms = 100, ct_request_timeout_ms = 1000,
      ct_test_loopback_pinning = False\<rparr>"

lemma sample_signer: "load_signer sample_env sample_enrollment = Inr (replicate 32 0)"
  by (simp add: load_signer_def read_private_file_def sample_enrollment_def sample_raw_enrollment_def enroll_def sample_env_def
      path_is_absolute_def starts_with_def callback_signer_new_def ensure_def ok_or_def)

lemma sample_material: "local_material sample_env sample_enrollment 2 [0] 64 = Inr (replicate 32 0, None, None)"
  by (simp add: local_material_def sample_signer load_roots_def load_identity_def mtls_files_def ensure_def map_err_def)
    (simp add: sample_enrollment_def sample_raw_enrollment_def enroll_def)

lemma sample_attempt:
  "\<exists>request. send_enrollment sample_env sample_io sample_transport sample_enrollment ''ev'' 7 2 [0] 64 =
     ([Resolved ''a'', Sent request],
      Inr \<lparr>cr_status = 503, cr_disposition = Retry, cr_retry_after_seconds = Some 5\<rparr>)"
proof -
  have url: "enr_url sample_enrollment = sample_url" "cu_host sample_url = ''a''"
    by (simp_all add: sample_enrollment_def enroll_def sample_url_def)
  have "validate_dns_answers [V4 0x08080808] 8 = Inr [V4 0x08080808]"
    using sample_addresses by (simp add: validate_dns_answers_def push_unique_def normalize_ip_def)
  then have "resolve_attempt sample_io sample_transport sample_url = Inr (V4 0x08080808, 443)"
    by (simp add: resolve_attempt_def sample_io_def sample_transport_def sample_url_def)
  moreover have "read_response sample_env sample_io 64 \<lparr>ic_status = 503, ic_headers = [(''retry-after'', [53])], ic_chunks = [Inr [1, 2]]\<rparr>
      = Inr \<lparr>cr_status = 503, cr_disposition = Retry, cr_retry_after_seconds = Some 5\<rparr>"
    by (simp add: read_response_iff usize_max_def classify_status_def retry_after_of_def sample_io_def retry_after_seconds_def
        retry_after_seconds_at_def parse_unsigned_def digits_value_def clamp_def text_simps map_filter_simps)
  moreover have "io_client_builds sample_io r" "io_post sample_io r =
      Inr \<lparr>ic_status = 503, ic_headers = [(''retry-after'', [53])], ic_chunks = [Inr [1, 2]]\<rparr>" for r
    by (simp_all add: sample_io_def)
  ultimately show ?thesis by (simp add: send_enrollment_def sample_material url Let_def)
qed

theorem attempt_is_contained_witness:
  "\<exists>request. fst (send_enrollment sample_env sample_io sample_transport sample_enrollment ''ev'' 7 2 [0] 64)
       = [Resolved ''a'', Sent request]
     \<and> is_public_callback_ip (fst (og_socket request)) \<and> og_url request = ''https://a:443/x''"
proof -
  obtain request r where s: "send_enrollment sample_env sample_io sample_transport sample_enrollment ''ev'' 7 2 [0] 64 =
     ([Resolved ''a'', Sent request], Inr r)" using sample_attempt by blast
  have "\<not> ct_test_loopback_pinning sample_transport" "(64 :: nat) \<le> usize_max"
    by (simp_all add: sample_transport_def usize_max_def)
  from attempt_is_contained[OF this, where E = sample_env and io = sample_io and e = sample_enrollment
      and event = "''ev''" and ts = 7 and attempt = 2 and body = "[0]"] s
  have "is_public_callback_ip (fst (og_socket request)) \<and> og_url request = cu_canonical (enr_url sample_enrollment)" by simp
  then show ?thesis using s by (simp add: sample_enrollment_def enroll_def sample_url_def)
qed

end
