(* ===== verification/Push_Readiness.thy ===== *)
theory Push_Readiness
  imports Smesh_Prelude
begin

text \<open>
  \<open>PushReadiness\<close> of \<open>src/push.rs\<close>: four atomic cells that the callback workers and the gateway share.
  Each call is a sequence of atomic accesses; a program counter names the next access of a call in
  flight, and \<open>ready_reachable\<close> interleaves any number of calls in any order.
\<close>

record push_readiness =
  pr_ready :: bool
  pr_fatal :: bool
  pr_expected_workers :: nat
  pr_ready_workers :: nat

definition readiness_new :: push_readiness where
  "readiness_new = \<lparr>pr_ready = False, pr_fatal = False, pr_expected_workers = 1, pr_ready_workers = 0\<rparr>"

definition for_workers :: "nat \<Rightarrow> push_readiness option" where
  "for_workers worker_count =
     (if worker_count = 0 then None
      else Some \<lparr>pr_ready = False, pr_fatal = False, pr_expected_workers = worker_count, pr_ready_workers = 0\<rparr>)"

definition configure_workers :: "push_readiness \<Rightarrow> nat \<Rightarrow> push_readiness \<times> bool" where
  "configure_workers s worker_count =
     (if worker_count = 0 \<or> pr_ready s \<or> pr_fatal s \<or> pr_ready_workers s \<noteq> 0 then (s, False)
      else (s\<lparr>pr_expected_workers := worker_count\<rparr>, True))"

definition is_ready :: "push_readiness \<Rightarrow> bool" where
  "is_ready s \<longleftrightarrow> pr_ready s \<and> \<not> pr_fatal s"

text \<open>\<open>u16::saturating_add(1)\<close>.\<close>

definition u16_succ :: "nat \<Rightarrow> nat" where
  "u16_succ n = min (n + 1) 65535"

text \<open>
  The accesses of \<open>mark_worker_ready\<close> (load of the fatal flag, load of the expected count, the atomic
  update, the second load of the fatal flag, the store) and of \<open>mark_fatal\<close> (two stores).
\<close>

datatype ready_pc =
    MarkLoad
  | MarkExpected
  | MarkUpdate nat
  | MarkCheck nat nat
  | MarkStore
  | FatalStore
  | FatalClear

fun pc_step :: "push_readiness \<Rightarrow> ready_pc \<Rightarrow> push_readiness \<times> ready_pc option" where
  "pc_step s MarkLoad = (s, if pr_fatal s then None else Some MarkExpected)"
| "pc_step s MarkExpected = (s, Some (MarkUpdate (pr_expected_workers s)))"
| "pc_step s (MarkUpdate expected) =
     (s\<lparr>pr_ready_workers := min (u16_succ (pr_ready_workers s)) expected\<rparr>, Some (MarkCheck expected (pr_ready_workers s)))"
| "pc_step s (MarkCheck expected prior) =
     (s, if expected \<le> u16_succ prior \<and> \<not> pr_fatal s then Some MarkStore else None)"
| "pc_step s MarkStore = (s\<lparr>pr_ready := True\<rparr>, None)"
| "pc_step s FatalStore = (s\<lparr>pr_fatal := True\<rparr>, Some FatalClear)"
| "pc_step s FatalClear = (s\<lparr>pr_ready := False\<rparr>, None)"

inductive ready_reachable :: "nat \<Rightarrow> push_readiness \<Rightarrow> ready_pc list \<Rightarrow> nat \<Rightarrow> bool" where
  start: "for_workers n = Some s \<Longrightarrow> ready_reachable n s [] 0"
| mark_worker_ready: "ready_reachable n s ts marks \<Longrightarrow> ready_reachable n s (MarkLoad # ts) (marks + 1)"
| mark_fatal: "ready_reachable n s ts marks \<Longrightarrow> ready_reachable n s (FatalStore # ts) marks"
| access: "ready_reachable n s (us @ pc # vs) marks \<Longrightarrow> pc_step s pc = (s', rest) \<Longrightarrow>
     ready_reachable n s' (us @ (case rest of None \<Rightarrow> [] | Some pc' \<Rightarrow> [pc']) @ vs) marks"

section \<open>Invariant\<close>

fun pending :: "ready_pc \<Rightarrow> nat" where
  "pending MarkLoad = 1"
| "pending MarkExpected = 1"
| "pending (MarkUpdate _) = 1"
| "pending _ = 0"

fun pc_ok :: "nat \<Rightarrow> nat \<Rightarrow> bool \<Rightarrow> ready_pc \<Rightarrow> bool" where
  "pc_ok n u fatal (MarkUpdate e) \<longleftrightarrow> e = n"
| "pc_ok n u fatal (MarkCheck e p) \<longleftrightarrow> e = n \<and> p < u"
| "pc_ok n u fatal MarkStore \<longleftrightarrow> n \<le> u"
| "pc_ok n u fatal FatalClear \<longleftrightarrow> fatal"
| "pc_ok n u fatal _ \<longleftrightarrow> True"

fun storing :: "nat \<Rightarrow> ready_pc \<Rightarrow> bool" where
  "storing n MarkStore \<longleftrightarrow> True"
| "storing n (MarkCheck e p) \<longleftrightarrow> n \<le> u16_succ p"
| "storing n _ \<longleftrightarrow> False"

text \<open>The invariant, with the number \<open>u\<close> of updates already made.\<close>

definition ready_inv :: "nat \<Rightarrow> nat \<Rightarrow> push_readiness \<Rightarrow> ready_pc list \<Rightarrow> nat \<Rightarrow> bool" where
  "ready_inv n u s ts marks \<longleftrightarrow>
     pr_expected_workers s = n \<and> pr_ready_workers s = min u n \<and> list_all (pc_ok n u (pr_fatal s)) ts
     \<and> (pr_ready s \<longrightarrow> n \<le> u) \<and> u + sum_list (map pending ts) \<le> marks
     \<and> (\<not> pr_fatal s \<longrightarrow> u + sum_list (map pending ts) = marks \<and> (n \<le> u \<longrightarrow> pr_ready s \<or> list_ex (storing n) ts))"

lemma pc_ok_mono: "pc_ok n u fatal pc \<Longrightarrow> u \<le> u' \<Longrightarrow> (fatal \<longrightarrow> fatal') \<Longrightarrow> pc_ok n u' fatal' pc"
  by (cases pc) auto

lemma list_all_pc_ok_mono:
  "list_all (pc_ok n u fatal) ts \<Longrightarrow> u \<le> u' \<Longrightarrow> (fatal \<longrightarrow> fatal') \<Longrightarrow> list_all (pc_ok n u' fatal') ts"
  using pc_ok_mono by (auto simp: list_all_iff)

lemma ready_inv_step:
  assumes "ready_inv n u s (us @ pc # vs) marks" "pc_step s pc = (s', rest)" "0 < n" "n \<le> 65535"
  shows "\<exists>u'. ready_inv n u' s' (us @ (case rest of None \<Rightarrow> [] | Some pc' \<Rightarrow> [pc']) @ vs) marks"
proof (cases pc)
  case (MarkUpdate e)
  have "list_all (pc_ok n (Suc u) (pr_fatal s)) us" "list_all (pc_ok n (Suc u) (pr_fatal s)) vs"
    using assms(1) list_all_pc_ok_mono by (auto simp: ready_inv_def)
  moreover have "min (u16_succ (min u n)) n = min (Suc u) n" "n \<le> Suc u \<Longrightarrow> n \<le> u16_succ (min u n)"
    using assms(3,4) by (auto simp: u16_succ_def)
  ultimately have "ready_inv n (Suc u) s' (us @ (case rest of None \<Rightarrow> [] | Some pc' \<Rightarrow> [pc']) @ vs) marks"
    using assms(1,2) MarkUpdate by (auto simp: ready_inv_def)
  then show ?thesis ..
next
  case FatalStore
  have "list_all (pc_ok n u True) us" "list_all (pc_ok n u True) vs"
    using assms(1) list_all_pc_ok_mono by (auto simp: ready_inv_def)
  then have "ready_inv n u s' (us @ (case rest of None \<Rightarrow> [] | Some pc' \<Rightarrow> [pc']) @ vs) marks"
    using assms(1,2) FatalStore by (auto simp: ready_inv_def)
  then show ?thesis ..
next
  case (MarkCheck e p)
  have "n \<le> u16_succ p \<Longrightarrow> p < u \<Longrightarrow> n \<le> u" by (auto simp: u16_succ_def)
  then have "ready_inv n u s' (us @ (case rest of None \<Rightarrow> [] | Some pc' \<Rightarrow> [pc']) @ vs) marks"
    using assms(1,2) MarkCheck by (auto simp: ready_inv_def split: if_splits)
  then show ?thesis ..
qed (use assms in \<open>auto simp: ready_inv_def intro!: exI[of _ u] split: if_splits\<close>)

lemma ready_reachable_inv:
  "ready_reachable n s ts marks \<Longrightarrow> n \<le> 65535 \<Longrightarrow> 0 < n \<and> (\<exists>u. ready_inv n u s ts marks)"
proof (induction rule: ready_reachable.induct)
  case (start n s)
  then have "ready_inv n 0 s [] 0" "0 < n" by (auto simp: for_workers_def ready_inv_def split: if_splits)
  then show ?case by blast
next
  case (mark_worker_ready n s ts marks)
  then obtain u where "ready_inv n u s ts marks" "0 < n" by blast
  then have "ready_inv n u s (MarkLoad # ts) (marks + 1)" by (auto simp: ready_inv_def)
  with \<open>0 < n\<close> show ?case by blast
next
  case (mark_fatal n s ts marks)
  then obtain u where "ready_inv n u s ts marks" "0 < n" by blast
  then have "ready_inv n u s (FatalStore # ts) marks" by (auto simp: ready_inv_def)
  with \<open>0 < n\<close> show ?case by blast
next
  case (access n s us pc vs marks s' rest)
  then show ?case using ready_inv_step by blast
qed

text \<open>
  C22. Readiness under every interleaving of the atomic accesses: with \<open>n\<close> expected workers the
  gateway reports ready only after at least \<open>n\<close> calls of \<open>mark_worker_ready\<close>, it does report ready once
  \<open>n\<close> calls have returned and no fatal mark was set, and after a fatal mark no access of any call in
  flight makes it ready again. The calls carry no worker identity: they are counted, whoever makes them.
\<close>

theorem readiness_interleaved:
  assumes "ready_reachable n s ts marks" "n \<le> 65535"
  shows "(is_ready s \<longrightarrow> n \<le> marks)
     \<and> (ts = [] \<and> \<not> pr_fatal s \<longrightarrow> (is_ready s \<longleftrightarrow> n \<le> marks))
     \<and> (pr_fatal s \<longrightarrow> \<not> is_ready s \<and> pr_fatal (fst (pc_step s pc)) \<and> \<not> is_ready (fst (pc_step s pc)))"
proof -
  obtain u where inv: "ready_inv n u s ts marks" using ready_reachable_inv[OF assms] by blast
  have "pr_fatal s \<Longrightarrow> pr_fatal (fst (pc_step s pc))" by (cases pc) auto
  moreover have "is_ready s \<longrightarrow> n \<le> marks" "ts = [] \<and> \<not> pr_fatal s \<longrightarrow> (is_ready s \<longleftrightarrow> n \<le> marks)"
    using inv by (auto simp: ready_inv_def is_ready_def)
  ultimately show ?thesis by (auto simp: is_ready_def)
qed

text \<open>Two calls, as one worker could make them, are enough for a generation of two workers.\<close>

lemma sample_ready_run:
  "ready_reachable 2 \<lparr>pr_ready = True, pr_fatal = False, pr_expected_workers = 2, pr_ready_workers = 2\<rparr> [] 2"
proof -
  let ?s = "\<lambda>r k. \<lparr>pr_ready = r, pr_fatal = False, pr_expected_workers = 2, pr_ready_workers = k\<rparr>"
  have one: "ready_reachable 2 (?s r k) [MarkLoad] m \<Longrightarrow> ready_reachable 2 (?s r k) [MarkUpdate 2] m" for r k m
    using access[of 2 "?s r k" "[]" MarkLoad "[]" m] access[of 2 "?s r k" "[]" MarkExpected "[]" m] by simp
  have "ready_reachable 2 (?s False 0) [] 0" by (rule start) (simp add: for_workers_def)
  from one[OF mark_worker_ready[OF this]] have "ready_reachable 2 (?s False 1) [MarkCheck 2 0] 1"
    using access[of 2 "?s False 0" "[]" "MarkUpdate 2" "[]" 1] by (simp add: u16_succ_def)
  then have "ready_reachable 2 (?s False 1) [] 1"
    using access[of 2 "?s False 1" "[]" "MarkCheck 2 0" "[]" 1] by (simp add: u16_succ_def)
  from one[OF mark_worker_ready[OF this]] have "ready_reachable 2 (?s False 2) [MarkCheck 2 1] 2"
    using access[of 2 "?s False 1" "[]" "MarkUpdate 2" "[]" 2] by (simp add: u16_succ_def numeral_2_eq_2)
  then have "ready_reachable 2 (?s False 2) [MarkStore] 2"
    using access[of 2 "?s False 2" "[]" "MarkCheck 2 1" "[]" 2] by (simp add: u16_succ_def)
  then show ?thesis using access[of 2 "?s False 2" "[]" MarkStore "[]" 2] by simp
qed

theorem readiness_witness:
  "is_ready \<lparr>pr_ready = True, pr_fatal = False, pr_expected_workers = 2, pr_ready_workers = 2\<rparr>"
  using readiness_interleaved[OF sample_ready_run] by simp

end
