(* ===== verification/Callback_Authority.thy ===== *)
theory Callback_Authority
  imports Callback_Push Tenant_Authorization
begin

text \<open>
  The backend-neutral contract of \<open>src/callback_authority.rs\<close>: the states of configurations and
  deliveries, the audit record digests, and the validated commands and projections that cross the
  interface between the callback worker, the durable handler and the database stores. Every
  constructor is a function that either rejects its arguments or returns the value.
\<close>

section \<open>Identifiers and digests\<close>

definition callback_valid_id :: "string \<Rightarrow> bool" where
  "callback_valid_id s \<longleftrightarrow>
     s \<noteq> [] \<and> length s \<le> 128 \<and> is_ascii s
     \<and> list_all (\<lambda>c. is_ascii_alphanumeric c \<or> c \<in> {CHR ''-'', CHR ''_'', CHR ''.'', CHR '':''}) s"

definition callback_valid_digest :: "string \<Rightarrow> bool" where
  "callback_valid_digest s \<longleftrightarrow> length s = 71 \<and> starts_with ''sha256:'' s \<and> list_all is_hex_digit (drop 7 s)"

section \<open>Audit records\<close>

datatype callback_audit_kind =
    PolicyReconciled | ConfigCreated | ConfigDeleted | EventEnqueued | DeliveryAttempted | AuditDelivered
  | RetryScheduled | AuditDead

fun audit_kind_str :: "callback_audit_kind \<Rightarrow> string" where
  "audit_kind_str PolicyReconciled = ''callback_policy_reconciled''"
| "audit_kind_str ConfigCreated = ''callback_config_created''"
| "audit_kind_str ConfigDeleted = ''callback_config_deleted''"
| "audit_kind_str EventEnqueued = ''callback_event_enqueued''"
| "audit_kind_str DeliveryAttempted = ''callback_delivery_attempted''"
| "audit_kind_str AuditDelivered = ''callback_delivered''"
| "audit_kind_str RetryScheduled = ''callback_retry_scheduled''"
| "audit_kind_str AuditDead = ''callback_dead''"

definition audit_kind_parse :: "string \<Rightarrow> callback_audit_kind option" where
  "audit_kind_parse s =
     (if s = ''callback_policy_reconciled'' then Some PolicyReconciled
      else if s = ''callback_config_created'' then Some ConfigCreated
      else if s = ''callback_config_deleted'' then Some ConfigDeleted
      else if s = ''callback_event_enqueued'' then Some EventEnqueued
      else if s = ''callback_delivery_attempted'' then Some DeliveryAttempted
      else if s = ''callback_delivered'' then Some AuditDelivered
      else if s = ''callback_retry_scheduled'' then Some RetryScheduled
      else if s = ''callback_dead'' then Some AuditDead
      else None)"

text \<open>\<open>i64::to_string\<close>.\<close>

definition show_int :: "int \<Rightarrow> string" where
  "show_int i = (if i < 0 then ''-'' @ show_nat (nat (- i)) else show_nat (nat i))"

definition decimal_field :: "string \<Rightarrow> byte list" where
  "decimal_field v = ascii (show_nat (length v)) @ ascii '':'' @ ascii v"

definition audit_material :: "callback_audit_kind \<Rightarrow> string \<Rightarrow> string \<Rightarrow> string \<Rightarrow> string \<Rightarrow> int \<Rightarrow> int \<Rightarrow> byte list" where
  "audit_material kind tenant task config event revision attempt =
     ascii ''smesh-callback-audit/v1'' @ concat (map decimal_field [audit_kind_str kind, tenant, task, config, event])
     @ concat (map (\<lambda>i. decimal_field (show_int i)) [revision, attempt])"

definition callback_audit_digest :: "push_env \<Rightarrow> callback_audit_kind \<Rightarrow> string \<Rightarrow> string \<Rightarrow> string \<Rightarrow> string \<Rightarrow> int \<Rightarrow> int \<Rightarrow> string" where
  "callback_audit_digest E kind tenant task config event revision attempt =
     sha256_text (pu_sha256 E (audit_material kind tenant task config event revision attempt))"

section \<open>States\<close>

definition push_notification_not_supported :: a2a_error where
  "push_notification_not_supported = new_error (-32003) ''push notification not supported''"

datatype callback_config_state = ConfigActive | ConfigDraining | ConfigRevoked | ConfigTerminalClosed

datatype callback_delivery_state =
    DeliveryPending | DeliveryLeased | DeliveryDelivered | DeliveryRetry | DeliveryDead | DeliveryCanceled

datatype callback_delivery_disposition = FailRetry | FailDead

datatype callback_delivery_category =
    TransportCategory | DnsCategory | TlsCategory | TimeoutCategory | HttpCategory | PolicyCategory | PayloadCategory

datatype callback_delete_outcome = DeletedRevoked | DeletedAlreadyAbsent | DeletedDraining

datatype callback_readiness = CallbackDisabled | CallbackStarting | CallbackReady | CallbackFatal

section \<open>Bounded values\<close>

definition callback_config_id_new :: "string \<Rightarrow> a2a_error + string" where
  "callback_config_id_new s = (if callback_valid_id s then Inr s else Inl (invalid_request ''invalid callback config id''))"

definition config_page_size_new :: "nat \<Rightarrow> a2a_error + nat" where
  "config_page_size_new n = (if 1 \<le> n \<and> n \<le> 100 then Inr n else Inl (invalid_request ''invalid callback page size''))"

definition lease_duration_new :: "int \<Rightarrow> a2a_error + int" where
  "lease_duration_new d = (if 1000 \<le> d \<and> d \<le> 300000 then Inr d else Inl (invalid_request ''invalid callback lease duration''))"

record callback_policy_snapshot =
  cps_policy_id :: string
  cps_policy_revision :: nat
  cps_policy_digest :: string
  cps_max_configs_per_task :: nat
  cps_max_configs_per_tenant :: nat
  cps_max_pending :: nat
  cps_max_payload_bytes :: nat
  cps_max_attempts :: nat
  cps_max_delivery_age_ms :: nat

definition snapshot_ok :: "callback_policy_snapshot \<Rightarrow> bool" where
  "snapshot_ok v \<longleftrightarrow>
     callback_valid_id (cps_policy_id v) \<and> cps_policy_revision v \<noteq> 0 \<and> callback_valid_digest (cps_policy_digest v)
     \<and> 1 \<le> cps_max_configs_per_task v \<and> cps_max_configs_per_task v \<le> 32
     \<and> cps_max_configs_per_tenant v \<noteq> 0 \<and> cps_max_configs_per_tenant v \<le> cps_max_pending v
     \<and> cps_max_pending v \<noteq> 0 \<and> cps_max_pending v \<le> 1000000
     \<and> cps_max_payload_bytes v \<noteq> 0 \<and> cps_max_payload_bytes v \<le> 256 * 1024
     \<and> 1 \<le> cps_max_attempts v \<and> cps_max_attempts v \<le> 32
     \<and> 1 \<le> cps_max_delivery_age_ms v \<and> cps_max_delivery_age_ms v \<le> 604800000"

definition new_with_tenant_cap :: "callback_policy_snapshot \<Rightarrow> a2a_error + callback_policy_snapshot" where
  "new_with_tenant_cap v = (if snapshot_ok v then Inr v else Inl (invalid_request ''invalid callback policy snapshot''))"

definition snapshot_new_with_delivery_age :: "string \<Rightarrow> nat \<Rightarrow> string \<Rightarrow> nat \<Rightarrow> nat \<Rightarrow> nat \<Rightarrow> nat \<Rightarrow> nat
    \<Rightarrow> a2a_error + callback_policy_snapshot" where
  "snapshot_new_with_delivery_age policy revision digest per_task max_pending payload attempts age =
     new_with_tenant_cap
       \<lparr>cps_policy_id = policy, cps_policy_revision = revision, cps_policy_digest = digest, cps_max_configs_per_task = per_task,
        cps_max_configs_per_tenant = max_pending, cps_max_pending = max_pending, cps_max_payload_bytes = payload,
        cps_max_attempts = attempts, cps_max_delivery_age_ms = age\<rparr>"

definition snapshot_new :: "string \<Rightarrow> nat \<Rightarrow> string \<Rightarrow> nat \<Rightarrow> nat \<Rightarrow> nat \<Rightarrow> nat \<Rightarrow> a2a_error + callback_policy_snapshot" where
  "snapshot_new policy revision digest per_task max_pending payload attempts =
     snapshot_new_with_delivery_age policy revision digest per_task max_pending payload attempts 604800000"

datatype callback_backend = SqliteConformance | PostgresProduction

record callback_capabilities =
  cap_backend :: callback_backend
  cap_multi_replica_claims :: bool
  cap_database_time_leases :: bool
  cap_forced_tenant_rls :: bool
  cap_atomic_terminal_enqueue :: bool

definition sqlite_conformance :: callback_capabilities where
  "sqlite_conformance =
     \<lparr>cap_backend = SqliteConformance, cap_multi_replica_claims = False, cap_database_time_leases = True, cap_forced_tenant_rls = False,
      cap_atomic_terminal_enqueue = True\<rparr>"

definition postgres_production :: callback_capabilities where
  "postgres_production =
     \<lparr>cap_backend = PostgresProduction, cap_multi_replica_claims = True, cap_database_time_leases = True, cap_forced_tenant_rls = True,
      cap_atomic_terminal_enqueue = True\<rparr>"

section \<open>Configuration commands\<close>

record owned_task_scope =
  ots_tenant_scope :: string
  ots_owner_account_id :: string
  ots_principal_scope :: string
  ots_visibility :: visibility_scope
  ots_authentication_method :: string

record config_create_command =
  ccc_scope :: owned_task_scope
  ccc_task_id :: string
  ccc_config_id :: "string option"
  ccc_enrollment_id :: string
  ccc_enrollment_generation :: nat
  ccc_canonical_url :: string
  ccc_url_digest :: string
  ccc_created_at :: int
  ccc_authorization_audit :: "authorization_audit_input option"

definition url_text_bounded :: "string \<Rightarrow> bool" where
  "url_text_bounded s \<longleftrightarrow> s \<noteq> [] \<and> length s \<le> 2048"

definition config_create_command_new :: "config_create_command \<Rightarrow> a2a_error + config_create_command" where
  "config_create_command_new v =
     (if callback_valid_id (ccc_task_id v) \<and> callback_valid_id (ccc_enrollment_id v) \<and> ccc_enrollment_generation v \<noteq> 0
         \<and> url_text_bounded (ccc_canonical_url v) \<and> is_ascii (ccc_canonical_url v) \<and> callback_valid_digest (ccc_url_digest v)
         \<and> 0 < ccc_created_at v
      then Inr v else Inl (invalid_request ''invalid callback create command''))"

record config_get_command =
  cgc_scope :: owned_task_scope
  cgc_task_id :: string
  cgc_config_id :: string

definition config_get_command_new :: "config_get_command \<Rightarrow> a2a_error + config_get_command" where
  "config_get_command_new v =
     (if callback_valid_id (cgc_task_id v) then Inr v else Inl (invalid_request ''invalid callback get command''))"

record config_list_command =
  clc_scope :: owned_task_scope
  clc_task_id :: string
  clc_page_size :: nat
  clc_page_token :: "string option"

definition token_text_ok :: "string option \<Rightarrow> bool" where
  "token_text_ok t = (case t of None \<Rightarrow> True | Some v \<Rightarrow> v \<noteq> [] \<and> length v \<le> 4096 \<and> is_ascii v)"

definition config_list_command_new :: "config_list_command \<Rightarrow> a2a_error + config_list_command" where
  "config_list_command_new v =
     (if callback_valid_id (clc_task_id v) \<and> token_text_ok (clc_page_token v) then Inr v
      else Inl (invalid_request ''invalid callback list command''))"

record config_delete_command =
  cdc_scope :: owned_task_scope
  cdc_task_id :: string
  cdc_config_id :: string
  cdc_requested_at :: int
  cdc_authorization_audit :: "authorization_audit_input option"

definition config_delete_command_new :: "config_delete_command \<Rightarrow> a2a_error + config_delete_command" where
  "config_delete_command_new v =
     (if callback_valid_id (cdc_task_id v) \<and> 0 < cdc_requested_at v then Inr v
      else Inl (invalid_request ''invalid callback delete command''))"

record callback_config =
  ccf_tenant_scope :: string
  ccf_task_id :: string
  ccf_config_id :: string
  ccf_enrollment_id :: string
  ccf_enrollment_generation :: nat
  ccf_canonical_url :: string
  ccf_url_digest :: string
  ccf_state :: callback_config_state
  ccf_created_at :: int

definition callback_config_ok :: "callback_config \<Rightarrow> bool" where
  "callback_config_ok v \<longleftrightarrow>
     callback_valid_id (ccf_tenant_scope v) \<and> callback_valid_id (ccf_task_id v) \<and> callback_valid_id (ccf_enrollment_id v)
     \<and> ccf_enrollment_generation v \<noteq> 0 \<and> url_text_bounded (ccf_canonical_url v) \<and> callback_valid_digest (ccf_url_digest v)
     \<and> 0 < ccf_created_at v"

definition callback_config_new :: "callback_config \<Rightarrow> a2a_error + callback_config" where
  "callback_config_new v = (if callback_config_ok v then Inr v else Inl (invalid_request ''invalid callback config''))"

record callback_config_page =
  ccp_configs :: "callback_config list"
  ccp_next_page_token :: "string option"

definition callback_config_page_new :: "callback_config list \<Rightarrow> string option \<Rightarrow> a2a_error + callback_config_page" where
  "callback_config_page_new configs next_token =
     (if length configs \<le> 100 \<and> token_text_ok next_token then Inr \<lparr>ccp_configs = configs, ccp_next_page_token = next_token\<rparr>
      else Inl (invalid_request ''invalid callback config page''))"

record callback_enrollment_binding =
  ceb_enrollment_id :: string
  ceb_enrollment_generation :: nat
  ceb_canonical_url :: string
  ceb_url_digest :: string

definition enrollment_binding_new :: "callback_enrollment_binding \<Rightarrow> a2a_error + callback_enrollment_binding" where
  "enrollment_binding_new v =
     (if callback_valid_id (ceb_enrollment_id v) \<and> ceb_enrollment_generation v \<noteq> 0 \<and> url_text_bounded (ceb_canonical_url v)
         \<and> callback_valid_digest (ceb_url_digest v)
      then Inr v else Inl (invalid_request ''invalid callback enrollment binding''))"

section \<open>Deliveries\<close>

record delivery_fence =
  df_tenant_scope :: string
  df_event_id :: string
  df_config_id :: string
  df_lease_owner :: string
  df_lease_token :: string
  df_lease_epoch :: nat

definition delivery_fence_ok :: "delivery_fence \<Rightarrow> bool" where
  "delivery_fence_ok v \<longleftrightarrow>
     callback_valid_id (df_tenant_scope v) \<and> callback_valid_id (df_event_id v) \<and> callback_valid_id (df_config_id v)
     \<and> callback_valid_id (df_lease_owner v) \<and> df_lease_token v \<noteq> [] \<and> length (df_lease_token v) \<le> 128
     \<and> is_ascii (df_lease_token v) \<and> df_lease_epoch v \<noteq> 0"

definition delivery_fence_new :: "delivery_fence \<Rightarrow> a2a_error + delivery_fence" where
  "delivery_fence_new v = (if delivery_fence_ok v then Inr v else Inl (invalid_request ''invalid callback delivery fence''))"

record delivery_claim_command =
  dcc_owner :: string
  dcc_lease_duration :: int
  dcc_batch_limit :: nat

definition delivery_claim_command_new :: "string \<Rightarrow> int \<Rightarrow> nat \<Rightarrow> a2a_error + delivery_claim_command" where
  "delivery_claim_command_new owner duration batch_limit =
     (if callback_valid_id owner \<and> 1 \<le> batch_limit \<and> batch_limit \<le> 1000
      then Inr \<lparr>dcc_owner = owner, dcc_lease_duration = duration, dcc_batch_limit = batch_limit\<rparr>
      else Inl (invalid_request ''invalid callback claim command''))"

record callback_lease =
  cl_fence :: delivery_fence
  cl_task_id :: string
  cl_config_id :: string
  cl_canonical_url :: string
  cl_enrollment_id :: string
  cl_enrollment_generation :: nat
  cl_payload :: "byte list"
  cl_payload_digest :: string
  cl_attempt :: nat
  cl_created_at :: int
  cl_expires_at :: int
  cl_lease_expires_at :: int
  cl_owner_account_id :: string
  cl_principal_scope :: string

definition callback_lease_ok :: "callback_lease \<Rightarrow> bool" where
  "callback_lease_ok v \<longleftrightarrow>
     callback_valid_id (cl_task_id v) \<and> callback_valid_id (cl_config_id v) \<and> callback_valid_id (cl_enrollment_id v)
     \<and> cl_enrollment_generation v \<noteq> 0 \<and> url_text_bounded (cl_canonical_url v)
     \<and> cl_payload v \<noteq> [] \<and> length (cl_payload v) \<le> 256 * 1024 \<and> callback_valid_digest (cl_payload_digest v)
     \<and> cl_attempt v \<noteq> 0 \<and> cl_attempt v \<le> 32 \<and> 0 < cl_created_at v \<and> cl_created_at v \<le> cl_expires_at v
     \<and> 0 < cl_lease_expires_at v \<and> callback_valid_id (cl_owner_account_id v)
     \<and> cl_principal_scope v \<noteq> [] \<and> length (cl_principal_scope v) \<le> 256 \<and> is_ascii (cl_principal_scope v)"

definition callback_lease_new_authoritative :: "callback_lease \<Rightarrow> a2a_error + callback_lease" where
  "callback_lease_new_authoritative v =
     (if callback_lease_ok v then Inr v else Inl (invalid_request ''invalid callback lease''))"

record callback_fail_command =
  cfc_fence :: delivery_fence
  cfc_disposition :: callback_delivery_disposition
  cfc_category :: callback_delivery_category
  cfc_error_digest :: string
  cfc_retry_at :: "int option"

definition callback_fail_command_ok :: "callback_fail_command \<Rightarrow> bool" where
  "callback_fail_command_ok v \<longleftrightarrow>
     callback_valid_digest (cfc_error_digest v) \<and> (cfc_disposition v = FailRetry \<longleftrightarrow> cfc_retry_at v \<noteq> None)
     \<and> pred_option (\<lambda>t. 0 < t) (cfc_retry_at v)"

definition callback_fail_command_new :: "callback_fail_command \<Rightarrow> a2a_error + callback_fail_command" where
  "callback_fail_command_new v =
     (if callback_fail_command_ok v then Inr v else Inl (invalid_request ''invalid callback failure command''))"

section \<open>Audit digests bind their records\<close>

lemma audit_kind_round_trip: "audit_kind_parse (audit_kind_str k) = Some k"
  by (cases k) (simp_all add: audit_kind_parse_def)

lemma audit_kind_str_inj [simp]: "audit_kind_str a = audit_kind_str b \<longleftrightarrow> a = b"
  by (metis audit_kind_round_trip option.inject)

lemma show_nat_not_minus: "CHR ''-'' \<notin> set (show_nat n)"
  using show_nat_chars[of n] by (auto simp: list_all_iff text_simps)

lemma show_nat_nonempty: "show_nat n \<noteq> []"
  by (subst show_nat.simps) simp

lemma show_int_inj [simp]: "show_int a = show_int b \<longleftrightarrow> a = b"
proof -
  have "show_nat n \<noteq> ''-'' @ t" for n t
    using show_nat_not_minus[of n] by (metis append_Cons in_set_conv_decomp append_Nil)
  then show ?thesis by (auto simp: show_int_def) (metis append_Cons append_Nil)+
qed

lemma decimal_field_eq: "decimal_field a @ x = decimal_field b @ y \<longleftrightarrow> a = b \<and> x = y"
proof
  have no_colon: "byte_of_char (CHR '':'') \<notin> set (ascii (show_nat n))" for n
    using show_nat_chars[of n] by (auto simp: ascii_def list_all_iff text_simps)
  assume "decimal_field a @ x = decimal_field b @ y"
  then have "ascii (show_nat (length a)) @ byte_of_char (CHR '':'') # ascii a @ x
      = ascii (show_nat (length b)) @ byte_of_char (CHR '':'') # ascii b @ y"
    by (simp add: decimal_field_def ascii_def)
  then have len: "show_nat (length a) = show_nat (length b)" and rest: "ascii a @ x = ascii b @ y"
    using separated_eq_iff[OF no_colon no_colon] by simp_all
  from len have "length a = length b" by simp
  with rest show "a = b \<and> x = y" by (simp add: append_eq_append_conv)
qed simp

lemma audit_material_inj:
  "audit_material k tn t c e r a = audit_material k' tn' t' c' e' r' a' \<longleftrightarrow>
     (k, tn, t, c, e, r, a) = (k', tn', t', c', e', r', a')"
  using decimal_field_eq[of "show_int a" "[]" "show_int a'" "[]"]
  by (simp add: audit_material_def decimal_field_eq)

end
