(* ===== verification/Callback_Store.thy ===== *)
theory Callback_Store
  imports Callback_Authority
begin

text \<open>
  The callback authority of the SQLite store (\<open>src/sqlite_store.rs\<close>): its tables with their
  constraints and audit triggers, and one function per operation. A function models one
  transaction: it returns the tables after the commit, or an error, after which the tables are as
  before. The database clock, fresh random identifiers and the JSON encoding of the terminal event are
  arguments. The store is the one of a release build, without
  the fault points of the tests and with the audit projection off.
\<close>

section \<open>Tables\<close>

record task_row =
  tr_tenant :: string
  tr_task :: string
  tr_state :: string
  tr_owner :: string

record snapshot_row =
  sr_policy :: string
  sr_revision :: int
  sr_digest :: string
  sr_max_configs_per_task :: int
  sr_max_configs_per_tenant :: int
  sr_max_pending :: int
  sr_max_payload :: int
  sr_max_attempts :: int
  sr_max_age :: int

record enrollment_row =
  er_policy :: string
  er_revision :: int
  er_tenant :: string
  er_enrollment :: string
  er_generation :: int
  er_url :: string
  er_url_digest :: string
  er_key_generation :: string
  er_secret :: string
  er_ca :: "string option"
  er_mtls_cert :: "string option"
  er_mtls_key :: "string option"

record config_row =
  cg_tenant :: string
  cg_task :: string
  cg_config :: string
  cg_owner :: string
  cg_principal :: string
  cg_enrollment :: string
  cg_generation :: int
  cg_url :: string
  cg_url_digest :: string
  cg_state :: callback_config_state
  cg_created :: int
  cg_updated :: int

record event_row =
  ev_tenant :: string
  ev_event :: string
  ev_task :: string
  ev_revision :: int
  ev_payload :: "byte list"
  ev_payload_digest :: string
  ev_created :: int
  ev_expires :: int

record delivery_row =
  dl_tenant :: string
  dl_event :: string
  dl_task :: string
  dl_config :: string
  dl_state :: callback_delivery_state
  dl_attempts :: int
  dl_available :: int
  dl_owner :: "string option"
  dl_token :: "string option"
  dl_epoch :: int
  dl_until :: "int option"
  dl_created :: int
  dl_updated :: int

record attempt_row =
  at_tenant :: string
  at_event :: string
  at_config :: string
  at_number :: int
  at_epoch :: int
  at_finished :: int
  at_outcome :: callback_delivery_state
  at_category :: "callback_delivery_category option"
  at_evidence :: "string option"

datatype audit_source = FromEnrollments | FromConfigs | FromEvents | FromDeliveries

record audit_row =
  ar_tenant :: string
  ar_kind :: callback_audit_kind
  ar_source :: audit_source
  ar_digest :: string
  ar_occurred :: int

record callback_db =
  db_tasks :: "task_row list"
  db_decisions :: "authorization_audit_input list"
  db_snapshots :: "snapshot_row list"
  db_enrollments :: "enrollment_row list"
  db_configs :: "config_row list"
  db_events :: "event_row list"
  db_deliveries :: "delivery_row list"
  db_attempts :: "attempt_row list"
  db_audits :: "audit_row list"

text \<open>The open store: the policy snapshot in force, if push is enabled, and the tables.\<close>

record callback_store =
  cs_policy :: "callback_policy_snapshot option"
  cs_db :: callback_db

definition i64_max :: int where
  "i64_max = 9223372036854775807"

definition bytes_between :: "nat \<Rightarrow> nat \<Rightarrow> string \<Rightarrow> bool" where
  "bytes_between lo hi s \<longleftrightarrow> lo \<le> length s \<and> length s \<le> hi"

section \<open>Constraints and triggers\<close>

definition config_row_ok :: "callback_db \<Rightarrow> config_row \<Rightarrow> bool" where
  "config_row_ok db r \<longleftrightarrow>
     bytes_between 1 128 (cg_config r) \<and> bytes_between 1 128 (cg_owner r) \<and> bytes_between 1 256 (cg_principal r)
     \<and> 0 < cg_created r \<and> cg_created r \<le> cg_updated r
     \<and> list_ex (\<lambda>t. tr_task t = cg_task r) (db_tasks db)
     \<and> list_ex (\<lambda>e. er_tenant e = cg_tenant r \<and> er_enrollment e = cg_enrollment r \<and> er_generation e = cg_generation r)
         (db_enrollments db)"

definition event_row_ok :: "event_row \<Rightarrow> bool" where
  "event_row_ok r \<longleftrightarrow>
     0 < ev_revision r \<and> 1 \<le> length (ev_payload r) \<and> length (ev_payload r) \<le> 262144 \<and> length (ev_payload_digest r) = 71
     \<and> 0 < ev_created r \<and> ev_created r \<le> ev_expires r"

definition delivery_row_ok :: "delivery_row \<Rightarrow> bool" where
  "delivery_row_ok r \<longleftrightarrow>
     0 \<le> dl_attempts r \<and> dl_attempts r \<le> 32 \<and> 0 \<le> dl_epoch r \<and> 0 < dl_created r \<and> dl_created r \<le> dl_updated r"

definition attempt_row_ok :: "attempt_row \<Rightarrow> bool" where
  "attempt_row_ok r \<longleftrightarrow>
     1 \<le> at_number r \<and> at_number r \<le> 32 \<and> 0 < at_epoch r
     \<and> at_outcome r \<in> {DeliveryDelivered, DeliveryRetry, DeliveryDead, DeliveryCanceled}
     \<and> pred_option (\<lambda>d. length d = 71) (at_evidence r)"

definition config_key :: "config_row \<Rightarrow> string \<times> string \<times> string" where
  "config_key r = (cg_tenant r, cg_task r, cg_config r)"

definition event_key :: "event_row \<Rightarrow> string \<times> string" where
  "event_key r = (ev_tenant r, ev_event r)"

definition delivery_key :: "delivery_row \<Rightarrow> string \<times> string \<times> string" where
  "delivery_key r = (dl_tenant r, dl_event r, dl_config r)"

definition delivery_config :: "delivery_row \<Rightarrow> string \<times> string \<times> string" where
  "delivery_config r = (dl_tenant r, dl_task r, dl_config r)"

definition attempt_key :: "attempt_row \<Rightarrow> (string \<times> string \<times> string) \<times> int" where
  "attempt_key r = ((at_tenant r, at_event r, at_config r), at_number r)"

definition audit_key :: "audit_row \<Rightarrow> string \<times> callback_audit_kind \<times> string" where
  "audit_key r = (ar_tenant r, ar_kind r, ar_digest r)"

definition add_audit :: "audit_row \<Rightarrow> audit_row list \<Rightarrow> audit_row list option" where
  "add_audit a audits = (if audit_key a \<in> audit_key ` set audits then None else Some (audits @ [a]))"

definition delivery_audit :: "push_env \<Rightarrow> callback_audit_kind \<Rightarrow> delivery_row \<Rightarrow> audit_row" where
  "delivery_audit E kind r =
     \<lparr>ar_tenant = dl_tenant r, ar_kind = kind, ar_source = FromDeliveries,
      ar_digest = callback_audit_digest E kind (dl_tenant r) (dl_task r) (dl_config r) (dl_event r) 0 (dl_attempts r),
      ar_occurred = dl_updated r\<rparr>"

definition config_audit :: "push_env \<Rightarrow> callback_audit_kind \<Rightarrow> config_row \<Rightarrow> int \<Rightarrow> audit_row" where
  "config_audit E kind r occurred =
     \<lparr>ar_tenant = cg_tenant r, ar_kind = kind, ar_source = FromConfigs,
      ar_digest = callback_audit_digest E kind (cg_tenant r) (cg_task r) (cg_config r) [] (cg_generation r) 0,
      ar_occurred = occurred\<rparr>"

definition event_audit :: "push_env \<Rightarrow> event_row \<Rightarrow> audit_row" where
  "event_audit E r =
     \<lparr>ar_tenant = ev_tenant r, ar_kind = EventEnqueued, ar_source = FromEvents,
      ar_digest = callback_audit_digest E EventEnqueued (ev_tenant r) (ev_task r) [] (ev_event r) (ev_revision r) 0,
      ar_occurred = ev_created r\<rparr>"

definition enrollment_audit :: "push_env \<Rightarrow> int \<Rightarrow> enrollment_row \<Rightarrow> audit_row" where
  "enrollment_audit E now r =
     \<lparr>ar_tenant = er_tenant r, ar_kind = PolicyReconciled, ar_source = FromEnrollments,
      ar_digest = callback_audit_digest E PolicyReconciled (er_tenant r) [] (er_enrollment r) [] (er_generation r) 0,
      ar_occurred = now\<rparr>"

fun state_audit_kind :: "callback_delivery_state \<Rightarrow> callback_audit_kind option" where
  "state_audit_kind DeliveryLeased = Some DeliveryAttempted"
| "state_audit_kind DeliveryDelivered = Some AuditDelivered"
| "state_audit_kind DeliveryRetry = Some RetryScheduled"
| "state_audit_kind DeliveryDead = Some AuditDead"
| "state_audit_kind _ = None"

definition delivery_trigger :: "push_env \<Rightarrow> delivery_row \<Rightarrow> delivery_row \<Rightarrow> audit_row list \<Rightarrow> audit_row list option" where
  "delivery_trigger E old r audits =
     (if dl_state old = dl_state r then Some audits
      else case state_audit_kind (dl_state r) of
          None \<Rightarrow> Some audits
        | Some kind \<Rightarrow> add_audit (delivery_audit E kind r) audits)"

definition config_trigger :: "push_env \<Rightarrow> config_row \<Rightarrow> config_row \<Rightarrow> audit_row list \<Rightarrow> audit_row list option" where
  "config_trigger E old r audits =
     (if cg_state old \<in> {ConfigActive, ConfigTerminalClosed} \<and> cg_state r \<in> {ConfigDraining, ConfigRevoked}
      then add_audit (config_audit E ConfigDeleted r (cg_updated r)) audits
      else Some audits)"

text \<open>\<open>UPDATE ... WHERE\<close>: every matching row is replaced, checked, and audited by its triggers.\<close>

fun update_rows :: "('r \<Rightarrow> bool) \<Rightarrow> ('r \<Rightarrow> 'r \<Rightarrow> 'a \<Rightarrow> 'a option) \<Rightarrow> ('r \<Rightarrow> bool) \<Rightarrow> ('r \<Rightarrow> 'r) \<Rightarrow> 'r list \<Rightarrow> 'a
    \<Rightarrow> ('r list \<times> 'a) option" where
  "update_rows ok trigger p f [] audits = Some ([], audits)"
| "update_rows ok trigger p f (r # rs) audits =
     (if p r then
        (if \<not> ok (f r) then None
         else case trigger r (f r) audits of
             None \<Rightarrow> None
           | Some audits' \<Rightarrow> map_option (\<lambda>(rs', audits''). (f r # rs', audits'')) (update_rows ok trigger p f rs audits'))
      else map_option (\<lambda>(rs', audits'). (r # rs', audits')) (update_rows ok trigger p f rs audits))"

definition update_deliveries :: "push_env \<Rightarrow> (delivery_row \<Rightarrow> bool) \<Rightarrow> (delivery_row \<Rightarrow> delivery_row) \<Rightarrow> callback_db
    \<Rightarrow> callback_db option" where
  "update_deliveries E p f db =
     map_option (\<lambda>(rows, audits). db\<lparr>db_deliveries := rows, db_audits := audits\<rparr>)
       (update_rows delivery_row_ok (delivery_trigger E) p f (db_deliveries db) (db_audits db))"

definition update_configs :: "push_env \<Rightarrow> (config_row \<Rightarrow> bool) \<Rightarrow> (config_row \<Rightarrow> config_row) \<Rightarrow> callback_db
    \<Rightarrow> callback_db option" where
  "update_configs E p f db =
     map_option (\<lambda>(rows, audits). db\<lparr>db_configs := rows, db_audits := audits\<rparr>)
       (update_rows (config_row_ok db) (config_trigger E) p f (db_configs db) (db_audits db))"

definition insert_config :: "push_env \<Rightarrow> config_row \<Rightarrow> callback_db \<Rightarrow> callback_db option" where
  "insert_config E r db =
     (if \<not> config_row_ok db r \<or> config_key r \<in> config_key ` set (db_configs db) then None
      else map_option (\<lambda>audits. db\<lparr>db_configs := db_configs db @ [r], db_audits := audits\<rparr>)
        (add_audit (config_audit E ConfigCreated r (cg_created r)) (db_audits db)))"

text \<open>
  \<open>INSERT OR IGNORE\<close>: a row that would violate a check or a key is skipped, and so is the audit record of
  its trigger, which takes over the policy of the statement; a missing parent row is still an error.
\<close>

definition insert_or_ignore_event :: "push_env \<Rightarrow> event_row \<Rightarrow> callback_db \<Rightarrow> callback_db option" where
  "insert_or_ignore_event E r db =
     (if \<not> event_row_ok r \<or> event_key r \<in> event_key ` set (db_events db) then Some db
      else if \<not> list_ex (\<lambda>t. tr_task t = ev_task r) (db_tasks db) then None
      else Some (db\<lparr>db_events := db_events db @ [r],
        db_audits := (case add_audit (event_audit E r) (db_audits db) of None \<Rightarrow> db_audits db | Some audits \<Rightarrow> audits)\<rparr>))"

definition insert_or_ignore_delivery :: "delivery_row \<Rightarrow> callback_db \<Rightarrow> callback_db option" where
  "insert_or_ignore_delivery r db =
     (if \<not> delivery_row_ok r \<or> delivery_key r \<in> delivery_key ` set (db_deliveries db) then Some db
      else if (dl_tenant r, dl_event r) \<notin> event_key ` set (db_events db) \<or> delivery_config r \<notin> config_key ` set (db_configs db)
      then None
      else Some (db\<lparr>db_deliveries := db_deliveries db @ [r]\<rparr>))"

definition insert_attempts :: "attempt_row list \<Rightarrow> callback_db \<Rightarrow> callback_db option" where
  "insert_attempts rows db =
     (if list_all attempt_row_ok rows \<and> distinct (map attempt_key rows)
         \<and> list_all (\<lambda>r. attempt_key r \<notin> attempt_key ` set (db_attempts db)) rows
      then Some (db\<lparr>db_attempts := db_attempts db @ rows\<rparr>) else None)"

section \<open>The log of authorization decisions\<close>

definition authorization_audit_encoded_bytes :: "authorization_audit_input \<Rightarrow> nat" where
  "authorization_audit_encoded_bytes a =
     length (au_decision_id a) + length (au_tenant_scope a) + length (au_actor_account_id a) + length (au_policy_id a)
     + length (au_policy_digest a) + length (au_operation a) + length (au_reason a) + length (au_resource_kind a)
     + length (au_resource_digest a) + (case au_task_id a of None \<Rightarrow> 0 | Some t \<Rightarrow> length t)"

definition decision_row_ok :: "callback_db \<Rightarrow> authorization_audit_input \<Rightarrow> bool" where
  "decision_row_ok db a \<longleftrightarrow>
     au_decision_id a \<notin> au_decision_id ` set (db_decisions db) \<and> bytes_between 1 256 (au_decision_id a)
     \<and> bytes_between 1 64 (au_tenant_scope a) \<and> bytes_between 1 64 (au_actor_account_id a) \<and> bytes_between 1 64 (au_policy_id a)
     \<and> 0 < au_policy_revision a \<and> bytes_between 1 256 (au_policy_digest a) \<and> bytes_between 1 256 (au_operation a)
     \<and> bytes_between 1 256 (au_reason a) \<and> bytes_between 1 256 (au_resource_kind a) \<and> bytes_between 1 256 (au_resource_digest a)
     \<and> pred_option (\<lambda>t. list_ex (\<lambda>r. tr_task r = t) (db_tasks db)) (au_task_id a)"

definition insert_authorization_audit :: "authorization_audit_input \<Rightarrow> callback_db \<Rightarrow> a2a_error + callback_db" where
  "insert_authorization_audit a db =
     and_then (ensure (\<not> (65536 \<le> length (db_decisions db)
         \<or> 67108864 < sum_list (map authorization_audit_encoded_bytes (db_decisions db)) + authorization_audit_encoded_bytes a))
       (internal ''authorization audit capacity reached'')) (\<lambda>_.
     and_then (ensure (decision_row_ok db a) (internal ''authorization audit append failed'')) (\<lambda>_.
       Inr (db\<lparr>db_decisions := db_decisions db @ [a]\<rparr>)))"

definition log_decision :: "authorization_audit_input option \<Rightarrow> callback_db \<Rightarrow> a2a_error + callback_db" where
  "log_decision audit db = (case audit of None \<Rightarrow> Inr db | Some a \<Rightarrow> insert_authorization_audit a db)"

section \<open>Configurations\<close>

text \<open>\<open>MAX(policy_revision)\<close> of the snapshots.\<close>

definition latest_revision :: "callback_db \<Rightarrow> int option" where
  "latest_revision db =
     (case db_snapshots db of [] \<Rightarrow> None | _ \<Rightarrow> Some (foldr (\<lambda>s. max (sr_revision s)) (db_snapshots db) 0))"

definition task_visible :: "callback_db \<Rightarrow> owned_task_scope \<Rightarrow> string \<Rightarrow> (task_row \<Rightarrow> bool) \<Rightarrow> bool" where
  "task_visible db scope task cond \<longleftrightarrow>
     list_ex (\<lambda>t. tr_tenant t = ots_tenant_scope scope \<and> tr_task t = task
       \<and> (ots_visibility scope = OwnScope \<longrightarrow> tr_owner t = ots_owner_account_id scope) \<and> cond t) (db_tasks db)"

definition closed_state_names :: "string list" where
  "closed_state_names = [''TASK_STATE_COMPLETED'', ''TASK_STATE_FAILED'', ''TASK_STATE_CANCELED'', ''TASK_STATE_REJECTED'']"

text \<open>\<open>state_key\<close>: the JSON text of a task state, which is what the column \<open>tasks.state\<close> holds.\<close>

definition state_key :: "task_state \<Rightarrow> string" where
  "state_key s = [CHR 0x22] @ serialize_task_state s @ [CHR 0x22]"

definition enrollment_active :: "callback_db \<Rightarrow> string \<Rightarrow> string \<Rightarrow> int \<Rightarrow> string \<Rightarrow> string \<Rightarrow> string \<Rightarrow> int \<Rightarrow> bool" where
  "enrollment_active db tenant enrollment generation url digest policy revision \<longleftrightarrow>
     list_ex (\<lambda>e. er_tenant e = tenant \<and> er_enrollment e = enrollment \<and> er_generation e = generation \<and> er_url e = url
       \<and> er_url_digest e = digest \<and> er_policy e = policy \<and> er_revision e = revision
       \<and> latest_revision db = Some revision) (db_enrollments db)"

definition callback_readiness_of :: "callback_store \<Rightarrow> callback_readiness" where
  "callback_readiness_of st = (if cs_policy st \<noteq> None then CallbackReady else CallbackDisabled)"

definition resolve_callback_enrollment :: "owned_task_scope \<Rightarrow> string \<Rightarrow> callback_store
    \<Rightarrow> a2a_error + callback_enrollment_binding option" where
  "resolve_callback_enrollment scope url st =
     (let db = cs_db st in
      and_then (ok_or (cs_policy st) push_notification_not_supported) (\<lambda>policy.
      and_then (ensure (int (cps_policy_revision policy) \<le> i64_max) (internal ''callback policy corrupt'')) (\<lambda>_.
      let rows = filter (\<lambda>e. er_tenant e = ots_tenant_scope scope \<and> er_url e = url \<and> er_policy e = cps_policy_id policy
            \<and> er_revision e = int (cps_policy_revision policy) \<and> latest_revision db = Some (er_revision e)) (db_enrollments db) in
      case sort_key (\<lambda>e. - er_generation e) rows of
        [] \<Rightarrow> Inr None
      | e # _ \<Rightarrow>
          and_then (ensure (0 \<le> er_generation e) (internal ''callback enrollment corrupt'')) (\<lambda>_.
          and_then (enrollment_binding_new \<lparr>ceb_enrollment_id = er_enrollment e, ceb_enrollment_generation = nat (er_generation e),
              ceb_canonical_url = url, ceb_url_digest = er_url_digest e\<rparr>) (\<lambda>b. Inr (Some b))))))"

definition config_of_row :: "config_row \<Rightarrow> a2a_error + callback_config" where
  "config_of_row r =
     and_then (callback_config_id_new (cg_config r)) (\<lambda>cid.
     and_then (ensure (0 \<le> cg_generation r) (internal ''callback generation corrupt'')) (\<lambda>_.
       callback_config_new \<lparr>ccf_tenant_scope = cg_tenant r, ccf_task_id = cg_task r, ccf_config_id = cid,
         ccf_enrollment_id = cg_enrollment r, ccf_enrollment_generation = nat (cg_generation r), ccf_canonical_url = cg_url r,
         ccf_url_digest = cg_url_digest r, ccf_state = cg_state r, ccf_created_at = cg_created r\<rparr>))"

definition retained_configs :: "callback_db \<Rightarrow> (config_row \<Rightarrow> bool) \<Rightarrow> nat" where
  "retained_configs db p = length (filter (\<lambda>r. p r \<and> cg_state r \<noteq> ConfigRevoked) (db_configs db))"

definition create_existing :: "config_create_command \<Rightarrow> config_row \<Rightarrow> callback_db \<Rightarrow> a2a_error + (callback_db \<times> callback_config)" where
  "create_existing c r db =
     and_then (ensure (cg_enrollment r = ccc_enrollment_id c \<and> cg_generation r = int (ccc_enrollment_generation c)
         \<and> cg_url r = ccc_canonical_url c \<and> cg_url_digest r = ccc_url_digest c)
       (invalid_request ''callback config id is already bound to different semantics'')) (\<lambda>_.
     and_then (config_of_row r) (\<lambda>config.
     and_then (log_decision (ccc_authorization_audit c) db) (\<lambda>db'. Inr (db', config))))"

definition create_new :: "push_env \<Rightarrow> config_create_command \<Rightarrow> callback_policy_snapshot \<Rightarrow> string \<Rightarrow> callback_db
    \<Rightarrow> a2a_error + (callback_db \<times> callback_config)" where
  "create_new E c policy config_id db =
     (let tenant = ots_tenant_scope (ccc_scope c);
          row = \<lparr>cg_tenant = tenant, cg_task = ccc_task_id c, cg_config = config_id,
            cg_owner = ots_owner_account_id (ccc_scope c), cg_principal = ots_principal_scope (ccc_scope c),
            cg_enrollment = ccc_enrollment_id c, cg_generation = int (ccc_enrollment_generation c),
            cg_url = ccc_canonical_url c, cg_url_digest = ccc_url_digest c, cg_state = ConfigActive,
            cg_created = ccc_created_at c, cg_updated = ccc_created_at c\<rparr>
      in
      and_then (ensure (retained_configs db (\<lambda>r. cg_tenant r = tenant \<and> cg_task r = ccc_task_id c) < cps_max_configs_per_task policy)
        (invalid_request ''callback config capacity reached'')) (\<lambda>_.
      and_then (ensure (retained_configs db (\<lambda>r. cg_tenant r = tenant) < cps_max_configs_per_tenant policy)
        (invalid_params ''callback tenant config capacity reached'')) (\<lambda>_.
      and_then (ok_or (insert_config E row db) (internal ''callback config insert failed'')) (\<lambda>db'.
      and_then (log_decision (ccc_authorization_audit c) db') (\<lambda>db''.
      and_then (config_of_row row) (\<lambda>config. Inr (db'', config)))))))"

definition create_callback_config :: "push_env \<Rightarrow> string \<Rightarrow> config_create_command \<Rightarrow> callback_store
    \<Rightarrow> a2a_error + (callback_db \<times> callback_config)" where
  "create_callback_config E fresh c st =
     (let db = cs_db st; tenant = ots_tenant_scope (ccc_scope c) in
      and_then (ok_or (cs_policy st) push_notification_not_supported) (\<lambda>policy.
      and_then (ensure (int (ccc_enrollment_generation c) \<le> i64_max)
        (invalid_request ''invalid callback enrollment generation'')) (\<lambda>_.
      and_then (ensure (int (cps_policy_revision policy) \<le> i64_max) (internal ''callback policy corrupt'')) (\<lambda>_.
      and_then (ensure (task_visible db (ccc_scope c) (ccc_task_id c) (\<lambda>t. tr_state t \<notin> set closed_state_names))
        (task_not_found ''resource'')) (\<lambda>_.
      and_then (ensure (enrollment_active db tenant (ccc_enrollment_id c) (int (ccc_enrollment_generation c))
          (ccc_canonical_url c) (ccc_url_digest c) (cps_policy_id policy) (int (cps_policy_revision policy)))
        (invalid_request ''callback enrollment is not authorized'')) (\<lambda>_.
      let config_id = (case ccc_config_id c of Some i \<Rightarrow> i | None \<Rightarrow> ''callback-'' @ fresh) in
      case find (\<lambda>r. config_key r = (tenant, ccc_task_id c, config_id)) (db_configs db) of
        Some r \<Rightarrow> create_existing c r db
      | None \<Rightarrow> create_new E c policy config_id db))))))"

definition get_callback_config :: "config_get_command \<Rightarrow> callback_store \<Rightarrow> a2a_error + callback_config option" where
  "get_callback_config c st =
     (let db = cs_db st in
      and_then (ensure (cs_policy st \<noteq> None) push_notification_not_supported) (\<lambda>_.
      case find (\<lambda>r. config_key r = (ots_tenant_scope (cgc_scope c), cgc_task_id c, cgc_config_id c) \<and> cg_state r \<noteq> ConfigRevoked
             \<and> task_visible db (cgc_scope c) (cgc_task_id c) (\<lambda>_. True)) (db_configs db) of
        None \<Rightarrow> Inr None
      | Some r \<Rightarrow> and_then (config_of_row r) (\<lambda>config. Inr (Some config))))"

definition token_payload :: "string \<Rightarrow> string \<Rightarrow> int \<Rightarrow> string \<Rightarrow> string" where
  "token_payload tenant task created cid =
     ''1'' @ [CHR 0x1F] @ tenant @ [CHR 0x1F] @ task @ [CHR 0x1F] @ show_int created @ [CHR 0x1F] @ cid"

definition token_mac :: "push_env \<Rightarrow> byte list \<Rightarrow> byte list \<Rightarrow> byte list" where
  "token_mac E key payload = pu_hmac E key (ascii (''smesh-callback-page-v1'' @ [CHR 0x00]) @ payload)"

definition make_callback_page_token :: "push_env \<Rightarrow> byte list \<Rightarrow> string \<Rightarrow> string \<Rightarrow> int \<Rightarrow> string \<Rightarrow> string" where
  "make_callback_page_token E key tenant task created cid =
     (let payload = ascii (token_payload tenant task created cid) in
      pu_base64_url E payload @ ''.'' @ pu_base64_url E (token_mac E key payload))"

definition parse_callback_page_token :: "push_env \<Rightarrow> byte list \<Rightarrow> string \<Rightarrow> string \<Rightarrow> string \<Rightarrow> (int \<times> string) option" where
  "parse_callback_page_token E key token tenant task =
     (if token = [] \<or> 4096 < length token then None
      else case split_on (CHR ''.'') token of
          [payload_text, mac_text] \<Rightarrow>
            (if payload_text = [] \<or> mac_text = [] then None
             else case (pu_base64_url_decode E payload_text, pu_base64_url_decode E mac_text) of
                 (Some payload, Some supplied) \<Rightarrow>
                   (if length supplied \<noteq> 32 \<or> token_mac E key payload \<noteq> supplied then None
                    else case pu_utf8 E payload of
                        None \<Rightarrow> None
                      | Some text \<Rightarrow>
                          (case split_on (CHR 0x1F) text of
                             [v, tenant', task', created, cid] \<Rightarrow>
                               (if v = ''1'' \<and> tenant' = tenant \<and> task' = task \<and> cid \<noteq> []
                                then map_option (\<lambda>c. (c, cid)) (parse_i64 created) else None)
                           | _ \<Rightarrow> None))
               | _ \<Rightarrow> None)
        | _ \<Rightarrow> None)"

definition list_callback_configs :: "push_env \<Rightarrow> byte list \<Rightarrow> config_list_command \<Rightarrow> callback_store
    \<Rightarrow> a2a_error + callback_config_page" where
  "list_callback_configs E cursor_key c st =
     (let db = cs_db st; tenant = ots_tenant_scope (clc_scope c); task = clc_task_id c; batch = clc_page_size c in
      and_then (ensure (cs_policy st \<noteq> None) push_notification_not_supported) (\<lambda>_.
      and_then (case clc_page_token c of None \<Rightarrow> Inr (0, [])
          | Some token \<Rightarrow> ok_or (parse_callback_page_token E cursor_key token tenant task)
              (invalid_request ''invalid callback page token'')) (\<lambda>after.
      let matching = filter (\<lambda>r. cg_tenant r = tenant \<and> cg_task r = task \<and> cg_state r \<noteq> ConfigRevoked
            \<and> task_visible db (clc_scope c) task (\<lambda>_. True) \<and> after < (cg_created r, cg_config r)) (db_configs db);
          rows = take (batch + 1) (sort_key (\<lambda>r. (cg_created r, cg_config r)) matching) in
      and_then (collect_res config_of_row (take batch rows)) (\<lambda>configs.
        callback_config_page_new configs
          (if batch < length rows
           then Some (make_callback_page_token E cursor_key tenant task (ccf_created_at (last configs)) (ccf_config_id (last configs)))
           else None)))))"

definition lease_expired :: "int \<Rightarrow> delivery_row \<Rightarrow> bool" where
  "lease_expired now d \<longleftrightarrow> dl_state d = DeliveryLeased \<and> (case dl_until d of None \<Rightarrow> False | Some u \<Rightarrow> u \<le> now)"

definition lease_live :: "int \<Rightarrow> delivery_row \<Rightarrow> bool" where
  "lease_live now d \<longleftrightarrow> dl_state d = DeliveryLeased \<and> (case dl_until d of None \<Rightarrow> False | Some u \<Rightarrow> now < u)"

definition delete_callback_config :: "push_env \<Rightarrow> int \<Rightarrow> config_delete_command \<Rightarrow> callback_store
    \<Rightarrow> a2a_error + (callback_db \<times> callback_delete_outcome)" where
  "delete_callback_config E now c st =
     (let db = cs_db st; key = (ots_tenant_scope (cdc_scope c), cdc_task_id c, cdc_config_id c) in
      and_then (ensure (cs_policy st \<noteq> None) push_notification_not_supported) (\<lambda>_.
      and_then (ensure (task_visible db (cdc_scope c) (cdc_task_id c) (\<lambda>_. True)) (task_not_found ''resource'')) (\<lambda>_.
      case find (\<lambda>r. config_key r = key) (db_configs db) of
        None \<Rightarrow> and_then (log_decision (cdc_authorization_audit c) db) (\<lambda>db'. Inr (db', DeletedAlreadyAbsent))
      | Some r \<Rightarrow>
          if cg_state r = ConfigRevoked
          then and_then (log_decision (cdc_authorization_audit c) db) (\<lambda>db'. Inr (db', DeletedAlreadyAbsent))
          else
            and_then (ok_or (update_deliveries E
                (\<lambda>d. delivery_config d = key \<and> (dl_state d \<in> {DeliveryPending, DeliveryRetry} \<or> lease_expired now d))
                (\<lambda>d. d\<lparr>dl_state := DeliveryCanceled, dl_owner := None, dl_token := None, dl_until := None, dl_updated := now\<rparr>) db)
              (internal ''callback cancellation failed'')) (\<lambda>db1.
            let leased = list_ex (\<lambda>d. delivery_config d = key \<and> lease_live now d) (db_deliveries db1) in
            and_then (ok_or (update_configs E (\<lambda>r. config_key r = key)
                (\<lambda>r. r\<lparr>cg_state := (if leased then ConfigDraining else ConfigRevoked), cg_updated := cdc_requested_at c\<rparr>) db1)
              (internal ''callback revoke failed'')) (\<lambda>db2.
            and_then (log_decision (cdc_authorization_audit c) db2) (\<lambda>db3.
              Inr (db3, if leased then DeletedDraining else DeletedRevoked)))))))"

section \<open>Claiming\<close>

definition reclaim_expired :: "push_env \<Rightarrow> int \<Rightarrow> nat \<Rightarrow> callback_db \<Rightarrow> a2a_error + callback_db" where
  "reclaim_expired E now max_attempts db =
     and_then (ok_or (update_deliveries E (\<lambda>d. lease_expired now d \<and> dl_attempts d < int max_attempts)
         (\<lambda>d. d\<lparr>dl_state := DeliveryRetry, dl_available := now, dl_owner := None, dl_token := None, dl_until := None,
                dl_updated := now\<rparr>) db) (internal ''callback reclaim failed'')) (\<lambda>db1.
     ok_or (update_deliveries E (\<lambda>d. lease_expired now d \<and> int max_attempts \<le> dl_attempts d)
         (\<lambda>d. d\<lparr>dl_state := DeliveryDead, dl_owner := None, dl_token := None, dl_until := None, dl_updated := now\<rparr>) db1)
       (internal ''callback dead transition failed''))"

definition delivery_due :: "callback_db \<Rightarrow> int \<Rightarrow> delivery_row \<Rightarrow> bool" where
  "delivery_due db now d \<longleftrightarrow>
     dl_state d \<in> {DeliveryPending, DeliveryRetry} \<and> dl_available d \<le> now
     \<and> list_ex (\<lambda>c. config_key c = delivery_config d \<and> cg_state c \<in> {ConfigActive, ConfigTerminalClosed}) (db_configs db)"

definition due_order :: "delivery_row \<Rightarrow> int \<times> string \<times> string" where
  "due_order d = (dl_available d, dl_event d, dl_config d)"

text \<open>\<open>ROW_NUMBER() OVER (PARTITION BY tenant ORDER BY ...)\<close>, then the order of the selection.\<close>

definition fair_rank :: "delivery_row list \<Rightarrow> delivery_row \<Rightarrow> nat" where
  "fair_rank due d = length (filter (\<lambda>x. dl_tenant x = dl_tenant d \<and> due_order x < due_order d) due) + 1"

definition select_due :: "callback_db \<Rightarrow> int \<Rightarrow> nat \<Rightarrow> (string \<times> string \<times> string) list" where
  "select_due db now batch =
     (let due = filter (delivery_due db now) (db_deliveries db) in
      map delivery_key (take batch (sort_key (\<lambda>d. (fair_rank due d, dl_tenant d, dl_event d, dl_config d)) due)))"

definition project_lease :: "callback_db \<Rightarrow> string \<Rightarrow> int \<Rightarrow> delivery_row \<Rightarrow> a2a_error + callback_lease" where
  "project_lease db owner until d =
     and_then (ok_or (find (\<lambda>c. config_key c = delivery_config d) (db_configs db)) (internal ''callback lease projection failed'')) (\<lambda>c.
     and_then (ok_or (find (\<lambda>e. event_key e = (dl_tenant d, dl_event d)) (db_events db))
       (internal ''callback lease projection failed'')) (\<lambda>e.
     and_then (ok_or (dl_token d) (internal ''callback lease projection failed'')) (\<lambda>token.
     and_then (ensure (0 \<le> dl_epoch d) (internal ''callback fence corrupt'')) (\<lambda>_.
     and_then (delivery_fence_new \<lparr>df_tenant_scope = dl_tenant d, df_event_id = dl_event d, df_config_id = dl_config d,
         df_lease_owner = owner, df_lease_token = token, df_lease_epoch = nat (dl_epoch d)\<rparr>) (\<lambda>fence.
     and_then (ensure (0 \<le> cg_generation c) (internal ''callback enrollment corrupt'')) (\<lambda>_.
       callback_lease_new_authoritative
         \<lparr>cl_fence = fence, cl_task_id = dl_task d, cl_config_id = cg_config c, cl_canonical_url = cg_url c,
          cl_enrollment_id = cg_enrollment c, cl_enrollment_generation = nat (cg_generation c), cl_payload = ev_payload e,
          cl_payload_digest = ev_payload_digest e,
          cl_attempt = (if 0 \<le> dl_attempts d \<and> dl_attempts d \<le> 65535 then nat (dl_attempts d) else 32),
          cl_created_at = ev_created e, cl_expires_at = ev_expires e, cl_lease_expires_at = until,
          cl_owner_account_id = cg_owner c, cl_principal_scope = cg_principal c\<rparr>))))))"

definition lease_one :: "push_env \<Rightarrow> string \<Rightarrow> int \<Rightarrow> int \<Rightarrow> string \<Rightarrow> (string \<times> string \<times> string) \<Rightarrow> callback_db
    \<Rightarrow> a2a_error + (callback_db \<times> callback_lease)" where
  "lease_one E owner now duration token key db =
     and_then (ensure (now + duration \<le> i64_max) (internal ''callback lease overflow'')) (\<lambda>_.
     let until = now + duration in
     and_then (ok_or (update_deliveries E (\<lambda>d. delivery_key d = key)
         (\<lambda>d. d\<lparr>dl_state := DeliveryLeased, dl_attempts := dl_attempts d + 1, dl_owner := Some owner, dl_token := Some token,
                dl_epoch := dl_epoch d + 1, dl_until := Some until, dl_updated := now\<rparr>) db)
       (internal ''callback claim update failed'')) (\<lambda>db'.
     and_then (ok_or (find (\<lambda>d. delivery_key d = key) (db_deliveries db')) (internal ''callback lease projection failed'')) (\<lambda>d.
     and_then (project_lease db' owner until d) (\<lambda>lease. Inr (db', lease)))))"

fun lease_all :: "push_env \<Rightarrow> string \<Rightarrow> int \<Rightarrow> int \<Rightarrow> (nat \<Rightarrow> string) \<Rightarrow> nat \<Rightarrow> (string \<times> string \<times> string) list \<Rightarrow> callback_db
    \<Rightarrow> a2a_error + (callback_db \<times> callback_lease list)" where
  "lease_all E owner now duration fresh i [] db = Inr (db, [])"
| "lease_all E owner now duration fresh i (key # keys) db =
     and_then (lease_one E owner now duration (''lease-'' @ fresh i) key db) (\<lambda>(db', lease).
     and_then (lease_all E owner now duration fresh (Suc i) keys db') (\<lambda>(db'', leases). Inr (db'', lease # leases)))"

definition claim_callback_deliveries :: "push_env \<Rightarrow> (nat \<Rightarrow> string) \<Rightarrow> int \<Rightarrow> delivery_claim_command \<Rightarrow> callback_store
    \<Rightarrow> a2a_error + (callback_db \<times> callback_lease list)" where
  "claim_callback_deliveries E fresh now c st =
     and_then (ok_or (cs_policy st) push_notification_not_supported) (\<lambda>policy.
     and_then (reclaim_expired E now (cps_max_attempts policy) (cs_db st)) (\<lambda>db.
       lease_all E (dcc_owner c) now (dcc_lease_duration c) fresh 0 (select_due db now (dcc_batch_limit c)) db))"

section \<open>Leases in use\<close>

definition fence_matches :: "int \<Rightarrow> delivery_fence \<Rightarrow> delivery_row \<Rightarrow> bool" where
  "fence_matches now f d \<longleftrightarrow>
     delivery_key d = (df_tenant_scope f, df_event_id f, df_config_id f)
     \<and> dl_owner d = Some (df_lease_owner f) \<and> dl_token d = Some (df_lease_token f)
     \<and> dl_epoch d = (if int (df_lease_epoch f) \<le> i64_max then int (df_lease_epoch f) else -1)
     \<and> lease_live now d"

definition renew_callback_delivery :: "push_env \<Rightarrow> int \<Rightarrow> delivery_fence \<Rightarrow> int \<Rightarrow> callback_db
    \<Rightarrow> a2a_error + (callback_db \<times> int option)" where
  "renew_callback_delivery E now f duration db =
     and_then (ensure (now + duration \<le> i64_max) (internal ''callback lease overflow'')) (\<lambda>_.
     and_then (ok_or (update_deliveries E (fence_matches now f)
         (\<lambda>d. d\<lparr>dl_until := Some (now + duration), dl_updated := now\<rparr>) db) (internal ''callback renew failed'')) (\<lambda>db'.
       Inr (db', if length (filter (fence_matches now f) (db_deliveries db)) = 1 then Some (now + duration) else None)))"

definition finish_callback_delivery :: "push_env \<Rightarrow> int \<Rightarrow> delivery_fence \<Rightarrow> callback_delivery_state
    \<Rightarrow> callback_delivery_category option \<Rightarrow> (string \<times> int option) option \<Rightarrow> callback_db
    \<Rightarrow> a2a_error + (callback_db \<times> callback_delivery_state)" where
  "finish_callback_delivery E now f next_state category evidence db =
     (let retry_at = (case evidence of Some (_, Some t) \<Rightarrow> t | _ \<Rightarrow> now);
          key = (df_tenant_scope f, df_event_id f, df_config_id f) in
      and_then (ok_or (update_deliveries E (fence_matches now f)
          (\<lambda>d. d\<lparr>dl_state := next_state, dl_available := retry_at, dl_owner := None, dl_token := None, dl_until := None,
                 dl_updated := now\<rparr>) db) (internal ''callback finish update failed'')) (\<lambda>db1.
      and_then (ensure (length (filter (fence_matches now f) (db_deliveries db)) = 1)
        (invalid_request ''stale callback delivery fence'')) (\<lambda>_.
      let finished = filter (\<lambda>d. delivery_key d = key) (db_deliveries db1);
          rows = map (\<lambda>d. \<lparr>at_tenant = dl_tenant d, at_event = dl_event d, at_config = dl_config d, at_number = dl_attempts d,
                     at_epoch = dl_epoch d, at_finished = now, at_outcome = next_state, at_category = category,
                     at_evidence = map_option fst evidence\<rparr>) finished in
      and_then (ok_or (insert_attempts rows db1) (internal ''callback attempt insert failed'')) (\<lambda>db2.
      and_then (ok_or (update_configs E
          (\<lambda>c. list_ex (\<lambda>d. config_key c = delivery_config d) finished \<and> cg_state c = ConfigDraining
             \<and> \<not> list_ex (\<lambda>d. delivery_config d = config_key c \<and> dl_state d = DeliveryLeased) (db_deliveries db2))
          (\<lambda>c. c\<lparr>cg_state := ConfigRevoked, cg_updated := now\<rparr>) db2) (internal ''callback drain finalize failed'')) (\<lambda>db3.
        Inr (db3, next_state))))))"

definition commit_callback_delivery :: "push_env \<Rightarrow> int \<Rightarrow> delivery_fence \<Rightarrow> callback_db \<Rightarrow> a2a_error + (callback_db \<times> bool)" where
  "commit_callback_delivery E now f db =
     and_then (finish_callback_delivery E now f DeliveryDelivered None None db) (\<lambda>(db', s). Inr (db', s = DeliveryDelivered))"

definition fail_callback_delivery :: "push_env \<Rightarrow> int \<Rightarrow> callback_fail_command \<Rightarrow> callback_db
    \<Rightarrow> a2a_error + (callback_db \<times> callback_delivery_state)" where
  "fail_callback_delivery E now c db =
     finish_callback_delivery E now (cfc_fence c)
       (case cfc_disposition c of FailRetry \<Rightarrow> DeliveryRetry | FailDead \<Rightarrow> DeliveryDead)
       (Some (cfc_category c)) (Some (cfc_error_digest c, cfc_retry_at c)) db"

definition revoke_callback_delivery :: "push_env \<Rightarrow> int \<Rightarrow> delivery_fence \<Rightarrow> callback_db
    \<Rightarrow> a2a_error + (callback_db \<times> callback_delivery_state)" where
  "revoke_callback_delivery E now f db = finish_callback_delivery E now f DeliveryCanceled None None db"

section \<open>Enqueueing the terminal event\<close>

definition latest_snapshot :: "callback_db \<Rightarrow> snapshot_row option" where
  "latest_snapshot db =
     (case latest_revision db of None \<Rightarrow> None | Some v \<Rightarrow> find (\<lambda>s. sr_revision s = v) (db_snapshots db))"

definition event_id_of :: "push_env \<Rightarrow> string \<Rightarrow> string \<Rightarrow> nat \<Rightarrow> string \<Rightarrow> string" where
  "event_id_of E tenant task revision digest =
     ''callback-event-'' @ take 32 (drop 7 (sha256_text (pu_sha256 E
       (ascii (tenant @ [CHR 0x00] @ task @ [CHR 0x00] @ show_nat revision @ [CHR 0x00] @ digest)))))"

definition retained_deliveries :: "callback_db \<Rightarrow> string \<Rightarrow> nat" where
  "retained_deliveries db tenant =
     length (filter (\<lambda>d. dl_tenant d = tenant \<and> dl_state d \<in> {DeliveryPending, DeliveryRetry, DeliveryLeased}) (db_deliveries db))"

definition pending_row :: "string \<Rightarrow> string \<Rightarrow> string \<Rightarrow> int \<Rightarrow> string \<Rightarrow> delivery_row" where
  "pending_row tenant event task now config =
     \<lparr>dl_tenant = tenant, dl_event = event, dl_task = task, dl_config = config, dl_state = DeliveryPending, dl_attempts = 0,
      dl_available = now, dl_owner = None, dl_token = None, dl_epoch = 0, dl_until = None, dl_created = now, dl_updated = now\<rparr>"

definition terminal_update :: "task \<Rightarrow> stream_response" where
  "terminal_update t =
     SR_StatusUpdate \<lparr>tsu_task_id = task_id t, tsu_context_id = context_id t, tsu_status = status t, tsu_metadata = None\<rparr>"

definition enqueue_terminal_callbacks :: "push_env \<Rightarrow> (stream_response \<Rightarrow> byte list option) \<Rightarrow> string \<Rightarrow> task \<Rightarrow> nat \<Rightarrow> int \<Rightarrow> callback_db
    \<Rightarrow> a2a_error + callback_db" where
  "enqueue_terminal_callbacks E encode_event tenant t revision now db =
     and_then (ensure (int revision \<le> i64_max) (internal ''callback task revision exhausted'')) (\<lambda>_.
     if \<not> is_terminal (state (status t)) then Inr db
     else
       let active = filter (\<lambda>c. cg_tenant c = tenant \<and> cg_task c = task_id t \<and> cg_state c = ConfigActive) (db_configs db) in
       if active = [] then Inr db
       else
         and_then (ok_or (encode_event (terminal_update t)) (internal ''callback terminal payload encoding failed'')) (\<lambda>payload.
         and_then (ok_or (latest_snapshot db) (internal ''callback terminal policy lookup failed'')) (\<lambda>policy.
         and_then (ensure (\<not> (payload = [] \<or> sr_max_payload policy < int (length payload)))
           (invalid_request ''callback terminal payload exceeds policy'')) (\<lambda>_.
         let digest = sha256_text (pu_sha256 E payload);
             event = event_id_of E tenant (task_id t) revision digest;
             expires = min (now + sr_max_age policy) i64_max;
             row = \<lparr>ev_tenant = tenant, ev_event = event, ev_task = task_id t, ev_revision = int revision, ev_payload = payload,
                    ev_payload_digest = digest, ev_created = now, ev_expires = expires\<rparr>
         in
         and_then (ok_or (insert_or_ignore_event E row db) (internal ''callback terminal event insert failed'')) (\<lambda>db1.
         and_then (ensure (int (retained_deliveries db1 tenant) + int (length active) \<le> sr_max_pending policy)
           (invalid_request ''callback pending capacity reached'')) (\<lambda>_.
         and_then (try_for (\<lambda>db config. ok_or (insert_or_ignore_delivery (pending_row tenant event (task_id t) now config) db)
             (internal ''callback terminal delivery insert failed'')) db1 (sort (map cg_config active))) (\<lambda>db2.
         ok_or (update_configs E (\<lambda>c. cg_tenant c = tenant \<and> cg_task c = task_id t \<and> cg_state c = ConfigActive)
             (\<lambda>c. c\<lparr>cg_state := ConfigTerminalClosed, cg_updated := now\<rparr>) db2)
           (internal ''callback terminal close failed''))))))))"

end
