(* ===== verification/Callback_Recovery.thy ===== *)
theory Callback_Recovery
  imports Callback_Store
begin

text \<open>
  Opening the SQLite store with a push policy: \<open>reconcile_callback_policy\<close> persists a new policy
  revision and retires the configurations of the old one, and \<open>validate_callback_records\<close> checks the
  rows and the audit records against each other (\<open>src/sqlite_store.rs\<close>).
\<close>

datatype sqlite_store_error =
    SymbolicLink | InvalidSchema | Initialization | StoreCapacity | AlreadyOpen | UnsupportedPlatform

section \<open>Validation\<close>

definition grouped_over :: "('r \<Rightarrow> 'k) \<Rightarrow> nat \<Rightarrow> 'r list \<Rightarrow> bool" where
  "grouped_over key bound rows \<longleftrightarrow> list_ex (\<lambda>r. bound < length (filter (\<lambda>x. key x = key r) rows)) rows"

definition config_enrollment_differs :: "callback_db \<Rightarrow> bool" where
  "config_enrollment_differs db \<longleftrightarrow>
     list_ex (\<lambda>c. list_ex (\<lambda>e. er_tenant e = cg_tenant c \<and> er_enrollment e = cg_enrollment c \<and> er_generation e = cg_generation c
       \<and> (cg_url c \<noteq> er_url e \<or> cg_url_digest c \<noteq> er_url_digest e)) (db_enrollments db)) (db_configs db)"

definition lease_fields_wrong :: "callback_db \<Rightarrow> bool" where
  "lease_fields_wrong db \<longleftrightarrow>
     list_ex (\<lambda>d. delivery_config d \<in> config_key ` set (db_configs db) \<and> dl_state d = DeliveryLeased
       \<and> (dl_owner d = None \<or> dl_token d = None \<or> dl_until d = None \<or> dl_epoch d \<le> 0)) (db_deliveries db)
     \<or> list_ex (\<lambda>d. dl_state d \<noteq> DeliveryLeased \<and> (dl_owner d \<noteq> None \<or> dl_token d \<noteq> None \<or> dl_until d \<noteq> None)) (db_deliveries db)"

definition rows_misplaced :: "callback_db \<Rightarrow> bool" where
  "rows_misplaced db \<longleftrightarrow>
     list_ex (\<lambda>e. list_ex (\<lambda>t. tr_task t = ev_task e \<and> ev_tenant e \<noteq> tr_tenant t) (db_tasks db)) (db_events db)
     \<or> list_ex (\<lambda>d. list_ex (\<lambda>e. event_key e = (dl_tenant d, dl_event d) \<and> dl_task d \<noteq> ev_task e) (db_events db)) (db_deliveries db)"

fun outcome_kind :: "callback_delivery_state \<Rightarrow> callback_audit_kind option" where
  "outcome_kind DeliveryDelivered = Some AuditDelivered"
| "outcome_kind DeliveryRetry = Some RetryScheduled"
| "outcome_kind DeliveryDead = Some AuditDead"
| "outcome_kind _ = None"

definition attempt_delivery :: "attempt_row \<Rightarrow> delivery_row \<Rightarrow> bool" where
  "attempt_delivery x d \<longleftrightarrow> delivery_key d = (at_tenant x, at_event x, at_config x)"

text \<open>The digest of an audit record of a delivery, with a given attempt number.\<close>

definition attempt_digest :: "push_env \<Rightarrow> callback_audit_kind \<Rightarrow> delivery_row \<Rightarrow> int \<Rightarrow> string" where
  "attempt_digest E kind d n = callback_audit_digest E kind (dl_tenant d) (dl_task d) (dl_config d) (dl_event d) 0 n"

definition audit_explained :: "push_env \<Rightarrow> callback_db \<Rightarrow> audit_row \<Rightarrow> bool" where
  "audit_explained E db a \<longleftrightarrow>
     (ar_kind a = PolicyReconciled \<and> ar_source a = FromEnrollments
        \<and> list_ex (\<lambda>e. er_tenant e = ar_tenant a \<and> ar_digest a = ar_digest (enrollment_audit E 0 e)) (db_enrollments db))
     \<or> (ar_kind a \<in> {ConfigCreated, ConfigDeleted} \<and> ar_source a = FromConfigs
        \<and> list_ex (\<lambda>c. cg_tenant c = ar_tenant a \<and> ar_digest a = ar_digest (config_audit E (ar_kind a) c 0)) (db_configs db))
     \<or> (ar_kind a = EventEnqueued \<and> ar_source a = FromEvents
        \<and> list_ex (\<lambda>e. ev_tenant e = ar_tenant a \<and> ar_digest a = ar_digest (event_audit E e)) (db_events db))
     \<or> (ar_kind a = DeliveryAttempted \<and> ar_source a = FromDeliveries
        \<and> list_ex (\<lambda>d. dl_tenant d = ar_tenant a \<and> ar_digest a = attempt_digest E DeliveryAttempted d (dl_attempts d)) (db_deliveries db))
     \<or> (ar_kind a = DeliveryAttempted \<and> ar_source a = FromDeliveries
        \<and> list_ex (\<lambda>x. list_ex (\<lambda>d. attempt_delivery x d \<and> at_tenant x = ar_tenant a
              \<and> ar_digest a = attempt_digest E DeliveryAttempted d (at_number x)) (db_deliveries db)) (db_attempts db))
     \<or> (ar_kind a \<in> {AuditDelivered, RetryScheduled, AuditDead} \<and> ar_source a = FromDeliveries
        \<and> list_ex (\<lambda>x. list_ex (\<lambda>d. attempt_delivery x d \<and> at_tenant x = ar_tenant a \<and> outcome_kind (at_outcome x) = Some (ar_kind a)
              \<and> ar_digest a = attempt_digest E (ar_kind a) d (at_number x)) (db_deliveries db)) (db_attempts db))"

definition records_invalid :: "push_env \<Rightarrow> nat \<Rightarrow> nat \<Rightarrow> callback_db \<Rightarrow> bool" where
  "records_invalid E max_configs_per_tenant max_configs_per_task db \<longleftrightarrow>
     config_enrollment_differs db \<or> rows_misplaced db \<or> lease_fields_wrong db
     \<or> grouped_over cg_tenant max_configs_per_tenant (filter (\<lambda>c. cg_state c \<noteq> ConfigRevoked) (db_configs db))
     \<or> grouped_over (\<lambda>c. (cg_tenant c, cg_task c)) max_configs_per_task (filter (\<lambda>c. cg_state c \<noteq> ConfigRevoked) (db_configs db))
     \<or> list_ex (\<lambda>a. ar_occurred a \<le> 0 \<or> \<not> audit_explained E db a) (db_audits db)
     \<or> list_ex (\<lambda>a. length (filter (\<lambda>b. audit_key b = audit_key a) (db_audits db)) \<noteq> 1) (db_audits db)"

text \<open>The audit records that the rows call for, without their times.\<close>

definition audit_facts :: "audit_row \<Rightarrow> string \<times> callback_audit_kind \<times> audit_source \<times> string" where
  "audit_facts a = (ar_tenant a, ar_kind a, ar_source a, ar_digest a)"

definition expected_audits :: "push_env \<Rightarrow> callback_db \<Rightarrow> (string \<times> callback_audit_kind \<times> audit_source \<times> string) list" where
  "expected_audits E db =
     map (\<lambda>e. audit_facts (enrollment_audit E 0 e)) (db_enrollments db)
     @ map (\<lambda>c. audit_facts (config_audit E ConfigCreated c 0)) (db_configs db)
     @ map (\<lambda>c. audit_facts (config_audit E ConfigDeleted c 0))
         (filter (\<lambda>c. cg_state c \<in> {ConfigDraining, ConfigRevoked}) (db_configs db))
     @ map (\<lambda>e. audit_facts (event_audit E e)) (db_events db)
     @ concat (map (\<lambda>d. map (\<lambda>n. (dl_tenant d, DeliveryAttempted, FromDeliveries, attempt_digest E DeliveryAttempted d n))
         [1..dl_attempts d]) (db_deliveries db))
     @ concat (map (\<lambda>x. concat (map (\<lambda>d. if attempt_delivery x d then
           (case outcome_kind (at_outcome x) of None \<Rightarrow> []
            | Some k \<Rightarrow> [(at_tenant x, k, FromDeliveries, attempt_digest E k d (at_number x))]) else []) (db_deliveries db)))
         (db_attempts db))
     @ concat (map (\<lambda>d. case outcome_kind (dl_state d) of None \<Rightarrow> []
           | Some k \<Rightarrow> [(dl_tenant d, k, FromDeliveries, attempt_digest E k d (dl_attempts d))]) (db_deliveries db))"

definition audits_incomplete :: "push_env \<Rightarrow> callback_db \<Rightarrow> bool" where
  "audits_incomplete E db \<longleftrightarrow> set (expected_audits E db) \<noteq> set (map audit_facts (db_audits db))"

definition validate_callback_records :: "push_env \<Rightarrow> nat \<Rightarrow> nat \<Rightarrow> nat \<Rightarrow> callback_db \<Rightarrow> sqlite_store_error + unit" where
  "validate_callback_records E max_pending max_configs_per_task max_configs_per_tenant db =
     and_then (ensure (\<not> records_invalid E max_configs_per_tenant max_configs_per_task db) InvalidSchema) (\<lambda>_.
     and_then (ensure (\<not> audits_incomplete E db) InvalidSchema) (\<lambda>_.
     and_then (ensure (length (filter (\<lambda>d. dl_state d \<in> {DeliveryPending, DeliveryRetry, DeliveryLeased}) (db_deliveries db)) \<le> max_pending)
       StoreCapacity) (\<lambda>_.
     ensure (list_all (\<lambda>e. ev_payload e \<noteq> [] \<and> length (ev_payload e) \<le> 256 * 1024
         \<and> sha256_text (pu_sha256 E (ev_payload e)) = ev_payload_digest e) (db_events db)) InvalidSchema)))"

section \<open>Reconciliation\<close>

definition snapshot_row_of :: "push_policy \<Rightarrow> snapshot_row" where
  "snapshot_row_of p =
     \<lparr>sr_policy = ppo_policy_id p, sr_revision = int (ppo_policy_revision p), sr_digest = ppo_policy_digest p,
      sr_max_configs_per_task = int (pl_max_configs_per_task (ppo_limits p)),
      sr_max_configs_per_tenant = int (pl_max_configs_per_tenant (ppo_limits p)), sr_max_pending = int (pl_max_pending (ppo_limits p)),
      sr_max_payload = 262144, sr_max_attempts = int (pl_max_attempts (ppo_limits p)),
      sr_max_age = int (pl_max_delivery_age_ms (ppo_limits p))\<rparr>"

definition snapshot_row_ok :: "snapshot_row \<Rightarrow> bool" where
  "snapshot_row_ok r \<longleftrightarrow>
     0 < sr_revision r \<and> length (sr_digest r) = 71 \<and> 1 \<le> sr_max_configs_per_task r \<and> sr_max_configs_per_task r \<le> 32
     \<and> 1 \<le> sr_max_configs_per_tenant r \<and> sr_max_configs_per_tenant r \<le> 1000000 \<and> 1 \<le> sr_max_pending r \<and> sr_max_pending r \<le> 1000000
     \<and> 1 \<le> sr_max_payload r \<and> sr_max_payload r \<le> 262144 \<and> 1 \<le> sr_max_attempts r \<and> sr_max_attempts r \<le> 32
     \<and> 1 \<le> sr_max_age r \<and> sr_max_age r \<le> 604800000"

definition enrollment_row_of :: "push_env \<Rightarrow> push_policy \<Rightarrow> push_enrollment \<Rightarrow> enrollment_row" where
  "enrollment_row_of E p e =
     \<lparr>er_policy = ppo_policy_id p, er_revision = int (ppo_policy_revision p), er_tenant = enr_tenant e,
      er_enrollment = enr_endpoint_id e, er_generation = int (ppo_policy_revision p), er_url = cu_canonical (enr_url e),
      er_url_digest = sha256_text (pu_sha256 E (ascii (cu_canonical (enr_url e)))), er_key_generation = enr_key_generation e,
      er_secret = enr_secret_file e, er_ca = enr_ca_file e, er_mtls_cert = map_option fst (mtls_files e),
      er_mtls_key = map_option snd (mtls_files e)\<rparr>"

definition enrollment_row_ok :: "enrollment_row \<Rightarrow> bool" where
  "enrollment_row_ok r \<longleftrightarrow>
     bytes_between 1 128 (er_tenant r) \<and> bytes_between 1 128 (er_enrollment r) \<and> 0 < er_generation r
     \<and> bytes_between 1 2048 (er_url r) \<and> length (er_url_digest r) = 71 \<and> bytes_between 1 128 (er_key_generation r)
     \<and> bytes_between 1 4096 (er_secret r)"

definition enrollment_keys :: "enrollment_row \<Rightarrow> (string \<times> string \<times> int) \<times> (string \<times> string \<times> int)" where
  "enrollment_keys r = ((er_tenant r, er_enrollment r, er_generation r), (er_tenant r, er_url r, er_generation r))"

definition insert_enrollment :: "push_env \<Rightarrow> int \<Rightarrow> callback_db \<Rightarrow> enrollment_row \<Rightarrow> sqlite_store_error + callback_db" where
  "insert_enrollment E now db r =
     and_then (ensure (enrollment_row_ok r
         \<and> fst (enrollment_keys r) \<notin> (fst \<circ> enrollment_keys) ` set (db_enrollments db)
         \<and> snd (enrollment_keys r) \<notin> (snd \<circ> enrollment_keys) ` set (db_enrollments db)) Initialization) (\<lambda>_.
     and_then (ok_or (add_audit (enrollment_audit E now r) (db_audits db)) Initialization) (\<lambda>audits.
       Inr (db\<lparr>db_enrollments := db_enrollments db @ [r], db_audits := audits\<rparr>)))"

definition still_enrolled :: "callback_db \<Rightarrow> string \<Rightarrow> int \<Rightarrow> config_row \<Rightarrow> bool" where
  "still_enrolled db policy revision c \<longleftrightarrow>
     list_ex (\<lambda>n. er_policy n = policy \<and> er_revision n = revision \<and> er_tenant n = cg_tenant c \<and> er_enrollment n = cg_enrollment c
       \<and> er_generation n = cg_generation c \<and> er_url n = cg_url c) (db_enrollments db)"

definition retire_configs :: "push_env \<Rightarrow> int \<Rightarrow> string \<Rightarrow> int \<Rightarrow> callback_db \<Rightarrow> sqlite_store_error + callback_db" where
  "retire_configs E now policy revision db =
     (let removed = (\<lambda>d. list_ex (\<lambda>c. config_key c = delivery_config d \<and> \<not> still_enrolled db policy revision c) (db_configs db)) in
      and_then (ensure (\<not> list_ex (\<lambda>d. removed d \<and> lease_live now d) (db_deliveries db)) Initialization) (\<lambda>_.
      and_then (ok_or (update_deliveries E
          (\<lambda>d. removed d \<and> (dl_state d \<in> {DeliveryPending, DeliveryRetry} \<or> lease_expired now d))
          (\<lambda>d. d\<lparr>dl_state := DeliveryCanceled, dl_owner := None, dl_token := None, dl_until := None, dl_updated := now\<rparr>) db)
        Initialization) (\<lambda>db1.
      ok_or (update_configs E
          (\<lambda>c. \<not> still_enrolled db policy revision c \<and> cg_state c \<in> {ConfigActive, ConfigDraining, ConfigTerminalClosed})
          (\<lambda>c. c\<lparr>cg_state := ConfigRevoked, cg_updated := now\<rparr>) db1) Initialization)))"

definition persist_policy :: "push_env \<Rightarrow> int \<Rightarrow> push_policy \<Rightarrow> callback_db \<Rightarrow> sqlite_store_error + callback_db" where
  "persist_policy E now p db =
     and_then (ensure (snapshot_row_ok (snapshot_row_of p)) Initialization) (\<lambda>_.
     and_then (try_for (insert_enrollment E now) (db\<lparr>db_snapshots := db_snapshots db @ [snapshot_row_of p]\<rparr>)
         (map (enrollment_row_of E p) (ppo_enrollments p))) (\<lambda>db1.
       retire_configs E now (ppo_policy_id p) (int (ppo_policy_revision p)) db1))"

definition revision_compatible :: "push_policy \<Rightarrow> snapshot_row \<Rightarrow> bool" where
  "revision_compatible p s \<longleftrightarrow>
     sr_policy s = ppo_policy_id p \<and> sr_revision s \<le> int (ppo_policy_revision p)
     \<and> (sr_revision s = int (ppo_policy_revision p) \<longrightarrow> s = snapshot_row_of p)"

definition persisted_exactly :: "push_env \<Rightarrow> push_policy \<Rightarrow> callback_db \<Rightarrow> bool" where
  "persisted_exactly E p db \<longleftrightarrow>
     length (filter (\<lambda>r. er_policy r = ppo_policy_id p \<and> er_revision r = int (ppo_policy_revision p)) (db_enrollments db))
       = length (ppo_enrollments p)
     \<and> list_all (\<lambda>e. find (\<lambda>r. er_policy r = ppo_policy_id p \<and> er_revision r = int (ppo_policy_revision p) \<and> er_tenant r = enr_tenant e
            \<and> er_enrollment r = enr_endpoint_id e \<and> er_generation r = int (ppo_policy_revision p)) (db_enrollments db)
          = Some (enrollment_row_of E p e)) (ppo_enrollments p)"

definition snapshot_of :: "push_policy \<Rightarrow> callback_policy_snapshot" where
  "snapshot_of p =
     \<lparr>cps_policy_id = ppo_policy_id p, cps_policy_revision = ppo_policy_revision p, cps_policy_digest = ppo_policy_digest p,
      cps_max_configs_per_task = pl_max_configs_per_task (ppo_limits p),
      cps_max_configs_per_tenant = pl_max_configs_per_tenant (ppo_limits p), cps_max_pending = pl_max_pending (ppo_limits p),
      cps_max_payload_bytes = 262144, cps_max_attempts = pl_max_attempts (ppo_limits p),
      cps_max_delivery_age_ms = pl_max_delivery_age_ms (ppo_limits p)\<rparr>"

text \<open>
  The new revision is committed before the rows are validated, so the tables are returned beside the
  result: an open that fails in the validation leaves the new policy behind.
\<close>

definition reconcile_callback_policy :: "push_env \<Rightarrow> int \<Rightarrow> push_policy option \<Rightarrow> callback_db
    \<Rightarrow> callback_db \<times> (sqlite_store_error + callback_policy_snapshot option)" where
  "reconcile_callback_policy E now policy db =
     (case Option.bind policy (\<lambda>p. if ppo_enabled p then Some p else None) of
        None \<Rightarrow> (db, if db_snapshots db = [] then Inr None else Inl InvalidSchema)
      | Some p \<Rightarrow>
          if i64_max < int (ppo_policy_revision p) \<or> \<not> pred_option (revision_compatible p) (latest_snapshot db)
          then (db, Inl InvalidSchema)
          else case (if list_ex (\<lambda>s. sr_policy s = ppo_policy_id p \<and> sr_revision s = int (ppo_policy_revision p)) (db_snapshots db)
                     then Inr db else persist_policy E now p db) of
              Inl err \<Rightarrow> (db, Inl err)
            | Inr db1 \<Rightarrow> (db1,
                and_then (ensure (persisted_exactly E p db1) InvalidSchema) (\<lambda>_.
                and_then (validate_callback_records E (pl_max_pending (ppo_limits p)) (pl_max_configs_per_task (ppo_limits p))
                    (pl_max_configs_per_tenant (ppo_limits p)) db1) (\<lambda>_.
                and_then (map_err (\<lambda>_. InvalidSchema) (new_with_tenant_cap (snapshot_of p))) (\<lambda>s. Inr (Some s))))))"

end
