(* ===== verification/Callback_Leases.thy ===== *)
theory Callback_Leases
  imports Callback_Recovery
begin

text \<open>
  What the operations of the SQLite callback authority do to the table of deliveries. \<open>delivery_move\<close>
  lists the changes one row can undergo; every operation moves rows along it and adds pending rows
  only (\<open>evolves\<close>). The properties of leases are invariants of these moves.
\<close>

section \<open>Statements\<close>

lemma update_rows_Some:
  "update_rows ok trigger p f rows audits = Some (rows', audits') \<Longrightarrow>
     rows' = map (\<lambda>r. if p r then f r else r) rows \<and> list_all (\<lambda>r. p r \<longrightarrow> ok (f r)) rows"
  by (induction rows arbitrary: audits rows') (auto split: if_splits option.splits)

definition triggered :: "push_env \<Rightarrow> delivery_row \<Rightarrow> delivery_row \<Rightarrow> audit_row list" where
  "triggered E old r =
     (if dl_state old = dl_state r then []
      else case state_audit_kind (dl_state r) of None \<Rightarrow> [] | Some kind \<Rightarrow> [delivery_audit E kind r])"

lemma delivery_trigger_Some: "delivery_trigger E old r audits = Some audits' \<Longrightarrow> audits' = audits @ triggered E old r"
  by (auto simp: delivery_trigger_def triggered_def add_audit_def split: if_splits option.splits)

lemma update_rows_triggered:
  "update_rows ok (delivery_trigger E) p f rows audits = Some (rows', audits') \<Longrightarrow>
     audits' = audits @ concat (map (\<lambda>r. if p r then triggered E r (f r) else []) rows)"
proof (induction rows arbitrary: audits rows')
  case (Cons r rs)
  show ?case
  proof (cases "p r")
    case True
    then obtain a1 where a1: "delivery_trigger E r (f r) audits = Some a1"
      and rest: "update_rows ok (delivery_trigger E) p f rs a1 = Some (tl rows', audits')"
      using Cons.prems by (auto split: if_splits option.splits)
    show ?thesis using Cons.IH[OF rest] delivery_trigger_Some[OF a1] True by simp
  next
    case False
    then have "update_rows ok (delivery_trigger E) p f rs audits = Some (tl rows', audits')"
      using Cons.prems by auto
    from Cons.IH[OF this] False show ?thesis by simp
  qed
qed simp

lemma update_deliveries_Some:
  assumes "update_deliveries E p f db = Some db'"
  shows "db' = db\<lparr>db_deliveries := map (\<lambda>r. if p r then f r else r) (db_deliveries db),
      db_audits := db_audits db @ concat (map (\<lambda>r. if p r then triggered E r (f r) else []) (db_deliveries db))\<rparr>"
    and "list_all (\<lambda>r. p r \<longrightarrow> delivery_row_ok (f r)) (db_deliveries db)"
proof -
  obtain rows audits where u: "update_rows delivery_row_ok (delivery_trigger E) p f (db_deliveries db) (db_audits db) = Some (rows, audits)"
    and db': "db' = db\<lparr>db_deliveries := rows, db_audits := audits\<rparr>"
    using assms by (auto simp: update_deliveries_def)
  show "db' = db\<lparr>db_deliveries := map (\<lambda>r. if p r then f r else r) (db_deliveries db),
      db_audits := db_audits db @ concat (map (\<lambda>r. if p r then triggered E r (f r) else []) (db_deliveries db))\<rparr>"
    using update_rows_Some[OF u] update_rows_triggered[OF u] by (simp add: db')
  show "list_all (\<lambda>r. p r \<longrightarrow> delivery_row_ok (f r)) (db_deliveries db)" using update_rows_Some[OF u] by simp
qed

lemma update_configs_Some:
  assumes "update_configs E p f db = Some db'"
  shows "\<exists>audits. db' = db\<lparr>db_configs := map (\<lambda>r. if p r then f r else r) (db_configs db), db_audits := audits\<rparr>"
  using assms unfolding update_configs_def by (auto dest!: update_rows_Some)

lemma log_decision_Inr: "log_decision a db = Inr db' \<Longrightarrow> \<exists>ds. db' = db\<lparr>db_decisions := ds\<rparr>"
  by (auto simp: log_decision_def insert_authorization_audit_def result_simps split: option.splits intro: exI[of _ "db_decisions db"])

section \<open>Moves of one row\<close>

definition cleared :: "delivery_row \<Rightarrow> callback_delivery_state \<Rightarrow> int \<Rightarrow> int \<Rightarrow> delivery_row" where
  "cleared d s available now =
     d\<lparr>dl_state := s, dl_available := available, dl_owner := None, dl_token := None, dl_until := None, dl_updated := now\<rparr>"

inductive delivery_move :: "delivery_row \<Rightarrow> delivery_row \<Rightarrow> bool" where
  cancel: "dl_state d \<in> {DeliveryPending, DeliveryRetry, DeliveryLeased} \<Longrightarrow>
     delivery_move d (cleared d DeliveryCanceled (dl_available d) now)"
| lease: "dl_state d \<in> {DeliveryPending, DeliveryRetry} \<Longrightarrow>
     delivery_move d (d\<lparr>dl_state := DeliveryLeased, dl_attempts := dl_attempts d + 1, dl_owner := Some owner, dl_token := Some token,
       dl_epoch := dl_epoch d + 1, dl_until := Some until, dl_updated := now\<rparr>)"
| renew: "dl_state d = DeliveryLeased \<Longrightarrow> delivery_move d (d\<lparr>dl_until := Some until, dl_updated := now\<rparr>)"
| settle: "dl_state d = DeliveryLeased \<Longrightarrow> s \<in> {DeliveryDelivered, DeliveryRetry, DeliveryDead, DeliveryCanceled} \<Longrightarrow>
     delivery_move d (cleared d s available now)"

inductive_cases delivery_moveE: "delivery_move d d'"

definition fresh_pending :: "delivery_row \<Rightarrow> bool" where
  "fresh_pending d \<longleftrightarrow> (\<exists>tenant event task now config. d = pending_row tenant event task now config)"

definition grown :: "delivery_row \<Rightarrow> bool" where
  "grown d \<longleftrightarrow> (\<exists>p. fresh_pending p \<and> delivery_move\<^sup>*\<^sup>* p d)"

definition evolves :: "callback_db \<Rightarrow> callback_db \<Rightarrow> bool" where
  "evolves db db' \<longleftrightarrow>
     (\<exists>rows added. db_deliveries db' = rows @ added \<and> list_all2 delivery_move\<^sup>*\<^sup>* (db_deliveries db) rows \<and> list_all grown added)
     \<and> (distinct (map delivery_key (db_deliveries db)) \<longrightarrow> distinct (map delivery_key (db_deliveries db')))"

lemma move_key: "delivery_move d d' \<Longrightarrow> delivery_key d' = delivery_key d \<and> delivery_config d' = delivery_config d"
  by (auto elim!: delivery_moveE simp: cleared_def delivery_key_def delivery_config_def)

lemma moves_key: "delivery_move\<^sup>*\<^sup>* d d' \<Longrightarrow> delivery_key d' = delivery_key d \<and> delivery_config d' = delivery_config d"
  by (induction rule: rtranclp_induct) (use move_key in auto)

lemma list_all2_moves_keys: "list_all2 delivery_move\<^sup>*\<^sup>* xs ys \<Longrightarrow> map delivery_key ys = map delivery_key xs"
  by (induction rule: list_all2_induct) (use moves_key in auto)

lemma evolves_moved:
  assumes "db_deliveries db' = map g (db_deliveries db)" "\<And>d. d \<in> set (db_deliveries db) \<Longrightarrow> delivery_move\<^sup>*\<^sup>* d (g d)"
  shows "evolves db db'"
proof -
  have moves: "list_all2 delivery_move\<^sup>*\<^sup>* (db_deliveries db) (map g (db_deliveries db))"
    using assms(2) by (simp add: list_all2_map2 list.rel_refl_strong)
  show ?thesis
    unfolding evolves_def
  proof
    show "\<exists>rows added. db_deliveries db' = rows @ added \<and> list_all2 delivery_move\<^sup>*\<^sup>* (db_deliveries db) rows \<and> list_all grown added"
      by (rule exI[of _ "map g (db_deliveries db)"], rule exI[of _ "[]"]) (simp add: assms(1) moves)
    show "distinct (map delivery_key (db_deliveries db)) \<longrightarrow> distinct (map delivery_key (db_deliveries db'))"
      by (simp only: assms(1) list_all2_moves_keys[OF moves] simp_thms)
  qed
qed

lemma evolves_same: "db_deliveries db' = db_deliveries db \<Longrightarrow> evolves db db'"
  by (rule evolves_moved[where g = id]) simp_all

lemma list_all2_compose: "list_all2 P\<^sup>*\<^sup>* xs ys \<Longrightarrow> list_all2 P\<^sup>*\<^sup>* ys zs \<Longrightarrow> list_all2 P\<^sup>*\<^sup>* xs zs"
  by (rule list_all2_trans[of "P\<^sup>*\<^sup>*" "P\<^sup>*\<^sup>*"]) auto

lemma evolves_trans:
  assumes "evolves a b" "evolves b c"
  shows "evolves a c"
proof -
  obtain r1 x1 where b: "db_deliveries b = r1 @ x1" "list_all2 delivery_move\<^sup>*\<^sup>* (db_deliveries a) r1" "list_all grown x1"
    using assms(1) unfolding evolves_def by blast
  obtain r2 x2 where c: "db_deliveries c = r2 @ x2" "list_all2 delivery_move\<^sup>*\<^sup>* (r1 @ x1) r2" "list_all grown x2"
    using assms(2) b(1) unfolding evolves_def by auto
  obtain u v where uv: "r2 = u @ v" "list_all2 delivery_move\<^sup>*\<^sup>* r1 u" "list_all2 delivery_move\<^sup>*\<^sup>* x1 v"
    using c(2) by (auto simp: list_all2_append1)
  have "list_all grown v"
    using b(3) uv(3) unfolding list_all_iff
    by (metis (no_types, lifting) grown_def in_set_conv_nth list_all2_conv_all_nth rtranclp_trans)
  then have "list_all grown (v @ x2)" using c(3) by simp
  moreover have "list_all2 delivery_move\<^sup>*\<^sup>* (db_deliveries a) u" by (rule list_all2_compose[OF b(2) uv(2)])
  ultimately show ?thesis
    using assms unfolding evolves_def by (intro conjI exI[of _ u] exI[of _ "v @ x2"]) (simp_all add: c(1) uv(1))
qed

section \<open>Operations\<close>

definition keyed :: "callback_db \<Rightarrow> bool" where
  "keyed db \<longleftrightarrow> distinct (map delivery_key (db_deliveries db))"

lemma keyed_eq: "keyed db \<Longrightarrow> d \<in> set (db_deliveries db) \<Longrightarrow> d' \<in> set (db_deliveries db) \<Longrightarrow>
    delivery_key d = delivery_key d' \<Longrightarrow> d = d'"
  by (auto simp: keyed_def distinct_map inj_on_def)

lemma evolves_keyed: "evolves db db' \<Longrightarrow> keyed db \<Longrightarrow> keyed db'"
  by (simp add: evolves_def keyed_def)

lemma update_deliveries_evolves:
  assumes "update_deliveries E p f db = Some db'"
    "\<And>d. d \<in> set (db_deliveries db) \<Longrightarrow> p d \<Longrightarrow> delivery_move d (f d)"
  shows "evolves db db'"
proof (rule evolves_moved)
  show "db_deliveries db' = map (\<lambda>r. if p r then f r else r) (db_deliveries db)"
    using update_deliveries_Some(1)[OF assms(1)] by simp
qed (use assms(2) in auto)

lemma update_deliveries_new:
  assumes "update_deliveries E p f db = Some db'" "d' \<in> set (db_deliveries db')"
  obtains d where "d \<in> set (db_deliveries db)" "p d" "d' = f d" | "d' \<in> set (db_deliveries db)" "\<not> p d'"
proof -
  have "db_deliveries db' = map (\<lambda>r. if p r then f r else r) (db_deliveries db)"
    using update_deliveries_Some(1)[OF assms(1)] by simp
  with assms(2) obtain d where "d \<in> set (db_deliveries db)" "d' = (if p d then f d else d)" by auto
  then show thesis using that by (cases "p d") simp_all
qed

lemma update_deliveries_old:
  assumes "update_deliveries E p f db = Some db'" "d \<in> set (db_deliveries db)"
  shows "(if p d then f d else d) \<in> set (db_deliveries db')"
  using update_deliveries_Some(1)[OF assms(1)] assms(2) by simp

lemma update_configs_deliveries: "update_configs E p f db = Some db' \<Longrightarrow> db_deliveries db' = db_deliveries db"
  by (auto dest!: update_configs_Some)

lemma log_decision_deliveries: "log_decision a db = Inr db' \<Longrightarrow> db_deliveries db' = db_deliveries db"
  by (auto dest!: log_decision_Inr)

lemma create_evolves:
  assumes "create_callback_config E fresh c st = Inr (db', config)"
  shows "evolves (cs_db st) db'"
proof -
  have "insert_config E r db = Some db1 \<Longrightarrow> db_deliveries db1 = db_deliveries db" for r db db1
    by (auto simp: insert_config_def split: if_splits)
  then have "db_deliveries db' = db_deliveries (cs_db st)"
    using assms
    by (auto simp: create_callback_config_def create_existing_def create_new_def Let_def result_simps split: option.splits
        dest!: log_decision_deliveries)
  then show ?thesis by (rule evolves_same)
qed

lemma cancel_move: "dl_state d \<in> {DeliveryPending, DeliveryRetry} \<or> lease_expired now d \<Longrightarrow>
    delivery_move d (d\<lparr>dl_state := DeliveryCanceled, dl_owner := None, dl_token := None, dl_until := None, dl_updated := t\<rparr>)"
  using delivery_move.cancel[of d t] by (auto simp: cleared_def lease_expired_def)

lemma delete_evolves:
  assumes "delete_callback_config E now c st = Inr (db', r)"
  shows "evolves (cs_db st) db'"
proof -
  let ?p = "\<lambda>d. delivery_config d = (ots_tenant_scope (cdc_scope c), cdc_task_id c, cdc_config_id c)
      \<and> (dl_state d \<in> {DeliveryPending, DeliveryRetry} \<or> lease_expired now d)"
  let ?f = "\<lambda>d. d\<lparr>dl_state := DeliveryCanceled, dl_owner := None, dl_token := None, dl_until := None, dl_updated := now\<rparr>"
  consider "db_deliveries db' = db_deliveries (cs_db st)"
    | db1 where "update_deliveries E ?p ?f (cs_db st) = Some db1" "db_deliveries db' = db_deliveries db1"
    using assms unfolding delete_callback_config_def Let_def
    by (auto simp: result_simps split: option.splits if_splits dest!: log_decision_deliveries update_configs_deliveries)
  then show ?thesis
  proof cases
    case 2
    have "evolves (cs_db st) db1" by (rule update_deliveries_evolves[OF 2(1)]) (use cancel_move in blast)
    then show ?thesis using evolves_same[OF 2(2)] evolves_trans by blast
  qed (rule evolves_same)
qed

lemma reclaim_evolves:
  assumes "reclaim_expired E now m db = Inr db'"
  shows "evolves db db'"
proof -
  obtain db1 where 1: "update_deliveries E (\<lambda>d. lease_expired now d \<and> dl_attempts d < int m)
         (\<lambda>d. d\<lparr>dl_state := DeliveryRetry, dl_available := now, dl_owner := None, dl_token := None, dl_until := None,
                dl_updated := now\<rparr>) db = Some db1"
    and 2: "update_deliveries E (\<lambda>d. lease_expired now d \<and> int m \<le> dl_attempts d)
         (\<lambda>d. d\<lparr>dl_state := DeliveryDead, dl_owner := None, dl_token := None, dl_until := None, dl_updated := now\<rparr>) db1 = Some db'"
    using assms by (auto simp: reclaim_expired_def result_simps)
  have "evolves db db1"
    using settle[of _ DeliveryRetry now now] by (intro update_deliveries_evolves[OF 1]) (auto simp: lease_expired_def cleared_def)
  moreover have "evolves db1 db'"
    using settle[of d DeliveryDead "dl_available d" now for d]
    by (intro update_deliveries_evolves[OF 2]) (auto simp: lease_expired_def cleared_def)
  ultimately show ?thesis by (rule evolves_trans)
qed

definition waiting_key :: "callback_db \<Rightarrow> string \<times> string \<times> string \<Rightarrow> bool" where
  "waiting_key db k \<longleftrightarrow>
     (\<forall>d\<in>set (db_deliveries db). delivery_key d = k \<longrightarrow> dl_state d \<in> {DeliveryPending, DeliveryRetry})"

lemma lease_one_Inr:
  assumes "lease_one E owner now duration token key db = Inr (db', l)"
  shows "update_deliveries E (\<lambda>d. delivery_key d = key)
         (\<lambda>d. d\<lparr>dl_state := DeliveryLeased, dl_attempts := dl_attempts d + 1, dl_owner := Some owner, dl_token := Some token,
                dl_epoch := dl_epoch d + 1, dl_until := Some (now + duration), dl_updated := now\<rparr>) db = Some db'"
    and "\<exists>d. d \<in> set (db_deliveries db') \<and> delivery_key d = key \<and> project_lease db' owner (now + duration) d = Inr l"
proof -
  obtain d where 1: "update_deliveries E (\<lambda>d. delivery_key d = key)
         (\<lambda>d. d\<lparr>dl_state := DeliveryLeased, dl_attempts := dl_attempts d + 1, dl_owner := Some owner, dl_token := Some token,
                dl_epoch := dl_epoch d + 1, dl_until := Some (now + duration), dl_updated := now\<rparr>) db = Some db'"
    and 2: "find (\<lambda>d. delivery_key d = key) (db_deliveries db') = Some d" "project_lease db' owner (now + duration) d = Inr l"
    using assms by (auto simp: lease_one_def Let_def result_simps)
  show "update_deliveries E (\<lambda>d. delivery_key d = key)
         (\<lambda>d. d\<lparr>dl_state := DeliveryLeased, dl_attempts := dl_attempts d + 1, dl_owner := Some owner, dl_token := Some token,
                dl_epoch := dl_epoch d + 1, dl_until := Some (now + duration), dl_updated := now\<rparr>) db = Some db'" by (rule 1)
  show "\<exists>d. d \<in> set (db_deliveries db') \<and> delivery_key d = key \<and> project_lease db' owner (now + duration) d = Inr l"
    using 2 by (intro exI[of _ d]) (auto simp: find_Some_iff)
qed

lemma lease_one_evolves:
  assumes "lease_one E owner now duration token key db = Inr (db', l)" "waiting_key db key"
  shows "evolves db db'"
  by (rule update_deliveries_evolves[OF lease_one_Inr(1)[OF assms(1)]])
    (use assms(2) in \<open>auto simp: waiting_key_def intro!: delivery_move.lease\<close>)

lemma lease_one_waiting:
  assumes "lease_one E owner now duration token key db = Inr (db', l)" "waiting_key db k" "k \<noteq> key"
  shows "waiting_key db' k"
  using assms(2,3) update_deliveries_Some(1)[OF lease_one_Inr(1)[OF assms(1)]]
  by (auto simp: waiting_key_def delivery_key_def)

lemma lease_all_evolves:
  "lease_all E owner now duration fresh i keys db = Inr (db', ls) \<Longrightarrow> distinct keys \<Longrightarrow> \<forall>k\<in>set keys. waiting_key db k \<Longrightarrow>
     evolves db db'"
proof (induction keys arbitrary: i db ls)
  case (Cons k ks)
  obtain db1 l rest where 1: "lease_one E owner now duration (''lease-'' @ fresh i) k db = Inr (db1, l)"
    and 2: "lease_all E owner now duration fresh (Suc i) ks db1 = Inr (db', rest)"
    using Cons.prems(1) by (auto simp: result_simps)
  have "\<forall>j\<in>set ks. waiting_key db1 j"
    using Cons.prems(2,3) lease_one_waiting[OF 1] by auto
  then have "evolves db1 db'" using Cons.IH[OF 2] Cons.prems(2) by simp
  then show ?case using lease_one_evolves[OF 1] Cons.prems(3) evolves_trans by auto
qed (simp add: evolves_same)

lemma select_due_keys:
  assumes "keyed db"
  shows "distinct (select_due db now n)" "\<forall>k\<in>set (select_due db now n). waiting_key db k"
    "length (select_due db now n) \<le> n"
proof -
  let ?due = "filter (delivery_due db now) (db_deliveries db)"
  let ?sorted = "sort_key (\<lambda>d. (fair_rank ?due d, dl_tenant d, dl_event d, dl_config d)) ?due"
  have "distinct (map delivery_key ?due)" using assms by (simp add: keyed_def distinct_map_filter)
  then have "distinct (map delivery_key ?sorted)" by (simp add: distinct_map)
  then show "distinct (select_due db now n)" by (simp add: select_due_def Let_def take_map[symmetric])
  show "length (select_due db now n) \<le> n" by (simp add: select_due_def Let_def)
  show "\<forall>k\<in>set (select_due db now n). waiting_key db k"
  proof
    fix k assume "k \<in> set (select_due db now n)"
    then obtain d where d: "d \<in> set (take n ?sorted)" "delivery_key d = k" by (auto simp: select_due_def Let_def)
    from in_set_takeD[OF d(1)] have due: "d \<in> set (db_deliveries db)" "delivery_due db now d" by auto
    show "waiting_key db k"
      unfolding waiting_key_def
    proof (intro ballI impI)
      fix d' assume "d' \<in> set (db_deliveries db)" "delivery_key d' = k"
      then have "d' = d" using keyed_eq[OF assms] due(1) d(2) by blast
      then show "dl_state d' \<in> {DeliveryPending, DeliveryRetry}" using due(2) by (simp only: delivery_due_def)
    qed
  qed
qed

lemma claim_evolves:
  assumes "claim_callback_deliveries E fresh now c st = Inr (db', ls)" "keyed (cs_db st)"
  shows "evolves (cs_db st) db'"
proof -
  obtain m db1 where 1: "reclaim_expired E now m (cs_db st) = Inr db1"
    and 2: "lease_all E (dcc_owner c) now (dcc_lease_duration c) fresh 0 (select_due db1 now (dcc_batch_limit c)) db1 = Inr (db', ls)"
    using assms(1) by (auto simp: claim_callback_deliveries_def result_simps)
  note e = reclaim_evolves[OF 1]
  have "keyed db1" using evolves_keyed[OF e assms(2)] .
  then have "evolves db1 db'" by (intro lease_all_evolves[OF 2] select_due_keys)
  with e show ?thesis by (rule evolves_trans)
qed

lemma renew_evolves:
  assumes "renew_callback_delivery E now f duration db = Inr (db', u)"
  shows "evolves db db'"
proof -
  have "update_deliveries E (fence_matches now f) (\<lambda>d. d\<lparr>dl_until := Some (now + duration), dl_updated := now\<rparr>) db = Some db'"
    using assms by (auto simp: renew_callback_delivery_def result_simps)
  then show ?thesis
    by (rule update_deliveries_evolves) (rule delivery_move.renew, simp add: fence_matches_def lease_live_def)
qed

lemma finish_Inr:
  assumes "finish_callback_delivery E now f s category evidence db = Inr (db', r)"
  obtains db1 available where "update_deliveries E (fence_matches now f) (\<lambda>d. cleared d s available now) db = Some db1"
    "db_deliveries db' = db_deliveries db1" "r = s" "length (filter (fence_matches now f) (db_deliveries db)) = 1"
proof -
  let ?available = "case evidence of Some (_, Some t) \<Rightarrow> t | _ \<Rightarrow> now"
  have fold: "(\<lambda>d. d\<lparr>dl_state := s, dl_available := ?available, dl_owner := None, dl_token := None, dl_until := None, dl_updated := now\<rparr>)
      = (\<lambda>d. cleared d s ?available now)"
    by (simp add: cleared_def)
  obtain db1 rows db2 p g where 1: "update_deliveries E (fence_matches now f) (\<lambda>d. cleared d s ?available now) db = Some db1"
    and 2: "length (filter (fence_matches now f) (db_deliveries db)) = 1" "insert_attempts rows db1 = Some db2"
      "update_configs E p g db2 = Some db'" "r = s"
    using assms unfolding finish_callback_delivery_def Let_def fold by (auto simp: result_simps)
  have "db_deliveries db2 = db_deliveries db1" using 2(2) by (auto simp: insert_attempts_def split: if_splits)
  with 2(3) have "db_deliveries db' = db_deliveries db1" by (auto dest!: update_configs_deliveries)
  then show ?thesis using that 1 2 by blast
qed

lemma finish_evolves:
  assumes "finish_callback_delivery E now f s category evidence db = Inr (db', r)"
    "s \<in> {DeliveryDelivered, DeliveryRetry, DeliveryDead, DeliveryCanceled}"
  shows "evolves db db'"
proof -
  obtain db1 available where 1: "update_deliveries E (fence_matches now f) (\<lambda>d. cleared d s available now) db = Some db1"
    and same: "db_deliveries db' = db_deliveries db1" using finish_Inr[OF assms(1)] by metis
  have "evolves db db1"
    using assms(2) by (intro update_deliveries_evolves[OF 1] settle) (auto simp: fence_matches_def lease_live_def)
  then show ?thesis using evolves_same[OF same] evolves_trans by blast
qed

lemma insert_delivery_evolves:
  assumes "insert_or_ignore_delivery r db = Some db'" "fresh_pending r"
  shows "evolves db db'"
proof (cases "db_deliveries db' = db_deliveries db")
  case False
  then have new: "db_deliveries db' = db_deliveries db @ [r]" "delivery_key r \<notin> delivery_key ` set (db_deliveries db)"
    using assms(1) by (auto simp: insert_or_ignore_delivery_def split: if_splits)
  have "grown r" using assms(2) unfolding grown_def by blast
  then have "\<exists>rows added. db_deliveries db' = rows @ added \<and> list_all2 delivery_move\<^sup>*\<^sup>* (db_deliveries db) rows \<and> list_all grown added"
    by (intro exI[of _ "db_deliveries db", OF exI[of _ "[r]"]]) (simp add: new list.rel_refl)
  moreover have "distinct (map delivery_key (db_deliveries db)) \<longrightarrow> distinct (map delivery_key (db_deliveries db'))"
    using new by auto
  ultimately show ?thesis unfolding evolves_def by blast
qed (rule evolves_same)

lemma insert_all_evolves:
  "try_for (\<lambda>db config. ok_or (insert_or_ignore_delivery (pending_row tenant event task now config) db) err) db configs = Inr db' \<Longrightarrow>
     evolves db db'"
proof (induction configs arbitrary: db)
  case (Cons c cs)
  obtain db1 where 1: "insert_or_ignore_delivery (pending_row tenant event task now c) db = Some db1"
    and 2: "try_for (\<lambda>db config. ok_or (insert_or_ignore_delivery (pending_row tenant event task now config) db) err) db1 cs = Inr db'"
    using Cons.prems by (auto simp: result_simps)
  have "evolves db db1" by (rule insert_delivery_evolves[OF 1]) (unfold fresh_pending_def, blast)
  then show ?case using Cons.IH[OF 2] by (rule evolves_trans)
qed (simp add: evolves_same)

lemma insert_event_deliveries: "insert_or_ignore_event E r db = Some db' \<Longrightarrow> db_deliveries db' = db_deliveries db"
  by (auto simp: insert_or_ignore_event_def split: if_splits)

definition active_configs :: "callback_db \<Rightarrow> string \<Rightarrow> string \<Rightarrow> config_row list" where
  "active_configs db tenant task =
     filter (\<lambda>c. cg_tenant c = tenant \<and> cg_task c = task \<and> cg_state c = ConfigActive) (db_configs db)"

definition terminal_event :: "push_env \<Rightarrow> string \<Rightarrow> string \<Rightarrow> nat \<Rightarrow> byte list \<Rightarrow> int \<Rightarrow> int \<Rightarrow> event_row" where
  "terminal_event E tenant task revision payload now age =
     \<lparr>ev_tenant = tenant, ev_event = event_id_of E tenant task revision (sha256_text (pu_sha256 E payload)), ev_task = task,
      ev_revision = int revision, ev_payload = payload, ev_payload_digest = sha256_text (pu_sha256 E payload), ev_created = now,
      ev_expires = min (now + age) i64_max\<rparr>"

lemma enqueue_Inr:
  assumes "enqueue_terminal_callbacks E encode_event tenant t revision now db = Inr db'"
  obtains (idle) "db' = db" "\<not> is_terminal (state (status t)) \<or> active_configs db tenant (task_id t) = []"
  | (queued) payload policy event db1 db2 where
      "is_terminal (state (status t))" "active_configs db tenant (task_id t) \<noteq> []"
      "encode_event (terminal_update t) = Some payload" "payload \<noteq> []" "latest_snapshot db = Some policy" "int (length payload) \<le> sr_max_payload policy"
      "event = terminal_event E tenant (task_id t) revision payload now (sr_max_age policy)"
      "insert_or_ignore_event E event db = Some db1"
      "int (retained_deliveries db1 tenant) + int (length (active_configs db tenant (task_id t))) \<le> sr_max_pending policy"
      "try_for (\<lambda>db config. ok_or (insert_or_ignore_delivery (pending_row tenant (ev_event event) (task_id t) now config) db)
          (internal ''callback terminal delivery insert failed'')) db1 (sort (map cg_config (active_configs db tenant (task_id t)))) = Inr db2"
      "update_configs E (\<lambda>c. cg_tenant c = tenant \<and> cg_task c = task_id t \<and> cg_state c = ConfigActive)
          (\<lambda>c. c\<lparr>cg_state := ConfigTerminalClosed, cg_updated := now\<rparr>) db2 = Some db'"
proof (cases "is_terminal (state (status t)) \<and> active_configs db tenant (task_id t) \<noteq> []")
  case False
  then show thesis
    using assms unfolding enqueue_terminal_callbacks_def Let_def active_configs_def[symmetric]
    by (intro idle) (auto simp: result_simps split: if_splits)
next
  case True
  show thesis
    using assms True
    unfolding enqueue_terminal_callbacks_def Let_def active_configs_def[symmetric]
    by (auto simp: result_simps terminal_event_def intro!: queued)
qed

lemma enqueue_evolves:
  assumes "enqueue_terminal_callbacks E encode_event tenant t revision now db = Inr db'"
  shows "evolves db db'"
  using assms
proof (cases rule: enqueue_Inr)
  case (queued payload policy event db1 db2)
  have "evolves db db1" by (rule evolves_same[OF insert_event_deliveries[OF queued(8)]])
  moreover have "evolves db1 db2" by (rule insert_all_evolves[OF queued(10)])
  moreover have "evolves db2 db'" by (rule evolves_same[OF update_configs_deliveries[OF queued(11)]])
  ultimately show ?thesis using evolves_trans by blast
qed (simp add: evolves_same)

lemma retire_evolves:
  assumes "retire_configs E now policy revision db = Inr db'"
  shows "evolves db db'"
proof -
  let ?p = "\<lambda>d. list_ex (\<lambda>c. config_key c = delivery_config d \<and> \<not> still_enrolled db policy revision c) (db_configs db)
      \<and> (dl_state d \<in> {DeliveryPending, DeliveryRetry} \<or> lease_expired now d)"
  obtain db1 q g where 1: "update_deliveries E ?p
        (\<lambda>d. d\<lparr>dl_state := DeliveryCanceled, dl_owner := None, dl_token := None, dl_until := None, dl_updated := now\<rparr>) db = Some db1"
    and 2: "update_configs E q g db1 = Some db'"
    using assms unfolding retire_configs_def Let_def by (auto simp: result_simps)
  have "evolves db db1" by (rule update_deliveries_evolves[OF 1]) (use cancel_move in blast)
  then show ?thesis using evolves_same[OF update_configs_deliveries[OF 2]] evolves_trans by blast
qed

lemma insert_enrollments_deliveries:
  "try_for (insert_enrollment E now) db rows = Inr db' \<Longrightarrow> db_deliveries db' = db_deliveries db"
proof (induction rows arbitrary: db)
  case (Cons r rs)
  obtain db1 where "insert_enrollment E now db r = Inr db1" and 2: "try_for (insert_enrollment E now) db1 rs = Inr db'"
    using Cons.prems by (auto simp: result_simps)
  then have "db_deliveries db1 = db_deliveries db" by (auto simp: insert_enrollment_def result_simps)
  with Cons.IH[OF 2] show ?case by simp
qed simp

lemma reconcile_evolves: "evolves db (fst (reconcile_callback_policy E now policy db))"
proof -
  have "evolves db db1" if persist: "persist_policy E now p db = Inr db1" for p db1
  proof -
    obtain db0 where "try_for (insert_enrollment E now) (db\<lparr>db_snapshots := db_snapshots db @ [snapshot_row_of p]\<rparr>)
         (map (enrollment_row_of E p) (ppo_enrollments p)) = Inr db0"
      and r: "retire_configs E now (ppo_policy_id p) (int (ppo_policy_revision p)) db0 = Inr db1"
      using persist by (auto simp: persist_policy_def result_simps)
    then have "evolves db db0" using insert_enrollments_deliveries by (intro evolves_same) force
    then show ?thesis using retire_evolves[OF r] evolves_trans by blast
  qed
  then show ?thesis
    by (auto simp: reconcile_callback_policy_def evolves_same split: option.splits if_splits sum.splits)
qed

section \<open>Runs\<close>

text \<open>
  One committed transaction of the callback authority, a change of the tables it shares with the rest
  of the store, or an open of the store with some policy.
\<close>

inductive cb_step :: "push_env \<Rightarrow> callback_db \<Rightarrow> callback_db \<Rightarrow> bool" for E where
  create: "create_callback_config E fresh c \<lparr>cs_policy = Some policy, cs_db = db\<rparr> = Inr (db', config) \<Longrightarrow> cb_step E db db'"
| delete: "delete_callback_config E now dc \<lparr>cs_policy = Some policy, cs_db = db\<rparr> = Inr (db', outcome) \<Longrightarrow> cb_step E db db'"
| claim: "claim_callback_deliveries E tokens now cc \<lparr>cs_policy = Some policy, cs_db = db\<rparr> = Inr (db', leases) \<Longrightarrow> cb_step E db db'"
| renew: "renew_callback_delivery E now f duration db = Inr (db', until) \<Longrightarrow> cb_step E db db'"
| commit: "commit_callback_delivery E now f db = Inr (db', ok) \<Longrightarrow> cb_step E db db'"
| fail: "fail_callback_delivery E now fc db = Inr (db', s) \<Longrightarrow> cb_step E db db'"
| revoke: "revoke_callback_delivery E now f db = Inr (db', s) \<Longrightarrow> cb_step E db db'"
| enqueue: "enqueue_terminal_callbacks E encode_event tenant t revision now db = Inr db' \<Longrightarrow> cb_step E db db'"
| reopen: "cb_step E db (fst (reconcile_callback_policy E now p db))"
| shared: "cb_step E db (db\<lparr>db_tasks := tasks, db_decisions := decisions\<rparr>)"

lemma cb_step_evolves: "cb_step E db db' \<Longrightarrow> keyed db \<Longrightarrow> evolves db db'"
proof (induction rule: cb_step.induct)
  case (create fresh c policy db db' config)
  then show ?case using create_evolves[OF create(1)] by simp
next
  case (delete now dc policy db db' outcome)
  then show ?case using delete_evolves[OF delete(1)] by simp
next
  case (claim tokens now cc policy db db' leases)
  then show ?case using claim_evolves[OF claim(1)] by simp
next
  case (commit now f db db' ok)
  then show ?case using finish_evolves[of E now f DeliveryDelivered None None db db']
    by (auto simp: commit_callback_delivery_def result_simps)
next
  case (fail now fc db db' s)
  then show ?case
    using finish_evolves[OF fail(1)[unfolded fail_callback_delivery_def]]
    by (cases "cfc_disposition fc") simp_all
next
  case (revoke now f db db' s)
  then show ?case using finish_evolves[of E now f DeliveryCanceled None None db db'] by (simp add: revoke_callback_delivery_def)
qed (auto intro: renew_evolves enqueue_evolves reconcile_evolves evolves_same)

lemma cb_run_evolves: "(cb_step E)\<^sup>*\<^sup>* db db' \<Longrightarrow> keyed db \<Longrightarrow> evolves db db'"
proof (induction rule: rtranclp_induct)
  case (step db1 db2)
  then have "evolves db db1" by simp
  then show ?case using step.hyps(2) step.prems cb_step_evolves evolves_keyed evolves_trans by blast
qed (simp add: evolves_same)

lemma evolves_row:
  assumes "evolves db db'" "d \<in> set (db_deliveries db)"
  shows "\<exists>d'\<in>set (db_deliveries db'). delivery_move\<^sup>*\<^sup>* d d'"
proof -
  obtain rows added where r: "db_deliveries db' = rows @ added" "list_all2 delivery_move\<^sup>*\<^sup>* (db_deliveries db) rows"
    using assms(1) unfolding evolves_def by blast
  obtain i where i: "i < length (db_deliveries db)" "db_deliveries db ! i = d" using assms(2) by (auto simp: in_set_conv_nth)
  then have "delivery_move\<^sup>*\<^sup>* d (rows ! i)" "i < length rows" using r(2) by (auto simp: list_all2_conv_all_nth)
  then show ?thesis using r(1) by (intro bexI[of _ "rows ! i"]) auto
qed

section \<open>Final outcomes\<close>

definition final_state :: "callback_delivery_state \<Rightarrow> bool" where
  "final_state s \<longleftrightarrow> s \<in> {DeliveryDelivered, DeliveryDead, DeliveryCanceled}"

lemma final_moves: "delivery_move\<^sup>*\<^sup>* d d' \<Longrightarrow> final_state (dl_state d) \<Longrightarrow> d' = d"
  by (induction rule: rtranclp_induct) (auto elim!: delivery_moveE simp: final_state_def)

section \<open>Fencing\<close>

definition fence_key :: "delivery_fence \<Rightarrow> string \<times> string \<times> string" where
  "fence_key f = (df_tenant_scope f, df_event_id f, df_config_id f)"

definition spent :: "delivery_fence \<Rightarrow> delivery_row \<Rightarrow> bool" where
  "spent f d \<longleftrightarrow>
     delivery_key d = fence_key f
     \<and> (int (df_lease_epoch f) < dl_epoch d \<or> int (df_lease_epoch f) = dl_epoch d \<and> dl_state d \<noteq> DeliveryLeased)"

lemma spent_moves: "delivery_move\<^sup>*\<^sup>* d d' \<Longrightarrow> spent f d \<Longrightarrow> spent f d'"
proof (induction rule: rtranclp_induct)
  case (step a b)
  then show ?case using move_key[of a b] by (auto elim!: delivery_moveE simp: spent_def cleared_def)
qed

lemma spent_unusable:
  assumes "keyed db" "d \<in> set (db_deliveries db)" "spent f d"
  shows "filter (fence_matches now f) (db_deliveries db) = []"
proof (rule ccontr)
  assume "filter (fence_matches now f) (db_deliveries db) \<noteq> []"
  then obtain x where x: "x \<in> set (db_deliveries db)" "fence_matches now f x" by (auto simp: filter_empty_conv)
  have "delivery_key x = delivery_key d"
    using assms(3) x(2) by (simp add: spent_def fence_matches_def fence_key_def)
  then have "x = d" using keyed_eq[OF assms(1) x(1) assms(2)] by simp
  then show False using assms(3) x(2) by (auto simp: spent_def fence_matches_def lease_live_def split: if_splits)
qed

lemma unusable_finish:
  "filter (fence_matches now f) (db_deliveries db) = [] \<Longrightarrow> finish_callback_delivery E now f s category evidence db \<noteq> Inr x"
  by (cases x) (metis finish_Inr list.size(3) zero_neq_one)

lemma unusable_renew:
  assumes "filter (fence_matches now f) (db_deliveries db) = []" "renew_callback_delivery E now f duration db = Inr (db', u)"
  shows "u = None" "db_deliveries db' = db_deliveries db"
proof -
  have u: "update_deliveries E (fence_matches now f) (\<lambda>d. d\<lparr>dl_until := Some (now + duration), dl_updated := now\<rparr>) db = Some db'"
    "u = None"
    using assms by (auto simp: renew_callback_delivery_def result_simps)
  show "u = None" by (rule u)
  have "\<forall>d\<in>set (db_deliveries db). \<not> fence_matches now f d" using assms(1) by (simp add: filter_empty_conv)
  then show "db_deliveries db' = db_deliveries db"
    using update_deliveries_Some(1)[OF u(1)] by (simp add: map_idI)
qed

lemma project_lease_Inr:
  assumes "project_lease db owner until d = Inr l"
  shows "callback_lease_ok l" "delivery_fence_ok (cl_fence l)" "fence_key (cl_fence l) = delivery_key d"
    "dl_epoch d = int (df_lease_epoch (cl_fence l))" "dl_token d = Some (df_lease_token (cl_fence l))"
    "df_lease_owner (cl_fence l) = owner" "cl_lease_expires_at l = until"
proof -
  obtain token where p: "dl_token d = Some token" "0 \<le> dl_epoch d"
      "delivery_fence_ok \<lparr>df_tenant_scope = dl_tenant d, df_event_id = dl_event d, df_config_id = dl_config d,
         df_lease_owner = owner, df_lease_token = token, df_lease_epoch = nat (dl_epoch d)\<rparr>"
      "callback_lease_ok l"
      "cl_fence l = \<lparr>df_tenant_scope = dl_tenant d, df_event_id = dl_event d, df_config_id = dl_config d,
         df_lease_owner = owner, df_lease_token = token, df_lease_epoch = nat (dl_epoch d)\<rparr>"
      "cl_lease_expires_at l = until"
    using assms unfolding project_lease_def delivery_fence_new_def callback_lease_new_authoritative_def result_simps
    by (auto simp: result_simps split: if_split_asm)
  show "callback_lease_ok l" by (rule p)
  show "delivery_fence_ok (cl_fence l)" "fence_key (cl_fence l) = delivery_key d"
    "dl_epoch d = int (df_lease_epoch (cl_fence l))" "dl_token d = Some (df_lease_token (cl_fence l))"
    "df_lease_owner (cl_fence l) = owner" "cl_lease_expires_at l = until"
    using p(1-3) by (simp_all add: p(5,6) fence_key_def delivery_key_def)
qed

text \<open>What a claimed lease is in the table right after the claim.\<close>

definition leased_row :: "callback_db \<Rightarrow> string \<Rightarrow> int \<Rightarrow> callback_lease \<Rightarrow> delivery_row \<Rightarrow> bool" where
  "leased_row db owner until l d \<longleftrightarrow>
     d \<in> set (db_deliveries db) \<and> delivery_row_ok d \<and> delivery_key d = fence_key (cl_fence l) \<and> dl_state d = DeliveryLeased
     \<and> dl_owner d = Some owner
     \<and> dl_token d = Some (df_lease_token (cl_fence l)) \<and> dl_epoch d = int (df_lease_epoch (cl_fence l)) \<and> dl_until d = Some until"

lemma lease_one_row:
  assumes "lease_one E owner now duration token key db = Inr (db', l)"
  shows "fence_key (cl_fence l) = key" "callback_lease_ok l" "delivery_fence_ok (cl_fence l)" "df_lease_owner (cl_fence l) = owner"
    "\<exists>d. leased_row db' owner (now + duration) l d"
proof -
  obtain d where d: "d \<in> set (db_deliveries db')" "delivery_key d = key" "project_lease db' owner (now + duration) d = Inr l"
    using lease_one_Inr(2)[OF assms] by blast
  note l = project_lease_Inr[OF d(3)]
  have "dl_state d = DeliveryLeased \<and> dl_owner d = Some owner \<and> dl_until d = Some (now + duration) \<and> delivery_row_ok d"
    using lease_one_Inr(1)[OF assms] d(1)
    by (rule update_deliveries_new) (use d(2) update_deliveries_Some(2)[OF lease_one_Inr(1)[OF assms]] in \<open>simp_all add: list_all_iff\<close>)
  then have "leased_row db' owner (now + duration) l d" using d(1) l by (simp add: leased_row_def)
  then show "\<exists>d. leased_row db' owner (now + duration) l d" by blast
  show "fence_key (cl_fence l) = key" "callback_lease_ok l" "delivery_fence_ok (cl_fence l)" "df_lease_owner (cl_fence l) = owner"
    using l d(2) by simp_all
qed

lemma lease_one_other_rows:
  assumes "lease_one E owner now duration token key db = Inr (db', l)" "d \<in> set (db_deliveries db)" "delivery_key d \<noteq> key"
  shows "d \<in> set (db_deliveries db')"
  using update_deliveries_old[OF lease_one_Inr(1)[OF assms(1)] assms(2)] assms(3) by simp

lemma lease_one_new_rows:
  assumes "lease_one E owner now duration token key db = Inr (db', l)" "d \<in> set (db_deliveries db')"
  shows "d \<in> set (db_deliveries db) \<or> dl_state d = DeliveryLeased"
  using lease_one_Inr(1)[OF assms(1)] assms(2) by (rule update_deliveries_new) simp_all

lemma lease_all_new_rows:
  "lease_all E owner now duration fresh i keys db = Inr (db', ls) \<Longrightarrow> d \<in> set (db_deliveries db') \<Longrightarrow>
     d \<in> set (db_deliveries db) \<or> dl_state d = DeliveryLeased"
proof (induction keys arbitrary: i db ls)
  case (Cons k ks)
  obtain db1 l rest where 1: "lease_one E owner now duration (''lease-'' @ fresh i) k db = Inr (db1, l)"
    and 2: "lease_all E owner now duration fresh (Suc i) ks db1 = Inr (db', rest)"
    using Cons.prems(1) by (auto simp: result_simps)
  show ?case using Cons.IH[OF 2 Cons.prems(2)] lease_one_new_rows[OF 1] by blast
qed simp

lemma update_deliveries_configs: "update_deliveries E p f db = Some db' \<Longrightarrow> db_configs db' = db_configs db"
  by (auto dest!: update_deliveries_Some(1))

lemma lease_all_configs: "lease_all E owner now duration fresh i keys db = Inr (db', ls) \<Longrightarrow> db_configs db' = db_configs db"
proof (induction keys arbitrary: i db ls)
  case (Cons k ks)
  obtain db1 l rest where 1: "lease_one E owner now duration (''lease-'' @ fresh i) k db = Inr (db1, l)"
    and 2: "lease_all E owner now duration fresh (Suc i) ks db1 = Inr (db', rest)"
    using Cons.prems(1) by (auto simp: result_simps)
  show ?case using Cons.IH[OF 2] update_deliveries_configs[OF lease_one_Inr(1)[OF 1]] by simp
qed simp

lemma lease_all_rows:
  "lease_all E owner now duration fresh i keys db = Inr (db', ls) \<Longrightarrow> distinct keys \<Longrightarrow>
     map (\<lambda>l. fence_key (cl_fence l)) ls = keys
     \<and> list_all (\<lambda>l. callback_lease_ok l \<and> delivery_fence_ok (cl_fence l) \<and> df_lease_owner (cl_fence l) = owner) ls
     \<and> (\<forall>d\<in>set (db_deliveries db). delivery_key d \<notin> set keys \<longrightarrow> d \<in> set (db_deliveries db'))
     \<and> (\<forall>l\<in>set ls. \<exists>d. leased_row db' owner (now + duration) l d)"
proof (induction keys arbitrary: i db ls)
  case (Cons k ks)
  obtain db1 l rest where 1: "lease_one E owner now duration (''lease-'' @ fresh i) k db = Inr (db1, l)"
    and 2: "lease_all E owner now duration fresh (Suc i) ks db1 = Inr (db', rest)" and ls: "ls = l # rest"
    using Cons.prems(1) by (auto simp: result_simps)
  have ih: "map (\<lambda>l. fence_key (cl_fence l)) rest = ks"
    "list_all (\<lambda>l. callback_lease_ok l \<and> delivery_fence_ok (cl_fence l) \<and> df_lease_owner (cl_fence l) = owner) rest"
    "\<forall>d\<in>set (db_deliveries db1). delivery_key d \<notin> set ks \<longrightarrow> d \<in> set (db_deliveries db')"
    "\<forall>l\<in>set rest. \<exists>d. leased_row db' owner (now + duration) l d"
    using Cons.IH[OF 2] Cons.prems(2) by simp_all
  note one = lease_one_row[OF 1]
  have "\<exists>d. leased_row db' owner (now + duration) l d"
    using one(1,5) ih(3) Cons.prems(2) unfolding leased_row_def by (metis distinct.simps(2))
  moreover have "\<forall>d\<in>set (db_deliveries db). delivery_key d \<notin> set (k # ks) \<longrightarrow> d \<in> set (db_deliveries db')"
    using ih(3) lease_one_other_rows[OF 1] by simp
  ultimately show ?case using ih one by (simp add: ls)
qed simp

end
