(* ===== verification/Callback_Scenario.thy ===== *)
theory Callback_Scenario
  imports Callback_Leases
begin

text \<open>
  A small store with one delivery for each of two tenants, and what a claim does with it: the
  concrete inputs on which the properties of the callback authority are exercised.
\<close>

definition scenario_digest :: string where
  "scenario_digest = ''sha256:'' @ replicate 64 (CHR ''0'')"

definition sample_config :: "string \<Rightarrow> string \<Rightarrow> config_row" where
  "sample_config tenant task =
     \<lparr>cg_tenant = tenant, cg_task = task, cg_config = ''c'', cg_owner = ''o'', cg_principal = ''p'', cg_enrollment = ''e'',
      cg_generation = 2, cg_url = ''https://a:443/x'', cg_url_digest = scenario_digest, cg_state = ConfigTerminalClosed,
      cg_created = 5, cg_updated = 5\<rparr>"

definition sample_event :: "string \<Rightarrow> string \<Rightarrow> event_row" where
  "sample_event tenant task =
     \<lparr>ev_tenant = tenant, ev_event = ''v'', ev_task = task, ev_revision = 2, ev_payload = [0], ev_payload_digest = scenario_digest,
      ev_created = 10, ev_expires = 5000\<rparr>"

text \<open>The delivery of a tenant at its \<open>n\<close>-th attempt, leased at a time for one second.\<close>

definition sample_leased :: "string \<Rightarrow> string \<Rightarrow> int \<Rightarrow> int \<Rightarrow> int \<Rightarrow> delivery_row" where
  "sample_leased tenant task n available now = (pending_row tenant ''v'' task 10 ''c'')
     \<lparr>dl_state := DeliveryLeased, dl_attempts := n, dl_available := available, dl_owner := Some ''w'', dl_token := Some ''lease-n'',
      dl_epoch := n, dl_until := Some (now + 1000), dl_updated := now\<rparr>"

definition sample_db :: "delivery_row list \<Rightarrow> audit_row list \<Rightarrow> callback_db" where
  "sample_db deliveries audits =
     \<lparr>db_tasks = [\<lparr>tr_tenant = ''t'', tr_task = ''k'', tr_state = state_key Completed, tr_owner = ''o''\<rparr>,
                  \<lparr>tr_tenant = ''u'', tr_task = ''l'', tr_state = state_key Completed, tr_owner = ''o''\<rparr>],
      db_decisions = [], db_snapshots = [], db_enrollments = [], db_configs = [sample_config ''t'' ''k'', sample_config ''u'' ''l''],
      db_events = [sample_event ''t'' ''k'', sample_event ''u'' ''l''], db_deliveries = deliveries, db_attempts = [], db_audits = audits\<rparr>"

definition scenario_snapshot :: callback_policy_snapshot where
  "scenario_snapshot =
     \<lparr>cps_policy_id = ''p'', cps_policy_revision = 2, cps_policy_digest = scenario_digest, cps_max_configs_per_task = 4,
      cps_max_configs_per_tenant = 10, cps_max_pending = 100, cps_max_payload_bytes = 1000, cps_max_attempts = 5,
      cps_max_delivery_age_ms = 1000\<rparr>"

abbreviation sample_pending :: "string \<Rightarrow> string \<Rightarrow> delivery_row" where
  "sample_pending tenant task \<equiv> pending_row tenant ''v'' task 10 ''c''"

definition sample_command :: delivery_claim_command where
  "sample_command = \<lparr>dcc_owner = ''w'', dcc_lease_duration = 1000, dcc_batch_limit = 1\<rparr>"

lemma sample_claim_until: "200 < 100 + dcc_lease_duration sample_command"
  by (simp add: sample_command_def)

definition sample_fence :: "string \<Rightarrow> int \<Rightarrow> delivery_fence" where
  "sample_fence tenant n =
     \<lparr>df_tenant_scope = tenant, df_event_id = ''v'', df_config_id = ''c'', df_lease_owner = ''w'', df_lease_token = ''lease-n'',
      df_lease_epoch = nat n\<rparr>"

definition sample_lease :: "int \<Rightarrow> int \<Rightarrow> callback_lease" where
  "sample_lease n now =
     \<lparr>cl_fence = sample_fence ''t'' n, cl_task_id = ''k'', cl_config_id = ''c'', cl_canonical_url = ''https://a:443/x'',
      cl_enrollment_id = ''e'', cl_enrollment_generation = 2, cl_payload = [0], cl_payload_digest = scenario_digest, cl_attempt = nat n,
      cl_created_at = 10, cl_expires_at = 5000, cl_lease_expires_at = now + 1000, cl_owner_account_id = ''o'', cl_principal_scope = ''p''\<rparr>"

lemma sample_db_sel [simp]: "db_deliveries (sample_db ds audits) = ds" "db_audits (sample_db ds audits) = audits" "db_attempts (sample_db ds audits) = []"
  "(sample_db ds audits)\<lparr>db_deliveries := ds', db_audits := audits'\<rparr> = sample_db ds' audits'"
  by (simp_all add: sample_db_def)

lemma sample_leased_sel [simp]:
  "delivery_key (sample_leased tenant task n available now) = (tenant, ''v'', ''c'')"
  "dl_attempts (sample_leased tenant task n available now) = n"
  "lease_expired t (sample_leased tenant task n available now) \<longleftrightarrow> now + 1000 \<le> t"
  by (simp_all add: sample_leased_def pending_row_def delivery_key_def lease_expired_def)

lemma sample_project:
  assumes "0 < n" "n \<le> 32" "0 < now"
  shows "project_lease (sample_db ds audits) ''w'' (now + 1000) (sample_leased ''t'' ''k'' n available now) = Inr (sample_lease n now)"
  using assms
  by (simp add: project_lease_def sample_db_def sample_config_def sample_event_def sample_leased_def pending_row_def config_key_def
      delivery_config_def event_key_def delivery_fence_new_def delivery_fence_ok_def callback_lease_new_authoritative_def
      callback_lease_ok_def callback_valid_id_def callback_valid_digest_def url_text_bounded_def scenario_digest_def starts_with_def
      is_hex_digit_def text_simps list_all_iff sample_lease_def sample_fence_def result_simps nat_le_iff)

lemma sample_lease_one:
  assumes "dl_state d \<in> {DeliveryPending, DeliveryRetry}" "0 \<le> dl_attempts d" "dl_attempts d < 32" "100 \<le> now" "now \<le> 5000"
    and "d\<lparr>dl_state := DeliveryLeased, dl_attempts := dl_attempts d + 1, dl_owner := Some ''w'', dl_token := Some ''lease-n'',
             dl_epoch := dl_epoch d + 1, dl_until := Some (now + 1000), dl_updated := now\<rparr>
         = sample_leased ''t'' ''k'' (dl_attempts d + 1) (dl_available d) now" (is "?leased = ?row")
    and "ar_kind ` set audits \<subseteq> {RetryScheduled}"
  shows "lease_one E ''w'' now 1000 ''lease-n'' (''t'', ''v'', ''c'') (sample_db [d, sample_pending ''u'' ''l''] audits)
     = Inr (sample_db [?row, sample_pending ''u'' ''l''] (audits @ [delivery_audit E DeliveryAttempted ?row]),
            sample_lease (dl_attempts d + 1) now)"
proof -
  have key: "delivery_key d = (''t'', ''v'', ''c'')"
    using arg_cong[OF assms(6), of delivery_key] by (simp add: delivery_key_def sample_leased_def pending_row_def)
  have ok: "delivery_row_ok ?row" "dl_state ?row = DeliveryLeased"
    using assms(2-5) by (simp_all add: sample_leased_def pending_row_def delivery_row_ok_def)
  have "audit_key (delivery_audit E DeliveryAttempted ?row) \<notin> audit_key ` set audits"
    using assms(7) by (auto simp: audit_key_def delivery_audit_def)
  then have trigger: "delivery_trigger E d ?row audits = Some (audits @ [delivery_audit E DeliveryAttempted ?row])"
    using assms(1) ok(2) unfolding delivery_trigger_def add_audit_def by (cases "dl_state d") simp_all
  have other: "delivery_key (sample_pending ''u'' ''l'') \<noteq> (''t'', ''v'', ''c'')" by (simp add: pending_row_def delivery_key_def)
  have "update_deliveries E (\<lambda>d. delivery_key d = (''t'', ''v'', ''c''))
      (\<lambda>d. d\<lparr>dl_state := DeliveryLeased, dl_attempts := dl_attempts d + 1, dl_owner := Some ''w'', dl_token := Some ''lease-n'',
             dl_epoch := dl_epoch d + 1, dl_until := Some (now + 1000), dl_updated := now\<rparr>) (sample_db [d, sample_pending ''u'' ''l''] audits)
    = Some (sample_db [?row, sample_pending ''u'' ''l''] (audits @ [delivery_audit E DeliveryAttempted ?row]))"
    using other by (simp add: update_deliveries_def key assms(6) ok(1) trigger)
  then show ?thesis
    using assms(2-5) by (simp add: lease_one_def Let_def i64_max_def sample_project result_simps)
qed
text \<open>The row of a lease that expired and was taken back.\<close>

definition sample_reclaimed :: "int \<Rightarrow> delivery_row" where
  "sample_reclaimed now = cleared (sample_leased ''t'' ''k'' 1 10 100) DeliveryRetry now now"

lemma sample_select:
  "select_due (sample_db [sample_pending ''t'' ''k'', sample_pending ''u'' ''l''] audits) 100 (Suc 0) = [(''t'', ''v'', ''c'')]"
  "select_due (sample_db [sample_reclaimed 2000, sample_pending ''u'' ''l''] audits) 2000 (Suc 0) = [(''t'', ''v'', ''c'')]"
proof -
  have free: "select_due (sample_db ds audits) = select_due (sample_db ds [])" for ds
  proof -
    have "delivery_due (sample_db ds audits) = delivery_due (sample_db ds [])"
      by (simp add: fun_eq_iff delivery_due_def sample_db_def)
    then show ?thesis by (intro ext) (simp add: select_due_def)
  qed
  show "select_due (sample_db [sample_pending ''t'' ''k'', sample_pending ''u'' ''l''] audits) 100 (Suc 0) = [(''t'', ''v'', ''c'')]"
    unfolding free by code_simp
  show "select_due (sample_db [sample_reclaimed 2000, sample_pending ''u'' ''l''] audits) 2000 (Suc 0) = [(''t'', ''v'', ''c'')]"
    unfolding free by code_simp
qed

lemma sample_claim:
  "claim_callback_deliveries E (\<lambda>_. ''n'') 100 sample_command
       \<lparr>cs_policy = Some scenario_snapshot, cs_db = sample_db [sample_pending ''t'' ''k'', sample_pending ''u'' ''l''] []\<rparr>
     = Inr (sample_db [sample_leased ''t'' ''k'' 1 10 100, sample_pending ''u'' ''l'']
              [delivery_audit E DeliveryAttempted (sample_leased ''t'' ''k'' 1 10 100)],
            [sample_lease 1 100])"
proof -
  let ?db = "sample_db [sample_pending ''t'' ''k'', sample_pending ''u'' ''l''] []"
  have idle: "update_deliveries E (\<lambda>d. lease_expired 100 d \<and> q d) f ?db = Some ?db" for q f
    by (simp add: update_deliveries_def sample_db_def lease_expired_def pending_row_def)
  have "reclaim_expired E 100 m ?db = Inr ?db" for m
    by (simp add: reclaim_expired_def idle result_simps)
  moreover have "lease_one E ''w'' 100 1000 ''lease-n'' (''t'', ''v'', ''c'') ?db
     = Inr (sample_db [sample_leased ''t'' ''k'' 1 10 100, sample_pending ''u'' ''l'']
              [delivery_audit E DeliveryAttempted (sample_leased ''t'' ''k'' 1 10 100)], sample_lease 1 100)"
    using sample_lease_one[of "sample_pending ''t'' ''k''" 100 "[]" E] by (simp add: pending_row_def sample_leased_def)
  ultimately show ?thesis by (simp add: claim_callback_deliveries_def sample_command_def sample_select result_simps)
qed

lemma sample_reclaim:
  "claim_callback_deliveries E (\<lambda>_. ''n'') 2000 sample_command
       \<lparr>cs_policy = Some scenario_snapshot, cs_db = sample_db [sample_leased ''t'' ''k'' 1 10 100, sample_pending ''u'' ''l''] []\<rparr>
     = Inr (sample_db [sample_leased ''t'' ''k'' 2 2000 2000, sample_pending ''u'' ''l'']
              [delivery_audit E RetryScheduled (sample_reclaimed 2000),
               delivery_audit E DeliveryAttempted (sample_leased ''t'' ''k'' 2 2000 2000)],
            [sample_lease 2 2000])"
proof -
  let ?db = "sample_db [sample_leased ''t'' ''k'' 1 10 100, sample_pending ''u'' ''l''] []"
  let ?audit = "delivery_audit E RetryScheduled (sample_reclaimed 2000)"
  let ?db1 = "sample_db [sample_reclaimed 2000, sample_pending ''u'' ''l''] [?audit]"
  have "update_deliveries E (\<lambda>d. lease_expired 2000 d \<and> dl_attempts d < 5)
         (\<lambda>d. d\<lparr>dl_state := DeliveryRetry, dl_available := 2000, dl_owner := None, dl_token := None, dl_until := None,
                dl_updated := 2000\<rparr>) ?db = Some ?db1"
    by (simp add: update_deliveries_def sample_db_def lease_expired_def pending_row_def sample_leased_def sample_reclaimed_def
        cleared_def delivery_row_ok_def delivery_trigger_def add_audit_def)
  moreover have "update_deliveries E (\<lambda>d. lease_expired 2000 d \<and> 5 \<le> dl_attempts d) f ?db1 = Some ?db1" for f
    by (simp add: update_deliveries_def sample_db_def lease_expired_def pending_row_def sample_leased_def sample_reclaimed_def cleared_def)
  ultimately have "reclaim_expired E 2000 5 ?db = Inr ?db1" by (simp add: reclaim_expired_def result_simps)
  moreover have "lease_one E ''w'' 2000 1000 ''lease-n'' (''t'', ''v'', ''c'') ?db1
     = Inr (sample_db [sample_leased ''t'' ''k'' 2 2000 2000, sample_pending ''u'' ''l'']
              [?audit, delivery_audit E DeliveryAttempted (sample_leased ''t'' ''k'' 2 2000 2000)], sample_lease 2 2000)"
    using sample_lease_one[of "sample_reclaimed 2000" 2000 "[?audit]" E]
    by (simp add: sample_reclaimed_def cleared_def sample_leased_def delivery_audit_def)
  ultimately show ?thesis
    by (simp add: claim_callback_deliveries_def sample_command_def scenario_snapshot_def sample_select result_simps)
qed
text \<open>Delivering the first lease.\<close>

definition sample_delivered :: delivery_row where
  "sample_delivered = cleared (sample_leased ''t'' ''k'' 1 10 100) DeliveryDelivered 200 200"

definition sample_attempt :: attempt_row where
  "sample_attempt =
     \<lparr>at_tenant = ''t'', at_event = ''v'', at_config = ''c'', at_number = 1, at_epoch = 1, at_finished = 200,
      at_outcome = DeliveryDelivered, at_category = None, at_evidence = None\<rparr>"

lemma sample_fence_key [simp]: "df_tenant_scope (sample_fence t n) = t" "df_event_id (sample_fence t n) = ''v''" "df_config_id (sample_fence t n) = ''c''"
  by (simp_all add: sample_fence_def)

lemma sample_fence_matches:
  "fence_matches 200 (sample_fence ''t'' 1) (sample_leased ''t'' ''k'' 1 10 100)"
  "\<not> fence_matches 200 (sample_fence ''t'' 1) (sample_pending ''u'' ''l'')"
  by (simp_all add: fence_matches_def sample_fence_def sample_leased_def pending_row_def delivery_key_def lease_live_def i64_max_def)

lemma sample_commit:
  "commit_callback_delivery E 200 (sample_fence ''t'' 1) (sample_db [sample_leased ''t'' ''k'' 1 10 100, sample_pending ''u'' ''l''] [])
     = Inr ((sample_db [sample_delivered, sample_pending ''u'' ''l''] [delivery_audit E AuditDelivered sample_delivered])
              \<lparr>db_attempts := [sample_attempt]\<rparr>, True)"
proof -
  let ?db = "sample_db [sample_leased ''t'' ''k'' 1 10 100, sample_pending ''u'' ''l''] []"
  let ?db1 = "sample_db [sample_delivered, sample_pending ''u'' ''l''] [delivery_audit E AuditDelivered sample_delivered]"
  have 1: "update_deliveries E (fence_matches 200 (sample_fence ''t'' 1))
      (\<lambda>d. d\<lparr>dl_state := DeliveryDelivered, dl_available := 200, dl_owner := None, dl_token := None, dl_until := None, dl_updated := 200\<rparr>) ?db
    = Some ?db1"
  proof -
    have "(sample_leased ''t'' ''k'' 1 10 100)\<lparr>dl_state := DeliveryDelivered, dl_available := 200, dl_owner := None, dl_token := None,
        dl_until := None, dl_updated := 200\<rparr> = sample_delivered"
      by (simp add: sample_delivered_def cleared_def)
    moreover have "delivery_row_ok sample_delivered"
      "delivery_trigger E (sample_leased ''t'' ''k'' 1 10 100) sample_delivered [] = Some [delivery_audit E AuditDelivered sample_delivered]"
      by (simp_all add: sample_delivered_def cleared_def sample_leased_def pending_row_def delivery_row_ok_def delivery_trigger_def add_audit_def)
    ultimately show ?thesis by (simp add: update_deliveries_def sample_fence_matches)
  qed
  have 2: "delivery_key sample_delivered = (''t'', ''v'', ''c'')" "delivery_key (sample_pending ''u'' ''l'') = (''u'', ''v'', ''c'')"
    by (simp_all add: sample_delivered_def cleared_def sample_leased_def pending_row_def delivery_key_def)
  have 3: "insert_attempts [sample_attempt] ?db1 = Some (?db1\<lparr>db_attempts := [sample_attempt]\<rparr>)"
    by (simp add: insert_attempts_def attempt_row_ok_def sample_attempt_def)
  have 4: "dl_tenant sample_delivered = ''t''" "dl_event sample_delivered = ''v''" "dl_config sample_delivered = ''c''"
    "dl_attempts sample_delivered = 1" "dl_epoch sample_delivered = 1"
    by (simp_all add: sample_delivered_def cleared_def sample_leased_def pending_row_def)
  have 5: "update_configs E (\<lambda>c. P c \<and> cg_state c = ConfigDraining \<and> Q c) f (?db1\<lparr>db_attempts := [sample_attempt]\<rparr>)
      = Some (?db1\<lparr>db_attempts := [sample_attempt]\<rparr>)" for P Q f
    by (simp add: update_configs_def sample_db_def sample_config_def)
  show ?thesis
    unfolding commit_callback_delivery_def finish_callback_delivery_def Let_def
    by (simp add: 1 2 3[unfolded sample_attempt_def] 4 5[unfolded sample_attempt_def] sample_attempt_def sample_fence_matches result_simps)
qed
text \<open>A finished task with one active configuration.\<close>

definition sample_open_db :: callback_db where
  "sample_open_db = (sample_db [] [])\<lparr>db_snapshots := [\<lparr>sr_policy = ''p'', sr_revision = 2, sr_digest = scenario_digest,
     sr_max_configs_per_task = 4, sr_max_configs_per_tenant = 10, sr_max_pending = 100, sr_max_payload = 1000, sr_max_attempts = 5,
     sr_max_age = 1000\<rparr>],
     db_enrollments := [\<lparr>er_policy = ''p'', er_revision = 2, er_tenant = ''t'', er_enrollment = ''e'', er_generation = 2,
       er_url = ''https://a:443/x'', er_url_digest = scenario_digest, er_key_generation = ''g'', er_secret = ''/key'', er_ca = None,
       er_mtls_cert = None, er_mtls_key = None\<rparr>], db_configs := [(sample_config ''t'' ''k'')\<lparr>cg_state := ConfigActive\<rparr>], db_events := []\<rparr>"

definition sample_hash_env :: push_env where
  "sample_hash_env = sample_env\<lparr>pu_sha256 := (\<lambda>_. replicate 32 0)\<rparr>"

abbreviation sample_event_id :: string where
  "sample_event_id \<equiv> event_id_of sample_hash_env ''t'' ''k'' 2 (sha256_text (replicate 32 0))"

lemma sample_enqueue:
  "is_ok (enqueue_terminal_callbacks sample_hash_env (\<lambda>_. Some [0]) ''t'' (sample_task ''k'' Completed 1) 2 20 sample_open_db)"
proof -
  let ?event = "\<lparr>ev_tenant = ''t'', ev_event = sample_event_id, ev_task = ''k'', ev_revision = 2, ev_payload = [0],
      ev_payload_digest = sha256_text (replicate 32 0), ev_created = 20, ev_expires = 1020\<rparr> :: event_row"
  let ?audits = "[event_audit sample_hash_env ?event]"
  have 1: "insert_or_ignore_event sample_hash_env ?event sample_open_db = Some (sample_open_db\<lparr>db_events := [?event], db_audits := ?audits\<rparr>)"
    by (simp add: insert_or_ignore_event_def event_row_ok_def sha256_text_def sample_open_db_def sample_db_def add_audit_def)
  let ?db1 = "sample_open_db\<lparr>db_events := [?event], db_audits := ?audits\<rparr>"
  let ?row = "pending_row ''t'' sample_event_id ''k'' 20 ''c''"
  have 2: "insert_or_ignore_delivery ?row ?db1 = Some (?db1\<lparr>db_deliveries := [?row]\<rparr>)"
    by (simp add: insert_or_ignore_delivery_def delivery_row_ok_def pending_row_def delivery_key_def event_key_def config_key_def
        delivery_config_def sample_open_db_def sample_db_def sample_config_def)
  have 3: "\<exists>db'. update_configs sample_hash_env (\<lambda>c. cg_tenant c = ''t'' \<and> cg_task c = ''k'' \<and> cg_state c = ConfigActive)
      (\<lambda>c. c\<lparr>cg_state := ConfigTerminalClosed, cg_updated := 20\<rparr>) (?db1\<lparr>db_deliveries := [?row]\<rparr>) = Some db'"
    by (simp add: update_configs_def sample_open_db_def sample_db_def sample_config_def config_row_ok_def bytes_between_def config_trigger_def)
  have "pu_sha256 sample_hash_env = (\<lambda>_. replicate 32 0)" by (simp add: sample_hash_env_def)
  moreover have "filter (\<lambda>c. cg_tenant c = ''t'' \<and> cg_task c = ''k'' \<and> cg_state c = ConfigActive) (db_configs sample_open_db)
      = [(sample_config ''t'' ''k'')\<lparr>cg_state := ConfigActive\<rparr>]"
    by (simp add: sample_open_db_def sample_config_def)
  moreover have "latest_snapshot sample_open_db = Some (hd (db_snapshots sample_open_db))" "sr_max_payload (hd (db_snapshots sample_open_db)) = 1000"
    "sr_max_age (hd (db_snapshots sample_open_db)) = 1000" "sr_max_pending (hd (db_snapshots sample_open_db)) = 100"
    by (simp_all add: latest_snapshot_def latest_revision_def sample_open_db_def)
  moreover have "retained_deliveries ?db1 ''t'' = 0" by (simp add: retained_deliveries_def sample_open_db_def)
  ultimately show ?thesis
    using 3 by (simp add: enqueue_terminal_callbacks_def Let_def sample_task_def i64_max_def result_simps 1 2 sample_config_def)
qed

end
