(* ===== verification/Callback_Guarantees.thy ===== *)
theory Callback_Guarantees
  imports Callback_Scenario
begin

text \<open>
  What the SQLite callback authority guarantees: the shape of its delivery rows, final outcomes,
  exclusive and fenced leases, fairness between tenants, one delivery per configuration of a finished
  task, and what a reclaimed lease does to the next open.
\<close>

section \<open>The shape of delivery rows\<close>

definition delivery_wf :: "delivery_row \<Rightarrow> bool" where
  "delivery_wf d \<longleftrightarrow>
     0 \<le> dl_attempts d \<and> dl_epoch d = dl_attempts d
     \<and> (if dl_state d = DeliveryLeased then dl_owner d \<noteq> None \<and> dl_token d \<noteq> None \<and> dl_until d \<noteq> None
        else dl_owner d = None \<and> dl_token d = None \<and> dl_until d = None)
     \<and> (dl_state d = DeliveryPending \<longrightarrow> dl_attempts d = 0)
     \<and> (dl_state d \<in> {DeliveryLeased, DeliveryRetry, DeliveryDelivered, DeliveryDead} \<longrightarrow> 0 < dl_attempts d)"

definition rows_wf :: "callback_db \<Rightarrow> bool" where
  "rows_wf db \<longleftrightarrow> keyed db \<and> list_all delivery_wf (db_deliveries db)"

lemma move_wf: "delivery_move d d' \<Longrightarrow> delivery_wf d \<Longrightarrow> delivery_wf d'"
  by (induction rule: delivery_move.induct) (simp_all add: delivery_wf_def cleared_def split: if_splits, auto)

lemma moves_wf: "delivery_move\<^sup>*\<^sup>* d d' \<Longrightarrow> delivery_wf d \<Longrightarrow> delivery_wf d'"
  by (induction rule: rtranclp_induct) (auto intro: move_wf)

lemma grown_wf: "grown d \<Longrightarrow> delivery_wf d"
proof -
  assume "grown d"
  then obtain p where "fresh_pending p" "delivery_move\<^sup>*\<^sup>* p d" unfolding grown_def by blast
  moreover from this(1) have "delivery_wf p" by (auto simp: fresh_pending_def delivery_wf_def pending_row_def)
  ultimately show "delivery_wf d" by (blast intro: moves_wf)
qed

lemma evolves_wf:
  assumes "evolves db db'" "rows_wf db"
  shows "rows_wf db'"
proof -
  obtain rows added where r: "db_deliveries db' = rows @ added" "list_all2 delivery_move\<^sup>*\<^sup>* (db_deliveries db) rows" "list_all grown added"
    using assms(1) unfolding evolves_def by blast
  have "list_all delivery_wf rows"
    using r(2) assms(2) moves_wf by (force simp: rows_wf_def list_all_length list_all2_conv_all_nth)
  moreover have "list_all delivery_wf added" using r(3) grown_wf by (auto simp: list_all_iff)
  ultimately show ?thesis using evolves_keyed[OF assms(1)] assms(2) r(1) by (simp add: rows_wf_def)
qed

lemma rows_wf_lease_fields: "rows_wf db \<Longrightarrow> \<not> lease_fields_wrong db"
proof -
  assume wf: "rows_wf db"
  have "\<not> (dl_state d = DeliveryLeased \<and> (dl_owner d = None \<or> dl_token d = None \<or> dl_until d = None \<or> dl_epoch d \<le> 0))
      \<and> \<not> (dl_state d \<noteq> DeliveryLeased \<and> (dl_owner d \<noteq> None \<or> dl_token d \<noteq> None \<or> dl_until d \<noteq> None))"
    if "d \<in> set (db_deliveries db)" for d
    using wf that unfolding rows_wf_def delivery_wf_def list_all_iff by (cases "dl_state d = DeliveryLeased") force+
  then show ?thesis unfolding lease_fields_wrong_def list_ex_iff by blast
qed



section \<open>Final outcomes\<close>

text \<open>
  C12. A delivery that reached an outcome keeps it: no sequence of operations, and no later open of the
  store with any policy, changes or removes a delivered, dead or canceled row.
\<close>

theorem delivery_outcome_final:
  assumes "keyed db" "(cb_step E)\<^sup>*\<^sup>* db db'" "d \<in> set (db_deliveries db)" "dl_state d \<in> {DeliveryDelivered, DeliveryDead, DeliveryCanceled}"
  shows "d \<in> set (db_deliveries db')"
proof -
  obtain d' where "d' \<in> set (db_deliveries db')" "delivery_move\<^sup>*\<^sup>* d d'"
    using evolves_row[OF cb_run_evolves[OF assms(2,1)] assms(3)] by blast
  moreover from this(2) have "d' = d" by (rule final_moves) (use assms(4) in \<open>simp add: final_state_def\<close>)
  ultimately show ?thesis by simp
qed

theorem delivery_outcome_witness:
  "\<exists>db. (cb_step sample_env)\<^sup>*\<^sup>* (sample_db [sample_delivered, sample_pending ''u'' ''l''] []) db \<and> sample_delivered \<in> set (db_deliveries db)"
proof -
  let ?db = "sample_db [sample_delivered, sample_pending ''u'' ''l''] []"
  let ?db' = "?db\<lparr>db_tasks := [], db_decisions := []\<rparr>"
  have "keyed ?db" by (simp add: keyed_def delivery_key_def sample_delivered_def cleared_def sample_leased_def pending_row_def)
  moreover have run: "(cb_step sample_env)\<^sup>*\<^sup>* ?db ?db'" using cb_step.shared by blast
  moreover have "dl_state sample_delivered \<in> {DeliveryDelivered, DeliveryDead, DeliveryCanceled}"
    by (simp add: sample_delivered_def cleared_def)
  ultimately have "sample_delivered \<in> set (db_deliveries ?db')"
    using delivery_outcome_final[of ?db sample_env ?db' sample_delivered] by simp
  with run show ?thesis by blast
qed

section \<open>Fencing\<close>

lemma finish_spent:
  assumes "finish_callback_delivery E now f s category evidence db = Inr (db', r)" "s \<noteq> DeliveryLeased"
  shows "\<exists>d\<in>set (db_deliveries db'). spent f d"
proof -
  obtain db1 available where 1: "update_deliveries E (fence_matches now f) (\<lambda>d. cleared d s available now) db = Some db1"
    and same: "db_deliveries db' = db_deliveries db1" and one: "length (filter (fence_matches now f) (db_deliveries db)) = 1"
    using finish_Inr[OF assms(1)] by metis
  obtain d where d: "d \<in> set (db_deliveries db)" "fence_matches now f d"
    using one by (metis filter_empty_conv length_0_conv zero_neq_one)
  have "delivery_row_ok (cleared d s available now)"
    using update_deliveries_Some(2)[OF 1] d by (simp add: list_all_iff)
  then have "0 \<le> dl_epoch d" by (simp add: delivery_row_ok_def cleared_def)
  then have "dl_epoch d = int (df_lease_epoch f)" using d(2) by (simp add: fence_matches_def split: if_splits)
  then have "spent f (cleared d s available now)"
    using d(2) assms(2) by (simp add: spent_def cleared_def fence_matches_def fence_key_def delivery_key_def)
  moreover have "cleared d s available now \<in> set (db_deliveries db')"
    using update_deliveries_old[OF 1 d(1)] d(2) by (simp add: same)
  ultimately show ?thesis by blast
qed

lemma claim_rows:
  assumes "claim_callback_deliveries E fresh now c st = Inr (db', ls)" "keyed (cs_db st)"
  obtains m db1 where "reclaim_expired E now m (cs_db st) = Inr db1" "keyed db1" "db_configs db' = db_configs db1"
    "map (\<lambda>l. fence_key (cl_fence l)) ls = select_due db1 now (dcc_batch_limit c)"
    "list_all (\<lambda>l. callback_lease_ok l \<and> delivery_fence_ok (cl_fence l) \<and> df_lease_owner (cl_fence l) = dcc_owner c) ls"
    "\<forall>d\<in>set (db_deliveries db1). delivery_key d \<notin> set (select_due db1 now (dcc_batch_limit c)) \<longrightarrow> d \<in> set (db_deliveries db')"
    "\<forall>l\<in>set ls. \<exists>d. leased_row db' (dcc_owner c) (now + dcc_lease_duration c) l d"
    "\<forall>d\<in>set (db_deliveries db'). d \<in> set (db_deliveries db1) \<or> dl_state d = DeliveryLeased"
proof -
  obtain m db1 where 1: "reclaim_expired E now m (cs_db st) = Inr db1"
    and 2: "lease_all E (dcc_owner c) now (dcc_lease_duration c) fresh 0 (select_due db1 now (dcc_batch_limit c)) db1 = Inr (db', ls)"
    using assms(1) by (auto simp: claim_callback_deliveries_def result_simps)
  have keyed: "keyed db1" using evolves_keyed[OF reclaim_evolves[OF 1] assms(2)] .
  show thesis
    using that[OF 1 keyed lease_all_configs[OF 2]] lease_all_rows[OF 2 select_due_keys(1)[OF keyed]] lease_all_new_rows[OF 2] by blast
qed

text \<open>
  C14. A lease has one outcome. Once a lease was settled, or its delivery was leased again, its fence is
  worthless for good: along every later run no commit, failure or revocation with it succeeds, and a
  renewal with it changes nothing and returns nothing.
\<close>

theorem lease_settled_once:
  assumes "keyed db"
    and "(\<exists>now r. commit_callback_delivery E now f db = Inr (db1, r))
      \<or> (\<exists>now category retry digest disposition r. fail_callback_delivery E now
           \<lparr>cfc_fence = f, cfc_disposition = disposition, cfc_category = category, cfc_error_digest = digest, cfc_retry_at = retry\<rparr> db = Inr (db1, r))
      \<or> (\<exists>now r. revoke_callback_delivery E now f db = Inr (db1, r))
      \<or> (\<exists>tokens now c policy ls l. claim_callback_deliveries E tokens now c \<lparr>cs_policy = Some policy, cs_db = db\<rparr> = Inr (db1, ls)
           \<and> l \<in> set ls \<and> fence_key (cl_fence l) = fence_key f \<and> df_lease_epoch f < df_lease_epoch (cl_fence l))"
    and "(cb_step E)\<^sup>*\<^sup>* db1 db2"
  shows "finish_callback_delivery E now' f s' category' evidence' db2 \<noteq> Inr x
     \<and> (renew_callback_delivery E now' f duration db2 = Inr (db3, u) \<longrightarrow> u = None \<and> db_deliveries db3 = db_deliveries db2)"
proof -
  have over: "(\<exists>d\<in>set (db_deliveries db1). spent f d) \<and> cb_step E db db1"
    using assms(2)
  proof (elim disjE exE conjE)
    fix now r assume 1: "commit_callback_delivery E now f db = Inr (db1, r)"
    then obtain s where "finish_callback_delivery E now f DeliveryDelivered None None db = Inr (db1, s)"
      by (auto simp: commit_callback_delivery_def result_simps)
    from finish_spent[OF this] cb_step.commit[OF 1] show ?thesis by simp
  next
    fix now category retry digest disposition r
    assume 1: "fail_callback_delivery E now
           \<lparr>cfc_fence = f, cfc_disposition = disposition, cfc_category = category, cfc_error_digest = digest, cfc_retry_at = retry\<rparr> db = Inr (db1, r)"
    from finish_spent[OF 1[unfolded fail_callback_delivery_def]] cb_step.fail[OF 1] show ?thesis by (cases disposition) simp_all
  next
    fix now r assume 1: "revoke_callback_delivery E now f db = Inr (db1, r)"
    from finish_spent[OF 1[unfolded revoke_callback_delivery_def]] cb_step.revoke[OF 1] show ?thesis by simp
  next
    fix tokens now c policy ls l
    assume 1: "claim_callback_deliveries E tokens now c \<lparr>cs_policy = Some policy, cs_db = db\<rparr> = Inr (db1, ls)"
      and l: "l \<in> set ls" "fence_key (cl_fence l) = fence_key f" "df_lease_epoch f < df_lease_epoch (cl_fence l)"
    obtain d where "leased_row db1 (dcc_owner c) (now + dcc_lease_duration c) l d"
      using claim_rows[OF 1] assms(1) l(1) by (metis callback_store.select_convs(2))
    then have "d \<in> set (db_deliveries db1)" "spent f d" using l(2,3) by (simp_all add: leased_row_def spent_def)
    then show ?thesis using cb_step.claim[OF 1] by blast
  qed
  then obtain d where d: "d \<in> set (db_deliveries db1)" "spent f d" by blast
  have keyed: "keyed db1" using over assms(1) cb_step_evolves evolves_keyed by blast
  note ev = cb_run_evolves[OF assms(3) keyed]
  obtain d2 where "d2 \<in> set (db_deliveries db2)" "spent f d2"
    using evolves_row[OF ev d(1)] spent_moves d(2) by blast
  then have unusable: "filter (fence_matches now' f) (db_deliveries db2) = []"
    using spent_unusable evolves_keyed[OF ev keyed] by blast
  show ?thesis
    using unusable_finish[OF unusable] unusable_renew[OF unusable] by blast
qed

theorem lease_settled_witness:
  "\<not> is_ok (commit_callback_delivery sample_env 200 (sample_fence ''t'' 1)
     ((sample_db [sample_delivered, sample_pending ''u'' ''l''] [delivery_audit sample_env AuditDelivered sample_delivered])\<lparr>db_attempts := [sample_attempt]\<rparr>))"
proof -
  let ?db = "sample_db [sample_leased ''t'' ''k'' 1 10 100, sample_pending ''u'' ''l''] []"
  let ?db1 = "(sample_db [sample_delivered, sample_pending ''u'' ''l''] [delivery_audit sample_env AuditDelivered sample_delivered])\<lparr>db_attempts := [sample_attempt]\<rparr>"
  have "keyed ?db" by (simp add: keyed_def) (simp add: delivery_key_def pending_row_def)
  then have "finish_callback_delivery sample_env 200 (sample_fence ''t'' 1) DeliveryDelivered None None ?db1 \<noteq> Inr y" for y
    using lease_settled_once[of ?db sample_env "sample_fence ''t'' 1" ?db1 ?db1 200 DeliveryDelivered None None y] sample_commit[of sample_env]
    by blast
  then show ?thesis by (auto simp: commit_callback_delivery_def result_simps)
qed

section \<open>Claims\<close>

lemma reclaim_Inr:
  assumes "reclaim_expired E now m db = Inr db'"
  obtains db1 where
    "update_deliveries E (\<lambda>d. lease_expired now d \<and> dl_attempts d < int m) (\<lambda>d. cleared d DeliveryRetry now now) db = Some db1"
    "update_deliveries E (\<lambda>d. lease_expired now d \<and> int m \<le> dl_attempts d) (\<lambda>d. cleared d DeliveryDead (dl_available d) now) db1 = Some db'"
proof -
  have fold: "(\<lambda>d. d\<lparr>dl_state := DeliveryDead, dl_owner := None, dl_token := None, dl_until := None, dl_updated := now\<rparr>)
      = (\<lambda>d. cleared d DeliveryDead (dl_available d) now)"
    "(\<lambda>d. d\<lparr>dl_state := DeliveryRetry, dl_available := now, dl_owner := None, dl_token := None, dl_until := None, dl_updated := now\<rparr>)
      = (\<lambda>d. cleared d DeliveryRetry now now)"
    by (simp_all add: cleared_def fun_eq_iff)
  show thesis
    using assms that unfolding reclaim_expired_def fold by (auto simp: result_simps)
qed

lemma live_not_expired: "lease_live now d \<Longrightarrow> \<not> lease_expired now d"
  by (auto simp: lease_live_def lease_expired_def split: option.splits)

lemma reclaim_keeps_live:
  assumes "reclaim_expired E now m db = Inr db'" "d \<in> set (db_deliveries db)" "lease_live now d"
  shows "d \<in> set (db_deliveries db')"
  using assms(1)
proof (rule reclaim_Inr)
  fix db1
  assume 1: "update_deliveries E (\<lambda>d. lease_expired now d \<and> dl_attempts d < int m) (\<lambda>d. cleared d DeliveryRetry now now) db = Some db1"
    and 2: "update_deliveries E (\<lambda>d. lease_expired now d \<and> int m \<le> dl_attempts d) (\<lambda>d. cleared d DeliveryDead (dl_available d) now) db1 = Some db'"
  have "d \<in> set (db_deliveries db1)" using update_deliveries_old[OF 1 assms(2)] live_not_expired[OF assms(3)] by simp
  from update_deliveries_old[OF 2 this] show ?thesis using live_not_expired[OF assms(3)] by simp
qed

lemma leased_row_usable:
  assumes "leased_row db owner until l d" "rows_wf db" "df_lease_owner (cl_fence l) = owner" "t < until"
  shows "length (filter (fence_matches t (cl_fence l)) (db_deliveries db)) = 1"
proof -
  have d: "d \<in> set (db_deliveries db)" "delivery_key d = fence_key (cl_fence l)" and keyed: "keyed db"
    using assms(1,2) by (simp_all add: leased_row_def rows_wf_def)
  have "delivery_wf d" "dl_attempts d \<le> 32"
    using assms(1,2) d(1) by (simp_all add: leased_row_def rows_wf_def list_all_iff delivery_row_ok_def)
  then have "dl_epoch d \<le> 32" by (simp add: delivery_wf_def)
  then have matches: "fence_matches t (cl_fence l) d"
    using assms(1,3,4) by (simp add: leased_row_def fence_matches_def fence_key_def lease_live_def i64_max_def)
  have uniq: "x = d" if "x \<in> set (db_deliveries db)" "fence_matches t (cl_fence l) x" for x
    by (rule keyed_eq[OF keyed that(1) d(1)]) (use that(2) d(2) in \<open>simp add: fence_matches_def fence_key_def\<close>)
  have only: "set (filter (fence_matches t (cl_fence l)) (db_deliveries db)) = {d}"
  proof (intro equalityI subsetI)
    fix x assume "x \<in> set (filter (fence_matches t (cl_fence l)) (db_deliveries db))"
    then have "x \<in> set (db_deliveries db)" "fence_matches t (cl_fence l) x" by simp_all
    from uniq[OF this] show "x \<in> {d}" by simp
  next
    fix x assume "x \<in> {d}"
    then show "x \<in> set (filter (fence_matches t (cl_fence l)) (db_deliveries db))" using d(1) matches by simp
  qed
  have "distinct (filter (fence_matches t (cl_fence l)) (db_deliveries db))" using keyed by (simp add: keyed_def distinct_map)
  from distinct_card[OF this, unfolded only] show ?thesis by simp
qed



section \<open>Fairness\<close>

lemma length_filter_mono_less:
  assumes "\<And>x. P x \<Longrightarrow> Q x" "y \<in> set xs" "Q y" "\<not> P y"
  shows "length (filter P xs) < length (filter Q xs)"
proof -
  have "filter P xs = filter P (filter Q xs)" using assms(1) by (auto intro: filter_cong)
  moreover have "length (filter P (filter Q xs)) < length (filter Q xs)"
    by (rule length_filter_less[of y]) (use assms in simp_all)
  ultimately show ?thesis by simp
qed

lemma fair_rank_less:
  assumes "d \<in> set due" "dl_tenant d = dl_tenant d'" "due_order d < due_order d'"
  shows "fair_rank due d < fair_rank due d'"
  unfolding fair_rank_def
  by (rule add_strict_right_mono, rule length_filter_mono_less[of _ _ d])
    (use assms(1,2) in \<open>simp_all add: less_trans[OF _ assms(3)] assms(3)\<close>)

lemma fair_rank_inj:
  assumes "distinct (map delivery_key due)" "d \<in> set due" "d' \<in> set due" "dl_tenant d = dl_tenant d'" "fair_rank due d = fair_rank due d'"
  shows "d = d'"
proof -
  have "due_order d = due_order d'"
    using fair_rank_less[OF assms(2,4)] fair_rank_less[OF assms(3) assms(4)[symmetric]] assms(5)
    by (metis less_irrefl linorder_neqE)
  then have "delivery_key d = delivery_key d'" using assms(4) by (simp add: due_order_def delivery_key_def)
  then show ?thesis using assms(1-3) by (auto simp: distinct_map dest: inj_onD)
qed

lemma take_sorted_rank:
  fixes key :: "'a \<Rightarrow> nat \<times> 'b::linorder"
  assumes "x \<in> set (take n (sort_key key xs))" "y \<in> set xs" "y \<notin> set (take n (sort_key key xs))"
  shows "fst (key x) \<le> fst (key y)"
proof -
  let ?s = "sort_key key xs"
  have "y \<in> set (drop n ?s)" using assms(2,3) by (metis Un_iff append_take_drop_id set_append set_sort)
  moreover have "sorted (map key (take n ?s @ drop n ?s))" by simp
  ultimately have "key x \<le> key y" using assms(1) by (force simp del: append_take_drop_id simp: sorted_append)
  then show ?thesis by (cases "key x"; cases "key y") (auto simp: less_eq_prod_def)
qed

lemma selection_fair:
  fixes due :: "delivery_row list" and n :: nat
  defines "sel \<equiv> take n (sort_key (\<lambda>d. (fair_rank due d, dl_tenant d, dl_event d, dl_config d)) due)"
  assumes keys: "distinct (map delivery_key due)" and left: "d' \<in> set due" "d' \<notin> set sel"
  shows "length (filter (\<lambda>d. dl_tenant d = t) sel) \<le> length (filter (\<lambda>d. dl_tenant d = dl_tenant d') sel) + 1"
proof -
  let ?left = "\<lambda>d. d \<in> set due \<and> d \<notin> set sel \<and> dl_tenant d = dl_tenant d'"
  obtain d0 where d0: "?left d0" "\<And>y. ?left y \<Longrightarrow> fair_rank due d0 \<le> fair_rank due y"
    using ex_has_least_nat[of ?left d' "fair_rank due"] left by blast
  have "distinct due" using keys by (simp add: distinct_map)
  then have dist: "distinct sel" by (simp add: sel_def)
  have sub: "set sel \<subseteq> set due" unfolding sel_def by (rule subset_trans[OF set_take_subset]) simp
  have card: "length (filter (\<lambda>d. dl_tenant d = t) sel) = card {d \<in> set sel. dl_tenant d = t}" for t
    using distinct_card[of "filter (\<lambda>d. dl_tenant d = t) sel"] dist by simp
  have "card {d \<in> set sel. dl_tenant d = t} \<le> card {1..fair_rank due d0}"
  proof (rule card_inj_on_le)
    show "inj_on (fair_rank due) {d \<in> set sel. dl_tenant d = t}"
    proof (rule inj_onI)
      fix x y
      assume "x \<in> {d \<in> set sel. dl_tenant d = t}" "y \<in> {d \<in> set sel. dl_tenant d = t}" and rank: "fair_rank due x = fair_rank due y"
      then have "x \<in> set due" "y \<in> set due" "dl_tenant x = dl_tenant y" using sub by (simp_all add: subsetD)
      then show "x = y" by (rule fair_rank_inj[OF keys]) (rule rank)
    qed
    have "fair_rank due x \<le> fair_rank due d0" if "x \<in> set sel" for x
      using take_sorted_rank[OF that[unfolded sel_def]] d0(1) by (simp add: sel_def)
    moreover have "1 \<le> fair_rank due x" for x by (simp add: fair_rank_def)
    ultimately show "fair_rank due ` {d \<in> set sel. dl_tenant d = t} \<subseteq> {1..fair_rank due d0}"
      by (simp only: image_subset_iff mem_Collect_eq atLeastAtMost_iff) blast
  qed simp
  moreover have "fair_rank due d0 \<le> card {d \<in> set sel. dl_tenant d = dl_tenant d'} + 1"
  proof -
    let ?before = "filter (\<lambda>x. dl_tenant x = dl_tenant d0 \<and> due_order x < due_order d0) due"
    have "x \<in> {d \<in> set sel. dl_tenant d = dl_tenant d'}" if "x \<in> set ?before" for x
    proof -
      have x: "x \<in> set due" "dl_tenant x = dl_tenant d0" "fair_rank due x < fair_rank due d0"
        using that fair_rank_less[of x due d0] by simp_all
      have "\<not> ?left x" using d0(2)[of x] leD[of _ "fair_rank due x"] x(3) by blast
      then show ?thesis using x(1,2) d0(1) by simp
    qed
    then have "card (set ?before) \<le> card {d \<in> set sel. dl_tenant d = dl_tenant d'}" by (intro card_mono subsetI) simp_all
    then show ?thesis
      using distinct_card[of ?before] \<open>distinct due\<close> by (simp only: fair_rank_def distinct_filter)
  qed
  ultimately show ?thesis by (simp only: card) simp
qed

text \<open>
  C15. Claims are fair between tenants. When a tenant has a delivery that is still due after a claim, no
  tenant obtained more than one lease more than it.
\<close>

theorem claim_fair:
  assumes "keyed (cs_db st)" "claim_callback_deliveries E fresh now c st = Inr (db', ls)"
    and "d \<in> set (db_deliveries db')" "delivery_due db' now d"
  shows "length (filter (\<lambda>l. df_tenant_scope (cl_fence l) = t) ls)
    \<le> length (filter (\<lambda>l. df_tenant_scope (cl_fence l) = dl_tenant d) ls) + 1"
proof -
  obtain m db1 where r: "reclaim_expired E now m (cs_db st) = Inr db1" "keyed db1" "db_configs db' = db_configs db1"
    "map (\<lambda>l. fence_key (cl_fence l)) ls = select_due db1 now (dcc_batch_limit c)"
    "list_all (\<lambda>l. callback_lease_ok l \<and> delivery_fence_ok (cl_fence l) \<and> df_lease_owner (cl_fence l) = dcc_owner c) ls"
    "\<forall>d\<in>set (db_deliveries db1). delivery_key d \<notin> set (select_due db1 now (dcc_batch_limit c)) \<longrightarrow> d \<in> set (db_deliveries db')"
    "\<forall>l\<in>set ls. \<exists>d. leased_row db' (dcc_owner c) (now + dcc_lease_duration c) l d"
    "\<forall>d\<in>set (db_deliveries db'). d \<in> set (db_deliveries db1) \<or> dl_state d = DeliveryLeased"
    by (rule claim_rows[OF assms(2,1)])
  let ?due = "filter (delivery_due db1 now) (db_deliveries db1)"
  let ?sel = "take (dcc_batch_limit c) (sort_key (\<lambda>d. (fair_rank ?due d, dl_tenant d, dl_event d, dl_config d)) ?due)"
  have keys: "map (\<lambda>l. fence_key (cl_fence l)) ls = map delivery_key ?sel"
    using r(4) by (simp add: select_due_def Let_def)
  have count: "length (filter (\<lambda>l. df_tenant_scope (cl_fence l) = t) ls) = length (filter (\<lambda>d. dl_tenant d = t) ?sel)" for t
  proof -
    have "length (filter (\<lambda>l. df_tenant_scope (cl_fence l) = t) ls)
        = length (filter (\<lambda>k. fst k = t) (map (\<lambda>l. fence_key (cl_fence l)) ls))"
      by (simp add: filter_map comp_def fence_key_def)
    also have "\<dots> = length (filter (\<lambda>d. dl_tenant d = t) ?sel)"
      unfolding keys by (simp add: filter_map comp_def delivery_key_def)
    finally show ?thesis .
  qed
  have waiting: "dl_state d \<noteq> DeliveryLeased" using assms(4) by (auto simp: delivery_due_def)
  then have "d \<in> set (db_deliveries db1)" using r(8) assms(3) by blast
  then have due: "d \<in> set ?due" using assms(4) by (simp add: delivery_due_def r(3))
  have "d \<notin> set ?sel"
  proof
    assume "d \<in> set ?sel"
    then have "delivery_key d \<in> set (map (\<lambda>l. fence_key (cl_fence l)) ls)" unfolding keys by simp
    then obtain l x where "leased_row db' (dcc_owner c) (now + dcc_lease_duration c) l x" "fence_key (cl_fence l) = delivery_key d"
      using r(7) by fastforce
    then have x: "x \<in> set (db_deliveries db')" "delivery_key x = delivery_key d" "dl_state x = DeliveryLeased"
      by (simp_all add: leased_row_def)
    have "keyed db'" using evolves_keyed[OF claim_evolves[OF assms(2,1)] assms(1)] .
    then have "x = d" using keyed_eq x(1,2) assms(3) by blast
    then show False using x(3) waiting by blast
  qed
  moreover have "distinct (map delivery_key ?due)" using r(2) by (simp add: keyed_def distinct_map_filter)
  ultimately show ?thesis using selection_fair[of ?due d] due by (simp only: count simp_thms)
qed

theorem claim_fair_witness:
  "length (filter (\<lambda>l. df_tenant_scope (cl_fence l) = ''t'') [sample_lease 1 100])
     \<le> length (filter (\<lambda>l. df_tenant_scope (cl_fence l) = ''u'') [sample_lease 1 100]) + 1"
proof -
  let ?db' = "sample_db [sample_leased ''t'' ''k'' 1 10 100, sample_pending ''u'' ''l'']
      [delivery_audit sample_env DeliveryAttempted (sample_leased ''t'' ''k'' 1 10 100)]"
  have "keyed (sample_db [sample_pending ''t'' ''k'', sample_pending ''u'' ''l''] [])" by (simp add: keyed_def delivery_key_def pending_row_def)
  moreover have "delivery_due ?db' 100 (sample_pending ''u'' ''l'')"
    by (simp add: delivery_due_def pending_row_def sample_db_def config_key_def delivery_config_def sample_config_def)
  ultimately show ?thesis
    using claim_fair[OF _ sample_claim[of sample_env], of "sample_pending ''u'' ''l''" "''t''"] by (simp add: pending_row_def)
qed

end
