(* ===== verification/Callback_Enqueue.thy ===== *)
theory Callback_Enqueue
  imports Callback_Guarantees
begin

text \<open>
  Creating a callback configuration and queueing the terminal event of a task: every active
  configuration gets exactly one delivery. The guard of the creation against finished tasks compares
  the stored JSON text of a state with bare names and is vacuous.
\<close>

section \<open>Terminal events\<close>

lemma insert_pending_exact:
  assumes "insert_or_ignore_delivery (pending_row tenant event task now c) db = Some db'" "0 < now"
    "(tenant, event, c) \<notin> delivery_key ` set (db_deliveries db)"
  shows "db' = db\<lparr>db_deliveries := db_deliveries db @ [pending_row tenant event task now c]\<rparr>"
    and "(tenant, event) \<in> event_key ` set (db_events db)"
proof -
  have "delivery_row_ok (pending_row tenant event task now c)" using assms(2) by (simp add: delivery_row_ok_def pending_row_def)
  moreover have "delivery_key (pending_row tenant event task now c) = (tenant, event, c)"
    "(dl_tenant (pending_row tenant event task now c), dl_event (pending_row tenant event task now c)) = (tenant, event)"
    by (simp_all add: delivery_key_def pending_row_def)
  ultimately show "db' = db\<lparr>db_deliveries := db_deliveries db @ [pending_row tenant event task now c]\<rparr>"
    "(tenant, event) \<in> event_key ` set (db_events db)"
    using assms(1,3) by (simp_all add: insert_or_ignore_delivery_def split: if_splits)
qed

lemma insert_all_exact:
  "try_for (\<lambda>db config. ok_or (insert_or_ignore_delivery (pending_row tenant event task now config) db) err) db configs = Inr db' \<Longrightarrow>
     0 < now \<Longrightarrow> distinct configs \<Longrightarrow> \<forall>c\<in>set configs. (tenant, event, c) \<notin> delivery_key ` set (db_deliveries db) \<Longrightarrow>
     db' = db\<lparr>db_deliveries := db_deliveries db @ map (pending_row tenant event task now) configs\<rparr>
     \<and> (configs \<noteq> [] \<longrightarrow> (tenant, event) \<in> event_key ` set (db_events db))"
proof (induction configs arbitrary: db)
  case (Cons c cs)
  obtain db1 where 1: "insert_or_ignore_delivery (pending_row tenant event task now c) db = Some db1"
    and 2: "try_for (\<lambda>db config. ok_or (insert_or_ignore_delivery (pending_row tenant event task now config) db) err) db1 cs = Inr db'"
    using Cons.prems(1) by (auto simp: result_simps)
  note new = insert_pending_exact[OF 1 Cons.prems(2)]
  have fresh: "(tenant, event, c) \<notin> delivery_key ` set (db_deliveries db)" using Cons.prems(4) by simp
  have "(tenant, event, x) \<notin> delivery_key ` set (db_deliveries db1)" if "x \<in> set cs" for x
  proof -
    have "x \<noteq> c" using Cons.prems(3) that by auto
    then show ?thesis using Cons.prems(4) that by (simp add: new(1)[OF fresh] delivery_key_def pending_row_def)
  qed
  then show ?case using Cons.IH[OF 2 Cons.prems(2)] Cons.prems(3) new(2)[OF fresh] by (simp add: new(1)[OF fresh])
qed simp

lemma insert_event_Some:
  assumes "insert_or_ignore_event E r db = Some db'" "event_key r \<notin> event_key ` set (db_events db)"
    "event_key r \<in> event_key ` set (db_events db')"
  shows "db_events db' = db_events db @ [r]" "db_configs db' = db_configs db" "db_deliveries db' = db_deliveries db"
proof -
  have "event_row_ok r"
  proof (rule ccontr)
    assume "\<not> event_row_ok r"
    then have "db' = db" using assms(1) by (simp add: insert_or_ignore_event_def)
    then show False using assms(2,3) by blast
  qed
  then have "insert_or_ignore_event E r db = (if list_ex (\<lambda>t. tr_task t = ev_task r) (db_tasks db)
      then Some (db\<lparr>db_events := db_events db @ [r],
        db_audits := (case add_audit (event_audit E r) (db_audits db) of None \<Rightarrow> db_audits db | Some audits \<Rightarrow> audits)\<rparr>) else None)"
    using assms(2) by (simp add: insert_or_ignore_event_def)
  with assms(1) have "db' = db\<lparr>db_events := db_events db @ [r],
        db_audits := (case add_audit (event_audit E r) (db_audits db) of None \<Rightarrow> db_audits db | Some audits \<Rightarrow> audits)\<rparr>"
    by (simp split: if_split_asm)
  then show "db_events db' = db_events db @ [r]" "db_configs db' = db_configs db" "db_deliveries db' = db_deliveries db" by simp_all
qed

lemma active_config_names:
  assumes "distinct (map config_key (db_configs db))"
  shows "distinct (map cg_config (active_configs db tenant task))"
proof -
  have "distinct (map config_key (active_configs db tenant task))"
    using assms by (simp add: active_configs_def distinct_map_filter)
  moreover have "map config_key (active_configs db tenant task) = map (\<lambda>i. (tenant, task, i)) (map cg_config (active_configs db tenant task))"
    by (simp add: active_configs_def config_key_def)
  ultimately show ?thesis by (metis distinct_map)
qed



section \<open>Configurations of finished tasks\<close>

lemma state_key_open: "state_key s \<notin> set closed_state_names"
  by (simp add: state_key_def closed_state_names_def)

lemma visible_of_states:
  "task_visible (db\<lparr>db_tasks := map (\<lambda>r. r\<lparr>tr_state := state_key (g r)\<rparr>) rows\<rparr>) scope task
     (\<lambda>r. tr_state r \<notin> set closed_state_names)
   = task_visible (db\<lparr>db_tasks := rows\<rparr>) scope task (\<lambda>_. True)"
  by (simp add: task_visible_def list_ex_iff state_key_open)

lemma latest_revision_tasks [simp]: "latest_revision (db\<lparr>db_tasks := A\<rparr>) = latest_revision db"
  by (cases "db_snapshots db") (simp_all add: latest_revision_def)

definition same_tasks :: "task_row list \<Rightarrow> task_row list \<Rightarrow> bool" where
  "same_tasks A B \<longleftrightarrow> (\<forall>t. list_ex (\<lambda>r. tr_task r = t) A = list_ex (\<lambda>r. tr_task r = t) B)"

lemma insert_config_tasks:
  assumes "same_tasks A B" "insert_config E r (db\<lparr>db_tasks := A\<rparr>) = Some db'"
  shows "insert_config E r (db\<lparr>db_tasks := B\<rparr>) = Some (db'\<lparr>db_tasks := B\<rparr>) \<and> db_tasks db' = A"
proof -
  have "config_row_ok (db\<lparr>db_tasks := A\<rparr>) r = config_row_ok (db\<lparr>db_tasks := B\<rparr>) r"
    using assms(1) by (simp add: config_row_ok_def same_tasks_def)
  then show ?thesis using assms(2) by (auto simp: insert_config_def split: if_splits)
qed

lemma log_decision_tasks:
  assumes "same_tasks A B" "log_decision a (db\<lparr>db_tasks := A\<rparr>) = Inr db'"
  shows "is_ok (log_decision a (db\<lparr>db_tasks := B\<rparr>))"
proof (cases a)
  case (Some x)
  have "decision_row_ok (db\<lparr>db_tasks := A\<rparr>) x = decision_row_ok (db\<lparr>db_tasks := B\<rparr>) x"
    using assms(1) by (cases "au_task_id x") (simp_all add: decision_row_ok_def same_tasks_def)
  then show ?thesis using assms(2) by (simp add: Some log_decision_def insert_authorization_audit_def result_simps)
qed (simp add: log_decision_def)

lemma create_existing_tasks:
  assumes "same_tasks A B" "create_existing c r (db\<lparr>db_tasks := A\<rparr>) = Inr x"
  shows "is_ok (create_existing c r (db\<lparr>db_tasks := B\<rparr>))"
proof -
  obtain config db1 where "config_of_row r = Inr config" "log_decision (ccc_authorization_audit c) (db\<lparr>db_tasks := A\<rparr>) = Inr db1"
    "cg_enrollment r = ccc_enrollment_id c \<and> cg_generation r = int (ccc_enrollment_generation c)
         \<and> cg_url r = ccc_canonical_url c \<and> cg_url_digest r = ccc_url_digest c"
    using assms(2) by (auto simp: create_existing_def result_simps)
  then show ?thesis using log_decision_tasks[OF assms(1)] by (simp add: create_existing_def result_simps)
qed

lemma create_new_tasks:
  assumes "same_tasks A B" "create_new E c policy i (db\<lparr>db_tasks := A\<rparr>) = Inr x"
  shows "is_ok (create_new E c policy i (db\<lparr>db_tasks := B\<rparr>))"
proof -
  let ?row = "\<lparr>cg_tenant = ots_tenant_scope (ccc_scope c), cg_task = ccc_task_id c, cg_config = i,
            cg_owner = ots_owner_account_id (ccc_scope c), cg_principal = ots_principal_scope (ccc_scope c),
            cg_enrollment = ccc_enrollment_id c, cg_generation = int (ccc_enrollment_generation c),
            cg_url = ccc_canonical_url c, cg_url_digest = ccc_url_digest c, cg_state = ConfigActive,
            cg_created = ccc_created_at c, cg_updated = ccc_created_at c\<rparr>"
  obtain db1 db2 config where 1: "insert_config E ?row (db\<lparr>db_tasks := A\<rparr>) = Some db1"
    "log_decision (ccc_authorization_audit c) db1 = Inr db2" "config_of_row ?row = Inr config"
    and caps: "retained_configs db (\<lambda>r. cg_tenant r = ots_tenant_scope (ccc_scope c) \<and> cg_task r = ccc_task_id c) < cps_max_configs_per_task policy"
      "retained_configs db (\<lambda>r. cg_tenant r = ots_tenant_scope (ccc_scope c)) < cps_max_configs_per_tenant policy"
    using assms(2) by (auto simp: create_new_def Let_def result_simps retained_configs_def)
  note ins = insert_config_tasks[OF assms(1) 1(1)]
  then have "db1 = db1\<lparr>db_tasks := A\<rparr>" by simp
  then have "is_ok (log_decision (ccc_authorization_audit c) (db1\<lparr>db_tasks := B\<rparr>))"
    using log_decision_tasks[OF assms(1)] 1(2) by metis
  then show ?thesis using ins 1(3) caps by (simp add: create_new_def Let_def result_simps retained_configs_def)
qed

lemma is_ok_and_then: "is_ok (and_then m f) \<longleftrightarrow> (\<exists>x. m = Inr x \<and> is_ok (f x))"
  by (cases m) simp_all

lemma create_tasks:
  assumes "same_tasks A B"
    "task_visible (db\<lparr>db_tasks := A\<rparr>) (ccc_scope c) (ccc_task_id c) (\<lambda>t. tr_state t \<notin> set closed_state_names) \<Longrightarrow>
     task_visible (db\<lparr>db_tasks := B\<rparr>) (ccc_scope c) (ccc_task_id c) (\<lambda>t. tr_state t \<notin> set closed_state_names)"
    "is_ok (create_callback_config E fresh c \<lparr>cs_policy = policy, cs_db = db\<lparr>db_tasks := A\<rparr>\<rparr>)"
  shows "is_ok (create_callback_config E fresh c \<lparr>cs_policy = policy, cs_db = db\<lparr>db_tasks := B\<rparr>\<rparr>)"
proof -
  let ?id = "case ccc_config_id c of Some i \<Rightarrow> i | None \<Rightarrow> ''callback-'' @ fresh"
  let ?prior = "find (\<lambda>r. config_key r = (ots_tenant_scope (ccc_scope c), ccc_task_id c, ?id)) (db_configs db)"
  have "is_ok (case ?prior of Some r \<Rightarrow> create_existing c r (db\<lparr>db_tasks := B\<rparr>) | None \<Rightarrow> create_new E c p ?id (db\<lparr>db_tasks := B\<rparr>))"
    if "is_ok (case ?prior of Some r \<Rightarrow> create_existing c r (db\<lparr>db_tasks := A\<rparr>) | None \<Rightarrow> create_new E c p ?id (db\<lparr>db_tasks := A\<rparr>))" for p
  proof (cases ?prior)
    case None
    then show ?thesis using that create_new_tasks[OF assms(1), of E c p ?id db] is_ok_iff[of "create_new E c p ?id (db\<lparr>db_tasks := A\<rparr>)"]
      by (simp only: option.case) blast
  next
    case (Some r)
    then show ?thesis using that create_existing_tasks[OF assms(1), of c r db] is_ok_iff[of "create_existing c r (db\<lparr>db_tasks := A\<rparr>)"]
      by (simp only: option.case) blast
  qed
  then show ?thesis
    using assms(2,3) unfolding create_callback_config_def Let_def callback_store.simps
    by (simp add: is_ok_and_then ok_or_Inr_iff ensure_Inr_iff enrollment_active_def) blast
qed

text \<open>
  C24. The states of tasks never keep a callback configuration from being created. The store keeps a
  state as JSON text, in quotes, and the creation compares that text with bare state names: a
  configuration that can be created while its task is open can be created after the task finished.
\<close>

theorem creation_ignores_task_state:
  "is_ok (create_callback_config E fresh c \<lparr>cs_policy = policy, cs_db = db\<lparr>db_tasks := map (\<lambda>r. r\<lparr>tr_state := state_key (g r)\<rparr>) rows\<rparr>\<rparr>)
   = is_ok (create_callback_config E fresh c \<lparr>cs_policy = policy, cs_db = db\<lparr>db_tasks := map (\<lambda>r. r\<lparr>tr_state := state_key (h r)\<rparr>) rows\<rparr>\<rparr>)"
proof -
  have half: "is_ok (create_callback_config E fresh c \<lparr>cs_policy = policy, cs_db = db\<lparr>db_tasks := map (\<lambda>r. r\<lparr>tr_state := state_key (g' r)\<rparr>) rows\<rparr>\<rparr>)"
    if "is_ok (create_callback_config E fresh c \<lparr>cs_policy = policy, cs_db = db\<lparr>db_tasks := map (\<lambda>r. r\<lparr>tr_state := state_key (h' r)\<rparr>) rows\<rparr>\<rparr>)"
    for g' h' :: "task_row \<Rightarrow> task_state"
  proof -
    have same: "same_tasks (map (\<lambda>r. r\<lparr>tr_state := state_key (h' r)\<rparr>) rows) (map (\<lambda>r. r\<lparr>tr_state := state_key (g' r)\<rparr>) rows)"
      by (simp add: same_tasks_def list_ex_iff)
    show ?thesis by (rule create_tasks[OF same _ that]) (simp only: visible_of_states)
  qed
  show ?thesis using half[of h g] half[of g h] by blast
qed

end
