(* ===== verification/Callback_Reopen.thy ===== *)
theory Callback_Reopen
  imports Callback_Guarantees
begin

text \<open>
  What a reclaimed lease does to the next open of the store. The claim that takes over an expired
  lease makes the trigger record a scheduled retry, but no attempt is recorded for it, and the
  validation at the next open explains such a record by an attempt only.
\<close>

definition delivery_statics :: "delivery_row \<Rightarrow> string \<times> string \<times> string \<times> string" where
  "delivery_statics d = (dl_tenant d, dl_task d, dl_config d, dl_event d)"

text \<open>What stays along the statements of a claim and of an open: the identities of deliveries, the recorded attempts, every audit record.\<close>

definition keeps_records :: "callback_db \<Rightarrow> callback_db \<Rightarrow> bool" where
  "keeps_records db db' \<longleftrightarrow>
     map delivery_statics (db_deliveries db') = map delivery_statics (db_deliveries db)
     \<and> db_attempts db' = db_attempts db \<and> set (db_audits db) \<subseteq> set (db_audits db')"

lemma keeps_refl [simp]: "keeps_records db db"
  by (simp add: keeps_records_def)

lemma keeps_trans: "keeps_records a b \<Longrightarrow> keeps_records b c \<Longrightarrow> keeps_records a c"
  by (auto simp: keeps_records_def)

lemma update_deliveries_keeps:
  assumes "update_deliveries E p f db = Some db'" "\<And>d. delivery_statics (f d) = delivery_statics d"
  shows "keeps_records db db'"
proof -
  have "map delivery_statics (map (\<lambda>r. if p r then f r else r) (db_deliveries db)) = map delivery_statics (db_deliveries db)"
    using assms(2) by simp
  then show ?thesis using update_deliveries_Some(1)[OF assms(1)] by (simp add: keeps_records_def)
qed

lemma update_rows_audits:
  assumes "\<And>old r a a'. trigger old r a = Some a' \<Longrightarrow> set a \<subseteq> set a'"
  shows "update_rows ok trigger p f rows audits = Some (rows', audits') \<Longrightarrow> set audits \<subseteq> set audits'"
proof (induction rows arbitrary: audits rows')
  case (Cons r rs)
  show ?case
  proof (cases "p r")
    case True
    then obtain a1 where a1: "trigger r (f r) audits = Some a1" "update_rows ok trigger p f rs a1 = Some (tl rows', audits')"
      using Cons.prems by (auto split: if_splits option.splits)
    show ?thesis using assms[OF a1(1)] Cons.IH[OF a1(2)] by blast
  next
    case False
    then have "update_rows ok trigger p f rs audits = Some (tl rows', audits')" using Cons.prems by auto
    then show ?thesis by (rule Cons.IH)
  qed
qed simp

lemma add_audit_keeps: "add_audit a audits = Some audits' \<Longrightarrow> set audits \<subseteq> set audits'"
  by (auto simp: add_audit_def split: if_splits)

lemma update_configs_keeps:
  assumes "update_configs E p f db = Some db'"
  shows "keeps_records db db'"
proof -
  have trigger: "set a \<subseteq> set a'" if "config_trigger E old r a = Some a'" for old r a a'
    using that add_audit_keeps by (auto simp: config_trigger_def split: if_splits)
  obtain rows audits where "update_rows (config_row_ok db) (config_trigger E) p f (db_configs db) (db_audits db) = Some (rows, audits)"
    and db': "db' = db\<lparr>db_configs := rows, db_audits := audits\<rparr>"
    using assms by (auto simp: update_configs_def)
  then have "set (db_audits db) \<subseteq> set audits" using update_rows_audits[of "config_trigger E"] trigger by blast
  then show ?thesis by (simp add: db' keeps_records_def)
qed

lemma statics_simps [simp]:
  "delivery_statics (cleared d s available now) = delivery_statics d"
  "delivery_statics (d\<lparr>dl_state := s, dl_owner := None, dl_token := None, dl_until := None, dl_updated := now\<rparr>) = delivery_statics d"
  by (simp_all add: delivery_statics_def cleared_def)

lemma lease_all_keeps: "lease_all E owner now duration fresh i keys db = Inr (db', ls) \<Longrightarrow> keeps_records db db'"
proof (induction keys arbitrary: i db ls)
  case (Cons k ks)
  obtain db1 l rest where 1: "lease_one E owner now duration (''lease-'' @ fresh i) k db = Inr (db1, l)"
    and 2: "lease_all E owner now duration fresh (Suc i) ks db1 = Inr (db', rest)"
    using Cons.prems by (auto simp: result_simps)
  have "keeps_records db db1"
    by (rule update_deliveries_keeps[OF lease_one_Inr(1)[OF 1]]) (simp add: delivery_statics_def)
  then show ?case using Cons.IH[OF 2] by (rule keeps_trans)
qed simp

lemma insert_enrollments_keeps: "try_for (insert_enrollment E now) db rows = Inr db' \<Longrightarrow> keeps_records db db'"
proof (induction rows arbitrary: db)
  case (Cons r rs)
  obtain db1 where 1: "insert_enrollment E now db r = Inr db1" and 2: "try_for (insert_enrollment E now) db1 rs = Inr db'"
    using Cons.prems by (auto simp: result_simps)
  obtain audits where "add_audit (enrollment_audit E now r) (db_audits db) = Some audits"
    "db1 = db\<lparr>db_enrollments := db_enrollments db @ [r], db_audits := audits\<rparr>"
    using 1 by (auto simp: insert_enrollment_def result_simps)
  then have "keeps_records db db1" using add_audit_keeps by (simp add: keeps_records_def)
  then show ?case using Cons.IH[OF 2] by (rule keeps_trans)
qed simp

lemma persist_keeps:
  assumes "persist_policy E now p db = Inr db'"
  shows "keeps_records db db'"
proof -
  obtain db0 where 1: "try_for (insert_enrollment E now) (db\<lparr>db_snapshots := db_snapshots db @ [snapshot_row_of p]\<rparr>)
         (map (enrollment_row_of E p) (ppo_enrollments p)) = Inr db0"
    and 2: "retire_configs E now (ppo_policy_id p) (int (ppo_policy_revision p)) db0 = Inr db'"
    using assms by (auto simp: persist_policy_def result_simps)
  obtain q db1 g q' where 3: "update_deliveries E q
        (\<lambda>d. d\<lparr>dl_state := DeliveryCanceled, dl_owner := None, dl_token := None, dl_until := None, dl_updated := now\<rparr>) db0 = Some db1"
    and 4: "update_configs E q' g db1 = Some db'"
    using 2 unfolding retire_configs_def Let_def by (auto simp: result_simps)
  have "keeps_records db db0" using insert_enrollments_keeps[OF 1] by (simp add: keeps_records_def)
  moreover have "keeps_records db0 db1" by (rule update_deliveries_keeps[OF 3]) simp
  ultimately show ?thesis using update_configs_keeps[OF 4] keeps_trans by blast
qed

section \<open>Reclaimed leases\<close>

lemma reclaim_records:
  assumes "reclaim_expired E now m db = Inr db'" "d \<in> set (db_deliveries db)" "lease_expired now d" "dl_attempts d < int m"
  shows "delivery_audit E RetryScheduled (cleared d DeliveryRetry now now) \<in> set (db_audits db')" "keeps_records db db'"
proof -
  obtain db1 where
    1: "update_deliveries E (\<lambda>d. lease_expired now d \<and> dl_attempts d < int m) (\<lambda>d. cleared d DeliveryRetry now now) db = Some db1"
    and 2: "update_deliveries E (\<lambda>d. lease_expired now d \<and> int m \<le> dl_attempts d) (\<lambda>d. cleared d DeliveryDead (dl_available d) now) db1 = Some db'"
    by (rule reclaim_Inr[OF assms(1)])
  have k1: "keeps_records db db1" by (rule update_deliveries_keeps[OF 1]) simp
  have k2: "keeps_records db1 db'" by (rule update_deliveries_keeps[OF 2]) simp
  show "keeps_records db db'" by (rule keeps_trans[OF k1 k2])
  have "triggered E d (cleared d DeliveryRetry now now) = [delivery_audit E RetryScheduled (cleared d DeliveryRetry now now)]"
    using assms(3) by (simp add: triggered_def cleared_def lease_expired_def)
  then have "delivery_audit E RetryScheduled (cleared d DeliveryRetry now now) \<in> set (db_audits db1)"
    using update_deliveries_Some(1)[OF 1] assms(2-4) by force
  then show "delivery_audit E RetryScheduled (cleared d DeliveryRetry now now) \<in> set (db_audits db')"
    using k2 by (auto simp: keeps_records_def)
qed

text \<open>The texts that the digests of scheduled retries of a table hash.\<close>

definition retry_texts :: "callback_db \<Rightarrow> byte list set" where
  "retry_texts db = (\<Union>d\<in>set (db_deliveries db). (\<lambda>n. audit_material RetryScheduled (dl_tenant d) (dl_task d) (dl_config d) (dl_event d) 0 n)
     ` (dl_attempts ` set (db_deliveries db) \<union> at_number ` set (db_attempts db)))"

lemma retry_unexplained:
  assumes "inj_on (pu_sha256 E) (retry_texts db)" "d \<in> set (db_deliveries db)"
    and "\<forall>x\<in>set (db_attempts db). attempt_key x \<noteq> (delivery_key d, dl_attempts d)"
    and "keeps_records db db'"
  shows "\<not> audit_explained E db' (delivery_audit E RetryScheduled (cleared d DeliveryRetry now now))"
proof
  let ?a = "delivery_audit E RetryScheduled (cleared d DeliveryRetry now now)"
  assume "audit_explained E db' ?a"
  then obtain x d' where x: "x \<in> set (db_attempts db')" "d' \<in> set (db_deliveries db')" "attempt_delivery x d'"
    "ar_digest ?a = attempt_digest E RetryScheduled d' (at_number x)"
    by (auto simp: audit_explained_def delivery_audit_def list_ex_iff)
  obtain y where y: "y \<in> set (db_deliveries db)" "delivery_statics d' = delivery_statics y"
  proof -
    have "delivery_statics d' \<in> set (map delivery_statics (db_deliveries db'))" using x(2) by simp
    then have "delivery_statics d' \<in> set (map delivery_statics (db_deliveries db))" using assms(4) by (simp only: keeps_records_def)
    then show thesis using that by auto
  qed
  have xdb: "x \<in> set (db_attempts db)" using x(1) assms(4) by (simp add: keeps_records_def)
  let ?t1 = "audit_material RetryScheduled (dl_tenant d) (dl_task d) (dl_config d) (dl_event d) 0 (dl_attempts d)"
  let ?t2 = "audit_material RetryScheduled (dl_tenant y) (dl_task y) (dl_config y) (dl_event y) 0 (at_number x)"
  have "pu_sha256 E ?t1 = pu_sha256 E ?t2"
    using x(4) y(2) by (simp add: delivery_audit_def attempt_digest_def callback_audit_digest_def delivery_statics_def cleared_def)
  moreover have "?t1 \<in> retry_texts db" "?t2 \<in> retry_texts db"
    using assms(2) y(1) xdb unfolding retry_texts_def by blast+
  ultimately have "?t1 = ?t2" using assms(1) by (blast dest: inj_onD)
  then have "delivery_key d = delivery_key d' \<and> dl_attempts d = at_number x"
    using y(2) by (simp add: audit_material_inj delivery_statics_def delivery_key_def)
  then show False using assms(3) xdb x(3) by (auto simp: attempt_key_def attempt_delivery_def)
qed

lemma unexplained_blocks:
  assumes "a \<in> set (db_audits db')" "\<not> audit_explained E db' a"
  shows "validate_callback_records E m1 m2 m3 db' = Inl InvalidSchema"
  using assms by (auto simp: validate_callback_records_def records_invalid_def list_ex_iff and_then_def ensure_def)

text \<open>
  C23. A claim that takes over the expired lease of a crashed worker makes the store unusable after the
  next restart: every later open with an enabled policy fails, because the scheduled retry that the
  trigger records for the take-over has no recorded attempt.
\<close>

theorem reclaim_blocks_reopen:
  assumes "claim_callback_deliveries E fresh now c \<lparr>cs_policy = Some policy, cs_db = db\<rparr> = Inr (db', ls)"
    and "d \<in> set (db_deliveries db)" "lease_expired now d" "dl_attempts d < int (cps_max_attempts policy)"
    and "\<forall>x\<in>set (db_attempts db). attempt_key x \<noteq> (delivery_key d, dl_attempts d)"
    and "inj_on (pu_sha256 E) (retry_texts db)" "ppo_enabled p"
  shows "\<not> is_ok (snd (reconcile_callback_policy E now' (Some p) db'))"
proof -
  let ?a = "delivery_audit E RetryScheduled (cleared d DeliveryRetry now now)"
  obtain db1 where 1: "reclaim_expired E now (cps_max_attempts policy) db = Inr db1"
    and 2: "lease_all E (dcc_owner c) now (dcc_lease_duration c) fresh 0 (select_due db1 now (dcc_batch_limit c)) db1 = Inr (db', ls)"
    using assms(1) by (auto simp: claim_callback_deliveries_def result_simps)
  have keeps: "keeps_records db db'" using reclaim_records(2)[OF 1 assms(2-4)] lease_all_keeps[OF 2] by (rule keeps_trans)
  have a: "?a \<in> set (db_audits db')"
    using reclaim_records(1)[OF 1 assms(2-4)] lease_all_keeps[OF 2] by (auto simp: keeps_records_def)
  have blocked: "validate_callback_records E m1 m2 m3 db2 = Inl InvalidSchema" if "keeps_records db' db2" for db2 m1 m2 m3
  proof (rule unexplained_blocks)
    show "?a \<in> set (db_audits db2)" using a that by (auto simp: keeps_records_def)
    show "\<not> audit_explained E db2 ?a" by (rule retry_unexplained[OF assms(6,2,5) keeps_trans[OF keeps that]])
  qed
  show ?thesis
    using assms(7) blocked[OF keeps_refl] blocked[OF persist_keeps[of E now' p db']]
    by (auto simp: reconcile_callback_policy_def result_simps split: if_splits sum.splits)
qed

theorem reclaim_blocks_witness:
  "\<not> is_ok (snd (reconcile_callback_policy sample_env 3000 (Some sample_push_policy)
      (sample_db [sample_leased ''t'' ''k'' 2 2000 2000, sample_pending ''u'' ''l'']
         [delivery_audit sample_env RetryScheduled (sample_reclaimed 2000),
          delivery_audit sample_env DeliveryAttempted (sample_leased ''t'' ''k'' 2 2000 2000)])))"
proof -
  have "inj_on (pu_sha256 sample_env) A" for A by (simp add: sample_env_def)
  moreover have "ppo_enabled sample_push_policy" by (simp add: sample_push_policy_def)
  ultimately show ?thesis
    using reclaim_blocks_reopen[OF sample_reclaim[of sample_env], of "sample_leased ''t'' ''k'' 1 10 100" sample_push_policy 3000]
    by (simp add: scenario_snapshot_def)
qed

end
