(* ===== verification/Callback_Worker.thy ===== *)
theory Callback_Worker
  imports Callback_Guarantees Callback_Transport Push_Readiness Quota_Policy
begin

text \<open>
  The callback worker \<^verbatim>\<open>src/src/callback_worker.rs\<close>: what one worker does with a lease (\<open>process\<close>), the
  loop that claims leases (\<open>run\<close>), and the tasks of the handle. The trait object
  \<open>CallbackAuthority\<close> is a record of operations; between two calls of a worker anything may happen to
  the store, and a call may fail, before or after it took effect. The contract of an authority is the
  locale \<open>fenced_authority\<close>, interpreted on the SQLite store. Telemetry and the debug-only crash points
  are left out.
\<close>

section \<open>The authority and its surroundings\<close>

record 's callback_authority =
  ca_claim :: "(nat \<Rightarrow> string) \<Rightarrow> delivery_claim_command \<Rightarrow> int \<Rightarrow> 's \<Rightarrow> a2a_error + 's \<times> callback_lease list"
  ca_renew :: "delivery_fence \<Rightarrow> int \<Rightarrow> int \<Rightarrow> 's \<Rightarrow> a2a_error + 's \<times> int option"
  ca_commit :: "delivery_fence \<Rightarrow> int \<Rightarrow> 's \<Rightarrow> a2a_error + 's \<times> bool"
  ca_fail :: "callback_fail_command \<Rightarrow> int \<Rightarrow> 's \<Rightarrow> a2a_error + 's \<times> callback_delivery_state"
  ca_revoke :: "delivery_fence \<Rightarrow> int \<Rightarrow> 's \<Rightarrow> a2a_error + 's \<times> callback_delivery_state"
  ca_time :: "int \<Rightarrow> 's \<Rightarrow> a2a_error + 's \<times> int"

text \<open>\<open>validate_callback_delivery_fence\<close>, a default method of the trait.\<close>

definition validate_callback_delivery_fence :: "'s callback_authority \<Rightarrow> delivery_fence \<Rightarrow> int \<Rightarrow> int \<Rightarrow> 's
    \<Rightarrow> a2a_error + 's \<times> bool" where
  "validate_callback_delivery_fence A f duration now s =
     and_then (ca_renew A f duration now s) (\<lambda>(s', until). Inr (s', until \<noteq> None))"

datatype callback_quota_decision = QuotaReserved | QuotaExhausted nat | QuotaUnavailable

text \<open>
  What the worker does not decide: the clock and the other users of the store before its \<open>i\<close>-th call,
  whether that call fails (and whether it took effect before it failed), the quota, the random sample,
  how many renewal periods pass before the attempt is over, and whether it is cut off by the stop.
\<close>

record 's world =
  wd_now :: "nat \<Rightarrow> int"
  wd_others :: "nat \<Rightarrow> 's \<Rightarrow> 's"
  wd_fails :: "nat \<Rightarrow> (bool \<times> a2a_error) option"
  wd_quota :: "callback_lease \<Rightarrow> nat \<Rightarrow> int \<Rightarrow> callback_quota_decision"
  wd_jitter :: nat
  wd_ticks :: nat
  wd_stopped :: bool

datatype worker_effect =
    RenewCalled
  | QuotaAsked nat int
  | FenceValidated
  | SendStarted push_enrollment nat
  | CommitCalled
  | FailCalled callback_fail_command
  | RevokeCalled
  | TimeAsked
  | ClaimCalled
  | ClaimReturned bool

record 's worker_run =
  wr_calls :: nat
  wr_store :: 's
  wr_effects :: "worker_effect list"

definition emit :: "worker_effect \<Rightarrow> 's worker_run \<Rightarrow> 's worker_run" where
  "emit e r = r\<lparr>wr_effects := wr_effects r @ [e]\<rparr>"

definition call_authority :: "'s world \<Rightarrow> worker_effect \<Rightarrow> (int \<Rightarrow> 's \<Rightarrow> a2a_error + 's \<times> 'r) \<Rightarrow> 's worker_run
    \<Rightarrow> (a2a_error + 'r) \<times> 's worker_run" where
  "call_authority w e op r =
     (let i = wr_calls r; s = wd_others w i (wr_store r);
          run = (\<lambda>s'. \<lparr>wr_calls = Suc i, wr_store = s', wr_effects = wr_effects r @ [e]\<rparr>) in
      case (wd_fails w i, op (wd_now w i) s) of
        (None, Inr (s', x)) \<Rightarrow> (Inr x, run s')
      | (None, Inl err) \<Rightarrow> (Inl err, run s)
      | (Some (applied, err), outcome) \<Rightarrow>
          (Inl err, run (case outcome of Inr (s', _) \<Rightarrow> if applied then s' else s | Inl _ \<Rightarrow> s)))"

section \<open>Accounting\<close>

definition callback_quota_semantic_id :: "push_env \<Rightarrow> string \<Rightarrow> string \<Rightarrow> nat \<Rightarrow> string" where
  "callback_quota_semantic_id E event config attempt =
     ''callback-quota-'' @ take 32 (drop 7 (sha256_text (pu_sha256 E
        (ascii (''callback-delivery/v1'' @ [CHR 0x00] @ event @ [CHR 0x00] @ config @ [CHR 0x00] @ show_nat attempt)))))"

definition accounted_headers :: "string \<Rightarrow> string \<Rightarrow> string \<Rightarrow> nat \<Rightarrow> nat \<Rightarrow> string \<Rightarrow> nat \<Rightarrow> (string \<times> nat) list" where
  "accounted_headers authority endpoint event stamp attempt generation payload_bytes =
     [(''host'', length authority), (''content-type'', length ''application/a2a+json''),
      (''content-digest'', length ''sha-256=::'' + 44), (''x-smesh-callback-version'', 1),
      (''x-smesh-callback-event-id'', length event), (''x-smesh-callback-endpoint-id'', length endpoint),
      (''x-smesh-callback-timestamp'', length (show_nat stamp)), (''x-smesh-callback-attempt'', length (show_nat attempt)),
      (''x-smesh-callback-key-generation'', length generation),
      (''x-smesh-callback-signature'', length ''v1,hmac-sha256='' + 43), (''idempotency-key'', length event),
      (''content-length'', length (show_nat payload_bytes))]"

fun add_header_bytes :: "(string \<times> nat) list \<Rightarrow> nat \<Rightarrow> nat option" where
  "add_header_bytes [] acc = Some acc"
| "add_header_bytes ((name, value_len) # rest) acc =
     Option.bind (checked_add acc (length name + 2 + value_len + 2)) (add_header_bytes rest)"

definition callback_request_accounted_bytes :: "push_env \<Rightarrow> string \<Rightarrow> string \<Rightarrow> string \<Rightarrow> nat \<Rightarrow> nat \<Rightarrow> string \<Rightarrow> nat \<Rightarrow> nat option" where
  "callback_request_accounted_bytes E target endpoint event stamp attempt generation payload_bytes =
     Option.bind (pu_url_parse E target) (\<lambda>url.
     Option.bind (up_host url) (\<lambda>host.
     Option.bind (up_port url) (\<lambda>port.
     Option.bind (add_header_bytes
         (accounted_headers (host @ '':'' @ show_nat port) endpoint event stamp attempt generation payload_bytes)
         (length (''POST '' @ up_path url @ '' HTTP/1.1'' @ [CHR 0x0D, CHR 0x0A]))) (\<lambda>sum.
     Option.bind (checked_add sum 2) (\<lambda>framed. checked_add framed payload_bytes)))))"

definition reserve_public_egress :: "push_env \<Rightarrow> policy_env \<Rightarrow> quota_policy \<Rightarrow> (quota_intent \<Rightarrow> int \<Rightarrow> a2a_error + unit)
    \<Rightarrow> callback_lease \<Rightarrow> nat \<Rightarrow> int \<Rightarrow> callback_quota_decision" where
  "reserve_public_egress E PE pol charge l exact_bytes database_millis =
     (case quota_subject_new (df_tenant_scope (cl_fence l)) (cl_owner_account_id l) (cl_principal_scope l) of
        Inl _ \<Rightarrow> QuotaUnavailable
      | Inr subject \<Rightarrow>
          (case egress_intent PE pol subject
                  (callback_quota_semantic_id E (df_event_id (cl_fence l)) (cl_config_id l) (cl_attempt l)) exact_bytes 1 of
             Inl _ \<Rightarrow> QuotaUnavailable
           | Inr intent \<Rightarrow>
               (case charge intent database_millis of
                  Inr _ \<Rightarrow> QuotaReserved
                | Inl err \<Rightarrow> if err_code err = -32010 then QuotaExhausted 1000 else QuotaUnavailable)))"

section \<open>Failures\<close>

fun transport_category :: "callback_transport_error \<Rightarrow> callback_delivery_category \<times> bool" where
  "transport_category DnsUnsafe = (DnsCategory, True)"
| "transport_category TransportDnsUnavailable = (DnsCategory, False)"
| "transport_category Tls = (TlsCategory, True)"
| "transport_category Configuration = (PolicyCategory, True)"
| "transport_category Timeout = (TimeoutCategory, False)"
| "transport_category Connect = (TransportCategory, False)"
| "transport_category Reset = (TransportCategory, False)"
| "transport_category ResponseTooLarge = (HttpCategory, True)"

fun category_label :: "callback_delivery_category \<Rightarrow> string" where
  "category_label TransportCategory = ''transport''"
| "category_label DnsCategory = ''dns''"
| "category_label TlsCategory = ''tls''"
| "category_label TimeoutCategory = ''timeout''"
| "category_label HttpCategory = ''http''"
| "category_label PolicyCategory = ''policy''"
| "category_label PayloadCategory = ''payload''"

definition failure_digest :: "push_env \<Rightarrow> callback_delivery_category \<Rightarrow> string" where
  "failure_digest E category = sha256_text (pu_sha256 E (ascii (''smesh-callback-failure/v1:'' @ category_label category)))"

definition fail_lease :: "push_env \<Rightarrow> 's callback_authority \<Rightarrow> 's world \<Rightarrow> callback_lease \<Rightarrow> callback_delivery_disposition
    \<Rightarrow> callback_delivery_category \<Rightarrow> int option \<Rightarrow> 's worker_run \<Rightarrow> 's worker_run" where
  "fail_lease E A w l disposition category retry_at r =
     (case callback_fail_command_new \<lparr>cfc_fence = cl_fence l, cfc_disposition = disposition, cfc_category = category,
             cfc_error_digest = failure_digest E category, cfc_retry_at = retry_at\<rparr> of
        Inl _ \<Rightarrow> r
      | Inr c \<Rightarrow> snd (call_authority w (FailCalled c) (ca_fail A c) r))"

text \<open>\<open>i64::saturating_add\<close> of a time and a delay; the panic of \<open>retry_policy\<close> is an outer \<open>None\<close>.\<close>

definition retry_time :: "int \<Rightarrow> nat \<Rightarrow> int" where
  "retry_time db_now delay = min i64_max (db_now + min i64_max (int delay))"

definition retry_or_dead_at :: "push_env \<Rightarrow> push_policy \<Rightarrow> 's callback_authority \<Rightarrow> 's world \<Rightarrow> callback_lease
    \<Rightarrow> callback_delivery_category \<Rightarrow> nat option \<Rightarrow> int \<Rightarrow> 's worker_run \<Rightarrow> 's worker_run option" where
  "retry_or_dead_at E P A w l category requested db_now r =
     (case policy_retry_policy P of
        None \<Rightarrow> None
      | Some retry \<Rightarrow>
          Some (let next_attempt = min 65535 (cl_attempt l + 1) in
            if pl_max_attempts (ppo_limits P) < next_attempt then fail_lease E A w l FailDead category None r
            else case clamp_delay_ms retry requested next_attempt (wd_jitter w) of
                None \<Rightarrow> fail_lease E A w l FailDead category None r
              | Some delay \<Rightarrow>
                  if cl_expires_at l \<le> retry_time db_now delay then fail_lease E A w l FailDead category None r
                  else fail_lease E A w l FailRetry category (Some (retry_time db_now delay)) r))"

definition retry_or_dead :: "push_env \<Rightarrow> push_policy \<Rightarrow> 's callback_authority \<Rightarrow> 's world \<Rightarrow> callback_lease
    \<Rightarrow> callback_delivery_category \<Rightarrow> nat option \<Rightarrow> 's worker_run \<Rightarrow> 's worker_run option" where
  "retry_or_dead E P A w l category requested r =
     (case call_authority w TimeAsked (ca_time A) r of
        (Inl _, r') \<Rightarrow> Some r'
      | (Inr db_now, r') \<Rightarrow> retry_or_dead_at E P A w l category requested db_now r')"

section \<open>One lease\<close>

text \<open>
  The \<open>select!\<close> loop around the attempt: a renewal after every period that passes, until the attempt is
  over or the worker is stopped; a renewal that does not return a new deadline abandons the attempt.
\<close>

fun await_attempt :: "'s callback_authority \<Rightarrow> 's world \<Rightarrow> callback_lease \<Rightarrow> int \<Rightarrow> nat
    \<Rightarrow> callback_transport_error + callback_response \<Rightarrow> 's worker_run
    \<Rightarrow> (callback_transport_error + callback_response) option \<times> 's worker_run" where
  "await_attempt A w l duration 0 outcome r = (if wd_stopped w then None else Some outcome, r)"
| "await_attempt A w l duration (Suc n) outcome r =
     (case call_authority w RenewCalled (ca_renew A (cl_fence l) duration) r of
        (Inr (Some _), r') \<Rightarrow> await_attempt A w l duration n outcome r'
      | (_, r') \<Rightarrow> (None, r'))"

definition report_outcome :: "push_env \<Rightarrow> push_policy \<Rightarrow> 's callback_authority \<Rightarrow> 's world \<Rightarrow> callback_lease
    \<Rightarrow> (callback_transport_error + callback_response) option \<Rightarrow> 's worker_run \<Rightarrow> 's worker_run option" where
  "report_outcome E P A w l outcome r =
     (case outcome of
        None \<Rightarrow> Some r
      | Some (Inr response) \<Rightarrow>
          (case cr_disposition response of
             Delivered \<Rightarrow> Some (snd (call_authority w CommitCalled (ca_commit A (cl_fence l)) r))
           | Retry \<Rightarrow> retry_or_dead E P A w l HttpCategory
               (map_option (\<lambda>seconds. sat_mul seconds 1000) (cr_retry_after_seconds response)) r
           | Permanent \<Rightarrow> Some (fail_lease E A w l FailDead HttpCategory None r))
      | Some (Inl err) \<Rightarrow>
          (case transport_category err of
             (category, True) \<Rightarrow> Some (fail_lease E A w l FailDead category None r)
           | (category, False) \<Rightarrow> retry_or_dead E P A w l category None r))"

definition revoke_lease :: "'s callback_authority \<Rightarrow> 's world \<Rightarrow> callback_lease \<Rightarrow> 's worker_run \<Rightarrow> 's worker_run" where
  "revoke_lease A w l r = snd (call_authority w RevokeCalled (ca_revoke A (cl_fence l)) r)"

text \<open>\<open>CallbackAttemptSender::send\<close>, a trait object; \<open>secure_sender\<close> below is the one of production.\<close>

type_synonym attempt_sender = "push_enrollment \<Rightarrow> callback_lease \<Rightarrow> nat \<Rightarrow> callback_transport_error + callback_response"

definition attempt_lease :: "push_env \<Rightarrow> push_policy \<Rightarrow> 's callback_authority \<Rightarrow> attempt_sender \<Rightarrow> 's world \<Rightarrow> callback_lease
    \<Rightarrow> int \<Rightarrow> nat \<Rightarrow> 's worker_run \<Rightarrow> 's worker_run option" where
  "attempt_lease E P A send w l duration stamp r =
     (case policy_enrollment E P (df_tenant_scope (cl_fence l)) (cl_enrollment_id l) (cl_canonical_url l) of
        None \<Rightarrow> None
      | Some (Inl _) \<Rightarrow> Some (revoke_lease A w l r)
      | Some (Inr e) \<Rightarrow>
          (case call_authority w FenceValidated (validate_callback_delivery_fence A (cl_fence l) duration) r of
             (Inr True, r') \<Rightarrow>
               (case await_attempt A w l duration (wd_ticks w) (send e l stamp) (emit (SendStarted e stamp) r') of
                  (outcome, r'') \<Rightarrow> report_outcome E P A w l outcome r'')
           | (_, r') \<Rightarrow> Some r'))"

definition charge_lease :: "push_env \<Rightarrow> push_policy \<Rightarrow> 's callback_authority \<Rightarrow> attempt_sender \<Rightarrow> 's world \<Rightarrow> callback_lease
    \<Rightarrow> int \<Rightarrow> push_enrollment \<Rightarrow> int \<Rightarrow> 's worker_run \<Rightarrow> 's worker_run option" where
  "charge_lease E P A send w l duration e db_now r =
     (let stamp = nat (max db_now 0 div 1000) in
      case callback_request_accounted_bytes E (cl_canonical_url l) (cl_enrollment_id l) (df_event_id (cl_fence l)) stamp
             (cl_attempt l) (enr_key_generation e) (length (cl_payload l)) of
        None \<Rightarrow> Some (fail_lease E A w l FailDead PayloadCategory None r)
      | Some exact_bytes \<Rightarrow>
          let r' = emit (QuotaAsked exact_bytes db_now) r in
          (case wd_quota w l exact_bytes db_now of
             QuotaReserved \<Rightarrow> attempt_lease E P A send w l duration stamp r'
           | QuotaExhausted retry_after \<Rightarrow> retry_or_dead_at E P A w l PolicyCategory (Some retry_after) db_now r'
           | QuotaUnavailable \<Rightarrow> retry_or_dead_at E P A w l PolicyCategory None db_now r'))"

text \<open>\<open>i64::saturating_sub\<close> cannot saturate below: the deadline and the duration are positive.\<close>

definition process_lease :: "push_env \<Rightarrow> push_policy \<Rightarrow> 's callback_authority \<Rightarrow> attempt_sender \<Rightarrow> 's world \<Rightarrow> callback_lease
    \<Rightarrow> int \<Rightarrow> 's worker_run \<Rightarrow> 's worker_run option" where
  "process_lease E P A send w l duration r =
     (case policy_enrollment E P (df_tenant_scope (cl_fence l)) (cl_enrollment_id l) (cl_canonical_url l) of
        None \<Rightarrow> None
      | Some (Inl _) \<Rightarrow> Some (revoke_lease A w l r)
      | Some (Inr e) \<Rightarrow>
          if \<not> (cl_attempt l \<le> pl_max_attempts (ppo_limits P) \<and> cl_enrollment_generation l = ppo_policy_revision P)
          then Some (revoke_lease A w l r)
          else if enr_endpoint_id e \<noteq> cl_enrollment_id l then Some (revoke_lease A w l r)
          else if sha256_text (pu_sha256 E (cl_payload l)) \<noteq> cl_payload_digest l
          then Some (fail_lease E A w l FailDead PayloadCategory None r)
          else (case call_authority w RenewCalled (ca_renew A (cl_fence l) duration) r of
              (Inr (Some lease_until), r') \<Rightarrow>
                let db_now = lease_until - duration in
                if cl_expires_at l \<le> db_now then Some (fail_lease E A w l FailDead PolicyCategory None r')
                else charge_lease E P A send w l duration e db_now r'
            | (_, r') \<Rightarrow> Some r'))"

definition secure_sender :: "push_env \<Rightarrow> attempt_io \<Rightarrow> callback_transport \<Rightarrow> nat \<Rightarrow> attempt_sender" where
  "secure_sender E io tr max_response_bytes e l stamp =
     snd (send_enrollment E io tr e (df_event_id (cl_fence l)) stamp (cl_attempt l) (cl_payload l) max_response_bytes)"

section \<open>The claim loop\<close>

text \<open>
  One turn of the loop: whether the stop is seen at its head, what surrounds the claim and the work on
  each lease, the random lease tokens, whether the stop is seen before the \<open>i\<close>-th lease and whether it
  cuts the pause short.
\<close>

record 's cycle =
  cy_stop :: bool
  cy_claim :: "'s world"
  cy_tokens :: "nat \<Rightarrow> string"
  cy_halt :: "nat \<Rightarrow> bool"
  cy_lease :: "nat \<Rightarrow> 's world"
  cy_pause_stop :: bool

datatype worker_exit = WorkerRunning | WorkerStopped | WorkerGaveUp

datatype readiness_call = MarkWorkerReady | MarkFatal

record 's loop_state =
  lp_store :: 's
  lp_errors :: nat
  lp_initial :: bool
  lp_marks :: "readiness_call list"
  lp_effects :: "worker_effect list"

fun process_all :: "push_env \<Rightarrow> push_policy \<Rightarrow> 's callback_authority \<Rightarrow> attempt_sender \<Rightarrow> int \<Rightarrow> 's cycle \<Rightarrow> nat
    \<Rightarrow> callback_lease list \<Rightarrow> 's loop_state \<Rightarrow> (worker_exit \<times> 's loop_state) option" where
  "process_all E P A send duration c i [] st = Some (WorkerRunning, st)"
| "process_all E P A send duration c i (l # ls) st =
     (if cy_halt c i then Some (WorkerStopped, st)
      else case process_lease E P A send (cy_lease c i) l duration
             \<lparr>wr_calls = 0, wr_store = lp_store st, wr_effects = lp_effects st\<rparr> of
          None \<Rightarrow> None
        | Some r \<Rightarrow> process_all E P A send duration c (Suc i) ls (st\<lparr>lp_store := wr_store r, lp_effects := wr_effects r\<rparr>))"

definition run_cycle :: "push_env \<Rightarrow> push_policy \<Rightarrow> 's callback_authority \<Rightarrow> attempt_sender \<Rightarrow> delivery_claim_command \<Rightarrow> int
    \<Rightarrow> 's cycle \<Rightarrow> 's loop_state \<Rightarrow> (worker_exit \<times> 's loop_state) option" where
  "run_cycle E P A send claim duration c st =
     (let paused = (if cy_pause_stop c then WorkerStopped else WorkerRunning) in
      if cy_stop c then Some (WorkerStopped, st)
      else case call_authority (cy_claim c) ClaimCalled (ca_claim A (cy_tokens c) claim)
             \<lparr>wr_calls = 0, wr_store = lp_store st, wr_effects = lp_effects st\<rparr> of
          (Inr leases, r) \<Rightarrow>
            let st1 = st\<lparr>lp_store := wr_store r, lp_errors := 0, lp_initial := True,
                  lp_marks := lp_marks st @ (if lp_initial st then [] else [MarkWorkerReady]),
                  lp_effects := wr_effects r @ [ClaimReturned True]\<rparr> in
            if leases = [] then Some (paused, st1) else process_all E P A send duration c 0 leases st1
        | (Inl _, r) \<Rightarrow>
            let errors = min 255 (lp_errors st + 1);
                st1 = st\<lparr>lp_store := wr_store r, lp_errors := errors, lp_effects := wr_effects r @ [ClaimReturned False]\<rparr> in
            if 5 \<le> errors then Some (WorkerGaveUp, st1\<lparr>lp_marks := lp_marks st1 @ [MarkFatal]\<rparr>)
            else Some (paused, st1))"

text \<open>The first turns of the loop, as many as the list has.\<close>

fun run_cycles :: "push_env \<Rightarrow> push_policy \<Rightarrow> 's callback_authority \<Rightarrow> attempt_sender \<Rightarrow> delivery_claim_command \<Rightarrow> int
    \<Rightarrow> 's cycle list \<Rightarrow> 's loop_state \<Rightarrow> (worker_exit \<times> 's loop_state) option" where
  "run_cycles E P A send claim duration [] st = Some (WorkerRunning, st)"
| "run_cycles E P A send claim duration (c # cs) st =
     (case run_cycle E P A send claim duration c st of
        None \<Rightarrow> None
      | Some (WorkerRunning, st') \<Rightarrow> run_cycles E P A send claim duration cs st'
      | Some left \<Rightarrow> Some left)"

definition loop_start :: "'s \<Rightarrow> 's loop_state" where
  "loop_start s = \<lparr>lp_store = s, lp_errors = 0, lp_initial = False, lp_marks = [], lp_effects = []\<rparr>"

definition run_worker :: "push_env \<Rightarrow> push_policy \<Rightarrow> 's callback_authority \<Rightarrow> attempt_sender \<Rightarrow> string \<Rightarrow> 's cycle list \<Rightarrow> 's
    \<Rightarrow> (worker_exit \<times> 's loop_state) option" where
  "run_worker E P A send owner cycles s =
     (case lease_duration_new (int (pl_claim_lease_ms (ppo_limits P))) of
        Inl _ \<Rightarrow> Some (WorkerGaveUp, (loop_start s)\<lparr>lp_marks := [MarkFatal]\<rparr>)
      | Inr duration \<Rightarrow>
          (case delivery_claim_command_new owner duration (pl_claim_batch (ppo_limits P)) of
             Inl _ \<Rightarrow> Some (WorkerGaveUp, (loop_start s)\<lparr>lp_marks := [MarkFatal]\<rparr>)
           | Inr claim \<Rightarrow> run_cycles E P A send claim duration cycles (loop_start s)))"

section \<open>The worker tasks\<close>

datatype callback_worker_error = InvalidConfiguration | JoinFailed | ShutdownTimeout | InitialCycleTimeout | AuthorityUnavailable

definition owner_prefix_ok :: "string \<Rightarrow> bool" where
  "owner_prefix_ok prefix \<longleftrightarrow>
     prefix \<noteq> [] \<and> length prefix \<le> 96
     \<and> list_all (\<lambda>c. is_ascii_alphanumeric c \<or> c \<in> {CHR ''.'', CHR ''_'', CHR '':'', CHR ''-''}) prefix"

text \<open>\<open>spawn_with_telemetry\<close>: the owners of the tasks it starts.\<close>

definition spawn_workers :: "push_policy \<Rightarrow> string \<Rightarrow> push_readiness \<Rightarrow> (callback_worker_error + string list) \<times> push_readiness" where
  "spawn_workers P prefix readiness =
     (if \<not> ppo_enabled P \<or> \<not> owner_prefix_ok prefix then (Inl InvalidConfiguration, readiness)
      else case configure_workers readiness (pl_worker_count (ppo_limits P)) of
          (readiness', False) \<Rightarrow> (Inl InvalidConfiguration, readiness')
        | (readiness', True) \<Rightarrow>
            (Inr (map (\<lambda>i. prefix @ ''-'' @ show_nat i) [0..<pl_worker_count (ppo_limits P)]), readiness'))"

text \<open>What a task does after \<open>run\<close>: with a panic, an exit while nobody asked for it, or an orderly stop.\<close>

definition task_result :: "bool \<Rightarrow> bool \<Rightarrow> readiness_call list \<times> (unit + unit)" where
  "task_result panicked stop_cancelled =
     (if panicked \<or> \<not> stop_cancelled then ([MarkFatal], Inl ()) else ([], Inr ()))"

text \<open>\<open>wait_initial_cycle\<close>: what each poll sees until the deadline.\<close>

fun wait_initial_cycle :: "(push_readiness \<times> bool) list \<Rightarrow> readiness_call list \<times> (callback_worker_error + unit)" where
  "wait_initial_cycle [] = ([], Inl InitialCycleTimeout)"
| "wait_initial_cycle ((readiness, finished) # polls) =
     (if is_ready readiness then ([], Inr ())
      else if pr_fatal readiness then ([], Inl AuthorityUnavailable)
      else if finished then ([MarkFatal], Inl JoinFailed)
      else wait_initial_cycle polls)"

text \<open>\<open>shutdown\<close>: how each task ends before the deadline, \<open>None\<close> for one that does not.\<close>

fun shutdown_workers :: "(unit + unit) option list \<Rightarrow> callback_worker_error option \<Rightarrow> callback_worker_error + unit" where
  "shutdown_workers [] first_error = (case first_error of None \<Rightarrow> Inr () | Some e \<Rightarrow> Inl e)"
| "shutdown_workers (Some (Inr _) # tasks) first_error = shutdown_workers tasks first_error"
| "shutdown_workers (Some (Inl _) # tasks) first_error =
     shutdown_workers tasks (if first_error = None then Some JoinFailed else first_error)"
| "shutdown_workers (None # tasks) first_error = Inl ShutdownTimeout"

section \<open>The SQLite store as an authority\<close>

definition sqlite_authority :: "push_env \<Rightarrow> callback_policy_snapshot option \<Rightarrow> callback_db callback_authority" where
  "sqlite_authority E policy =
     \<lparr>ca_claim = (\<lambda>tokens c now db. claim_callback_deliveries E tokens now c \<lparr>cs_policy = policy, cs_db = db\<rparr>),
      ca_renew = (\<lambda>f duration now db. renew_callback_delivery E now f duration db),
      ca_commit = (\<lambda>f now db. commit_callback_delivery E now f db),
      ca_fail = (\<lambda>c now db. fail_callback_delivery E now c db),
      ca_revoke = (\<lambda>f now db. revoke_callback_delivery E now f db),
      ca_time = (\<lambda>now db. Inr (db, now))\<rparr>"

end
