(* ===== verification/Callback_Attempts.thy ===== *)
theory Callback_Attempts
  imports Callback_Worker
begin

text \<open>
  What a callback worker does with a lease, over every authority that keeps the contract
  \<open>fenced_authority\<close>: the shape of its sequence of calls, when an attempt may start, and how the outcome
  of the attempt is reported. The contract is interpreted on the SQLite store.
\<close>

section \<open>Calls\<close>

lemma call_effects [simp]:
  "wr_effects (snd (call_authority w e op r)) = wr_effects r @ [e]"
  "wr_calls (snd (call_authority w e op r)) = Suc (wr_calls r)"
  by (auto simp: call_authority_def Let_def split: option.splits sum.splits prod.splits)

lemma call_pair: "call_authority w e op r = (x, r') \<Longrightarrow> wr_effects r' = wr_effects r @ [e] \<and> wr_calls r' = Suc (wr_calls r)"
  using call_effects[of w e op r] by simp

lemma call_Inr:
  assumes "call_authority w e op r = (Inr x, r')"
  shows "op (wd_now w (wr_calls r)) (wd_others w (wr_calls r) (wr_store r)) = Inr (wr_store r', x)"
  using assms by (auto simp: call_authority_def Let_def split: option.splits sum.splits prod.splits)

lemma emit_effects [simp]: "wr_effects (emit e r) = wr_effects r @ [e]" "wr_calls (emit e r) = wr_calls r" "wr_store (emit e r) = wr_store r"
  by (simp_all add: emit_def)

section \<open>Reports\<close>

definition dead_command :: "push_env \<Rightarrow> callback_lease \<Rightarrow> callback_delivery_category \<Rightarrow> callback_fail_command" where
  "dead_command E l category =
     \<lparr>cfc_fence = cl_fence l, cfc_disposition = FailDead, cfc_category = category,
      cfc_error_digest = failure_digest E category, cfc_retry_at = None\<rparr>"

definition retry_command :: "push_env \<Rightarrow> callback_lease \<Rightarrow> callback_delivery_category \<Rightarrow> int \<Rightarrow> callback_fail_command" where
  "retry_command E l category t =
     \<lparr>cfc_fence = cl_fence l, cfc_disposition = FailRetry, cfc_category = category,
      cfc_error_digest = failure_digest E category, cfc_retry_at = Some t\<rparr>"

text \<open>
  A retry keeps the policy: another attempt is allowed, it is scheduled between the base and the
  maximal delay after the time of the database, and before the event expires.
\<close>

definition retry_allowed :: "push_policy \<Rightarrow> callback_lease \<Rightarrow> int \<Rightarrow> int \<Rightarrow> bool" where
  "retry_allowed P l now t \<longleftrightarrow>
     cl_attempt l < pl_max_attempts (ppo_limits P)
     \<and> now + int (pl_base_retry_ms (ppo_limits P)) \<le> t \<and> t \<le> now + int (pl_max_retry_ms (ppo_limits P))
     \<and> t < cl_expires_at l"

definition retry_report :: "push_env \<Rightarrow> push_policy \<Rightarrow> callback_lease \<Rightarrow> callback_delivery_category \<Rightarrow> int \<Rightarrow> callback_fail_command \<Rightarrow> bool" where
  "retry_report E P l category now c \<longleftrightarrow>
     c = dead_command E l category \<or> (\<exists>t. c = retry_command E l category t \<and> retry_allowed P l now t)"

datatype verdict = Acknowledged | Refused callback_delivery_category | Again callback_delivery_category

definition verdict_of :: "callback_transport_error + callback_response \<Rightarrow> verdict" where
  "verdict_of outcome =
     (case outcome of
        Inr response \<Rightarrow>
          (case cr_disposition response of Delivered \<Rightarrow> Acknowledged | Retry \<Rightarrow> Again HttpCategory | Permanent \<Rightarrow> Refused HttpCategory)
      | Inl err \<Rightarrow> (case transport_category err of (category, permanent) \<Rightarrow>
          if permanent then Refused category else Again category))"

text \<open>
  The calls that report a verdict, with the times the database had during the calls of the worker;
  without an answer about the time nothing is reported.
\<close>

abbreviation times_seen :: "'s world \<Rightarrow> 's worker_run \<Rightarrow> int set" where
  "times_seen w r \<equiv> wd_now w ` {..<wr_calls r}"

definition reports :: "push_env \<Rightarrow> push_policy \<Rightarrow> int set \<Rightarrow> callback_lease \<Rightarrow> verdict \<Rightarrow> worker_effect list \<Rightarrow> bool" where
  "reports E P seen l v calls =
     (case v of
        Acknowledged \<Rightarrow> calls = [CommitCalled]
      | Refused category \<Rightarrow> calls = [FailCalled (dead_command E l category)]
      | Again category \<Rightarrow>
          calls = [TimeAsked] \<or> (\<exists>now c. calls = [TimeAsked, FailCalled c] \<and> now \<in> seen \<and> retry_report E P l category now c))"

lemma failure_digest_valid:
  assumes "\<And>x. length (pu_sha256 E x) = 32"
  shows "callback_valid_digest (failure_digest E category)"
  using sha256_text_valid[OF assms]
  by (simp add: callback_valid_digest_def failure_digest_def valid_digest_def starts_with_def sha256_text_def assms hex_bytes_digits)

lemma fail_lease_dead:
  assumes "\<And>x. length (pu_sha256 E x) = 32"
  shows "wr_effects (fail_lease E A w l FailDead category None r) = wr_effects r @ [FailCalled (dead_command E l category)]"
  by (simp add: fail_lease_def callback_fail_command_new_def callback_fail_command_ok_def failure_digest_valid[OF assms] dead_command_def)

lemma fail_lease_retry:
  assumes "\<And>x. length (pu_sha256 E x) = 32" "0 < t"
  shows "wr_effects (fail_lease E A w l FailRetry category (Some t) r) = wr_effects r @ [FailCalled (retry_command E l category t)]"
  using assms(2)
  by (simp add: fail_lease_def callback_fail_command_new_def callback_fail_command_ok_def failure_digest_valid[OF assms(1)] retry_command_def)

lemma fail_lease_calls: "wr_calls r \<le> wr_calls (fail_lease E A w l disposition category retry_at r)"
  by (auto simp: fail_lease_def split: sum.splits)

lemma valid_policy:
  assumes "validate_raw_policy E raw = Some (Inr P)"
  shows "limits_ok (ppo_limits P)"
    "policy_retry_policy P = Some \<lparr>ry_max_attempts = pl_max_attempts (ppo_limits P), ry_base_ms = pl_base_retry_ms (ppo_limits P),
       ry_max_ms = pl_max_retry_ms (ppo_limits P), ry_max_age_ms = pl_max_delivery_age_ms (ppo_limits P)\<rparr>"
proof -
  show l: "limits_ok (ppo_limits P)"
    using assms by (auto simp: validate_raw_policy_def raw_policy_ok_def result_simps split: if_splits)
  then show "policy_retry_policy P = Some \<lparr>ry_max_attempts = pl_max_attempts (ppo_limits P), ry_base_ms = pl_base_retry_ms (ppo_limits P),
       ry_max_ms = pl_max_retry_ms (ppo_limits P), ry_max_age_ms = pl_max_delivery_age_ms (ppo_limits P)\<rparr>"
    by (auto simp: policy_retry_policy_def retry_policy_new_def limits_ok_def)
qed

lemma retry_or_dead_at_reports:
  assumes sha: "\<And>x. length (pu_sha256 E x) = 32" and P: "validate_raw_policy E raw = Some (Inr P)"
    and now: "0 < now" and expires: "cl_expires_at l \<le> i64_max"
    and run: "retry_or_dead_at E P A w l category requested now r = Some r'"
  shows "(\<exists>c. wr_effects r' = wr_effects r @ [FailCalled c] \<and> retry_report E P l category now c) \<and> wr_calls r \<le> wr_calls r'"
proof -
  define retry where "retry = \<lparr>ry_max_attempts = pl_max_attempts (ppo_limits P), ry_base_ms = pl_base_retry_ms (ppo_limits P),
       ry_max_ms = pl_max_retry_ms (ppo_limits P), ry_max_age_ms = pl_max_delivery_age_ms (ppo_limits P)\<rparr>"
  note limits = valid_policy(1)[OF P]
  note policy = valid_policy(2)[OF P, folded retry_def]
  define n where "n = min 65535 (cl_attempt l + 1)"
  let ?dead = "fail_lease E A w l FailDead category None r"
  have run': "r' = (if pl_max_attempts (ppo_limits P) < n then ?dead
      else case clamp_delay_ms retry requested n (wd_jitter w) of None \<Rightarrow> ?dead
        | Some delay \<Rightarrow> if cl_expires_at l \<le> retry_time now delay then ?dead
            else fail_lease E A w l FailRetry category (Some (retry_time now delay)) r)"
    using run unfolding retry_or_dead_at_def policy Let_def n_def option.case option.inject by (rule sym)
  have dead: "?thesis" if "r' = ?dead" by (simp add: that fail_lease_dead[OF sha] retry_report_def fail_lease_calls)
  show ?thesis
  proof (cases "pl_max_attempts (ppo_limits P) < n \<or> clamp_delay_ms retry requested n (wd_jitter w) = None")
    case True
    then show ?thesis using run' by (intro dead) auto
  next
    case False
    then obtain delay where delay: "clamp_delay_ms retry requested n (wd_jitter w) = Some delay" by blast
    define t where "t = retry_time now delay"
    have bounds: "pl_base_retry_ms (ppo_limits P) \<le> delay" "delay \<le> pl_max_retry_ms (ppo_limits P)"
      using delay clamp_bounds[of "pl_base_retry_ms (ppo_limits P)" "pl_max_retry_ms (ppo_limits P)"] limits
      by (auto simp: clamp_delay_ms_def retry_def limits_ok_def)
    show ?thesis
    proof (cases "cl_expires_at l \<le> t")
      case True
      then show ?thesis using run' delay by (intro dead) (simp add: t_def)
    next
      case before: False
      then have r': "r' = fail_lease E A w l FailRetry category (Some t) r" using run' False delay by (simp add: t_def)
      have "t < i64_max" using before expires by simp
      then have t: "t = now + int delay" using now by (auto simp: t_def retry_time_def min_def split: if_splits)
      have "\<not> pl_max_attempts (ppo_limits P) < n" "pl_max_attempts (ppo_limits P) \<le> 32"
        using False limits by (simp_all add: limits_ok_def)
      then have "cl_attempt l < pl_max_attempts (ppo_limits P)" unfolding n_def by linarith
      with t bounds before have "retry_allowed P l now t" by (simp add: retry_allowed_def)
      moreover have "0 < t" using t now by simp
      ultimately show ?thesis
        using fail_lease_retry[OF sha, of t A w l category r] fail_lease_calls[of r E A w l FailRetry category "Some t"] r'
        unfolding retry_report_def by blast
    qed
  qed
qed

section \<open>The contract of an authority\<close>

lemma await_effects:
  "await_attempt A w l duration n outcome r = (x, r') \<Longrightarrow>
     \<exists>k. wr_effects r' = wr_effects r @ replicate k RenewCalled \<and> (x = Some outcome \<or> x = None \<and> (wd_stopped w \<or> 0 < k))"
proof (induction n arbitrary: r)
  case 0
  then show ?case by (intro exI[of _ 0]) (auto split: if_splits)
next
  case (Suc n)
  obtain y r1 where call: "call_authority w RenewCalled (ca_renew A (cl_fence l) duration) r = (y, r1)" by (metis surj_pair)
  note e = call_pair[OF call]
  show ?case
  proof (cases "\<exists>until. y = Inr (Some until)")
    case True
    then have "await_attempt A w l duration n outcome r1 = (x, r')" using Suc.prems call by auto
    from Suc.IH[OF this] e obtain k where "wr_effects r' = wr_effects r @ replicate (Suc k) RenewCalled"
      "x = Some outcome \<or> x = None \<and> (wd_stopped w \<or> 0 < k)" by auto
    then show ?thesis by (intro exI[of _ "Suc k"]) blast
  next
    case False
    then have "x = None" "r' = r1" using Suc.prems call by (auto split: sum.splits option.splits)
    then show ?thesis using e by (intro exI[of _ 1]) simp
  qed
qed

text \<open>
  The calls of a worker that starts no attempt, and of one that does; \<open>usable\<close> says that a fence holds
  in a store at a time.
\<close>

definition unsent_calls :: "push_env \<Rightarrow> push_policy \<Rightarrow> callback_lease \<Rightarrow> int \<Rightarrow> worker_effect list \<Rightarrow> bool" where
  "unsent_calls E P l now calls \<longleftrightarrow>
     calls \<in> {[RevokeCalled], [RenewCalled], [FailCalled (dead_command E l PayloadCategory)],
       [RenewCalled, FailCalled (dead_command E l PolicyCategory)], [RenewCalled, FailCalled (dead_command E l PayloadCategory)]}
     \<or> (\<exists>bytes. calls = [RenewCalled, QuotaAsked bytes now, RevokeCalled] \<or> calls = [RenewCalled, QuotaAsked bytes now, FenceValidated]
          \<or> (\<exists>c. calls = [RenewCalled, QuotaAsked bytes now, FailCalled c] \<and> retry_report E P l PolicyCategory now c))"

definition attempt_reported :: "push_env \<Rightarrow> push_policy \<Rightarrow> attempt_sender \<Rightarrow> bool \<Rightarrow> int set \<Rightarrow> callback_lease \<Rightarrow> push_enrollment
    \<Rightarrow> nat \<Rightarrow> worker_effect list \<Rightarrow> bool" where
  "attempt_reported E P send stopped seen l e stamp calls \<longleftrightarrow>
     (\<exists>k rest. calls = replicate k RenewCalled @ rest
        \<and> (reports E P seen l (verdict_of (send e l stamp)) rest \<or> rest = [] \<and> (stopped \<or> 0 < k)))"

locale fenced_authority =
  fixes A :: "'s callback_authority" and usable :: "int \<Rightarrow> delivery_fence \<Rightarrow> 's \<Rightarrow> bool"
  assumes renew_usable: "ca_renew A f duration now s = Inr (s', Some until) \<Longrightarrow> usable now f s \<and> until = now + duration"
    and settle_usable: "ca_commit A f now s = Inr (s', True) \<Longrightarrow> usable now f s"
      "ca_fail A c now s = Inr (s', x) \<Longrightarrow> usable now (cfc_fence c) s"
      "ca_revoke A f now s = Inr (s', y) \<Longrightarrow> usable now f s"
    and time_now: "ca_time A now s = Inr (s', t) \<Longrightarrow> t = now"
begin

lemma retry_or_dead_reports:
  assumes "\<And>x. length (pu_sha256 E x) = 32" "validate_raw_policy E raw = Some (Inr P)" "\<And>i. 0 < wd_now w i"
    "cl_expires_at l \<le> i64_max" "retry_or_dead E P A w l category requested r = Some r'"
  shows "\<exists>calls. wr_effects r' = wr_effects r @ calls \<and> reports E P (times_seen w r') l (Again category) calls"
proof -
  obtain y r1 where call: "call_authority w TimeAsked (ca_time A) r = (y, r1)" by (metis surj_pair)
  note e = call_pair[OF call]
  show ?thesis
  proof (cases y)
    case (Inl err)
    then show ?thesis using assms(5) call e by (auto simp: retry_or_dead_def reports_def)
  next
    case (Inr t)
    then have "t = wd_now w (wr_calls r)" using call_Inr[of w TimeAsked "ca_time A" r t r1] call time_now by blast
    then have "retry_or_dead_at E P A w l category requested (wd_now w (wr_calls r)) r1 = Some r'"
      using assms(5) call Inr by (simp add: retry_or_dead_def)
    note at = retry_or_dead_at_reports[OF assms(1,2,3,4) this]
    then have "wd_now w (wr_calls r) \<in> times_seen w r'" using e by simp
    with at e show ?thesis unfolding reports_def by auto
  qed
qed

lemma report_outcome_reports:
  assumes "\<And>x. length (pu_sha256 E x) = 32" "validate_raw_policy E raw = Some (Inr P)" "\<And>i. 0 < wd_now w i"
    "cl_expires_at l \<le> i64_max" "report_outcome E P A w l (Some outcome) r = Some r'"
  shows "\<exists>calls. wr_effects r' = wr_effects r @ calls \<and> reports E P (times_seen w r') l (verdict_of outcome) calls"
proof (cases "verdict_of outcome")
  case Acknowledged
  then have "r' = snd (call_authority w CommitCalled (ca_commit A (cl_fence l)) r)"
    using assms(5) by (auto simp: report_outcome_def verdict_of_def split: sum.splits delivery_disposition.splits prod.splits if_splits)
  then show ?thesis by (simp add: reports_def Acknowledged)
next
  case (Refused category)
  then have "r' = fail_lease E A w l FailDead category None r"
    using assms(5) by (auto simp: report_outcome_def verdict_of_def split: sum.splits delivery_disposition.splits prod.splits if_splits bool.splits)
  then show ?thesis using fail_lease_dead[OF assms(1)] by (simp add: reports_def Refused)
next
  case (Again category)
  then obtain requested where "retry_or_dead E P A w l category requested r = Some r'"
    using assms(5) by (auto simp: report_outcome_def verdict_of_def split: sum.splits delivery_disposition.splits prod.splits if_splits bool.splits)
  then show ?thesis using retry_or_dead_reports[OF assms(1-4)] Again by simp
qed

lemma attempt_lease_calls:
  assumes env: "\<And>x. length (pu_sha256 E x) = 32" "validate_raw_policy E raw = Some (Inr P)" "\<And>i. 0 < wd_now w i"
    "cl_expires_at l \<le> i64_max"
    and run: "attempt_lease E P A send w l duration stamp r = Some r'"
  shows "\<exists>calls. wr_effects r' = wr_effects r @ calls \<and> (calls = [RevokeCalled] \<or> calls = [FenceValidated]
     \<or> (\<exists>e rest. policy_enrollment E P (df_tenant_scope (cl_fence l)) (cl_enrollment_id l) (cl_canonical_url l) = Some (Inr e)
          \<and> usable (wd_now w (wr_calls r)) (cl_fence l) (wd_others w (wr_calls r) (wr_store r))
          \<and> calls = FenceValidated # SendStarted e stamp # rest \<and> attempt_reported E P send (wd_stopped w) (times_seen w r') l e stamp rest))"
proof -
  let ?pe = "policy_enrollment E P (df_tenant_scope (cl_fence l)) (cl_enrollment_id l) (cl_canonical_url l)"
  obtain pe where pe: "?pe = Some pe" using run by (auto simp: attempt_lease_def split: option.splits)
  show ?thesis
  proof (cases pe)
    case (Inl err)
    then show ?thesis using run pe by (auto simp: attempt_lease_def revoke_lease_def)
  next
    case (Inr e)
    obtain y r1 where call: "call_authority w FenceValidated (validate_callback_delivery_fence A (cl_fence l) duration) r = (y, r1)"
      by (metis surj_pair)
    note c = call_pair[OF call]
    show ?thesis
    proof (cases "y = Inr True")
      case False
      then have "r' = r1" using run pe Inr call by (auto simp: attempt_lease_def split: sum.splits bool.splits)
      then show ?thesis using c by simp
    next
      case True
      obtain s where "ca_renew A (cl_fence l) duration (wd_now w (wr_calls r)) (wd_others w (wr_calls r) (wr_store r)) = Inr s"
        "snd s \<noteq> None"
        using call_Inr[OF call[unfolded True]] by (auto simp: validate_callback_delivery_fence_def result_simps)
      then have held: "usable (wd_now w (wr_calls r)) (cl_fence l) (wd_others w (wr_calls r) (wr_store r))"
        using renew_usable by (cases s) auto
      obtain x r2 where aw: "await_attempt A w l duration (wd_ticks w) (send e l stamp) (emit (SendStarted e stamp) r1) = (x, r2)"
        by (metis surj_pair)
      then have rep: "report_outcome E P A w l x r2 = Some r'"
        using run pe Inr call True by (simp add: attempt_lease_def)
      obtain k where k: "wr_effects r2 = wr_effects r @ FenceValidated # SendStarted e stamp # replicate k RenewCalled"
        "x = Some (send e l stamp) \<or> x = None \<and> (wd_stopped w \<or> 0 < k)"
        using await_effects[OF aw] c by auto
      have "\<exists>rest. wr_effects r' = wr_effects r2 @ rest
        \<and> (reports E P (times_seen w r') l (verdict_of (send e l stamp)) rest \<or> rest = [] \<and> (wd_stopped w \<or> 0 < k))"
        using k(2)
      proof
        assume "x = Some (send e l stamp)"
        then show ?thesis using report_outcome_reports[OF env] rep by blast
      next
        assume "x = None \<and> (wd_stopped w \<or> 0 < k)"
        then show ?thesis using rep by (auto simp: report_outcome_def)
      qed
      then obtain rest where "wr_effects r' = wr_effects r @ FenceValidated # SendStarted e stamp # replicate k RenewCalled @ rest"
        "attempt_reported E P send (wd_stopped w) (times_seen w r') l e stamp (replicate k RenewCalled @ rest)"
        using k(1) by (auto simp: attempt_reported_def)
      then show ?thesis using held pe Inr by auto
    qed
  qed
qed

lemma charge_lease_calls:
  assumes env: "\<And>x. length (pu_sha256 E x) = 32" "validate_raw_policy E raw = Some (Inr P)" "\<And>i. 0 < wd_now w i"
    "cl_expires_at l \<le> i64_max" "0 < now"
    and run: "charge_lease E P A send w l duration e now r = Some r'"
  shows "\<exists>calls. wr_effects r' = wr_effects r @ calls \<and>
     (calls = [FailCalled (dead_command E l PayloadCategory)]
      \<or> (\<exists>bytes rest. calls = QuotaAsked bytes now # rest \<and>
           (rest = [RevokeCalled] \<or> rest = [FenceValidated] \<or> (\<exists>c. rest = [FailCalled c] \<and> retry_report E P l PolicyCategory now c)
            \<or> (\<exists>e' tail. policy_enrollment E P (df_tenant_scope (cl_fence l)) (cl_enrollment_id l) (cl_canonical_url l) = Some (Inr e')
                 \<and> usable (wd_now w (wr_calls r)) (cl_fence l) (wd_others w (wr_calls r) (wr_store r))
                 \<and> callback_request_accounted_bytes E (cl_canonical_url l) (cl_enrollment_id l) (df_event_id (cl_fence l))
                     (nat (now div 1000)) (cl_attempt l) (enr_key_generation e) (length (cl_payload l)) = Some bytes
                 \<and> wd_quota w l bytes now = QuotaReserved
                 \<and> rest = FenceValidated # SendStarted e' (nat (now div 1000)) # tail
                 \<and> attempt_reported E P send (wd_stopped w) (times_seen w r') l e' (nat (now div 1000)) tail))))"
proof (cases "callback_request_accounted_bytes E (cl_canonical_url l) (cl_enrollment_id l) (df_event_id (cl_fence l))
    (nat (now div 1000)) (cl_attempt l) (enr_key_generation e) (length (cl_payload l))")
  case None
  then have "r' = fail_lease E A w l FailDead PayloadCategory None r"
    using run env(5) by (simp add: charge_lease_def Let_def)
  then show ?thesis by (simp add: fail_lease_dead[OF env(1)])
next
  case (Some bytes)
  let ?r = "emit (QuotaAsked bytes now) r"
  note run' = run[unfolded charge_lease_def Let_def]
  show ?thesis
  proof (cases "wd_quota w l bytes now")
    case QuotaReserved
    then have "attempt_lease E P A send w l duration (nat (now div 1000)) ?r = Some r'"
      using run' Some env(5) by simp
    from attempt_lease_calls[OF env(1-4) this] show ?thesis using Some QuotaReserved by auto
  next
    case (QuotaExhausted ms)
    then have "retry_or_dead_at E P A w l PolicyCategory (Some ms) now ?r = Some r'"
      using run' Some env(5) by simp
    from retry_or_dead_at_reports[OF env(1,2,5,4) this] show ?thesis by auto
  next
    case QuotaUnavailable
    then have "retry_or_dead_at E P A w l PolicyCategory None now ?r = Some r'"
      using run' Some env(5) by simp
    from retry_or_dead_at_reports[OF env(1,2,5,4) this] show ?thesis by auto
  qed
qed

end

section \<open>The calls for one lease\<close>

text \<open>Everything that holds when an attempt starts; \<open>s\<close> is the store the lease was taken from.\<close>

definition attempt_permitted :: "(int \<Rightarrow> delivery_fence \<Rightarrow> 's \<Rightarrow> bool) \<Rightarrow> push_env \<Rightarrow> push_policy \<Rightarrow> 's callback_authority \<Rightarrow> 's world
    \<Rightarrow> callback_lease \<Rightarrow> int \<Rightarrow> 's \<Rightarrow> push_enrollment \<Rightarrow> nat \<Rightarrow> nat \<Rightarrow> bool" where
  "attempt_permitted usable E P A w l duration s e stamp bytes \<longleftrightarrow>
     policy_enrollment E P (df_tenant_scope (cl_fence l)) (cl_enrollment_id l) (cl_canonical_url l) = Some (Inr e)
     \<and> cl_attempt l \<le> pl_max_attempts (ppo_limits P) \<and> cl_enrollment_generation l = ppo_policy_revision P
     \<and> sha256_text (pu_sha256 E (cl_payload l)) = cl_payload_digest l
     \<and> wd_now w 0 < cl_expires_at l \<and> stamp = nat (wd_now w 0 div 1000)
     \<and> callback_request_accounted_bytes E (cl_canonical_url l) (cl_enrollment_id l) (df_event_id (cl_fence l)) stamp
         (cl_attempt l) (enr_key_generation e) (length (cl_payload l)) = Some bytes
     \<and> wd_quota w l bytes (wd_now w 0) = QuotaReserved
     \<and> usable (wd_now w 0) (cl_fence l) (wd_others w 0 s)
     \<and> (\<exists>s' until. ca_renew A (cl_fence l) duration (wd_now w 0) (wd_others w 0 s) = Inr (s', Some until)
          \<and> usable (wd_now w 1) (cl_fence l) (wd_others w 1 s'))"

definition sent_calls :: "(int \<Rightarrow> delivery_fence \<Rightarrow> 's \<Rightarrow> bool) \<Rightarrow> push_env \<Rightarrow> push_policy \<Rightarrow> 's callback_authority \<Rightarrow> attempt_sender
    \<Rightarrow> 's world \<Rightarrow> callback_lease \<Rightarrow> int \<Rightarrow> 's \<Rightarrow> int set \<Rightarrow> worker_effect list \<Rightarrow> bool" where
  "sent_calls usable E P A send w l duration s seen calls \<longleftrightarrow>
     (\<exists>bytes e stamp rest. calls = [RenewCalled, QuotaAsked bytes (wd_now w 0), FenceValidated, SendStarted e stamp] @ rest
        \<and> attempt_permitted usable E P A w l duration s e stamp bytes
        \<and> attempt_reported E P send (wd_stopped w) seen l e stamp rest)"

context fenced_authority begin

lemma process_lease_calls:
  assumes env: "\<And>x. length (pu_sha256 E x) = 32" "validate_raw_policy E raw = Some (Inr P)" "\<And>i. 0 < wd_now w i"
    "cl_expires_at l \<le> i64_max"
    and run: "process_lease E P A send w l duration \<lparr>wr_calls = 0, wr_store = s, wr_effects = before\<rparr> = Some r"
  shows "\<exists>calls. wr_effects r = before @ calls \<and> (unsent_calls E P l (wd_now w 0) calls
     \<or> sent_calls usable E P A send w l duration s (times_seen w r) calls)"
proof -
  let ?r0 = "\<lparr>wr_calls = 0, wr_store = s, wr_effects = before\<rparr>"
  have unsent: ?thesis if "r = revoke_lease A w l ?r0 \<or> r = fail_lease E A w l FailDead PayloadCategory None ?r0"
    using that by (auto simp: revoke_lease_def fail_lease_dead[OF env(1)] unsent_calls_def)
  show ?thesis
  proof (cases "\<exists>e. policy_enrollment E P (df_tenant_scope (cl_fence l)) (cl_enrollment_id l) (cl_canonical_url l) = Some (Inr e)
      \<and> cl_attempt l \<le> pl_max_attempts (ppo_limits P) \<and> cl_enrollment_generation l = ppo_policy_revision P
      \<and> enr_endpoint_id e = cl_enrollment_id l \<and> sha256_text (pu_sha256 E (cl_payload l)) = cl_payload_digest l")
    case False
    then show ?thesis using run by (intro unsent) (auto simp: process_lease_def split: option.splits sum.splits if_splits)
  next
    case True
    then obtain e where e: "policy_enrollment E P (df_tenant_scope (cl_fence l)) (cl_enrollment_id l) (cl_canonical_url l) = Some (Inr e)"
      "cl_attempt l \<le> pl_max_attempts (ppo_limits P)" "cl_enrollment_generation l = ppo_policy_revision P"
      "enr_endpoint_id e = cl_enrollment_id l" "sha256_text (pu_sha256 E (cl_payload l)) = cl_payload_digest l" by blast
    obtain y r1 where call: "call_authority w RenewCalled (ca_renew A (cl_fence l) duration) ?r0 = (y, r1)" by (metis surj_pair)
    note c = call_pair[OF call]
    show ?thesis
    proof (cases "\<exists>until. y = Inr (Some until)")
      case False
      then have "r = r1" using run e call by (auto simp: process_lease_def split: sum.splits option.splits)
      then show ?thesis using c by (auto simp: unsent_calls_def)
    next
      case True
      then obtain until where y: "y = Inr (Some until)" by blast
      have renewed: "ca_renew A (cl_fence l) duration (wd_now w 0) (wd_others w 0 s) = Inr (wr_store r1, Some until)"
        using call_Inr[OF call[unfolded y]] by simp
      note u = renew_usable[OF renewed]
      show ?thesis
      proof (cases "cl_expires_at l \<le> wd_now w 0")
        case True
        then have "r = fail_lease E A w l FailDead PolicyCategory None r1" using run e call y u by (simp add: process_lease_def Let_def)
        then show ?thesis using c by (auto simp: fail_lease_dead[OF env(1)] unsent_calls_def)
      next
        case False
        then have "charge_lease E P A send w l duration e (wd_now w 0) r1 = Some r"
          using run e call y u by (simp add: process_lease_def Let_def)
        from charge_lease_calls[OF env env(3) this] obtain calls where calls: "wr_effects r = wr_effects r1 @ calls" and
          kinds: "calls = [FailCalled (dead_command E l PayloadCategory)]
            \<or> (\<exists>bytes rest. calls = QuotaAsked bytes (wd_now w 0) # rest \<and>
                (rest = [RevokeCalled] \<or> rest = [FenceValidated] \<or> (\<exists>c. rest = [FailCalled c] \<and> retry_report E P l PolicyCategory (wd_now w 0) c)
                 \<or> (\<exists>e' tail. policy_enrollment E P (df_tenant_scope (cl_fence l)) (cl_enrollment_id l) (cl_canonical_url l) = Some (Inr e')
                      \<and> usable (wd_now w (wr_calls r1)) (cl_fence l) (wd_others w (wr_calls r1) (wr_store r1))
                      \<and> callback_request_accounted_bytes E (cl_canonical_url l) (cl_enrollment_id l) (df_event_id (cl_fence l))
                          (nat (wd_now w 0 div 1000)) (cl_attempt l) (enr_key_generation e) (length (cl_payload l)) = Some bytes
                      \<and> wd_quota w l bytes (wd_now w 0) = QuotaReserved
                      \<and> rest = FenceValidated # SendStarted e' (nat (wd_now w 0 div 1000)) # tail
                      \<and> attempt_reported E P send (wd_stopped w) (times_seen w r) l e' (nat (wd_now w 0 div 1000)) tail)))" by blast
        have r: "wr_effects r = before @ RenewCalled # calls" using calls c by simp
        have sent: "attempt_permitted usable E P A w l duration s e (nat (wd_now w 0 div 1000)) bytes"
          if "callback_request_accounted_bytes E (cl_canonical_url l) (cl_enrollment_id l) (df_event_id (cl_fence l))
               (nat (wd_now w 0 div 1000)) (cl_attempt l) (enr_key_generation e) (length (cl_payload l)) = Some bytes"
            "wd_quota w l bytes (wd_now w 0) = QuotaReserved"
            "usable (wd_now w (wr_calls r1)) (cl_fence l) (wd_others w (wr_calls r1) (wr_store r1))" for bytes
          using that e u renewed False c by (auto simp: attempt_permitted_def)
        have "unsent_calls E P l (wd_now w 0) (RenewCalled # calls)
          \<or> sent_calls usable E P A send w l duration s (times_seen w r) (RenewCalled # calls)"
          using kinds sent e(1) unfolding unsent_calls_def sent_calls_def by fastforce
        then show ?thesis using r by blast
      qed
    qed
  qed
qed

end

end
