(* ===== verification/Callback_Delivery.thy ===== *)
theory Callback_Delivery
  imports Callback_Attempts
begin

text \<open>
  The callback worker on the SQLite store: when a request may leave, how its outcome is reported, what
  is charged for it, and when a worker gives up.
\<close>

section \<open>The SQLite store keeps the contract\<close>

definition fence_holds :: "int \<Rightarrow> delivery_fence \<Rightarrow> callback_db \<Rightarrow> bool" where
  "fence_holds now f db \<longleftrightarrow> length (filter (fence_matches now f) (db_deliveries db)) = 1"

lemma finish_holds:
  "finish_callback_delivery E now f next_state category evidence db = Inr x \<Longrightarrow> fence_holds now f db"
  by (auto simp: finish_callback_delivery_def fence_holds_def Let_def result_simps)

interpretation sqlite_fence: fenced_authority "sqlite_authority E policy" fence_holds for E policy
proof
  show "ca_renew (sqlite_authority E policy) f duration now s = Inr (s', Some until) \<Longrightarrow> fence_holds now f s \<and> until = now + duration"
    for f duration now s s' until
    by (auto simp: sqlite_authority_def renew_callback_delivery_def fence_holds_def result_simps split: if_splits)
  show "ca_commit (sqlite_authority E policy) f now s = Inr (s', True) \<Longrightarrow> fence_holds now f s" for f now s s'
    by (auto simp: sqlite_authority_def commit_callback_delivery_def result_simps intro: finish_holds)
  show "ca_fail (sqlite_authority E policy) c now s = Inr (s', x) \<Longrightarrow> fence_holds now (cfc_fence c) s" for c now s s' x
    by (simp add: sqlite_authority_def fail_callback_delivery_def finish_holds)
  show "ca_revoke (sqlite_authority E policy) f now s = Inr (s', y) \<Longrightarrow> fence_holds now f s" for f now s s' y
    by (simp add: sqlite_authority_def revoke_callback_delivery_def finish_holds)
  show "ca_time (sqlite_authority E policy) now s = Inr (s', t) \<Longrightarrow> t = now" for now s s' t
    by (simp add: sqlite_authority_def)
qed

lemma fence_holds_row: "fence_holds now f db \<Longrightarrow> \<exists>d. filter (fence_matches now f) (db_deliveries db) = [d]"
  unfolding fence_holds_def by (cases "filter (fence_matches now f) (db_deliveries db)") auto

section \<open>When a request may leave\<close>

lemma enrolled_url:
  assumes "validate_raw_policy E raw = Some (Inr P)" "policy_enrollment E P tenant endpoint x = Some (Inr e)"
  shows "e \<in> set (ppo_enrollments P)" "enr_tenant e = tenant" "enr_endpoint_id e = endpoint" "cu_canonical (enr_url e) = x"
  using push_policy_enrolls_exactly[OF assms(1), of tenant endpoint x e] assms(2) by simp_all

lemma sent_or_not:
  assumes "\<And>x. length (pu_sha256 E x) = 32" "validate_raw_policy E raw = Some (Inr P)" "\<And>i. 0 < wd_now w i"
    "cl_expires_at l \<le> i64_max"
    "process_lease E P (sqlite_authority E policy) send w l duration \<lparr>wr_calls = 0, wr_store = db, wr_effects = []\<rparr> = Some r"
  shows "unsent_calls E P l (wd_now w 0) (wr_effects r)
     \<or> sent_calls fence_holds E P (sqlite_authority E policy) send w l duration db (times_seen w r) (wr_effects r)"
  using sqlite_fence.process_lease_calls[OF assms] by auto

lemma reports_calls:
  "reports E P seen l v calls \<Longrightarrow> set calls \<subseteq> {CommitCalled, TimeAsked} \<union> range FailCalled"
  unfolding reports_def by (auto split: verdict.splits)

lemma reported_no_send: "attempt_reported E P send stopped seen l e stamp calls \<Longrightarrow> SendStarted e' stamp' \<notin> set calls"
  unfolding attempt_reported_def using reports_calls by (fastforce simp: in_set_replicate)

lemma unsent_no_send: "unsent_calls E P l now calls \<Longrightarrow> SendStarted e stamp \<notin> set calls \<and> CommitCalled \<notin> set calls"
  unfolding unsent_calls_def by auto

text \<open>
  C25. A worker on the SQLite store starts an attempt at most once per lease, and only under every
  guard: the endpoint is enrolled by the policy for that tenant and URL, the lease has an attempt left
  and belongs to the revision of the policy, the payload has the digest of the event, the event is not
  expired at the time of the database, the bytes of the request are reserved, and the fence of the lease
  holds in the store both when it is renewed and again after the reservation, whatever other users of
  the store do in between. The attempt is signed with the time of the database.
\<close>

theorem callback_send_guarded:
  assumes "\<And>x. length (pu_sha256 E x) = 32" "validate_raw_policy E raw = Some (Inr P)" "\<And>i. 0 < wd_now w i"
    "cl_expires_at l \<le> i64_max"
    "process_lease E P (sqlite_authority E policy) send w l duration \<lparr>wr_calls = 0, wr_store = db, wr_effects = []\<rparr> = Some r"
    "SendStarted e stamp \<in> set (wr_effects r)"
  shows "\<exists>bytes rest db1 until.
       wr_effects r = [RenewCalled, QuotaAsked bytes (wd_now w 0), FenceValidated, SendStarted e stamp] @ rest
     \<and> (\<nexists>e' stamp'. SendStarted e' stamp' \<in> set rest)
     \<and> e \<in> set (ppo_enrollments P) \<and> enr_tenant e = df_tenant_scope (cl_fence l) \<and> enr_endpoint_id e = cl_enrollment_id l
     \<and> cu_canonical (enr_url e) = cl_canonical_url l
     \<and> cl_attempt l \<le> pl_max_attempts (ppo_limits P) \<and> cl_enrollment_generation l = ppo_policy_revision P
     \<and> sha256_text (pu_sha256 E (cl_payload l)) = cl_payload_digest l
     \<and> wd_now w 0 < cl_expires_at l \<and> stamp = nat (wd_now w 0 div 1000)
     \<and> callback_request_accounted_bytes E (cl_canonical_url l) (cl_enrollment_id l) (df_event_id (cl_fence l)) stamp
         (cl_attempt l) (enr_key_generation e) (length (cl_payload l)) = Some bytes
     \<and> wd_quota w l bytes (wd_now w 0) = QuotaReserved
     \<and> renew_callback_delivery E (wd_now w 0) (cl_fence l) duration (wd_others w 0 db) = Inr (db1, Some until)
     \<and> (\<exists>d. filter (fence_matches (wd_now w 0) (cl_fence l)) (db_deliveries (wd_others w 0 db)) = [d])
     \<and> (\<exists>d. filter (fence_matches (wd_now w 1) (cl_fence l)) (db_deliveries (wd_others w 1 db1)) = [d])"
proof -
  have "sent_calls fence_holds E P (sqlite_authority E policy) send w l duration db (times_seen w r) (wr_effects r)"
    using sent_or_not[OF assms(1-5)] unsent_no_send assms(6) by blast
  then obtain bytes e1 stamp1 rest where
    calls: "wr_effects r = [RenewCalled, QuotaAsked bytes (wd_now w 0), FenceValidated, SendStarted e1 stamp1] @ rest"
    and ok: "attempt_permitted fence_holds E P (sqlite_authority E policy) w l duration db e1 stamp1 bytes"
    and rest: "attempt_reported E P send (wd_stopped w) (times_seen w r) l e1 stamp1 rest"
    unfolding sent_calls_def by blast
  have same: "e1 = e" "stamp1 = stamp" using assms(6) reported_no_send[OF rest] unfolding calls by auto
  note ok = ok[unfolded same attempt_permitted_def]
  note enrolled = enrolled_url[OF assms(2) conjunct1[OF ok]]
  from ok obtain db1 until where renewed: "renew_callback_delivery E (wd_now w 0) (cl_fence l) duration (wd_others w 0 db) = Inr (db1, Some until)"
    and again: "fence_holds (wd_now w 1) (cl_fence l) (wd_others w 1 db1)"
    by (auto simp: sqlite_authority_def)
  have first: "fence_holds (wd_now w 0) (cl_fence l) (wd_others w 0 db)" using ok by blast
  show ?thesis
    using ok enrolled renewed fence_holds_row[OF first] fence_holds_row[OF again] reported_no_send[OF rest] calls same
    by (intro exI[of _ bytes] exI[of _ rest] exI[of _ db1] exI[of _ until]) blast
qed

section \<open>How an attempt is reported\<close>

fun settles :: "worker_effect \<Rightarrow> bool" where
  "settles CommitCalled = True"
| "settles (FailCalled c) = True"
| "settles RevokeCalled = True"
| "settles _ = False"

lemma reports_settle: "reports E P seen l v calls \<Longrightarrow> length (filter settles calls) \<le> 1"
  unfolding reports_def by (auto split: verdict.splits)

lemma reported_settle: "attempt_reported E P send stopped seen l e stamp calls \<Longrightarrow> length (filter settles calls) \<le> 1"
  unfolding attempt_reported_def using reports_settle by (fastforce simp: filter_replicate)

lemma unsent_settle: "unsent_calls E P l now calls \<Longrightarrow> length (filter settles calls) \<le> 1"
  unfolding unsent_calls_def by auto

lemma dead_report: "retry_report E P l category now (dead_command E l category)"
  by (simp add: retry_report_def)

lemma reports_fail:
  assumes "reports E P seen l v calls" "FailCalled c \<in> set calls"
  shows "\<exists>category now. retry_report E P l category now c \<and> (c = dead_command E l category \<or> now \<in> seen)"
proof (cases v)
  case (Refused category)
  then have "c = dead_command E l category" using assms unfolding reports_def by simp
  then show ?thesis using dead_report by blast
next
  case (Again category)
  then obtain now where "now \<in> seen" "retry_report E P l category now c" using assms unfolding reports_def by auto
  then show ?thesis by blast
qed (use assms in \<open>auto simp: reports_def\<close>)

lemma reported_fail:
  assumes "attempt_reported E P send stopped seen l e stamp calls" "FailCalled c \<in> set calls"
  shows "\<exists>category now. retry_report E P l category now c \<and> (c = dead_command E l category \<or> now \<in> seen)"
proof -
  obtain k rest where "calls = replicate k RenewCalled @ rest" "rest = [] \<or> reports E P seen l (verdict_of (send e l stamp)) rest"
    using assms(1) unfolding attempt_reported_def by blast
  then show ?thesis using assms(2) reports_fail[of E P seen l "verdict_of (send e l stamp)" rest]
    by (auto simp: in_set_replicate)
qed

lemma reported_commit:
  assumes "attempt_reported E P send stopped seen l e stamp calls" "CommitCalled \<in> set calls"
  shows "verdict_of (send e l stamp) = Acknowledged"
proof -
  obtain k rest where "calls = replicate k RenewCalled @ rest" "rest = [] \<or> reports E P seen l (verdict_of (send e l stamp)) rest"
    using assms(1) unfolding attempt_reported_def by blast
  then show ?thesis using assms(2) unfolding reports_def by (cases "verdict_of (send e l stamp)") (auto simp: in_set_replicate)
qed

lemma unsent_fail:
  assumes "unsent_calls E P l now calls" "FailCalled c \<in> set calls"
  shows "\<exists>category. retry_report E P l category now c"
proof -
  have "c \<in> range (dead_command E l) \<or> retry_report E P l PolicyCategory now c"
    using assms unfolding unsent_calls_def by auto
  then show ?thesis using dead_report[of E P l _ now] by blast
qed


section \<open>A delivery that succeeds\<close>

definition sample_worker_lease :: callback_lease where
  "sample_worker_lease = (sample_lease 1 100)\<lparr>cl_enrollment_generation := 1\<rparr>"

definition sample_world :: "callback_db world" where
  "sample_world =
     \<lparr>wd_now = (\<lambda>_. 200), wd_others = (\<lambda>_ db. db), wd_fails = (\<lambda>_. None), wd_quota = (\<lambda>_ _ _. QuotaReserved), wd_jitter = 0,
      wd_ticks = 0, wd_stopped = False\<rparr>"

definition sample_accept :: attempt_sender where
  "sample_accept e l stamp = Inr \<lparr>cr_status = 200, cr_disposition = Delivered, cr_retry_after_seconds = None\<rparr>"

abbreviation sample_leased_db :: "int \<Rightarrow> callback_db" where
  "sample_leased_db now \<equiv> sample_db [sample_leased ''t'' ''k'' 1 10 now] []"

lemma sample_hash_policy: "validate_raw_policy sample_hash_env sample_raw_policy = Some (Inr sample_push_policy)"
proof -
  have "validate_raw_policy sample_hash_env = validate_raw_policy sample_env"
    by (simp add: fun_eq_iff validate_raw_policy_def sample_hash_env_def)
  then show ?thesis using sample_policy_accepted by simp
qed

lemma hex_zeros: "hex_bytes (replicate n 0) = replicate (2 * n) (CHR ''0'')"
  by (induction n) (simp_all add: hex_byte_def hex_digit_def char_of_def bit_0)

lemma sample_hash_length: "length (pu_sha256 sample_hash_env x) = 32"
  by (simp add: sample_hash_env_def)

lemma sample_lookup:
  "policy_enrollment sample_hash_env sample_push_policy ''t'' ''e'' ''https://a:443/x'' = Some (Inr sample_enrollment)"
proof -
  have "sample_enrollment \<in> set (ppo_enrollments sample_push_policy)" by (simp add: sample_push_policy_def)
  moreover have "enr_tenant sample_enrollment = ''t''" "enr_endpoint_id sample_enrollment = ''e''"
    "cu_canonical (enr_url sample_enrollment) = ''https://a:443/x''"
    by (simp_all add: sample_enrollment_def sample_raw_enrollment_def enroll_def sample_url_def)
  ultimately show ?thesis using push_policy_enrolls_exactly[OF sample_hash_policy] by blast
qed

lemma sample_renew:
  assumes "100 \<le> a" "a \<le> now" "now < a + 1000" "now \<le> 5000"
  shows "renew_callback_delivery E now (sample_fence ''t'' 1) 1000 (sample_leased_db a) = Inr (sample_leased_db now, Some (now + 1000))"
proof -
  have match: "fence_matches now (sample_fence ''t'' 1) (sample_leased ''t'' ''k'' 1 10 a)"
    using assms by (simp add: fence_matches_def sample_fence_def sample_leased_def pending_row_def delivery_key_def lease_live_def i64_max_def)
  have next_row: "(sample_leased ''t'' ''k'' 1 10 a)\<lparr>dl_until := Some (now + 1000), dl_updated := now\<rparr> = sample_leased ''t'' ''k'' 1 10 now"
    by (simp add: sample_leased_def)
  have "delivery_row_ok (sample_leased ''t'' ''k'' 1 10 now)"
    using assms by (simp add: sample_leased_def pending_row_def delivery_row_ok_def)
  moreover have "delivery_trigger E (sample_leased ''t'' ''k'' 1 10 a) (sample_leased ''t'' ''k'' 1 10 now) [] = Some []"
    by (simp add: delivery_trigger_def sample_leased_def)
  ultimately show ?thesis
    using assms match by (simp add: renew_callback_delivery_def update_deliveries_def next_row result_simps i64_max_def)
qed

lemma sample_accounted:
  "callback_request_accounted_bytes sample_hash_env ''https://a:443/x'' ''e'' ''v'' 0 (Suc 0) ''k'' (Suc 0) = Some 457"
  by (simp add: callback_request_accounted_bytes_def accounted_headers_def sample_hash_env_def sample_env_def sample_url_parse_def
      checked_add_def usize_max_def show_nat.simps)

lemma sample_process:
  "\<exists>r. process_lease sample_hash_env sample_push_policy (sqlite_authority sample_hash_env None) sample_accept sample_world
       sample_worker_lease 1000 \<lparr>wr_calls = 0, wr_store = sample_leased_db 100, wr_effects = []\<rparr> = Some r
     \<and> wr_effects r = [RenewCalled, QuotaAsked 457 200, FenceValidated, SendStarted sample_enrollment 0, CommitCalled]"
proof -
  let ?A = "sqlite_authority sample_hash_env None"
  have lease: "cl_fence sample_worker_lease = sample_fence ''t'' 1" "cl_enrollment_id sample_worker_lease = ''e''"
    "cl_canonical_url sample_worker_lease = ''https://a:443/x''" "cl_attempt sample_worker_lease = 1"
    "cl_enrollment_generation sample_worker_lease = 1" "cl_payload sample_worker_lease = [0]" "cl_expires_at sample_worker_lease = 5000"
    "cl_payload_digest sample_worker_lease = scenario_digest" "df_tenant_scope (sample_fence ''t'' 1) = ''t''"
    "df_event_id (sample_fence ''t'' 1) = ''v''"
    by (simp_all add: sample_worker_lease_def sample_lease_def sample_fence_def)
  have policy: "pl_max_attempts (ppo_limits sample_push_policy) = 5" "ppo_policy_revision sample_push_policy = 1"
    "enr_endpoint_id sample_enrollment = ''e''" "enr_key_generation sample_enrollment = ''k''"
    by (simp_all add: sample_push_policy_def sample_limits_def sample_enrollment_def sample_raw_enrollment_def enroll_def)
  have digest: "sha256_text (pu_sha256 sample_hash_env [0]) = scenario_digest"
    by (simp add: sample_hash_env_def scenario_digest_def sha256_text_def hex_zeros)
  have world: "wd_now sample_world = (\<lambda>_. 200)" "wd_others sample_world = (\<lambda>_ db. db)" "wd_fails sample_world = (\<lambda>_. None)"
    "wd_quota sample_world = (\<lambda>_ _ _. QuotaReserved)" "wd_ticks sample_world = 0" "\<not> wd_stopped sample_world"
    by (simp_all add: sample_world_def)
  have renew: "ca_renew ?A (sample_fence ''t'' 1) 1000 200 (sample_leased_db a) = Inr (sample_leased_db 200, Some 1200)"
    if "a = 100 \<or> a = 200" for a
    using that sample_renew[of a 200 sample_hash_env] by (auto simp: sqlite_authority_def)
  have "validate_callback_delivery_fence ?A (sample_fence ''t'' 1) 1000 200 (sample_leased_db 200) = Inr (sample_leased_db 200, True)"
    by (simp add: validate_callback_delivery_fence_def renew)
  then show ?thesis
    by (simp add: process_lease_def lease policy digest sample_lookup world renew call_authority_def charge_lease_def Let_def
        sample_accounted attempt_lease_def report_outcome_def sample_accept_def emit_def split: sum.splits prod.splits)
qed

theorem callback_send_witness:
  "\<exists>r bytes rest. wr_effects r = [RenewCalled, QuotaAsked bytes 200, FenceValidated, SendStarted sample_enrollment 0] @ rest
     \<and> process_lease sample_hash_env sample_push_policy (sqlite_authority sample_hash_env None) sample_accept sample_world
         sample_worker_lease 1000 \<lparr>wr_calls = 0, wr_store = sample_leased_db 100, wr_effects = []\<rparr> = Some r
     \<and> (\<exists>d. filter (fence_matches 200 (sample_fence ''t'' 1)) (db_deliveries (sample_leased_db 100)) = [d])"
proof -
  obtain r where r: "process_lease sample_hash_env sample_push_policy (sqlite_authority sample_hash_env None) sample_accept sample_world
       sample_worker_lease 1000 \<lparr>wr_calls = 0, wr_store = sample_leased_db 100, wr_effects = []\<rparr> = Some r"
    and calls: "wr_effects r = [RenewCalled, QuotaAsked 457 200, FenceValidated, SendStarted sample_enrollment 0, CommitCalled]"
    using sample_process by blast
  have "0 < wd_now sample_world i" "cl_expires_at sample_worker_lease \<le> i64_max" "SendStarted sample_enrollment 0 \<in> set (wr_effects r)" for i
    by (simp_all add: sample_world_def sample_worker_lease_def sample_lease_def i64_max_def calls)
  note sent = callback_send_guarded[OF sample_hash_length sample_hash_policy this(1,2) r this(3)]
  have same: "wd_now sample_world 0 = 200" "wd_others sample_world 0 (sample_leased_db 100) = sample_leased_db 100"
    "cl_fence sample_worker_lease = sample_fence ''t'' 1"
    by (simp_all add: sample_world_def sample_worker_lease_def sample_lease_def)
  show ?thesis using sent r unfolding same by blast
qed


end
