(* ===== verification/Callback_Supervision.thy ===== *)
theory Callback_Supervision
  imports Callback_Delivery
begin

text \<open>
  The rest of \<^verbatim>\<open>src/callback_worker.rs\<close>: the bytes that are charged for an attempt are the bytes of the
  request that the transport sends, and the loop of a worker gives up exactly after five failed claims in
  a row, which the readiness of the gateway reports.
\<close>

section \<open>The size of a request\<close>

text \<open>The HTTP/1.1 text of a request: request line, host, headers, content length, blank line, body.\<close>

definition crlf :: string where
  "crlf = [CHR 0x0D, CHR 0x0A]"

definition wire_header :: "string \<times> string \<Rightarrow> string" where
  "wire_header h = fst h @ '': '' @ snd h @ crlf"

definition wire_head :: "string \<Rightarrow> string \<Rightarrow> (string \<times> string) list \<Rightarrow> nat \<Rightarrow> string" where
  "wire_head path authority headers payload_bytes =
     ''POST '' @ path @ '' HTTP/1.1'' @ crlf
     @ concat (map wire_header ((''Host'', authority) # headers @ [(''Content-Length'', show_nat payload_bytes)])) @ crlf"

definition wire_size :: "callback_url \<Rightarrow> outgoing \<Rightarrow> nat" where
  "wire_size u request =
     length (wire_head (cu_path u) (cu_host u @ '':'' @ show_nat (cu_port u)) (og_headers request) (length (og_body request)))
     + length (og_body request)"

lemma add_header_bytes_eq:
  "acc + sum_list (map (\<lambda>(name, n). length name + n + 4) hs) \<le> usize_max \<Longrightarrow>
     add_header_bytes hs acc = Some (acc + sum_list (map (\<lambda>(name, n). length name + n + 4) hs))"
proof (induction hs arbitrary: acc)
  case (Cons h hs)
  obtain name n where h: "h = (name, n)" by (cases h)
  show ?case using Cons.IH[of "acc + (length name + 2 + n + 2)"] Cons.prems by (simp add: h checked_add_def)
qed simp

lemma callback_url_parsed:
  assumes "callback_url_parse url_parse x = Some (Inr u)"
  shows "\<exists>p. url_parse x = Some p \<and> up_host p = Some (cu_host u) \<and> up_path p = cu_path u"
proof -
  obtain p host where p: "url_parse x = Some p" "up_host p = Some host" "rebuild_url x p host = Inr u"
    using assms by (auto simp: callback_url_parse_def split: if_splits option.splits)
  have "cu_path u = up_path p"
    using p(3) unfolding rebuild_url_def Let_def
    by (fastforce simp only: result_simps Option.bind_eq_Some_conv option.simps sum.simps callback_url.simps split: if_split_asm)
  then show ?thesis using p rebuild_url_Inr(3)[OF p(3)] by auto
qed


section \<open>A worker that gives up\<close>

fun claims :: "worker_effect list \<Rightarrow> bool list" where
  "claims [] = []"
| "claims (ClaimReturned ok # es) = ok # claims es"
| "claims (_ # es) = claims es"

lemma claims_append [simp]: "claims (es @ es') = claims es @ claims es'"
  by (induction es rule: claims.induct) simp_all

text \<open>How many claims failed since the last one that succeeded.\<close>

definition trailing_failures :: "bool list \<Rightarrow> nat" where
  "trailing_failures outcomes = length (takeWhile Not (rev outcomes))"

lemma trailing_failures_simps [simp]:
  "trailing_failures [] = 0" "trailing_failures (outcomes @ [True]) = 0"
  "trailing_failures (outcomes @ [False]) = Suc (trailing_failures outcomes)"
  by (simp_all add: trailing_failures_def)

lemma call_claims: "claims [e] = [] \<Longrightarrow> call_authority w e op r = (x, r') \<Longrightarrow> claims (wr_effects r') = claims (wr_effects r)"
  using call_pair[of w e op r x r'] by simp

lemma fail_lease_claims: "claims (wr_effects (fail_lease E A w l disposition category retry_at r)) = claims (wr_effects r)"
  by (simp add: fail_lease_def split: sum.split)

lemma retry_claims:
  "retry_or_dead_at E P A w l category requested now r = Some r' \<Longrightarrow> claims (wr_effects r') = claims (wr_effects r)"
  unfolding retry_or_dead_at_def Let_def
  by (simp only: fail_lease_claims option.simps option.inject split: option.split_asm if_split_asm) (clarify, rule fail_lease_claims)+

lemma report_claims: "report_outcome E P A w l outcome r = Some r' \<Longrightarrow> claims (wr_effects r') = claims (wr_effects r)"
proof -
  have "retry_or_dead E P A w l category requested r = Some r' \<Longrightarrow> claims (wr_effects r') = claims (wr_effects r)" for category requested
    unfolding retry_or_dead_def using call_claims[of TimeAsked w "ca_time A" r]
    by (auto dest: retry_claims split: prod.splits sum.splits)
  then show "report_outcome E P A w l outcome r = Some r' \<Longrightarrow> claims (wr_effects r') = claims (wr_effects r)"
    by (auto simp: report_outcome_def fail_lease_claims split: option.splits sum.splits delivery_disposition.splits prod.splits bool.splits)
qed

lemma attempt_claims:
  assumes "attempt_lease E P A send w l duration stamp r = Some r'"
  shows "claims (wr_effects r') = claims (wr_effects r)"
proof -
  obtain y r1 where call: "call_authority w FenceValidated (validate_callback_delivery_fence A (cl_fence l) duration) r = (y, r1)"
    by (metis surj_pair)
  have r1: "claims (wr_effects r1) = claims (wr_effects r)" using call_claims[OF _ call] by simp
  have replicated: "claims (replicate k RenewCalled) = []" for k by (induction k) simp_all
  have awaited: "claims (wr_effects r2) = claims (wr_effects r)"
    if "await_attempt A w l duration n outcome (emit (SendStarted e stamp) r1) = (x, r2)" for e n outcome x r2
    using await_effects[OF that] r1 replicated by auto
  show ?thesis
    using assms call r1 awaited report_claims
    by (fastforce simp: attempt_lease_def revoke_lease_def split: option.splits sum.splits bool.splits prod.splits)
qed

lemma process_claims:
  assumes "process_lease E P A send w l duration r = Some r'"
  shows "claims (wr_effects r') = claims (wr_effects r)"
proof -
  obtain y r1 where call: "call_authority w RenewCalled (ca_renew A (cl_fence l) duration) r = (y, r1)" by (metis surj_pair)
  have r1: "claims (wr_effects r1) = claims (wr_effects r)" using call_claims[OF _ call] by simp
  have "claims (wr_effects r2) = claims (wr_effects r)" if "charge_lease E P A send w l duration e now r1 = Some r2" for e now r2
    using that r1 attempt_claims retry_claims
    by (fastforce simp: charge_lease_def Let_def fail_lease_claims split: option.splits callback_quota_decision.splits)
  then show ?thesis
    using assms call r1
    by (auto simp: process_lease_def revoke_lease_def fail_lease_claims Let_def split: option.splits sum.splits if_splits)
qed

definition loop_inv :: "'s loop_state \<Rightarrow> bool" where
  "loop_inv st \<longleftrightarrow>
     lp_errors st = trailing_failures (claims (lp_effects st)) \<and> lp_errors st \<le> 4
     \<and> (lp_initial st \<longleftrightarrow> True \<in> set (claims (lp_effects st))) \<and> lp_marks st = (if lp_initial st then [MarkWorkerReady] else [])"

text \<open>The state in which a worker gave up.\<close>

definition gave_up :: "'s loop_state \<Rightarrow> bool" where
  "gave_up st \<longleftrightarrow>
     trailing_failures (claims (lp_effects st)) = 5
     \<and> lp_marks st = (if True \<in> set (claims (lp_effects st)) then [MarkWorkerReady] else []) @ [MarkFatal]"

lemma process_all_inv:
  "process_all E P A send duration c i ls st = Some (exit, st') \<Longrightarrow> loop_inv st \<Longrightarrow> exit \<noteq> WorkerGaveUp \<and> loop_inv st'"
proof (induction ls arbitrary: i st)
  case (Cons l ls)
  show ?case
  proof (cases "cy_halt c i")
    case True
    then show ?thesis using Cons.prems by auto
  next
    case False
    then obtain r where r: "process_lease E P A send (cy_lease c i) l duration
        \<lparr>wr_calls = 0, wr_store = lp_store st, wr_effects = lp_effects st\<rparr> = Some r"
      "process_all E P A send duration c (Suc i) ls (st\<lparr>lp_store := wr_store r, lp_effects := wr_effects r\<rparr>) = Some (exit, st')"
      using Cons.prems(1) by (auto split: option.splits)
    have "loop_inv (st\<lparr>lp_store := wr_store r, lp_effects := wr_effects r\<rparr>)"
      using Cons.prems(2) process_claims[OF r(1)] by (simp add: loop_inv_def)
    then show ?thesis using Cons.IH[OF r(2)] by blast
  qed
qed auto

lemma run_cycle_inv:
  assumes "run_cycle E P A send claim duration c st = Some (exit, st')" "loop_inv st"
  shows "(exit \<noteq> WorkerGaveUp \<and> loop_inv st') \<or> (exit = WorkerGaveUp \<and> gave_up st')"
proof (cases "cy_stop c")
  case True
  then show ?thesis using assms by (auto simp: run_cycle_def Let_def)
next
  case False
  obtain y r where call: "call_authority (cy_claim c) ClaimCalled (ca_claim A (cy_tokens c) claim)
      \<lparr>wr_calls = 0, wr_store = lp_store st, wr_effects = lp_effects st\<rparr> = (y, r)" by (metis surj_pair)
  have r: "claims (wr_effects r) = claims (lp_effects st)" using call_claims[OF _ call] by simp
  show ?thesis
  proof (cases y)
    case (Inr leases)
    define st1 where "st1 = st\<lparr>lp_store := wr_store r, lp_errors := 0, lp_initial := True,
        lp_marks := lp_marks st @ (if lp_initial st then [] else [MarkWorkerReady]), lp_effects := wr_effects r @ [ClaimReturned True]\<rparr>"
    have inv: "loop_inv st1" using assms(2) r by (auto simp: loop_inv_def st1_def)
    have "st' = st1 \<and> exit \<noteq> WorkerGaveUp \<or> process_all E P A send duration c 0 leases st1 = Some (exit, st')"
      using assms(1) False call Inr unfolding run_cycle_def Let_def st1_def by (auto split: if_splits)
    then show ?thesis using inv process_all_inv[OF _ inv, where exit = exit and st' = st'] by blast
  next
    case (Inl err)
    have e: "lp_errors st \<le> 4" "lp_errors st = trailing_failures (claims (lp_effects st))" using assms(2) by (simp_all add: loop_inv_def)
    then have m: "min 255 (lp_errors st + 1) = lp_errors st + 1" by simp
    show ?thesis
      using assms False call Inl r e by (auto simp: run_cycle_def Let_def m loop_inv_def gave_up_def split: if_splits)
  qed
qed

lemma run_cycles_inv:
  "run_cycles E P A send claim duration cs st = Some (exit, st') \<Longrightarrow> loop_inv st \<Longrightarrow>
     (exit \<noteq> WorkerGaveUp \<and> loop_inv st') \<or> (exit = WorkerGaveUp \<and> gave_up st')"
proof (induction cs arbitrary: st)
  case (Cons c cs)
  obtain x st1 where one: "run_cycle E P A send claim duration c st = Some (x, st1)"
    using Cons.prems(1) by (auto split: option.splits)
  note inv = run_cycle_inv[OF one Cons.prems(2)]
  show ?case
  proof (cases "x = WorkerRunning")
    case True
    then show ?thesis using Cons.IH[of st1] Cons.prems(1) one inv by simp
  next
    case False
    then have "exit = x" "st' = st1" using Cons.prems(1) one by (cases x; simp)+
    then show ?thesis using inv by blast
  qed
qed simp

lemma owner_valid:
  assumes "owner_prefix_ok prefix" "i < 64"
  shows "callback_valid_id (prefix @ ''-'' @ show_nat i)"
proof -
  let ?owner = "prefix @ ''-'' @ show_nat i"
  have "i div 10 < 10" using assms(2) by linarith
  then have "length (show_nat i) \<le> 2" by (subst show_nat.simps, subst show_nat.simps) simp
  then have len: "?owner \<noteq> []" "length ?owner \<le> 128" using assms(1) by (simp_all add: owner_prefix_ok_def)
  have chars: "is_ascii_alphanumeric c \<or> c \<in> {CHR ''-'', CHR ''_'', CHR ''.'', CHR '':''}" if "c \<in> set ?owner" for c
  proof -
    have "is_ascii_alphanumeric c" if "c \<in> set (show_nat i)"
      using that show_nat_chars[of i] by (simp add: list_all_iff is_ascii_alphanumeric_def)
    moreover have "is_ascii_alphanumeric c \<or> c \<in> {CHR ''-'', CHR ''_'', CHR ''.'', CHR '':''}" if "c \<in> set prefix"
      using that assms(1) by (auto simp: owner_prefix_ok_def list_all_iff)
    ultimately show ?thesis using that by auto
  qed
  have "of_char c < (128 :: nat)" if "is_ascii_alphanumeric c \<or> c \<in> {CHR ''-'', CHR ''_'', CHR ''.'', CHR '':''}" for c
    using that by (auto simp: is_ascii_alphanumeric_def is_ascii_digit_def is_ascii_lowercase_def in_range_def)
  then show ?thesis using len chars unfolding callback_valid_id_def is_ascii_def list_all_iff by blast
qed

text \<open>
  C28. Every worker of an accepted policy enters its loop, and the loop ends on its own exactly when five
  claims in a row failed. Until then, and whatever the authority, the network and the other users of the
  store do, a worker announces itself once, after its first successful claim; giving up is announced
  as fatal and is the last announcement.
\<close>

theorem worker_supervision:
  assumes "validate_raw_policy E raw = Some (Inr P)" "spawn_workers P prefix readiness = (Inr owners, readiness')"
    "owner \<in> set owners" "run_worker E P A send owner cycles s = Some (exit, st)"
  shows "pr_expected_workers readiness' = length owners \<and> 1 \<le> length owners
     \<and> (\<exists>claim. run_cycles E P A send claim (int (pl_claim_lease_ms (ppo_limits P))) cycles (loop_start s) = Some (exit, st)
          \<and> dcc_owner claim = owner)
     \<and> (exit = WorkerGaveUp \<longleftrightarrow> trailing_failures (claims (lp_effects st)) = 5)
     \<and> trailing_failures (claims (lp_effects st)) \<le> 5
     \<and> lp_marks st = (if True \<in> set (claims (lp_effects st)) then [MarkWorkerReady] else [])
         @ (if exit = WorkerGaveUp then [MarkFatal] else [])"
proof -
  note limits = valid_policy(1)[OF assms(1)]
  have n: "1 \<le> pl_worker_count (ppo_limits P)" "pl_worker_count (ppo_limits P) \<le> 64" using limits by (simp_all add: limits_ok_def)
  have prefix: "owner_prefix_ok prefix"
    and owners: "owners = map (\<lambda>i. prefix @ ''-'' @ show_nat i) [0..<pl_worker_count (ppo_limits P)]"
    and expected: "pr_expected_workers readiness' = pl_worker_count (ppo_limits P)"
    using assms(2) by (auto simp: spawn_workers_def configure_workers_def split: if_splits)
  have "callback_valid_id owner" using owners assms(3) n(2) owner_valid[OF prefix] by auto
  then obtain claim where claim: "delivery_claim_command_new owner (int (pl_claim_lease_ms (ppo_limits P))) (pl_claim_batch (ppo_limits P)) = Inr claim"
    "dcc_owner claim = owner"
    using limits by (simp add: delivery_claim_command_new_def limits_ok_def Suc_le_eq)
  have "lease_duration_new (int (pl_claim_lease_ms (ppo_limits P))) = Inr (int (pl_claim_lease_ms (ppo_limits P)))"
    using limits by (simp add: lease_duration_new_def limits_ok_def)
  then have run: "run_cycles E P A send claim (int (pl_claim_lease_ms (ppo_limits P))) cycles (loop_start s) = Some (exit, st)"
    using assms(4) claim(1) by (simp add: run_worker_def)
  have "loop_inv (loop_start s)" by (simp add: loop_inv_def loop_start_def)
  from run_cycles_inv[OF run this]
  have loop: "(exit = WorkerGaveUp \<longleftrightarrow> trailing_failures (claims (lp_effects st)) = 5)
     \<and> trailing_failures (claims (lp_effects st)) \<le> 5
     \<and> lp_marks st = (if True \<in> set (claims (lp_effects st)) then [MarkWorkerReady] else [])
         @ (if exit = WorkerGaveUp then [MarkFatal] else [])"
    unfolding loop_inv_def gave_up_def by (elim disjE conjE) simp_all
  have "pr_expected_workers readiness' = length owners" "1 \<le> length owners" using n(1) by (simp_all add: owners expected)
  then show ?thesis using run claim(2) loop by blast
qed

section \<open>Witnesses\<close>

text \<open>An environment whose digests, tags and base64 texts have the lengths of the real ones.\<close>

definition exact_env :: push_env where
  "exact_env = sample_hash_env\<lparr>pu_hmac := (\<lambda>_ _. replicate 32 0), pu_base64 := (\<lambda>_. replicate 44 (CHR ''A'')),
     pu_base64_url := (\<lambda>_. replicate 43 (CHR ''A''))\<rparr>"

lemma exact_sent:
  "\<exists>request. fst (send_enrollment exact_env sample_io sample_transport sample_enrollment ''v'' 0 1 [0] 64) = [Resolved ''a'', Sent request]
     \<and> og_headers request = callback_headers exact_env ''e'' ''v'' 0 1 ''k'' (''v1,hmac-sha256='' @ replicate 43 (CHR ''A'')) [0]
     \<and> og_body request = [0]"
proof -
  have e: "enr_url sample_enrollment = sample_url" "enr_endpoint_id sample_enrollment = ''e''" "enr_key_generation sample_enrollment = ''k''"
    "enr_secret_file sample_enrollment = ''/key''" "enr_ca_file sample_enrollment = None"
    "enr_mtls_cert_file sample_enrollment = None" "enr_mtls_key_file sample_enrollment = None"
    by (simp_all add: sample_enrollment_def sample_raw_enrollment_def enroll_def)
  have "local_material exact_env sample_enrollment 1 [0] 64 = Inr (replicate 32 0, None, None)"
    by (simp add: local_material_def load_signer_def read_private_file_def load_roots_def load_identity_def mtls_files_def e exact_env_def
        sample_hash_env_def sample_env_def path_is_absolute_def starts_with_def callback_signer_new_def ensure_def ok_or_def map_err_def)
  moreover have "is_ok (resolve_attempt sample_io sample_transport sample_url)"
    using sample_attempt by (auto simp: send_enrollment_def sample_material e is_ok_iff split: sum.splits)
  moreover have "cu_host sample_url = ''a''" by (simp add: sample_url_def)
  ultimately show ?thesis
    by (auto simp: send_enrollment_def Let_def e is_ok_iff sample_io_def signer_sign_def exact_env_def)
qed


definition failing_cycle :: "callback_db cycle" where
  "failing_cycle =
     \<lparr>cy_stop = False, cy_claim = sample_world, cy_tokens = (\<lambda>_. ''n''), cy_halt = (\<lambda>_. False), cy_lease = (\<lambda>_. sample_world),
      cy_pause_stop = False\<rparr>"

text \<open>A store without a callback policy refuses every claim.\<close>

lemma failing_run:
  "\<exists>st. run_worker sample_env sample_push_policy (sqlite_authority sample_env None) sample_accept ''w-0'' (replicate 6 failing_cycle)
       (sample_leased_db 100) = Some (WorkerGaveUp, st)"
proof -
  have cycle: "run_cycle sample_env sample_push_policy (sqlite_authority sample_env None) sample_accept claim duration failing_cycle st
     = Some (if 5 \<le> min 255 (lp_errors st + 1) then WorkerGaveUp else WorkerRunning,
         st\<lparr>lp_errors := min 255 (lp_errors st + 1), lp_effects := lp_effects st @ [ClaimCalled, ClaimReturned False],
            lp_marks := lp_marks st @ (if 5 \<le> min 255 (lp_errors st + 1) then [MarkFatal] else [])\<rparr>)" for claim duration st
    by (simp add: run_cycle_def Let_def failing_cycle_def call_authority_def sample_world_def sqlite_authority_def
        claim_callback_deliveries_def ok_or_def)
  have "\<exists>st. run_cycles sample_env sample_push_policy (sqlite_authority sample_env None) sample_accept claim duration
      (replicate 6 failing_cycle) (loop_start s) = Some (WorkerGaveUp, st)" for claim duration s
    by (simp add: numeral_eq_Suc cycle loop_start_def)
  moreover have "is_ok (delivery_claim_command_new ''w-0'' 1000 8)"
    by (simp add: delivery_claim_command_new_def callback_valid_id_def text_simps)
  ultimately show ?thesis
    by (auto simp: run_worker_def lease_duration_new_def sample_push_policy_def sample_limits_def is_ok_iff)
qed

theorem worker_supervision_witness:
  "\<exists>st. run_worker sample_env sample_push_policy (sqlite_authority sample_env None) sample_accept ''w-0'' (replicate 6 failing_cycle)
       (sample_leased_db 100) = Some (WorkerGaveUp, st)
     \<and> trailing_failures (claims (lp_effects st)) = 5 \<and> MarkFatal \<in> set (lp_marks st)"
proof -
  obtain st where run: "run_worker sample_env sample_push_policy (sqlite_authority sample_env None) sample_accept ''w-0''
      (replicate 6 failing_cycle) (sample_leased_db 100) = Some (WorkerGaveUp, st)"
    using failing_run by blast
  have spawn: "spawn_workers sample_push_policy ''w'' readiness_new = (Inr [''w-0'', ''w-1''], readiness_new\<lparr>pr_expected_workers := 2\<rparr>)"
  proof -
    have "show_nat 0 = ''0''" "show_nat (Suc 0) = ''1''" by (simp_all add: show_nat.simps char_of_def bit_0)
    then show ?thesis
      by (simp add: spawn_workers_def sample_push_policy_def sample_limits_def owner_prefix_ok_def configure_workers_def readiness_new_def
          text_simps upt_rec numeral_2_eq_2)
  qed
  have "''w-0'' \<in> set [''w-0'', ''w-1'']" by simp
  from worker_supervision[OF sample_policy_accepted spawn this run]
  have "WorkerGaveUp = WorkerGaveUp \<longleftrightarrow> trailing_failures (claims (lp_effects st)) = 5"
    "lp_marks st = (if True \<in> set (claims (lp_effects st)) then [MarkWorkerReady] else [])
       @ (if WorkerGaveUp = WorkerGaveUp then [MarkFatal] else [])" by blast+
  then have "trailing_failures (claims (lp_effects st)) = 5" "MarkFatal \<in> set (lp_marks st)" by simp_all
  then show ?thesis using run by blast
qed

end
