(* ===== verification/Callback_Paging.thy ===== *)
theory Callback_Paging
  imports Callback_Guarantees
begin

text \<open>
  Paging through the callback configurations of a task (\<open>list_callback_configs\<close> and the page tokens of
  \<^verbatim>\<open>src/sqlite_store.rs\<close> and \<^verbatim>\<open>src/fuzzing.rs\<close>). A token is the key of the last configuration of a page
  under a MAC; following the tokens lists every configuration once, also when the table changes
  between two pages.
\<close>

section \<open>Text that is split again\<close>

lemma split_on_plain: "d \<notin> set a \<Longrightarrow> split_on d a = [a]"
  by (induction a) auto

lemma split_on_join: "d \<notin> set a \<Longrightarrow> split_on d (a @ d # b) = a # split_on d b"
  by (induction a) auto

lemma digits_value_append: "digits_value (s @ [c]) = 10 * digits_value s + (of_char c - 48)"
  by (simp add: digits_value_def)

lemma digits_value_show_nat: "digits_value (show_nat n) = n"
proof (induction n rule: show_nat.induct)
  case (1 n)
  have digit: "of_char (char_of (48 + m) :: char) - 48 = m" if "m < 10" for m :: nat using that by simp
  show ?case
  proof (cases "n < 10")
    case True
    then show ?thesis using digit[OF True] by (subst show_nat.simps) (simp add: digits_value_def)
  next
    case False
    have "digits_value (show_nat n) = 10 * digits_value (show_nat (n div 10)) + (of_char (char_of (48 + n mod 10) :: char) - 48)"
      using False by (subst show_nat.simps) (simp only: digits_value_append if_False)
    then show ?thesis using 1 False digit[of "n mod 10"] by simp
  qed
qed

lemma show_nat_head: "show_nat n \<noteq> []" "hd (show_nat n) \<noteq> CHR ''-''" "hd (show_nat n) \<noteq> CHR ''+''"
proof -
  show "show_nat n \<noteq> []" by (rule show_nat_nonempty)
  then have "is_ascii_digit (hd (show_nat n))" using show_nat_chars[of n] by (cases "show_nat n") simp_all
  then show "hd (show_nat n) \<noteq> CHR ''-''" "hd (show_nat n) \<noteq> CHR ''+''" by (auto simp: text_simps)
qed

lemma parse_show_int:
  assumes "- i64_max \<le> i" "i \<le> i64_max"
  shows "parse_i64 (show_int i) = Some i"
proof (cases "i < 0")
  case True
  then have "show_int i = CHR ''-'' # show_nat (nat (- i))" by (simp add: show_int_def)
  then show ?thesis
    using True assms show_nat_nonempty show_nat_chars[of "nat (- i)"]
    by (simp add: parse_i64_def digits_value_show_nat i64_max_def Let_def)
next
  case False
  obtain c cs where s: "show_nat (nat i) = c # cs" using show_nat_nonempty by (cases "show_nat (nat i)") auto
  have "c \<noteq> CHR ''-''" "c \<noteq> CHR ''+''" using show_nat_head[of "nat i"] by (simp_all add: s)
  then have "(case show_nat (nat i) of CHR ''-'' # r \<Rightarrow> True | _ \<Rightarrow> False) = False"
    "(case show_nat (nat i) of CHR ''-'' # r \<Rightarrow> r | CHR ''+'' # r \<Rightarrow> r | _ \<Rightarrow> show_nat (nat i)) = show_nat (nat i)"
    by (auto simp: s split: char.splits bool.splits)
  then show ?thesis
    using False assms show_nat_nonempty show_nat_chars[of "nat i"]
    by (simp add: parse_i64_def digits_value_show_nat i64_max_def Let_def show_int_def)
qed

lemma length_show_nat: "n < 10 ^ Suc k \<Longrightarrow> length (show_nat n) \<le> Suc k"
proof (induction k arbitrary: n)
  case (Suc k)
  have "n div 10 < 10 ^ Suc k" using Suc.prems by (simp add: less_mult_imp_div_less mult.commute)
  then have "length (show_nat (n div 10)) \<le> Suc k" by (rule Suc.IH)
  then show ?case by (subst show_nat.simps) simp
qed (subst show_nat.simps, simp)

section \<open>Page tokens\<close>

text \<open>What base64, UTF-8 and HMAC-SHA256 promise.\<close>

definition token_laws :: "push_env \<Rightarrow> bool" where
  "token_laws E \<longleftrightarrow>
     (\<forall>b. pu_base64_url_decode E (pu_base64_url E b) = Some b \<and> CHR ''.'' \<notin> set (pu_base64_url E b) \<and> is_ascii (pu_base64_url E b)
        \<and> (b \<noteq> [] \<longrightarrow> pu_base64_url E b \<noteq> []) \<and> length (pu_base64_url E b) \<le> 2 * length b)
     \<and> (\<forall>s. is_ascii s \<longrightarrow> pu_utf8 E (ascii s) = Some s) \<and> (\<forall>k m. length (pu_hmac E k m) = 32)"

lemma valid_id_chars: "callback_valid_id s \<Longrightarrow> CHR 0x1F \<notin> set s \<and> is_ascii s \<and> length s \<le> 128 \<and> s \<noteq> []"
  by (auto simp: callback_valid_id_def list_all_iff text_simps)

lemma show_int_chars: "CHR 0x1F \<notin> set (show_int i) \<and> is_ascii (show_int i)"
proof -
  have "CHR 0x1F \<notin> set (show_nat n) \<and> is_ascii (show_nat n)" for n
    using show_nat_chars[of n] by (auto simp: list_all_iff text_simps is_ascii_def in_range_def is_ascii_digit_def)
  then show ?thesis by (simp add: show_int_def is_ascii_def)
qed

lemma token_payload_facts:
  assumes "callback_valid_id tenant" "callback_valid_id task" "callback_valid_id cid" "0 < created" "created \<le> i64_max"
  shows "split_on (CHR 0x1F) (token_payload tenant task created cid) = [''1'', tenant, task, show_int created, cid]"
    "is_ascii (token_payload tenant task created cid)" "length (token_payload tenant task created cid) \<le> 430"
proof -
  note ids = valid_id_chars[OF assms(1)] valid_id_chars[OF assms(2)] valid_id_chars[OF assms(3)]
  show "split_on (CHR 0x1F) (token_payload tenant task created cid) = [''1'', tenant, task, show_int created, cid]"
    using ids show_int_chars[of created] by (simp add: token_payload_def split_on_join split_on_plain)
  show "is_ascii (token_payload tenant task created cid)"
    using ids show_int_chars[of created] by (simp add: token_payload_def is_ascii_def)
  have "nat created < 10 ^ Suc 18" using assms(4,5) by (simp add: i64_max_def)
  then have "length (show_int created) \<le> 19" using length_show_nat[of "nat created" 18] assms(4) by (simp add: show_int_def)
  then show "length (token_payload tenant task created cid) \<le> 430" using ids by (simp add: token_payload_def)
qed

lemma token_parse:
  assumes laws: "token_laws E" and ids: "callback_valid_id tenant" "callback_valid_id task" "callback_valid_id cid"
    and created: "0 < created" "created \<le> i64_max"
  shows "parse_callback_page_token E key (make_callback_page_token E key tenant task created cid) tenant' task'
       = (if tenant' = tenant \<and> task' = task then Some (created, cid) else None)"
    "token_text_ok (Some (make_callback_page_token E key tenant task created cid))"
proof -
  note payload = token_payload_facts[OF ids created]
  define body where "body = ascii (token_payload tenant task created cid)"
  define mac where "mac = token_mac E key body"
  have token: "make_callback_page_token E key tenant task created cid = pu_base64_url E body @ ''.'' @ pu_base64_url E mac"
    by (simp add: make_callback_page_token_def Let_def body_def mac_def)
  have body: "body \<noteq> []" "length body \<le> 430" using payload(3) by (simp_all add: body_def token_payload_def ascii_def)
  have mac: "length mac = 32" using laws by (simp add: mac_def token_mac_def token_laws_def)
  have code: "pu_base64_url_decode E (pu_base64_url E b) = Some b" "CHR ''.'' \<notin> set (pu_base64_url E b)" "is_ascii (pu_base64_url E b)"
    "b \<noteq> [] \<Longrightarrow> pu_base64_url E b \<noteq> []" "length (pu_base64_url E b) \<le> 2 * length b" for b
    using laws unfolding token_laws_def by blast+
  have utf8: "pu_utf8 E body = Some (token_payload tenant task created cid)" using laws payload(2) by (simp add: token_laws_def body_def)
  have len: "length (pu_base64_url E body @ ''.'' @ pu_base64_url E mac) \<le> 4096"
    using code(5)[of body] code(5)[of mac] body(2) mac by simp
  have "mac \<noteq> []" using mac by (cases mac) simp_all
  then have nonempty: "pu_base64_url E body \<noteq> []" "pu_base64_url E mac \<noteq> []" using code(4) body(1) by blast+
  have split: "split_on (CHR ''.'') (pu_base64_url E body @ ''.'' @ pu_base64_url E mac) = [pu_base64_url E body, pu_base64_url E mac]"
    using code(2) by (simp add: split_on_join split_on_plain)
  have id: "cid \<noteq> []" using valid_id_chars[OF ids(3)] by blast
  have "- i64_max \<le> created" using created(1) by (simp add: i64_max_def)
  note int = parse_show_int[OF this created(2)]
  show "parse_callback_page_token E key (make_callback_page_token E key tenant task created cid) tenant' task'
       = (if tenant' = tenant \<and> task' = task then Some (created, cid) else None)"
    unfolding parse_callback_page_token_def token split using nonempty len mac
    by (simp add: code(1) utf8 payload(1) int id mac_def[symmetric])
  show "token_text_ok (Some (make_callback_page_token E key tenant task created cid))"
    using len code(3) by (simp add: token_text_ok_def token is_ascii_def)
qed

section \<open>Pages\<close>

definition config_listed :: "config_list_command \<Rightarrow> callback_db \<Rightarrow> config_row \<Rightarrow> bool" where
  "config_listed c db r \<longleftrightarrow>
     r \<in> set (db_configs db) \<and> cg_tenant r = ots_tenant_scope (clc_scope c) \<and> cg_task r = clc_task_id c \<and> cg_state r \<noteq> ConfigRevoked
     \<and> task_visible db (clc_scope c) (clc_task_id c) (\<lambda>_. True)"

definition row_position :: "config_row \<Rightarrow> int \<times> string" where
  "row_position r = (cg_created r, cg_config r)"

definition config_position :: "callback_config \<Rightarrow> int \<times> string" where
  "config_position c = (ccf_created_at c, ccf_config_id c)"

text \<open>The rows of one page and those behind it.\<close>

definition rows_after :: "config_list_command \<Rightarrow> callback_db \<Rightarrow> int \<times> string \<Rightarrow> config_row list" where
  "rows_after c db after = sort_key row_position (filter (\<lambda>r. config_listed c db r \<and> after < row_position r) (db_configs db))"

definition starts_after :: "push_env \<Rightarrow> byte list \<Rightarrow> config_list_command \<Rightarrow> int \<times> string \<Rightarrow> bool" where
  "starts_after E key c after \<longleftrightarrow>
     (case clc_page_token c of
        None \<Rightarrow> after = (0, [])
      | Some token \<Rightarrow> parse_callback_page_token E key token (ots_tenant_scope (clc_scope c)) (clc_task_id c) = Some after)"

text \<open>Reading page after page, each from the store as it is then; whether the last page was reached.\<close>

fun page_through :: "push_env \<Rightarrow> byte list \<Rightarrow> config_list_command \<Rightarrow> callback_store list \<Rightarrow> a2a_error + (callback_config list \<times> bool)" where
  "page_through E key c [] = Inr ([], False)"
| "page_through E key c (st # sts) =
     and_then (list_callback_configs E key c st) (\<lambda>page.
       case ccp_next_page_token page of
         None \<Rightarrow> Inr (ccp_configs page, True)
       | Some token \<Rightarrow>
           and_then (page_through E key (c\<lparr>clc_page_token := Some token\<rparr>) sts) (\<lambda>(rest, complete).
             Inr (ccp_configs page @ rest, complete)))"

lemma config_of_row_facts:
  assumes "config_of_row r = Inr c"
  shows "config_position c = row_position r" "callback_valid_id (cg_tenant r)" "callback_valid_id (cg_task r)"
    "callback_valid_id (cg_config r)" "0 < cg_created r"
  using assms
  by (auto simp: config_of_row_def callback_config_id_new_def callback_config_new_def callback_config_ok_def config_position_def
      row_position_def result_simps split: if_splits)

lemma rows_after_sorted:
  assumes "distinct (map config_key (db_configs db))"
  shows "sorted_wrt (<) (map row_position (rows_after c db after))"
    "r \<in> set (rows_after c db after) \<longleftrightarrow> config_listed c db r \<and> after < row_position r"
proof -
  let ?rows = "filter (\<lambda>r. config_listed c db r \<and> after < row_position r) (db_configs db)"
  have "distinct (map config_key ?rows)" using assms by (simp add: distinct_map_filter)
  moreover have "config_key r = config_key r'" if "r \<in> set ?rows" "r' \<in> set ?rows" "row_position r = row_position r'" for r r'
    using that by (auto simp: config_listed_def row_position_def config_key_def)
  ultimately have "distinct (map row_position ?rows)"
    unfolding distinct_map inj_on_def by blast
  then have "distinct (map row_position (rows_after c db after))" unfolding rows_after_def by (simp add: distinct_map)
  moreover have "sorted (map row_position (rows_after c db after))" by (simp add: rows_after_def)
  ultimately show "sorted_wrt (<) (map row_position (rows_after c db after))" by (simp add: strict_sorted_iff)
  show "r \<in> set (rows_after c db after) \<longleftrightarrow> config_listed c db r \<and> after < row_position r"
    by (auto simp: rows_after_def config_listed_def)
qed

lemma list_page:
  assumes "list_callback_configs E key c st = Inr page" "starts_after E key c after"
  defines "rows \<equiv> rows_after c (cs_db st) after"
  shows "collect_res config_of_row (take (clc_page_size c) rows) = Inr (ccp_configs page)"
    "ccp_next_page_token page = (if clc_page_size c < length rows
       then Some (make_callback_page_token E key (ots_tenant_scope (clc_scope c)) (clc_task_id c)
         (ccf_created_at (last (ccp_configs page))) (ccf_config_id (last (ccp_configs page)))) else None)"
proof -
  let ?tenant = "ots_tenant_scope (clc_scope c)"
  have start: "(case clc_page_token c of None \<Rightarrow> Inr (0, [])
      | Some token \<Rightarrow> ok_or (parse_callback_page_token E key token ?tenant (clc_task_id c)) (invalid_request ''invalid callback page token''))
      = Inr after"
    using assms(2) by (auto simp: starts_after_def ok_or_def split: option.splits)
  have rows: "sort_key (\<lambda>r. (cg_created r, cg_config r)) (filter (\<lambda>r. cg_tenant r = ?tenant \<and> cg_task r = clc_task_id c \<and> cg_state r \<noteq> ConfigRevoked
      \<and> task_visible (cs_db st) (clc_scope c) (clc_task_id c) (\<lambda>_. True) \<and> after < (cg_created r, cg_config r)) (db_configs (cs_db st))) = rows"
    unfolding rows_def rows_after_def row_position_def config_listed_def by (auto intro!: arg_cong2[where f = sort_key] filter_cong)
  have run: "and_then (collect_res config_of_row (take (clc_page_size c) (take (clc_page_size c + 1) rows))) (\<lambda>configs.
        callback_config_page_new configs
          (if clc_page_size c < length (take (clc_page_size c + 1) rows)
           then Some (make_callback_page_token E key ?tenant (clc_task_id c) (ccf_created_at (last configs)) (ccf_config_id (last configs)))
           else None)) = Inr page"
  proof -
    have "cs_policy st \<noteq> None" using assms(1) by (auto simp: list_callback_configs_def Let_def result_simps)
    then have "ensure (cs_policy st \<noteq> None) push_notification_not_supported = Inr ()" by (simp add: ensure_def)
    then show ?thesis using assms(1) by (simp only: list_callback_configs_def Let_def start and_then_simps rows)
  qed
  then show "collect_res config_of_row (take (clc_page_size c) rows) = Inr (ccp_configs page)"
    "ccp_next_page_token page = (if clc_page_size c < length rows
       then Some (make_callback_page_token E key ?tenant (clc_task_id c)
         (ccf_created_at (last (ccp_configs page))) (ccf_config_id (last (ccp_configs page)))) else None)"
    by (auto simp: result_simps callback_config_page_new_def split: if_splits)
qed

lemma config_listed_token [simp]: "config_listed (c\<lparr>clc_page_token := t\<rparr>) = config_listed c"
  by (simp add: fun_eq_iff config_listed_def)

lemma page_positions:
  assumes "collect_res config_of_row rows = Inr configs"
  shows "map config_position configs = map row_position rows" "x \<in> set configs \<Longrightarrow> \<exists>r\<in>set rows. config_of_row r = Inr x"
proof -
  have all: "list_all2 (\<lambda>r x. config_of_row r = Inr x) rows configs" using assms by (simp add: result_simps)
  then show "map config_position configs = map row_position rows"
    by (induction rule: list_all2_induct) (simp_all add: config_of_row_facts(1))
  from all have "\<forall>x\<in>set configs. \<exists>r\<in>set rows. config_of_row r = Inr x" by (induction rule: list_all2_induct) auto
  then show "x \<in> set configs \<Longrightarrow> \<exists>r\<in>set rows. config_of_row r = Inr x" by blast
qed

text \<open>A page that has a successor: its token continues behind its last row, and no row is between.\<close>

lemma page_continues:
  assumes laws: "token_laws E" and store: "distinct (map config_key (db_configs db))"
    "\<And>r. r \<in> set (db_configs db) \<Longrightarrow> cg_created r \<le> i64_max"
    and rows: "rows = rows_after c db after" "0 < n" "n < length rows"
    and configs: "collect_res config_of_row (take n rows) = Inr configs"
  shows "parse_callback_page_token E key (make_callback_page_token E key (ots_tenant_scope (clc_scope c)) (clc_task_id c)
       (ccf_created_at (last configs)) (ccf_config_id (last configs))) (ots_tenant_scope (clc_scope c)) (clc_task_id c)
       = Some (config_position (last configs))"
    "configs \<noteq> []" "r \<in> set rows \<Longrightarrow> row_position r \<le> config_position (last configs) \<Longrightarrow> r \<in> set (take n rows)"
proof -
  note positions = page_positions[OF configs]
  have "length configs = n" using arg_cong[OF positions(1), of length] rows(3) by simp
  then show ne: "configs \<noteq> []" using rows(2) by auto
  then obtain r0 where r0: "r0 \<in> set (take n rows)" "config_of_row r0 = Inr (last configs)" using positions(2)[of "last configs"] by auto
  note facts = config_of_row_facts[OF r0(2)]
  have "config_listed c db r0" using r0(1) rows(1) rows_after_sorted(2)[OF store(1)] by (meson in_set_takeD)
  then have row: "cg_tenant r0 = ots_tenant_scope (clc_scope c)" "cg_task r0 = clc_task_id c" "cg_created r0 \<le> i64_max"
    using store(2) by (simp_all add: config_listed_def)
  have pos: "ccf_created_at (last configs) = cg_created r0" "ccf_config_id (last configs) = cg_config r0"
    using facts(1) by (simp_all add: config_position_def row_position_def)
  show "parse_callback_page_token E key (make_callback_page_token E key (ots_tenant_scope (clc_scope c)) (clc_task_id c)
       (ccf_created_at (last configs)) (ccf_config_id (last configs))) (ots_tenant_scope (clc_scope c)) (clc_task_id c)
       = Some (config_position (last configs))"
    using token_parse(1)[OF laws facts(2,3,4,5) row(3), of key "cg_tenant r0" "cg_task r0"] by (simp add: pos row config_position_def)
  assume r: "r \<in> set rows" "row_position r \<le> config_position (last configs)"
  show "r \<in> set (take n rows)"
  proof (rule ccontr)
    assume "r \<notin> set (take n rows)"
    then have "r \<in> set (drop n rows)" using r(1) by (metis Un_iff append_take_drop_id set_append)
    moreover have "sorted_wrt (<) (map row_position (take n rows) @ map row_position (drop n rows))"
      using rows_after_sorted(1)[OF store(1), of c after, folded rows(1)] by (metis append_take_drop_id map_append)
    ultimately have "row_position r0 < row_position r" using r0(1) by (simp add: sorted_wrt_append)
    then show False using r(2) facts(1) by simp
  qed
qed

lemma sorted_last: "sorted_wrt (<) (map f xs) \<Longrightarrow> x \<in> set xs \<Longrightarrow> f x \<le> f (last xs)" for f :: "'a \<Rightarrow> 'b :: linorder"
  by (induction xs rule: rev_induct) (auto simp: sorted_wrt_append less_imp_le)

text \<open>The primary key of the table, and times that fit an \<open>i64\<close>.\<close>

definition configs_keyed :: "callback_store \<Rightarrow> bool" where
  "configs_keyed st \<longleftrightarrow>
     distinct (map config_key (db_configs (cs_db st)))
     \<and> list_all (\<lambda>r. 0 < cg_created r \<and> cg_created r \<le> i64_max) (db_configs (cs_db st))"

lemma page_through_run:
  assumes "token_laws E" "0 < clc_page_size c" "list_all configs_keyed sts" "starts_after E key c after"
    "page_through E key c sts = Inr (configs, complete)"
  shows "sorted_wrt (<) (map config_position configs)
     \<and> (\<forall>x\<in>set configs. after < config_position x \<and> (\<exists>st\<in>set sts. \<exists>r. config_listed c (cs_db st) r \<and> config_of_row r = Inr x))
     \<and> (complete \<longrightarrow> (\<forall>k. after < k \<longrightarrow> (\<forall>st\<in>set sts. \<exists>r. config_listed c (cs_db st) r \<and> row_position r = k)
          \<longrightarrow> k \<in> config_position ` set configs))"
  using assms
proof (induction sts arbitrary: c after configs)
  case (Cons st sts)
  define rows where "rows = rows_after c (cs_db st) after"
  define n where "n = clc_page_size c"
  obtain page where page: "list_callback_configs E key c st = Inr page" using Cons.prems(5) by (auto simp: result_simps)
  have store: "distinct (map config_key (db_configs (cs_db st)))" "\<And>r. r \<in> set (db_configs (cs_db st)) \<Longrightarrow> cg_created r \<le> i64_max"
    using Cons.prems(3) by (auto simp: configs_keyed_def list_all_iff)
  note lp = list_page[OF page Cons.prems(4), folded rows_def n_def]
  have sorted: "sorted_wrt (<) (map row_position rows)" using rows_after_sorted(1) store(1) by (simp add: rows_def)
  have member: "r \<in> set rows \<longleftrightarrow> config_listed c (cs_db st) r \<and> after < row_position r" for r
    using rows_after_sorted(2) store(1) by (simp add: rows_def)
  note positions = page_positions[OF lp(1)]
  have here: "sorted_wrt (<) (map config_position (ccp_configs page))"
    using sorted unfolding positions(1) take_map[symmetric] by (rule sorted_wrt_take)
  have from_here: "after < config_position x \<and> (\<exists>r. config_listed c (cs_db st) r \<and> config_of_row r = Inr x)" if x: "x \<in> set (ccp_configs page)" for x
  proof -
    obtain r where "r \<in> set (take n rows)" "config_of_row r = Inr x" using positions(2)[OF x] by blast
    then show ?thesis using member config_of_row_facts(1) by (metis in_set_takeD)
  qed
  show ?case
  proof (cases "n < length rows")
    case False
    then have last: "configs = ccp_configs page" using Cons.prems(5) page lp(2) by simp
    have "k \<in> config_position ` set (ccp_configs page)" if "after < k" "\<exists>r. config_listed c (cs_db st) r \<and> row_position r = k" for k
    proof -
      have "k \<in> row_position ` set rows" using that member by blast
      then show ?thesis using False arg_cong[OF positions(1), of set] by simp
    qed
    then show ?thesis using here from_here last by simp
  next
    case True
    note next_page = page_continues[OF Cons.prems(1) store(1) store(2) rows_def _ True lp(1)]
    let ?c = "c\<lparr>clc_page_token := ccp_next_page_token page\<rparr>"
    obtain rest where rest: "page_through E key ?c sts = Inr (rest, complete)" "configs = ccp_configs page @ rest"
      using Cons.prems(5) page lp(2) True by (auto simp: result_simps)
    let ?l = "config_position (last (ccp_configs page))"
    have pos: "0 < n" using Cons.prems(2) by (simp add: n_def)
    have start: "starts_after E key ?c ?l" using next_page(1) pos lp(2) True by (simp add: starts_after_def)
    have ih: "sorted_wrt (<) (map config_position rest)"
      "\<forall>x\<in>set rest. ?l < config_position x \<and> (\<exists>st\<in>set sts. \<exists>r. config_listed c (cs_db st) r \<and> config_of_row r = Inr x)"
      "complete \<longrightarrow> (\<forall>k. ?l < k \<longrightarrow> (\<forall>st\<in>set sts. \<exists>r. config_listed c (cs_db st) r \<and> row_position r = k) \<longrightarrow> k \<in> config_position ` set rest)"
    proof -
      have "0 < clc_page_size ?c" "list_all configs_keyed sts" using Cons.prems(2,3) by simp_all
      from Cons.IH[OF Cons.prems(1) this start rest(1), unfolded config_listed_token]
      show "sorted_wrt (<) (map config_position rest)"
        "\<forall>x\<in>set rest. ?l < config_position x \<and> (\<exists>st\<in>set sts. \<exists>r. config_listed c (cs_db st) r \<and> config_of_row r = Inr x)"
        "complete \<longrightarrow> (\<forall>k. ?l < k \<longrightarrow> (\<forall>st\<in>set sts. \<exists>r. config_listed c (cs_db st) r \<and> row_position r = k)
           \<longrightarrow> k \<in> config_position ` set rest)" by blast+
    qed
    have ne: "ccp_configs page \<noteq> []" using next_page(2) pos by simp
    have upto: "config_position x \<le> ?l" if "x \<in> set (ccp_configs page)" for x using sorted_last[OF here that] .
    have "a < b" if ab: "a \<in> set (map config_position (ccp_configs page))" "b \<in> set (map config_position rest)" for a b
    proof -
      obtain x y where "a = config_position x" "x \<in> set (ccp_configs page)" "b = config_position y" "y \<in> set rest" using ab unfolding set_map by blast
      then show ?thesis using upto[of x] ih(2) by (metis le_less_trans)
    qed
    then have "sorted_wrt (<) (map config_position configs)" using here ih(1) unfolding rest(2) map_append sorted_wrt_append by blast
    moreover have "after < config_position x \<and> (\<exists>st\<in>set (st # sts). \<exists>r. config_listed c (cs_db st) r \<and> config_of_row r = Inr x)"
      if "x \<in> set configs" for x
    proof (cases "x \<in> set (ccp_configs page)")
      case True
      then show ?thesis using from_here by simp
    next
      case False
      then have "x \<in> set rest" using that rest(2) by simp
      moreover have "after < ?l" using from_here ne by simp
      ultimately show ?thesis using ih(2) less_trans[of after ?l] by (meson list.set_intros(2))
    qed
    moreover have "k \<in> config_position ` set configs"
      if k: "complete" "after < k" "\<forall>st\<in>set (st # sts). \<exists>r. config_listed c (cs_db st) r \<and> row_position r = k" for k
    proof (cases "k \<le> ?l")
      case le: True
      obtain r where r: "r \<in> set rows" "row_position r = k" using k(2,3) member by (metis list.set_intros(1))
      then have "r \<in> set (take n rows)" using next_page(3) pos le by blast
      then have "k \<in> row_position ` set (take n rows)" using r(2) by blast
      then have "k \<in> config_position ` set (ccp_configs page)" using arg_cong[OF positions(1), of set] by simp
      then show ?thesis unfolding rest(2) by auto
    next
      case False
      then have "?l < k" by simp
      then have "k \<in> config_position ` set rest" using ih(3) k(1,3) by (meson list.set_intros(2))
      then show ?thesis unfolding rest(2) by (simp add: image_Un)
    qed
    ultimately show ?thesis by blast
  qed
qed simp

text \<open>
  C29. A page token reads back as the position it was made for, for the same tenant and task, and for no
  other; it is short enough to be accepted as a request parameter.
\<close>

theorem page_token_round_trip:
  assumes "token_laws E" "callback_valid_id tenant" "callback_valid_id task" "callback_valid_id cid" "0 < created" "created \<le> i64_max"
  shows "parse_callback_page_token E key (make_callback_page_token E key tenant task created cid) tenant' task'
       = (if tenant' = tenant \<and> task' = task then Some (created, cid) else None)
     \<and> is_ok (config_list_command_new \<lparr>clc_scope = scope, clc_task_id = task, clc_page_size = n,
          clc_page_token = Some (make_callback_page_token E key tenant task created cid)\<rparr>)"
  using token_parse[OF assms, of key] assms(3) by (simp add: config_list_command_new_def)

text \<open>
  C30. Paging through the callback configurations of a task lists them in order and none twice, and only
  configurations that the table had and the caller could see; when the last page is reached, every
  configuration that was in the table at each page request has been listed, whatever was created,
  deleted or changed in between.
\<close>

theorem config_pages_complete:
  assumes "token_laws E" "0 < clc_page_size c" "clc_page_token c = None" "list_all configs_keyed sts"
    "page_through E key c sts = Inr (configs, complete)"
  shows "sorted_wrt (<) (map config_position configs)
     \<and> (x \<in> set configs \<longrightarrow> (\<exists>st\<in>set sts. \<exists>r. config_listed c (cs_db st) r \<and> config_of_row r = Inr x))
     \<and> (complete \<and> sts \<noteq> [] \<and> (\<forall>st\<in>set sts. \<exists>r. config_listed c (cs_db st) r \<and> row_position r = k)
          \<longrightarrow> k \<in> config_position ` set configs)"
proof -
  have start: "starts_after E key c (0, [])" using assms(3) by (simp add: starts_after_def)
  note run = page_through_run[OF assms(1,2,4) start assms(5)]
  have "(0, []) < k" if k: "sts \<noteq> []" "\<forall>st\<in>set sts. \<exists>r. config_listed c (cs_db st) r \<and> row_position r = k"
  proof -
    obtain r where "config_listed c (cs_db (hd sts)) r" "row_position r = k" using k by (meson hd_in_set)
    moreover from this have "0 < cg_created r"
      using assms(4) hd_in_set[OF k(1)] unfolding configs_keyed_def list_all_iff config_listed_def by blast
    ultimately show ?thesis by (auto simp: row_position_def)
  qed
  then show ?thesis using run by blast
qed

section \<open>Witnesses\<close>

text \<open>A text encoding with two letters for each byte in place of base64.\<close>

definition letters :: "byte list \<Rightarrow> string" where
  "letters bs = concat (map (\<lambda>b. [char_of (97 + unat b div 16), char_of (97 + unat b mod 16)]) bs)"

fun unletters :: "string \<Rightarrow> byte list option" where
  "unletters [] = Some []"
| "unletters [c] = None"
| "unletters (c # d # s) = map_option (\<lambda>bs. word_of_nat (16 * (of_char c - 97) + (of_char d - 97)) # bs) (unletters s)"

definition paging_env :: push_env where
  "paging_env = sample_env\<lparr>pu_base64_url := letters, pu_base64_url_decode := unletters, pu_hmac := (\<lambda>_ _. replicate 32 0)\<rparr>"

lemma paging_laws: "token_laws paging_env"
proof -
  have byte: "unat b div 16 < 16" "unat b mod 16 < 16" for b :: byte
    using unsigned_less[of b, where ?'a = nat] by (simp_all add: less_mult_imp_div_less)
  have letter: "of_char (char_of (97 + n) :: char) = 97 + n" "char_of (97 + n) \<noteq> CHR ''.''" if "n < 16" for n :: nat
  proof -
    show v: "of_char (char_of (97 + n) :: char) = 97 + n" using that by simp
    show "char_of (97 + n) \<noteq> CHR ''.''"
    proof
      assume "char_of (97 + n) = CHR ''.''"
      then have "of_char (char_of (97 + n) :: char) = (46 :: nat)" by simp
      then show False using v by simp
    qed
  qed
  have whole: "word_of_nat (16 * (of_char (char_of (97 + unat b div 16) :: char) - 97) + (of_char (char_of (97 + unat b mod 16) :: char) - 97)) = b"
    for b :: byte
    unfolding letter(1)[OF byte(1)] letter(1)[OF byte(2)] by (simp only: add_diff_cancel_left' mult_div_mod_eq of_nat_unat ucast_id)
  have "unletters (letters bs) = Some bs" for bs
    by (induction bs) (simp_all only: letters_def list.map concat.simps append.simps unletters.simps whole option.map)
  moreover have "CHR ''.'' \<notin> set (letters bs) \<and> is_ascii (letters bs) \<and> (bs \<noteq> [] \<longrightarrow> letters bs \<noteq> []) \<and> length (letters bs) \<le> 2 * length bs" for bs
  proof (induction bs)
    case (Cons b bs)
    have "of_char (char_of (97 + n) :: char) < (128 :: nat)" if "n < 16" for n :: nat using letter(1)[OF that] that by simp
    then show ?case using Cons letter(2)[OF byte(1)[of b]] letter(2)[OF byte(2)[of b]] byte[of b]
      by (simp add: letters_def is_ascii_def)
  qed (simp add: letters_def is_ascii_def)
  moreover have "map (\<lambda>b. char_of (unat b)) (ascii s) = s" for s
    by (induction s) (simp_all add: ascii_def byte_of_char_def unat_of_nat)
  ultimately show ?thesis by (simp add: token_laws_def paging_env_def sample_env_def)
qed

theorem page_token_witness:
  "parse_callback_page_token paging_env [] (make_callback_page_token paging_env [] ''t'' ''k'' 5 ''c'') ''t'' ''k'' = Some (5, ''c'')
   \<and> parse_callback_page_token paging_env [] (make_callback_page_token paging_env [] ''t'' ''k'' 5 ''c'') ''u'' ''k'' = None"
proof -
  have "callback_valid_id ''t''" "callback_valid_id ''k''" "callback_valid_id ''c''" "(0 :: int) < 5" "5 \<le> i64_max"
    by (simp_all add: callback_valid_id_def text_simps i64_max_def)
  note round_trip = page_token_round_trip[OF paging_laws this, of "[]"]
  have "''u'' \<noteq> ''t''" by simp
  then show ?thesis using round_trip[of "''t''" "''k''"] round_trip[of "''u''" "''k''"] by simp
qed

definition paging_command :: config_list_command where
  "paging_command =
     \<lparr>clc_scope = \<lparr>ots_tenant_scope = ''t'', ots_owner_account_id = ''o'', ots_principal_scope = ''p'', ots_visibility = OwnScope,
        ots_authentication_method = ''m''\<rparr>, clc_task_id = ''k'', clc_page_size = 1, clc_page_token = None\<rparr>"

abbreviation paging_store :: callback_store where
  "paging_store \<equiv> \<lparr>cs_policy = Some scenario_snapshot, cs_db = sample_db [] []\<rparr>"

lemma paging_rows: "config_listed paging_command (sample_db [] []) (sample_config ''t'' ''k'')"
  by (simp add: config_listed_def sample_db_def sample_config_def paging_command_def task_visible_def)

lemma paging_run: "\<exists>x. page_through paging_env [] paging_command [paging_store] = Inr ([x], True)"
proof -
  have "is_ok (config_of_row (sample_config ''t'' ''k''))"
    by (simp add: config_of_row_def sample_config_def callback_config_id_new_def callback_config_new_def callback_config_ok_def
        callback_valid_id_def url_text_bounded_def callback_valid_digest_def scenario_digest_def starts_with_def is_hex_digit_def
        text_simps list_all_iff ensure_def)
  then obtain x where x: "config_of_row (sample_config ''t'' ''k'') = Inr x" by (auto simp: is_ok_iff)
  have "filter (\<lambda>r. cg_tenant r = ''t'' \<and> cg_task r = ''k'' \<and> cg_state r \<noteq> ConfigRevoked
      \<and> task_visible (sample_db [] []) (clc_scope paging_command) ''k'' (\<lambda>_. True) \<and> (0, []) < (cg_created r, cg_config r))
      (db_configs (sample_db [] [])) = [sample_config ''t'' ''k'']"
    by (simp add: sample_db_def sample_config_def task_visible_def paging_command_def)
  then have "list_callback_configs paging_env [] paging_command paging_store = Inr \<lparr>ccp_configs = [x], ccp_next_page_token = None\<rparr>"
    by (simp add: list_callback_configs_def Let_def ensure_def callback_config_page_new_def token_text_ok_def x)
      (simp add: paging_command_def x)
  then show ?thesis by simp
qed

theorem config_pages_witness:
  "\<exists>configs. page_through paging_env [] paging_command [paging_store] = Inr (configs, True)
     \<and> (5, ''c'') \<in> config_position ` set configs"
proof -
  obtain x where run: "page_through paging_env [] paging_command [paging_store] = Inr ([x], True)" using paging_run by blast
  have "0 < clc_page_size paging_command" "clc_page_token paging_command = None" "list_all configs_keyed [paging_store]"
    by (simp_all add: paging_command_def configs_keyed_def sample_db_def sample_config_def config_key_def i64_max_def)
  note pages = config_pages_complete[OF paging_laws this run, of x "(5, ''c'')"]
  have "row_position (sample_config ''t'' ''k'') = (5, ''c'')" by (simp add: row_position_def sample_config_def)
  then have "\<forall>st\<in>set [paging_store]. \<exists>r. config_listed paging_command (cs_db st) r \<and> row_position r = (5, ''c'')"
    using paging_rows by auto
  then show ?thesis using pages run by blast
qed

end
