(* ===== verification/Spec2Isabelle.thy ===== *)
theory Spec2Isabelle
  imports Guarded_Listing Executor_Guarantees Quota_Policy Callback_Transport Push_Readiness
    Callback_Enqueue Callback_Reopen Callback_Supervision Callback_Paging
begin

text \<open>
  A verification library for the SMESH gateway, a server for the A2A agent protocol in front of a
  mesh of workers. A request passes tenant authorization and quota admission, the request guard
  and the task store; the executor turns it into work for the mesh, translates the events of the
  worker, and publishes a completion only under the completion policy. Clients that registered a
  callback are told about finished tasks by deliveries that the store queues and workers send.

  The model is a shallow embedding. A Rust \<open>struct\<close> is a record, an \<open>enum\<close> a datatype, \<open>Result\<close> a
  sum with the error on the left, a panic an outer \<open>None\<close>; a function that changes state returns
  the new state. Mutexes make the operations of the process-local store and the transactions of the
  database atomic, so runs are sequences of operations; where the code shares atomics or awaits
  between two accesses the model is a step relation over all interleavings. Code of other packages
  (hashes, JSON, TOML, URLs, PEM, DNS, TLS, HTTP, clocks, random numbers) is a parameter, in the
  records \<open>policy_env\<close>, \<open>push_env\<close>, \<open>attempt_io\<close> and the like, or an argument of the operation.

  \<^bold>\<open>Shared theories.\<close>
  \<^item> \<open>Smesh_Prelude\<close>: results, options, bounded arithmetic of \<open>usize\<close>, byte texts, the simp
    collections \<open>result_simps\<close> and \<open>text_simps\<close>.
  \<^item> \<open>A2A_Types\<close>: the protocol types of \<^verbatim>\<open>src/vendor/a2a-lf/src\<close> (\<open>types.rs\<close>, \<open>event.rs\<close>, \<open>errors.rs\<close>)
    and the lifecycle matrix of \<^verbatim>\<open>src/src/task_state.rs\<close>.
  \<^item> \<open>Wire_Encoding\<close>: big-endian integers, length-prefixed fields, number texts, splitting.

  \<^bold>\<open>The task store\<close> (\<^verbatim>\<open>src/src/store.rs\<close>).
  \<^item> \<open>Ledger_Interface\<close>: the locales \<open>task_ledger\<close> and \<open>refined_ledger\<close>, the contract of the trait
    \<open>TaskStore\<close> and what follows from it along a run; both are interpreted in \<open>Task_Store\<close>.
  \<^item> \<open>Task_Store\<close>: \<open>BoundedTaskStore\<close> with \<open>create_task\<close>, \<open>update_task\<close>, \<open>list_tasks\<close>; the bounds on
    tasks, snapshots and bytes hold along every run, the store refines an abstract bounded map, tasks
    follow the lifecycle and terminal tasks are immutable.
  \<^item> \<open>Task_Pages\<close>: following page tokens reads exactly the projection frozen by the first page; the
    projection does not depend on the order of the hash map.

  \<^bold>\<open>The completion policy\<close> (\<^verbatim>\<open>src/src/policy.rs\<close>).
  \<^item> \<open>Completion_Policy\<close>: evidence records, the profile (\<open>new_with_receipt_key\<close>), \<open>evaluate\<close>, receipts
    and checkpoints.
  \<^item> \<open>Policy_Decisions\<close>: what an accepted completion has proved, vetoes, ratification, independence of
    the submission order, seals that bind what they name.

  \<^bold>\<open>The request path.\<close>
  \<^item> \<open>Tenant_Authorization\<close> (\<^verbatim>\<open>src/src/authorization.rs\<close>, identities of \<open>auth.rs\<close> and
    \<open>durable_authority.rs\<close>): the document, \<open>resolve\<close>, the permission matrix, the middleware.
  \<^item> \<open>Quota_Policy\<close> (\<^verbatim>\<open>src/src/quota.rs\<close>): limits, overrides, charges, intents, reconciliation.
  \<^item> \<open>Request_Guard\<close> (\<^verbatim>\<open>src/src/guard.rs\<close>) and \<open>Guarded_Listing\<close>: only receipt-backed results leave the
    guard, pages of the store pass it; the locale \<open>page_source\<close> is what the guard relies on in a paged
    listing, interpreted on the process-local store.
  \<^item> \<open>Mesh_Bridge\<close> (\<open>input.rs\<close>, \<open>bridge.rs\<close>, \<open>loopback.rs\<close>): text extraction, the worker interface, the
    loopback worker.
  \<^item> \<open>Mesh_Executor\<close>, \<open>Executor_Runs\<close>, \<open>Executor_Guarantees\<close> (\<^verbatim>\<open>src/src/executor.rs\<close>): the executor and its
    cancellations as one step relation. Every step decreases a rank of at most 44, so 44 steps are
    enough fuel for an undisturbed execution; there is at most one final event, completion needs an
    accepting decision, and an accepted cancellation can still end without a final event.

  \<^bold>\<open>Callbacks.\<close>
  \<^item> \<open>Callback_Address\<close>, \<open>Callback_Push\<close>, \<open>Callback_Transport\<close>, \<open>Push_Readiness\<close> (\<^verbatim>\<open>src/src/push.rs\<close>): where a
    callback may go (addresses as 32 and 128 bit words), signatures and event identities, the retry
    schedule, the enrollment policy, one attempt with its effects, the readiness atomics.
  \<^item> \<open>Callback_Authority\<close> (\<^verbatim>\<open>src/src/callback_authority.rs\<close>): identifiers, audit digests, commands, fences,
    leases.
  \<^item> \<open>Callback_Store\<close> and \<open>Callback_Recovery\<close> (the callback tables of \<^verbatim>\<open>src/src/sqlite_store.rs\<close>): each SQL
    statement is a list operation on the tables, constraints are checked where rows are written,
    triggers append to the audit table; opening reconciles the policy and validates the records. The
    projection of audits to another table is off, as in the default configuration.
  \<^item> \<open>Callback_Leases\<close> is the relation of all operations on the delivery table and its invariants;
    \<open>Callback_Scenario\<close> has the concrete stores of the witnesses; \<open>Callback_Guarantees\<close>,
    \<open>Callback_Enqueue\<close>, \<open>Callback_Reopen\<close> have the properties: well-formed rows, final outcomes, exclusive
    and fenced leases, fairness between tenants, one delivery per configuration of a finished task,
    the guard on finished tasks that never rejects, and the reclaimed lease that blocks the next open.
  \<^item> \<open>Callback_Paging\<close>: page tokens read back as the position they were made for, and following them lists
    every configuration that stays in the table, in order and once, while other clients change it.
  \<^item> \<open>Callback_Worker\<close> (\<^verbatim>\<open>src/src/callback_worker.rs\<close>): the work on one lease (\<open>process_lease\<close>), the claim
    loop (\<open>run_worker\<close>), the tasks of the handle, the accounting of bytes. The trait \<open>CallbackAuthority\<close> is
    a record of operations. What a worker does not decide is a \<open>world\<close>: before each of its calls the clock
    moves and other users change the store arbitrarily, and each call may fail before or after it took
    effect. The loop does not end by itself; \<open>run_cycles\<close> is its first turns for a list of any length,
    and its properties hold for every such prefix.
  \<^item> \<open>Callback_Attempts\<close> has the locale \<open>fenced_authority\<close>, the contract a worker relies on, and the traces of
    one lease over it; \<open>Callback_Delivery\<close> interprets it on the SQLite store and shows under which guards a
    request is sent and that its outcome is reported; \<open>Callback_Supervision\<close> shows that the charged bytes
    are those of the request and when a worker announces itself and gives up.

  \<^bold>\<open>Not modelled.\<close>
  The task, transcript, dispatch and ratification tables of the SQLite store and the whole PostgreSQL
  store are SQL against an engine whose transactions and row-level security are not in this
  repository; the process-local store is the reference of their contract. The durable runtime, the
  outbox, the mesh worker processes and the channel dispatcher are scheduling and I/O around these stores.
  Artifact storage, traces, replay, telemetry, the demonstration scenarios and the command line are
  tools beside the request path. Fault injection for tests and debug output are left out everywhere.
\<close>

end
